(* ===== verification/Prelude.thy ===== *)
theory Prelude
  imports Main "HOL-Library.State_Monad"
begin

text \<open>
  Shared vocabulary of the development: results that may be errors, the effectful computations of
  the handlers as a state monad, relations that an effectful computation respects, and a few
  generic facts about lists.  Nothing here is specific to the program.
\<close>

section \<open>Results\<close>

text \<open>Go's \<open>(value, error)\<close> pairs are sums; the left summand is the error text.\<close>

type_synonym 'a result = "string + 'a"

abbreviation is_ok :: "'e + 'a \<Rightarrow> bool" where
  "is_ok r \<equiv> \<not> isl r"

fun bind_result :: "('e + 'a) \<Rightarrow> ('a \<Rightarrow> 'e + 'b) \<Rightarrow> 'e + 'b" where
  "bind_result (Inl e) f = Inl e"
| "bind_result (Inr x) f = f x"

fun map_result :: "('a \<Rightarrow> 'b) \<Rightarrow> ('e + 'a) \<Rightarrow> 'e + 'b" where
  "map_result f (Inl e) = Inl e"
| "map_result f (Inr x) = Inr (f x)"

named_theorems result_simps \<open>inversion of successful and failed results\<close>

lemma bind_result_ok [result_simps]:
  "bind_result r f = Inr y \<longleftrightarrow> (\<exists>x. r = Inr x \<and> f x = Inr y)"
  by (cases r) auto

lemma map_result_ok [result_simps]: "map_result f r = Inr y \<longleftrightarrow> (\<exists>x. r = Inr x \<and> y = f x)"
  by (cases r) auto

lemma is_ok_iff [result_simps]: "is_ok r \<longleftrightarrow> (\<exists>x. r = Inr x)"
  by (cases r) auto

section \<open>Effectful computations\<close>

abbreviation return :: "'a \<Rightarrow> ('w, 'a) state" where
  "return \<equiv> State_Monad.return"

definition gets :: "('w \<Rightarrow> 'a) \<Rightarrow> ('w, 'a) state" where
  "gets f = State (\<lambda>w. (f w, w))"

definition modify :: "('w \<Rightarrow> 'w) \<Rightarrow> ('w, unit) state" where
  "modify f = State (\<lambda>w. ((), f w))"

abbreviation run :: "('w, 'a) state \<Rightarrow> 'w \<Rightarrow> 'a \<times> 'w" where
  "run \<equiv> run_state"

text \<open>The value and the world after a computation.\<close>

abbreviation val_of :: "('w, 'a) state \<Rightarrow> 'w \<Rightarrow> 'a" where
  "val_of m w \<equiv> fst (run_state m w)"

abbreviation world_of :: "('w, 'a) state \<Rightarrow> 'w \<Rightarrow> 'w" where
  "world_of m w \<equiv> snd (run_state m w)"

lemma run_gets [simp]: "run (gets f) w = (f w, w)"
  by (simp add: gets_def)

lemma run_modify [simp]: "run (modify f) w = ((), f w)"
  by (simp add: modify_def)

lemma val_of_bind: "val_of (m \<bind> f) w = val_of (f (val_of m w)) (world_of m w)"
  by (simp add: case_prod_beta)

lemma world_of_bind: "world_of (m \<bind> f) w = world_of (f (val_of m w)) (world_of m w)"
  by (simp add: case_prod_beta)

text \<open>
  A computation keeps an invariant of the world and its value satisfies a condition.  Taking
  \<open>R w\<^sub>0\<close> as the invariant, for a transitive relation \<open>R\<close>, it is also the statement that the
  computation respects \<open>R\<close>.  The rules are compositional and collected in \<open>keeps_rules\<close>; they carry
  every proof that a handler, with all its branches, preserves something.
\<close>

definition keeps :: "('w \<Rightarrow> bool) \<Rightarrow> ('w, 'a) state \<Rightarrow> ('a \<Rightarrow> bool) \<Rightarrow> bool" where
  "keeps I m Q \<longleftrightarrow> (\<forall>w. I w \<longrightarrow> I (world_of m w) \<and> Q (val_of m w))"

abbreviation anything :: "'a \<Rightarrow> bool" where
  "anything \<equiv> \<lambda>_. True"

text \<open>The condition on a result that only speaks of the successful case.\<close>

definition on_ok :: "('a \<Rightarrow> bool) \<Rightarrow> 'e + 'a \<Rightarrow> bool" where
  "on_ok P r \<longleftrightarrow> (case r of Inl e \<Rightarrow> True | Inr x \<Rightarrow> P x)"

named_theorems keeps_rules \<open>computations that keep an invariant\<close>

lemma on_ok_simps [simp]: "on_ok P (Inl e)" "on_ok P (Inr x) = P x"
  by (simp_all add: on_ok_def)

lemma keepsD: "keeps I m Q \<Longrightarrow> I w \<Longrightarrow> I (world_of m w) \<and> Q (val_of m w)"
  by (simp add: keeps_def)

lemma keepsI: "(\<And>w. I w \<Longrightarrow> I (world_of m w) \<and> Q (val_of m w)) \<Longrightarrow> keeps I m Q"
  by (simp add: keeps_def)

lemma keeps_return: "Q x \<Longrightarrow> keeps I (return x) Q"
  by (simp add: keeps_def)

lemma keeps_bind: "keeps I m P \<Longrightarrow> (\<And>x. P x \<Longrightarrow> keeps I (f x) Q) \<Longrightarrow> keeps I (m \<bind> f) Q"
  by (auto simp: keeps_def case_prod_beta)

lemma keeps_weaken: "keeps I m P \<Longrightarrow> (\<And>x. P x \<Longrightarrow> Q x) \<Longrightarrow> keeps I m Q"
  by (auto simp: keeps_def)

lemma keeps_any: "keeps I m P \<Longrightarrow> keeps I m anything"
  by (simp add: keeps_def)

lemma keeps_if: "(b \<Longrightarrow> keeps I m Q) \<Longrightarrow> (\<not> b \<Longrightarrow> keeps I n Q) \<Longrightarrow> keeps I (if b then m else n) Q"
  by simp

lemma keeps_case_sum:
  "(\<And>e. r = Inl e \<Longrightarrow> keeps I (f e) Q) \<Longrightarrow> (\<And>x. r = Inr x \<Longrightarrow> keeps I (g x) Q) \<Longrightarrow>
   keeps I (case r of Inl e \<Rightarrow> f e | Inr x \<Rightarrow> g x) Q"
  by (cases r) auto

lemma keeps_case_option:
  "(r = None \<Longrightarrow> keeps I f Q) \<Longrightarrow> (\<And>x. r = Some x \<Longrightarrow> keeps I (g x) Q) \<Longrightarrow>
   keeps I (case r of None \<Rightarrow> f | Some x \<Rightarrow> g x) Q"
  by (cases r) auto

lemma keeps_case_prod:
  "(\<And>x y. p = (x, y) \<Longrightarrow> keeps I (f x y) Q) \<Longrightarrow> keeps I (case p of (x, y) \<Rightarrow> f x y) Q"
  by (cases p) auto

lemma keeps_let: "(\<And>y. y = x \<Longrightarrow> keeps I (f y) Q) \<Longrightarrow> keeps I (let y = x in f y) Q"
  by (simp add: Let_def)

lemma keeps_gets: "(\<And>w. I w \<Longrightarrow> Q (f w)) \<Longrightarrow> keeps I (gets f) Q"
  by (simp add: keeps_def)

lemma keeps_modify: "(\<And>w. I w \<Longrightarrow> I (f w)) \<Longrightarrow> keeps I (modify f) anything"
  by (simp add: keeps_def)

lemmas keeps_steps = keeps_bind keeps_if keeps_case_sum keeps_case_option keeps_case_prod keeps_let

section \<open>Lists\<close>

lemma takeWhile_all_hold: "x \<in> set (takeWhile P xs) \<Longrightarrow> P x"
  by (induction xs) (auto split: if_splits)

lemma dropWhile_idem [simp]: "dropWhile P (dropWhile P xs) = dropWhile P xs"
  by (induction xs) auto

lemma filter_const: "filter (\<lambda>_. b) xs = (if b then xs else [])"
  by simp

lemma filter_None_not_in: "filter P xs = [] \<longleftrightarrow> (\<forall>x \<in> set xs. \<not> P x)"
  by (induction xs) auto

lemma find_Some_in: "List.find P xs = Some x \<Longrightarrow> x \<in> set xs \<and> P x"
  by (induction xs) (auto split: if_splits)

lemma find_distinct_key:
  assumes "distinct (map k xs)" and "x \<in> set xs"
  shows "List.find (\<lambda>y. k y = k x) xs = Some x"
  using assms by (induction xs) (auto simp: image_iff)

lemma find_map_same_key:
  assumes "\<And>y. k (f y) = k y"
  shows "List.find (\<lambda>y. k y = a) (map f xs) = map_option f (List.find (\<lambda>y. k y = a) xs)"
  using assms by (induction xs) auto

lemma find_None_append:
  "List.find P xs = None \<Longrightarrow> List.find P (xs @ ys) = List.find P ys"
  by (induction xs) (auto split: if_splits)

end
