(* ===== verification/Processes.thy ===== *)
theory Processes
  imports Prelude
begin

text \<open>
  Computations that others may interrupt.  A process is a sequence of atomic steps on the world; run alone
  it is a computation of the state monad, and a pool of processes runs by letting any of them make its
  next step, while new ones may arrive at any time.  The rules for what every process of a pool respects are
  those of rely and guarantee, with the invariant of the world as the common relation, and with tickets: a
  process may hold some number of a resource that the world and the other processes share.
\<close>

section \<open>Processes\<close>

datatype ('w, 'a) process = Finish 'a | Act "'w \<Rightarrow> ('w, 'a) process \<times> 'w"

text \<open>A process that is not interrupted.\<close>

primrec alone :: "('w, 'a) process \<Rightarrow> ('w, 'a) state" where
  "alone (Finish x) = return x"
| "alone (Act f) = State (\<lambda>w. case map_prod alone id (f w) of (m, w') \<Rightarrow> run m w')"

text \<open>An atomic computation and what follows it; one process after another.\<close>

definition call :: "('w, 'a) state \<Rightarrow> ('a \<Rightarrow> ('w, 'b) process) \<Rightarrow> ('w, 'b) process" where
  "call m k = Act (\<lambda>w. map_prod k id (run m w))"

primrec andThen :: "('w, 'a) process \<Rightarrow> ('a \<Rightarrow> ('w, 'b) process) \<Rightarrow> ('w, 'b) process" where
  "andThen (Finish x) k = k x"
| "andThen (Act f) k = Act (\<lambda>w. map_prod (\<lambda>p. andThen p k) id (f w))"

lemma process_induct [case_names Finish Act]:
  assumes "\<And>x. P (Finish x)" "\<And>f. (\<And>w. P (fst (f w))) \<Longrightarrow> P (Act f)"
  shows "P p"
proof (induction p)
  case (Act f)
  then show ?case by (intro assms(2)) (metis fsts.intros rangeI)
qed (rule assms(1))

lemma run_alone_Act: "run (alone (Act f)) w = run (alone (fst (f w))) (snd (f w))"
  by (cases "f w") simp

lemma alone_call [simp]: "alone (call m k) = m \<bind> (\<lambda>x. alone (k x))"
  by (rule state.expand) (auto simp: call_def case_prod_beta split: prod.splits)

lemma alone_andThen [simp]: "alone (andThen p k) = alone p \<bind> (\<lambda>x. alone (k x))"
proof (induction p rule: process_induct)
  case (Act f)
  have "run (alone (andThen (Act f) k)) w = run (alone (Act f) \<bind> (\<lambda>x. alone (k x))) w" for w
    using Act [of w] by (cases "f w") simp
  then show ?case by (intro state.expand ext)
qed simp

lemma alone_distribs [simp]:
  "alone (if b then p else q) = (if b then alone p else alone q)"
  "alone (case r of Inl e \<Rightarrow> f e | Inr x \<Rightarrow> g x) = (case r of Inl e \<Rightarrow> alone (f e) | Inr x \<Rightarrow> alone (g x))"
  "alone (case opt of None \<Rightarrow> p | Some y \<Rightarrow> h y) = (case opt of None \<Rightarrow> alone p | Some y \<Rightarrow> alone (h y))"
  "alone (case xy of (x, y) \<Rightarrow> k x y) = (case xy of (x, y) \<Rightarrow> alone (k x y))"
  by (auto split: sum.splits option.splits prod.splits)

section \<open>What an interrupted process respects\<close>

text \<open>
  \<open>I n\<close> is the invariant of the world when the processes hold \<open>n\<close> tickets in all.  A computation that
  starts with \<open>b\<close> of them leaves some \<open>b'\<close>, whatever number \<open>c\<close> the others hold.
\<close>

definition carries :: "(nat \<Rightarrow> 'w \<Rightarrow> bool) \<Rightarrow> nat \<Rightarrow> ('w, 'a) state \<Rightarrow> ('a \<Rightarrow> nat \<Rightarrow> bool) \<Rightarrow> bool" where
  "carries I b m Q \<longleftrightarrow> (\<forall>c w. I (b + c) w \<longrightarrow> (\<exists>b'. I (b' + c) (world_of m w) \<and> Q (val_of m w) b'))"

primrec covers :: "(nat \<Rightarrow> 'w \<Rightarrow> bool) \<Rightarrow> ('a \<Rightarrow> nat \<Rightarrow> bool) \<Rightarrow> ('w, 'a) process \<Rightarrow> nat \<Rightarrow> bool" where
  "covers I Q (Finish x) = Q x"
| "covers I Q (Act f) = (\<lambda>b. \<forall>c w. I (b + c) w \<longrightarrow>
     (case map_prod (covers I Q) id (f w) of (P, w') \<Rightarrow> \<exists>b'. I (b' + c) w' \<and> P b'))"

text \<open>A condition on a successful result and the tickets that come with it.\<close>

abbreviation on_ok2 :: "('a \<Rightarrow> nat \<Rightarrow> bool) \<Rightarrow> 'e + 'a \<Rightarrow> nat \<Rightarrow> bool" where
  "on_ok2 P r b \<equiv> on_ok (\<lambda>x. P x b) r"

lemma carries_keeps: "(\<And>n. keeps (I n) m Q) \<Longrightarrow> carries I b m (\<lambda>x b'. b' = b \<and> Q x)"
  by (auto simp: carries_def keeps_def)

lemma carries_weaken: "carries I b m P \<Longrightarrow> (\<And>x b'. P x b' \<Longrightarrow> Q x b') \<Longrightarrow> carries I b m Q"
  by (fastforce simp: carries_def)

lemma carries_return: "Q x b \<Longrightarrow> carries I b (return x) Q"
  by (auto simp: carries_def)

lemma carries_bind:
  assumes "carries I b m P" "\<And>x b'. P x b' \<Longrightarrow> carries I b' (f x) Q"
  shows "carries I b (m \<bind> f) Q"
  unfolding carries_def
proof (intro allI impI)
  fix c w
  assume "I (b + c) w"
  with assms(1) obtain b1 where "I (b1 + c) (world_of m w)" "P (val_of m w) b1" unfolding carries_def by blast
  with assms(2) [of "val_of m w" b1] show "\<exists>b'. I (b' + c) (world_of (m \<bind> f) w) \<and> Q (val_of (m \<bind> f) w) b'"
    unfolding carries_def by (auto simp: case_prod_beta)
qed

lemma covers_Finish: "Q x b \<Longrightarrow> covers I Q (Finish x) b"
  by simp

lemma covers_Act:
  "covers I Q (Act f) b \<longleftrightarrow> (\<forall>c w. I (b + c) w \<longrightarrow> (\<exists>b'. I (b' + c) (snd (f w)) \<and> covers I Q (fst (f w)) b'))"
  by (simp add: case_prod_beta)

lemma covers_call:
  assumes "carries I b m P" "\<And>x b'. P x b' \<Longrightarrow> covers I Q (k x) b'"
  shows "covers I Q (call m k) b"
  unfolding call_def covers_Act using assms by (fastforce simp: carries_def)

lemma covers_andThen:
  assumes "covers I P p b" "\<And>x b'. P x b' \<Longrightarrow> covers I Q (k x) b'"
  shows "covers I Q (andThen p k) b"
  using assms(1)
proof (induction p arbitrary: b rule: process_induct)
  case (Act f)
  then show ?case by (simp only: andThen.simps covers_Act fst_map_prod snd_map_prod id_apply) blast
qed (simp add: assms(2))

lemma covers_weaken: "covers I P p b \<Longrightarrow> (\<And>x b'. P x b' \<Longrightarrow> Q x b') \<Longrightarrow> covers I Q p b"
proof (induction p arbitrary: b rule: process_induct)
  case (Act f)
  then show ?case by (simp only: covers_Act) blast
qed simp

lemma covers_if: "(t \<Longrightarrow> covers I Q p b) \<Longrightarrow> (\<not> t \<Longrightarrow> covers I Q q b) \<Longrightarrow> covers I Q (if t then p else q) b"
  by simp

lemma covers_case_sum:
  "(\<And>e. r = Inl e \<Longrightarrow> covers I Q (f e) b) \<Longrightarrow> (\<And>x. r = Inr x \<Longrightarrow> covers I Q (g x) b) \<Longrightarrow>
   covers I Q (case r of Inl e \<Rightarrow> f e | Inr x \<Rightarrow> g x) b"
  by (cases r) simp_all

lemma covers_case_option:
  "(r = None \<Longrightarrow> covers I Q p b) \<Longrightarrow> (\<And>x. r = Some x \<Longrightarrow> covers I Q (g x) b) \<Longrightarrow>
   covers I Q (case r of None \<Rightarrow> p | Some x \<Rightarrow> g x) b"
  by (cases r) simp_all

lemma covers_case_prod:
  "(\<And>x y. p = (x, y) \<Longrightarrow> covers I Q (f x y) b) \<Longrightarrow> covers I Q (case p of (x, y) \<Rightarrow> f x y) b"
  by (cases p) simp

lemmas covers_steps = covers_if covers_case_sum covers_case_option covers_case_prod

section \<open>Pools\<close>

text \<open>Tasks in the order in which they arrived, each with what it was started for.\<close>

type_synonym ('w, 'e, 'a) pool = "('e \<times> ('w, 'a) process) list"

inductive moves :: "('e \<Rightarrow> ('w, 'a) process) \<Rightarrow> ('w, 'e, 'a) pool \<times> 'w \<Rightarrow> ('w, 'e, 'a) pool \<times> 'w \<Rightarrow> bool" for serve where
  arrives: "moves serve (ts, w) (ts @ [(e, serve e)], w)"
| acts: "i < length ts \<Longrightarrow> ts ! i = (e, Act f) \<Longrightarrow> f w = (p, w') \<Longrightarrow> moves serve (ts, w) (ts[i := (e, p)], w')"

inductive_cases movesE: "moves serve (ts, w) c"

inductive interleaved :: "('e \<Rightarrow> ('w, 'a) process) \<Rightarrow> ('w, 'e, 'a) pool \<times> 'w \<Rightarrow> ('w, 'e, 'a) pool \<times> 'w \<Rightarrow> bool" for serve where
  stays: "interleaved serve c c"
| then_moves: "interleaved serve c d \<Longrightarrow> moves serve d e \<Longrightarrow> interleaved serve c e"

lemma interleaved_trans: "interleaved serve d e \<Longrightarrow> interleaved serve c d \<Longrightarrow> interleaved serve c e"
  by (induction rule: interleaved.induct) (auto intro: interleaved.intros)

lemma interleaved_then [trans]: "interleaved serve c d \<Longrightarrow> interleaved serve d e \<Longrightarrow> interleaved serve c e"
  by (rule interleaved_trans)

text \<open>A run under a schedule; a choice that is not possible changes nothing.\<close>

datatype 'e choice = Arrive 'e | Step nat

fun pick :: "('e \<Rightarrow> ('w, 'a) process) \<Rightarrow> 'e choice \<Rightarrow> ('w, 'e, 'a) pool \<times> 'w \<Rightarrow> ('w, 'e, 'a) pool \<times> 'w" where
  "pick serve (Arrive e) (ts, w) = (ts @ [(e, serve e)], w)"
| "pick serve (Step i) (ts, w) =
     (if i < length ts then
        (case ts ! i of
           (e, Finish x) \<Rightarrow> (ts, w)
         | (e, Act f) \<Rightarrow> (case f w of (p, w') \<Rightarrow> (ts[i := (e, p)], w')))
      else (ts, w))"

fun scheduled :: "('e \<Rightarrow> ('w, 'a) process) \<Rightarrow> 'e choice list \<Rightarrow> ('w, 'e, 'a) pool \<times> 'w \<Rightarrow> ('w, 'e, 'a) pool \<times> 'w" where
  "scheduled serve [] c = c"
| "scheduled serve (x # xs) c = scheduled serve xs (pick serve x c)"

lemma pick_interleaved: "interleaved serve c (pick serve x c)"
proof (cases "(serve, x, c)" rule: pick.cases)
  case (1 s e ts w)
  then show ?thesis by (auto intro: then_moves [OF stays] arrives)
next
  case (2 s i ts w)
  show ?thesis
  proof (cases "i < length ts")
    case True
    obtain e p where t: "ts ! i = (e, p)" by (cases "ts ! i")
    with 2 True show ?thesis
      by (cases p) (auto intro: stays then_moves [OF stays] acts split: prod.splits)
  qed (use 2 in \<open>simp add: stays\<close>)
qed

lemma scheduled_interleaved: "interleaved serve c (scheduled serve xs c)"
proof (induction xs arbitrary: c)
  case (Cons x xs)
  show ?case unfolding scheduled.simps by (rule interleaved_trans [OF Cons.IH pick_interleaved])
qed (simp add: stays)

lemma call_acts:
  assumes "val_of m w = x" "world_of m w = w'"
  shows "interleaved serve (ts @ (e, call m k) # us, w) (ts @ (e, k x) # us, w')"
proof -
  have "moves serve (ts @ (e, call m k) # us, w) ((ts @ (e, call m k) # us)[length ts := (e, k x)], w')"
    by (rule acts [where f = "\<lambda>w. map_prod k id (run m w)"])
      (use assms in \<open>simp_all add: call_def map_prod_def case_prod_beta\<close>)
  then show ?thesis by (auto intro: then_moves [OF stays])
qed

text \<open>A process that is scheduled until it ends runs as if it were alone.\<close>

lemma run_to_end:
  "interleaved serve (ts @ (e, p) # us, w) (ts @ (e, Finish (val_of (alone p) w)) # us, world_of (alone p) w)"
proof (induction p arbitrary: w rule: process_induct)
  case (Act f)
  have "moves serve (ts @ (e, Act f) # us, w) ((ts @ (e, Act f) # us)[length ts := (e, fst (f w))], snd (f w))"
    by (rule acts) simp_all
  then have "interleaved serve (ts @ (e, Act f) # us, w) (ts @ (e, fst (f w)) # us, snd (f w))"
    by (auto intro: then_moves [OF stays])
  then show ?case using Act [of w "snd (f w)"] by (auto simp: run_alone_Act simp del: alone.simps intro: interleaved_trans)
qed (simp add: stays)

lemma serve_to_end:
  "interleaved serve (ts, w) (ts @ [(e, Finish (val_of (alone (serve e)) w))], world_of (alone (serve e)) w)"
  by (rule interleaved_trans [OF run_to_end]) (rule then_moves [OF stays arrives])

section \<open>Invariants of pools\<close>

text \<open>\<open>bs\<close> are the tickets of the tasks; \<open>R\<close> is what the task at a position must end with.\<close>

definition balanced ::
  "(nat \<Rightarrow> 'w \<Rightarrow> bool) \<Rightarrow> (nat \<Rightarrow> 'e \<Rightarrow> 'a \<Rightarrow> nat \<Rightarrow> bool) \<Rightarrow> nat list \<Rightarrow> ('w, 'e, 'a) pool \<times> 'w \<Rightarrow> bool" where
  "balanced I R bs c \<longleftrightarrow> length bs = length (fst c) \<and> I (sum_list bs) (snd c) \<and>
     (\<forall>i < length bs. covers I (R i (fst (fst c ! i))) (snd (fst c ! i)) (bs ! i))"

lemma sum_list_split: "i < length bs \<Longrightarrow> sum_list bs = bs ! i + sum_list (bs[i := (0::nat)])"
  by (simp add: sum_list_update elem_le_sum_list)

lemma balanced_arrival:
  assumes "balanced I R bs (ts, w)" "covers I (R (length ts) e) p b" "I (sum_list bs + b) w"
  shows "balanced I R (bs @ [b]) (ts @ [(e, p)], w)"
  using assms by (auto simp: balanced_def nth_append less_Suc_eq)

lemma balanced_moves:
  assumes "moves serve c d" "balanced I R bs c" "\<And>i e. covers I (R i e) (serve e) 0"
  shows "\<exists>bs'. balanced I R bs' d"
  using assms(1)
proof cases
  case (arrives ts w e)
  with assms(2) have "balanced I R bs (ts, w)" "I (sum_list bs + 0) w" by (simp_all add: balanced_def)
  with assms(3) arrives show ?thesis by (blast intro: balanced_arrival)
next
  case (acts i ts e f w p w')
  from assms(2) acts have len: "length bs = length ts" "i < length bs"
    and all: "\<forall>j < length bs. covers I (R j (fst (ts ! j))) (snd (ts ! j)) (bs ! j)"
    and I: "I (bs ! i + sum_list (bs[i := 0])) w"
    by (auto simp: balanced_def simp flip: sum_list_split)
  from all len(2) acts(4) have "covers I (R i e) (Act f) (bs ! i)" by fastforce
  with I acts(5) obtain b' where b': "I (b' + sum_list (bs[i := 0])) w'" "covers I (R i e) p b'"
    unfolding covers_Act by fastforce
  have "sum_list (bs[i := b']) = b' + sum_list (bs[i := 0])"
    using len sum_list_split [of i "bs[i := b']"] by simp
  with b' all len acts(2) show ?thesis
    by (intro exI [of _ "bs[i := b']"]) (simp add: balanced_def nth_list_update)
qed

lemma balanced_interleaved:
  assumes "interleaved serve c d" "balanced I R bs c" "\<And>i e. covers I (R i e) (serve e) 0"
  shows "\<exists>bs'. balanced I R bs' d"
  using assms(1,2)
proof (induction arbitrary: bs rule: interleaved.induct)
  case (then_moves c d e)
  from then_moves.IH [OF then_moves.prems] obtain bs' where "balanced I R bs' d" by blast
  with then_moves.hyps(2) show ?case using assms(3) by (rule balanced_moves)
qed blast

lemma balanced_start: "balanced I R [] ([], w) \<longleftrightarrow> I 0 w"
  by (simp add: balanced_def)

lemma balanced_finished: "balanced I R bs (ts, w) \<Longrightarrow> i < length ts \<Longrightarrow> ts ! i = (e, Finish x) \<Longrightarrow> R i e x (bs ! i)"
  by (auto simp: balanced_def)

lemma pool_invariant:
  assumes "interleaved serve ([], w0) (ts, w)" "I w0" "\<And>e. covers (\<lambda>_. I) (Q e) (serve e) 0"
  shows "I w"
  using balanced_interleaved [OF assms(1), of "\<lambda>_. I" "\<lambda>_. Q" "[]"] assms(2,3) by (auto simp: balanced_start balanced_def)

text \<open>Tasks stay where they are, and are what they were started for.\<close>

lemma interleaved_tasks:
  "interleaved serve c d \<Longrightarrow> length (fst c) \<le> length (fst d) \<and> (\<forall>i < length (fst c). fst (fst d ! i) = fst (fst c ! i))"
proof (induction rule: interleaved.induct)
  case (then_moves c d e)
  from then_moves.hyps(2) have "length (fst d) \<le> length (fst e) \<and> (\<forall>i < length (fst d). fst (fst e ! i) = fst (fst d ! i))"
    by cases (auto simp: nth_append nth_list_update)
  with then_moves.IH show ?case by fastforce
qed simp

end
