(* ===== verification/GoStrings.thy ===== *)
theory GoStrings
  imports Prelude
begin

text \<open>
  The part of Go's \<open>strings\<close>, \<open>unicode\<close> and \<open>unicode/utf8\<close> packages the program calls.  A Go
  string is a sequence of bytes, here a list of 8-bit characters; a rune is its code point.
  The Unicode property tables, which are data of the Go distribution, are the fields of a
  record that every function needing them takes as its first argument; their ASCII part is fixed
  by the packages' code and is written out.
\<close>

section \<open>Bytes and runes\<close>

type_synonym rune = nat

abbreviation ord :: "char \<Rightarrow> nat" where
  "ord c \<equiv> of_char c"

abbreviation chr :: "nat \<Rightarrow> char" where
  "chr n \<equiv> char_of n"

definition rune_error :: rune where
  "rune_error = 65533"

definition is_cont :: "char \<Rightarrow> bool" where
  "is_cont c \<longleftrightarrow> 128 \<le> ord c \<and> ord c \<le> 191"

text \<open>\<open>utf8.DecodeRuneInString\<close>: the first rune and its width in bytes; a byte that does not
  start a well-formed encoding is the error rune of width 1.\<close>

definition second_ok :: "nat \<Rightarrow> nat \<Rightarrow> bool" where
  "second_ok b0 b1 =
     (let lo = (if b0 = 224 then 160 else if b0 = 240 then 144 else 128);
          hi = (if b0 = 237 then 159 else if b0 = 244 then 143 else 191)
      in lo \<le> b1 \<and> b1 \<le> hi)"

definition decode2 :: "char \<Rightarrow> char list \<Rightarrow> rune \<times> nat" where
  "decode2 c cs = (case cs of
       c1 # _ \<Rightarrow> if is_cont c1 then ((ord c - 192) * 64 + (ord c1 - 128), 2) else (rune_error, 1)
     | [] \<Rightarrow> (rune_error, 1))"

definition decode3 :: "char \<Rightarrow> char list \<Rightarrow> rune \<times> nat" where
  "decode3 c cs = (case cs of
       c1 # c2 # _ \<Rightarrow>
         if second_ok (ord c) (ord c1) \<and> is_cont c2
         then ((ord c - 224) * 4096 + (ord c1 - 128) * 64 + (ord c2 - 128), 3)
         else (rune_error, 1)
     | _ \<Rightarrow> (rune_error, 1))"

definition decode4 :: "char \<Rightarrow> char list \<Rightarrow> rune \<times> nat" where
  "decode4 c cs = (case cs of
       c1 # c2 # c3 # _ \<Rightarrow>
         if second_ok (ord c) (ord c1) \<and> is_cont c2 \<and> is_cont c3
         then ((ord c - 240) * 262144 + (ord c1 - 128) * 4096 + (ord c2 - 128) * 64 + (ord c3 - 128), 4)
         else (rune_error, 1)
     | _ \<Rightarrow> (rune_error, 1))"

definition decode_rune :: "char \<Rightarrow> char list \<Rightarrow> rune \<times> nat" where
  "decode_rune c cs =
     (if ord c < 128 then (ord c, 1)
      else if ord c < 194 then (rune_error, 1)
      else if ord c < 224 then decode2 c cs
      else if ord c < 240 then decode3 c cs
      else if ord c < 245 then decode4 c cs
      else (rune_error, 1))"

text \<open>\<open>utf8.EncodeRune\<close>: surrogates and values out of range become the error rune.\<close>

definition encode_rune :: "rune \<Rightarrow> char list" where
  "encode_rune r0 =
     (let r = (if 1114111 < r0 \<or> (55296 \<le> r0 \<and> r0 \<le> 57343) then rune_error else r0)
      in if r < 128 then [chr r]
         else if r < 2048 then [chr (192 + r div 64), chr (128 + r mod 64)]
         else if r < 65536 then [chr (224 + r div 4096), chr (128 + r div 64 mod 64), chr (128 + r mod 64)]
         else [chr (240 + r div 262144), chr (128 + r div 4096 mod 64), chr (128 + r div 64 mod 64),
               chr (128 + r mod 64)])"

text \<open>\<open>for _, r := range s\<close>: the runes of a string with the bytes each was decoded from.\<close>

function chunks :: "char list \<Rightarrow> (rune \<times> char list) list" where
  "chunks [] = []"
| "chunks (c # cs) =
     (case decode_rune c cs of (r, n) \<Rightarrow> (r, c # take (n - 1) cs) # chunks (drop (n - 1) cs))"
  by pat_completeness auto
termination by (relation "measure length") auto

definition runes :: "string \<Rightarrow> rune list" where
  "runes s = map fst (chunks s)"

definition RuneCountInString :: "string \<Rightarrow> nat" where
  "RuneCountInString s = length (chunks s)"

definition ascii_char :: "char \<Rightarrow> bool" where
  "ascii_char c \<longleftrightarrow> ord c < 128"

definition ascii :: "string \<Rightarrow> bool" where
  "ascii s \<longleftrightarrow> list_all ascii_char s"

lemma ascii_simps [simp]: "ascii []" "ascii (c # s) \<longleftrightarrow> ascii_char c \<and> ascii s"
  "ascii (s @ t) \<longleftrightarrow> ascii s \<and> ascii t"
  by (simp_all add: ascii_def)

lemma concat_chunks [simp]: "concat (map snd (chunks s)) = s"
  by (induction s rule: chunks.induct) (auto split: prod.splits)

lemma chunks_ascii_Cons [simp]: "ascii_char c \<Longrightarrow> chunks (c # cs) = (ord c, [c]) # chunks cs"
  by (simp add: chunks.simps(2) decode_rune_def ascii_char_def)

declare chunks.simps(2) [simp del]

lemma chunks_ascii: "ascii s \<Longrightarrow> chunks s = map (\<lambda>c. (ord c, [c])) s"
  by (induction s) auto

lemma runes_ascii: "ascii s \<Longrightarrow> runes s = map of_char s"
  by (simp add: runes_def chunks_ascii)

lemma encode_rune_ascii: "ascii_char c \<Longrightarrow> encode_rune (ord c) = [c]"
  by (simp add: encode_rune_def ascii_char_def)

section \<open>Character classes\<close>

text \<open>\<open>ut_same_fold\<close> says that two runes, at least one of them not ASCII, lie on one
  \<open>unicode.SimpleFold\<close> orbit; \<open>ut_entity\<close> is the named-entity table of package \<open>html\<close>.\<close>

record unicode_tables =
  ut_letter :: "rune \<Rightarrow> bool"
  ut_number :: "rune \<Rightarrow> bool"
  ut_lower :: "rune \<Rightarrow> rune"
  ut_upper :: "rune \<Rightarrow> rune"
  ut_same_fold :: "rune \<Rightarrow> rune \<Rightarrow> bool"
  ut_entity :: "string \<Rightarrow> string option"

text \<open>Tables that know ASCII only, for evaluating the definitions on ASCII text.\<close>

definition ascii_tables :: unicode_tables where
  "ascii_tables = \<lparr>ut_letter = (\<lambda>_. False), ut_number = (\<lambda>_. False), ut_lower = id, ut_upper = id,
     ut_same_fold = (\<lambda>_ _. False), ut_entity = (\<lambda>_. None)\<rparr>"

definition ascii_lower_rune :: "rune \<Rightarrow> rune" where
  "ascii_lower_rune r = (if 65 \<le> r \<and> r \<le> 90 then r + 32 else r)"

definition ascii_upper_rune :: "rune \<Rightarrow> rune" where
  "ascii_upper_rune r = (if 97 \<le> r \<and> r \<le> 122 then r - 32 else r)"

definition is_ascii_letter :: "rune \<Rightarrow> bool" where
  "is_ascii_letter r \<longleftrightarrow> (65 \<le> r \<and> r \<le> 90) \<or> (97 \<le> r \<and> r \<le> 122)"

definition is_ascii_digit :: "rune \<Rightarrow> bool" where
  "is_ascii_digit r \<longleftrightarrow> 48 \<le> r \<and> r \<le> 57"

definition IsLetter :: "unicode_tables \<Rightarrow> rune \<Rightarrow> bool" where
  "IsLetter U r = (if r < 128 then is_ascii_letter r else ut_letter U r)"

definition IsNumber :: "unicode_tables \<Rightarrow> rune \<Rightarrow> bool" where
  "IsNumber U r = (if r < 128 then is_ascii_digit r else ut_number U r)"

definition unicode_ToLower :: "unicode_tables \<Rightarrow> rune \<Rightarrow> rune" where
  "unicode_ToLower U r = (if r < 128 then ascii_lower_rune r else ut_lower U r)"

definition unicode_ToUpper :: "unicode_tables \<Rightarrow> rune \<Rightarrow> rune" where
  "unicode_ToUpper U r = (if r < 128 then ascii_upper_rune r else ut_upper U r)"

text \<open>White space and control characters are small closed sets, so they are written out.\<close>

definition IsSpace :: "rune \<Rightarrow> bool" where
  "IsSpace r \<longleftrightarrow> (9 \<le> r \<and> r \<le> 13) \<or> r = 32 \<or> r = 133 \<or> r = 160 \<or> r = 5760 \<or>
     (8192 \<le> r \<and> r \<le> 8202) \<or> r = 8232 \<or> r = 8233 \<or> r = 8239 \<or> r = 8287 \<or> r = 12288"

definition IsControl :: "rune \<Rightarrow> bool" where
  "IsControl r \<longleftrightarrow> r < 32 \<or> (127 \<le> r \<and> r \<le> 159)"

section \<open>Package strings\<close>

definition ToLower :: "unicode_tables \<Rightarrow> string \<Rightarrow> string" where
  "ToLower U s = concat (map (\<lambda>r. encode_rune (unicode_ToLower U r)) (runes s))"

definition fold_eq :: "unicode_tables \<Rightarrow> rune \<Rightarrow> rune \<Rightarrow> bool" where
  "fold_eq U a b \<longleftrightarrow> a = b \<or>
     (let sr = min a b; tr = max a b
      in if tr < 128 then 65 \<le> sr \<and> sr \<le> 90 \<and> tr = sr + 32 else ut_same_fold U sr tr)"

definition EqualFold :: "unicode_tables \<Rightarrow> string \<Rightarrow> string \<Rightarrow> bool" where
  "EqualFold U s t \<longleftrightarrow> list_all2 (fold_eq U) (runes s) (runes t)"

definition trim_chunks :: "(rune \<Rightarrow> bool) \<Rightarrow> (rune \<times> char list) list \<Rightarrow> (rune \<times> char list) list" where
  "trim_chunks P xs = rev (dropWhile (P \<circ> fst) (rev (dropWhile (P \<circ> fst) xs)))"

definition TrimSpace :: "string \<Rightarrow> string" where
  "TrimSpace s = concat (map snd (trim_chunks IsSpace (chunks s)))"

fun fields_acc :: "char list \<Rightarrow> (rune \<times> char list) list \<Rightarrow> string list" where
  "fields_acc acc [] = (if acc = [] then [] else [acc])"
| "fields_acc acc ((r, bs) # xs) =
     (if IsSpace r then (if acc = [] then fields_acc [] xs else acc # fields_acc [] xs)
      else fields_acc (acc @ bs) xs)"

definition Fields :: "string \<Rightarrow> string list" where
  "Fields s = fields_acc [] (chunks s)"

definition HasPrefix :: "string \<Rightarrow> string \<Rightarrow> bool" where
  "HasPrefix s p \<longleftrightarrow> take (length p) s = p"

definition HasSuffix :: "string \<Rightarrow> string \<Rightarrow> bool" where
  "HasSuffix s p \<longleftrightarrow> length p \<le> length s \<and> drop (length s - length p) s = p"

definition TrimPrefix :: "string \<Rightarrow> string \<Rightarrow> string" where
  "TrimPrefix s p = (if HasPrefix s p then drop (length p) s else s)"

text \<open>\<open>Trim\<close> and \<open>TrimRight\<close> with an ASCII cut set work on bytes.\<close>

definition TrimRight :: "string \<Rightarrow> char list \<Rightarrow> string" where
  "TrimRight s cs = rev (dropWhile (\<lambda>c. c \<in> set cs) (rev s))"

definition Trim :: "string \<Rightarrow> char list \<Rightarrow> string" where
  "Trim s cs = TrimRight (dropWhile (\<lambda>c. c \<in> set cs) s) cs"

definition ContainsAny :: "string \<Rightarrow> char list \<Rightarrow> bool" where
  "ContainsAny s cs \<longleftrightarrow> list_ex (\<lambda>c. c \<in> set cs) s"

definition contains_byte :: "char \<Rightarrow> string \<Rightarrow> bool" where
  "contains_byte c s \<longleftrightarrow> c \<in> set s"

fun Contains :: "string \<Rightarrow> string \<Rightarrow> bool" where
  "Contains [] p = (p = [])"
| "Contains (c # s) p = (HasPrefix (c # s) p \<or> Contains s p)"

text \<open>\<open>strings.Cut\<close> at the first occurrence of a byte: the parts and whether it was found.\<close>

definition Cut :: "string \<Rightarrow> char \<Rightarrow> string \<times> string \<times> bool" where
  "Cut s c = (let a = takeWhile (\<lambda>x. x \<noteq> c) s; b = dropWhile (\<lambda>x. x \<noteq> c) s
              in (a, tl b, b \<noteq> []))"

text \<open>The parts before and after the last occurrence of a byte, as \<open>strings.LastIndex\<close> is used.\<close>

definition cut_last :: "string \<Rightarrow> char \<Rightarrow> (string \<times> string) option" where
  "cut_last s c =
     (if c \<in> set s
      then Some (rev (tl (dropWhile (\<lambda>x. x \<noteq> c) (rev s))), rev (takeWhile (\<lambda>x. x \<noteq> c) (rev s)))
      else None)"

fun split_on :: "char \<Rightarrow> string \<Rightarrow> string list" where
  "split_on c [] = [[]]"
| "split_on c (x # xs) =
     (if x = c then [] # split_on c xs
      else (case split_on c xs of [] \<Rightarrow> [[x]] | y # ys \<Rightarrow> (x # y) # ys))"

lemma TrimSpace_empty [simp]: "TrimSpace [] = []"
  by (simp add: TrimSpace_def trim_chunks_def)

lemma EqualFold_refl [simp]: "EqualFold U s s"
  by (simp add: EqualFold_def list.rel_refl fold_eq_def)

lemma fold_eq_sym: "fold_eq U a b \<longleftrightarrow> fold_eq U b a"
  by (auto simp: fold_eq_def min.commute max.commute Let_def)

lemma EqualFold_sym: "EqualFold U s t \<longleftrightarrow> EqualFold U t s"
  unfolding EqualFold_def by (metis (mono_tags, lifting) fold_eq_sym list.rel_flip list_all2_mono conversep_iff)

lemma ToLower_ascii:
  "ascii s \<Longrightarrow> ToLower U s = map (\<lambda>c. chr (ascii_lower_rune (ord c))) s"
  by (induction s)
    (auto simp: ToLower_def runes_def unicode_ToLower_def encode_rune_def ascii_lower_rune_def
      ascii_char_def)

lemma ascii_lower_rune_less: "r < 128 \<Longrightarrow> ascii_lower_rune r < 128"
  by (auto simp: ascii_lower_rune_def)

lemma ascii_lower_rune_idem [simp]: "ascii_lower_rune (ascii_lower_rune r) = ascii_lower_rune r"
  by (auto simp: ascii_lower_rune_def)

lemma ascii_lower_char: "ascii_char c \<Longrightarrow> ascii_lower_rune (ord c) mod 256 = ascii_lower_rune (ord c)"
  using ascii_lower_rune_less [of "ord c"] by (simp add: ascii_char_def)

lemma ascii_ToLower: "ascii s \<Longrightarrow> ascii (ToLower U s)"
  by (auto simp: ToLower_ascii ascii_def list_all_iff ascii_lower_char)
    (simp add: ascii_char_def ascii_lower_char [unfolded ascii_char_def] ascii_lower_rune_less)

lemma ToLower_idem_ascii:
  assumes "ascii s" shows "ToLower U (ToLower U s) = ToLower U s"
proof -
  have "ToLower U (ToLower U s) = map (\<lambda>c. chr (ascii_lower_rune (ord c))) (ToLower U s)"
    by (rule ToLower_ascii) (rule ascii_ToLower [OF assms])
  also have "\<dots> = ToLower U s"
    using assms by (auto simp: ToLower_ascii ascii_def list_all_iff ascii_lower_char)
  finally show ?thesis .
qed

lemma ToLower_lower_case:
  "ascii s \<Longrightarrow> list_all (\<lambda>c. \<not> (65 \<le> ord c \<and> ord c \<le> 90)) s \<Longrightarrow> ToLower U s = s"
  by (auto simp: ToLower_ascii list_all_iff ascii_lower_rune_def intro!: map_idI)

lemma eq_char_of_iff: "c = chr n \<longleftrightarrow> of_char c = take_bit 8 n"
  by (metis char_of_eq_iff)

end
