(* ===== verification/GoURL.thy ===== *)
theory GoURL
  imports GoStrings "HOL-Library.Char_ord" "HOL-Library.List_Lexorder" "HOL-Library.AList"
begin

text \<open>
  Package \<open>net/url\<close> (Go 1.25.0), on byte strings: percent encoding, parsing and printing of URLs,
  reference resolution and query values.  The functions follow the library's source, error
  branches included.
\<close>

section \<open>Percent encoding\<close>

datatype encoding = encodePath | encodePathSegment | encodeHost | encodeZone
  | encodeUserPassword | encodeQueryComponent | encodeFragment

definition unreserved_alnum :: "char \<Rightarrow> bool" where
  "unreserved_alnum c \<longleftrightarrow> (97 \<le> ord c \<and> ord c \<le> 122) \<or> (65 \<le> ord c \<and> ord c \<le> 90) \<or>
     (48 \<le> ord c \<and> ord c \<le> 57)"

definition quote_char :: char where
  "quote_char = chr 39"

definition host_delims :: "char list" where
  "host_delims = quote_char # ''!$&()*+,;=:[]<>'' @ [chr 34]"

definition shouldEscape :: "char \<Rightarrow> encoding \<Rightarrow> bool" where
  "shouldEscape c mode =
     (if unreserved_alnum c then False
      else if mode \<in> {encodeHost, encodeZone} \<and> c \<in> set host_delims then False
      else if c \<in> set ''-_.~'' then False
      else if c \<in> set ''$&+,/:;=?@'' then
        (case mode of
           encodePath \<Rightarrow> c = CHR ''?''
         | encodePathSegment \<Rightarrow> c \<in> set ''/;,?''
         | encodeUserPassword \<Rightarrow> c \<in> set ''@/?:''
         | encodeQueryComponent \<Rightarrow> True
         | encodeFragment \<Rightarrow> False
         | _ \<Rightarrow> True)
      else if mode = encodeFragment \<and> c \<in> set ''!()*'' then False
      else True)"

definition unhex :: "char \<Rightarrow> nat option" where
  "unhex c = (let n = ord c in
     if 48 \<le> n \<and> n \<le> 57 then Some (n - 48) else if 97 \<le> n \<and> n \<le> 102 then Some (n - 87)
     else if 65 \<le> n \<and> n \<le> 70 then Some (n - 55) else None)"

definition upper_hex :: "nat \<Rightarrow> char" where
  "upper_hex n = (if n < 10 then chr (48 + n) else chr (55 + n))"

text \<open>The byte an escape stands for, or an error where the mode does not allow it.\<close>

definition unescape_hex :: "encoding \<Rightarrow> char \<Rightarrow> char \<Rightarrow> char result" where
  "unescape_hex mode a b =
     (case (unhex a, unhex b) of
        (Some x, Some y) \<Rightarrow>
          (let v = chr (x * 16 + y); is25 = (a = CHR ''2'' \<and> b = CHR ''5'')
           in if mode = encodeHost \<and> x < 8 \<and> \<not> is25 then Inl ''invalid URL escape''
              else if mode = encodeZone \<and> \<not> is25 \<and> v \<noteq> CHR '' '' \<and> shouldEscape v encodeHost
              then Inl ''invalid URL escape''
              else Inr v)
      | _ \<Rightarrow> Inl ''invalid URL escape'')"

fun unescape :: "encoding \<Rightarrow> string \<Rightarrow> string result" where
  "unescape mode [] = Inr []"
| "unescape mode (c # s) =
     (if c = CHR ''%'' then
        (case s of
           a # b # s' \<Rightarrow> bind_result (unescape_hex mode a b) (\<lambda>v. map_result ((#) v) (unescape mode s'))
         | _ \<Rightarrow> Inl ''invalid URL escape'')
      else if c = CHR ''+'' \<and> mode = encodeQueryComponent then map_result ((#) (CHR '' '')) (unescape mode s)
      else if mode \<in> {encodeHost, encodeZone} \<and> ord c < 128 \<and> shouldEscape c mode
      then Inl ''invalid character in host name''
      else map_result ((#) c) (unescape mode s))"

definition escape_char :: "encoding \<Rightarrow> char \<Rightarrow> string" where
  "escape_char mode c =
     (if c = CHR '' '' \<and> mode = encodeQueryComponent then ''+''
      else if shouldEscape c mode
      then [CHR ''%'', upper_hex (ord c div 16), upper_hex (ord c mod 16)] else [c])"

definition escape :: "encoding \<Rightarrow> string \<Rightarrow> string" where
  "escape mode s = concat (map (escape_char mode) s)"

abbreviation QueryEscape :: "string \<Rightarrow> string" where
  "QueryEscape \<equiv> escape encodeQueryComponent"

abbreviation QueryUnescape :: "string \<Rightarrow> string result" where
  "QueryUnescape \<equiv> unescape encodeQueryComponent"

abbreviation PathEscape :: "string \<Rightarrow> string" where
  "PathEscape \<equiv> escape encodePathSegment"

lemma unhex_upper: "n < 16 \<Longrightarrow> unhex (upper_hex n) = Some n"
  by (auto simp: unhex_def upper_hex_def Let_def)

lemma hex_halves: "ord (c :: char) div 16 < 16" "ord (c :: char) mod 16 < 16"
proof -
  have "ord c < 256" by simp
  then show "ord c div 16 < 16" "ord c mod 16 < 16" by linarith+
qed

lemma unescape_hex_query:
  "unescape_hex encodeQueryComponent (upper_hex (ord c div 16)) (upper_hex (ord c mod 16)) = Inr c"
  by (simp add: unescape_hex_def unhex_upper hex_halves)

lemma unescape_escape_query [simp]: "QueryUnescape (QueryEscape s) = Inr s"
proof (induction s)
  case Nil
  then show ?case by (simp add: escape_def)
next
  case (Cons c s)
  have "QueryUnescape (escape_char encodeQueryComponent c @ QueryEscape s) = Inr (c # s)"
  proof (cases "shouldEscape c encodeQueryComponent")
    case True
    then show ?thesis
      using Cons by (cases "c = CHR '' ''") (simp_all add: escape_char_def unescape_hex_query)
  next
    case False
    then have "c \<noteq> CHR ''%'' \<and> c \<noteq> CHR ''+'' \<and> c \<noteq> CHR '' ''"
      by (auto simp: shouldEscape_def unreserved_alnum_def host_delims_def)
    then show ?thesis using False Cons by (simp add: escape_char_def)
  qed
  then show ?case by (simp add: escape_def)
qed

lemma upper_hex_cases: "n < 16 \<Longrightarrow> unreserved_alnum (upper_hex n)"
  by (auto simp: upper_hex_def unreserved_alnum_def)

text \<open>The separators of a query string never occur in an escaped component.\<close>

definition query_sep :: "char \<Rightarrow> bool" where
  "query_sep c \<longleftrightarrow> c \<in> set ''&=;#''"

lemma query_sep_escaped: "query_sep c \<Longrightarrow> shouldEscape c encodeQueryComponent \<and> \<not> unreserved_alnum c"
  unfolding query_sep_def
  by (simp, elim disjE; simp add: shouldEscape_def unreserved_alnum_def)

lemma escape_char_no_sep:
  assumes "x \<in> set (escape_char encodeQueryComponent c)" shows "\<not> query_sep x"
proof (cases "shouldEscape c encodeQueryComponent \<and> c \<noteq> CHR '' ''")
  case True
  then have "x = CHR ''%'' \<or> unreserved_alnum x"
    using assms upper_hex_cases [OF hex_halves(1)] upper_hex_cases [OF hex_halves(2)]
    by (auto simp: escape_char_def)
  moreover have "\<not> query_sep (CHR ''%'')" by (simp add: query_sep_def)
  ultimately show ?thesis using query_sep_escaped by blast
next
  case False
  then have "x = c \<and> \<not> shouldEscape c encodeQueryComponent \<or> x = CHR ''+''"
    using assms by (auto simp: escape_char_def split: if_splits)
  moreover have "\<not> query_sep (CHR ''+'')" by (simp add: query_sep_def)
  ultimately show ?thesis using query_sep_escaped by blast
qed

lemma escape_no_sep: "x \<in> set (QueryEscape s) \<Longrightarrow> \<not> query_sep x"
  by (auto simp: escape_def dest: escape_char_no_sep)

section \<open>URLs\<close>

datatype userinfo = Userinfo (ui_username: string) (ui_password: "string option")

record URL =
  url_Scheme :: string
  url_Opaque :: string
  url_User :: "userinfo option"
  url_Host :: string
  url_Path :: string
  url_RawPath :: string
  url_OmitHost :: bool
  url_ForceQuery :: bool
  url_RawQuery :: string
  url_Fragment :: string
  url_RawFragment :: string

definition empty_URL :: URL where
  "empty_URL = \<lparr>url_Scheme = [], url_Opaque = [], url_User = None, url_Host = [], url_Path = [],
     url_RawPath = [], url_OmitHost = False, url_ForceQuery = False, url_RawQuery = [],
     url_Fragment = [], url_RawFragment = []\<rparr>"

definition is_letter :: "char \<Rightarrow> bool" where
  "is_letter c \<longleftrightarrow> (97 \<le> ord c \<and> ord c \<le> 122) \<or> (65 \<le> ord c \<and> ord c \<le> 90)"

definition is_digit :: "char \<Rightarrow> bool" where
  "is_digit c \<longleftrightarrow> 48 \<le> ord c \<and> ord c \<le> 57"

text \<open>\<open>getScheme\<close>: the scheme (empty if there is none) and the rest; \<open>acc\<close> holds the bytes read.\<close>

fun getScheme_from :: "string \<Rightarrow> string \<Rightarrow> string \<Rightarrow> (string \<times> string) result" where
  "getScheme_from raw acc [] = Inr ([], raw)"
| "getScheme_from raw acc (c # s) =
     (if is_letter c then getScheme_from raw (acc @ [c]) s
      else if is_digit c \<or> c \<in> set ''+-.'' then
        (if acc = [] then Inr ([], raw) else getScheme_from raw (acc @ [c]) s)
      else if c = CHR '':'' then
        (if acc = [] then Inl ''missing protocol scheme'' else Inr (acc, s))
      else Inr ([], raw))"

definition getScheme :: "string \<Rightarrow> (string \<times> string) result" where
  "getScheme raw = getScheme_from raw [] raw"

definition validOptionalPort :: "string \<Rightarrow> bool" where
  "validOptionalPort p = (case p of [] \<Rightarrow> True | c # ds \<Rightarrow> c = CHR '':'' \<and> list_all is_digit ds)"

text \<open>\<open>splitHostPort\<close>, the base of \<open>URL.Hostname\<close> and \<open>URL.Port\<close>.\<close>

definition strip_brackets :: "string \<Rightarrow> string" where
  "strip_brackets h =
     (if 2 \<le> length h \<and> hd h = CHR ''['' \<and> last h = CHR '']'' then butlast (tl h) else h)"

definition url_splitHostPort :: "string \<Rightarrow> string \<times> string" where
  "url_splitHostPort hp =
     (case cut_last hp (CHR '':'') of
        Some (h, p) \<Rightarrow> if validOptionalPort (CHR '':'' # p) then (strip_brackets h, p) else (strip_brackets hp, [])
      | None \<Rightarrow> (strip_brackets hp, []))"

definition Hostname :: "URL \<Rightarrow> string" where
  "Hostname u = fst (url_splitHostPort (url_Host u))"

definition Port :: "URL \<Rightarrow> string" where
  "Port u = snd (url_splitHostPort (url_Host u))"

definition IsAbs :: "URL \<Rightarrow> bool" where
  "IsAbs u \<longleftrightarrow> url_Scheme u \<noteq> []"

fun find_zone :: "string \<Rightarrow> string \<Rightarrow> (string \<times> string) option" where
  "find_zone acc [] = None"
| "find_zone acc (c # s) =
     (if HasPrefix (c # s) ''%25'' then Some (acc, c # s) else find_zone (acc @ [c]) s)"

definition parseHost :: "string \<Rightarrow> string result" where
  "parseHost host =
     (if HasPrefix host ''['' then
        (case cut_last host (CHR '']'') of
           None \<Rightarrow> Inl ''missing ']' in host''
         | Some (bracketed, colonPort) \<Rightarrow>
             if \<not> validOptionalPort colonPort then Inl ''invalid port after host''
             else (case find_zone [] bracketed of
                 Some (h1, h2) \<Rightarrow>
                   bind_result (unescape encodeHost h1) (\<lambda>a.
                   bind_result (unescape encodeZone h2) (\<lambda>b.
                   bind_result (unescape encodeHost (CHR '']'' # colonPort)) (\<lambda>c. Inr (a @ b @ c))))
               | None \<Rightarrow> unescape encodeHost host))
      else (case cut_last host (CHR '':'') of
           Some (_, p) \<Rightarrow>
             if validOptionalPort (CHR '':'' # p) then unescape encodeHost host
             else Inl ''invalid port after host''
         | None \<Rightarrow> unescape encodeHost host))"

definition validUserinfo :: "string \<Rightarrow> bool" where
  "validUserinfo s \<longleftrightarrow> list_all (\<lambda>c. unreserved_alnum c \<or> c \<in> set (quote_char # ''-._:~!$&()*+,;=%@'')) s"

definition parseAuthority :: "string \<Rightarrow> (userinfo option \<times> string) result" where
  "parseAuthority authority =
     (case cut_last authority (CHR ''@'') of
        None \<Rightarrow> map_result (\<lambda>h. (None, h)) (parseHost authority)
      | Some (ui, h0) \<Rightarrow>
          bind_result (parseHost h0) (\<lambda>h.
            if \<not> validUserinfo ui then Inl ''net/url: invalid userinfo''
            else if \<not> contains_byte (CHR '':'') ui then
              map_result (\<lambda>n. (Some (Userinfo n None), h)) (unescape encodeUserPassword ui)
            else (case Cut ui (CHR '':'') of (n, p, _) \<Rightarrow>
              bind_result (unescape encodeUserPassword n) (\<lambda>n'.
              map_result (\<lambda>p'. (Some (Userinfo n' (Some p')), h)) (unescape encodeUserPassword p)))))"

definition setPath :: "string \<Rightarrow> URL \<Rightarrow> URL result" where
  "setPath p u = map_result (\<lambda>path. u\<lparr>url_Path := path,
      url_RawPath := (if p = escape encodePath path then [] else p)\<rparr>) (unescape encodePath p)"

definition setFragment :: "string \<Rightarrow> URL \<Rightarrow> URL result" where
  "setFragment f u = map_result (\<lambda>frag. u\<lparr>url_Fragment := frag,
      url_RawFragment := (if f = escape encodeFragment frag then [] else f)\<rparr>) (unescape encodeFragment f)"

definition validEncoded :: "encoding \<Rightarrow> string \<Rightarrow> bool" where
  "validEncoded mode s \<longleftrightarrow>
     list_all (\<lambda>c. c \<in> set (quote_char # ''!$&()*+,;=:@[]%'') \<or> \<not> shouldEscape c mode) s"

definition EscapedPath :: "URL \<Rightarrow> string" where
  "EscapedPath u =
     (if url_RawPath u \<noteq> [] \<and> validEncoded encodePath (url_RawPath u) \<and>
         unescape encodePath (url_RawPath u) = Inr (url_Path u) then url_RawPath u
      else if url_Path u = ''*'' then ''*''
      else escape encodePath (url_Path u))"

definition EscapedFragment :: "URL \<Rightarrow> string" where
  "EscapedFragment u =
     (if url_RawFragment u \<noteq> [] \<and> validEncoded encodeFragment (url_RawFragment u) \<and>
         unescape encodeFragment (url_RawFragment u) = Inr (url_Fragment u) then url_RawFragment u
      else escape encodeFragment (url_Fragment u))"

definition userinfo_String :: "userinfo \<Rightarrow> string" where
  "userinfo_String ui =
     (if ui_username ui = [] \<and> ui_password ui = None then []
      else escape encodeUserPassword (ui_username ui) @
        (case ui_password ui of None \<Rightarrow> [] | Some p \<Rightarrow> CHR '':'' # escape encodeUserPassword p))"

definition authority_String :: "URL \<Rightarrow> string" where
  "authority_String u =
     (if url_Scheme u = [] \<and> url_Host u = [] \<and> url_User u = None then []
      else if url_OmitHost u \<and> url_Host u = [] \<and> url_User u = None then []
      else (if url_Host u \<noteq> [] \<or> url_Path u \<noteq> [] \<or> url_User u \<noteq> None then ''//'' else []) @
        (case url_User u of None \<Rightarrow> [] | Some ui \<Rightarrow> userinfo_String ui @ ''@'') @
        escape encodeHost (url_Host u))"

definition path_String :: "URL \<Rightarrow> string" where
  "path_String u =
     (let path = EscapedPath u in
      (if path \<noteq> [] \<and> hd path \<noteq> CHR ''/'' \<and> url_Host u \<noteq> [] then ''/'' else []) @
      (if url_Scheme u = [] \<and> authority_String u = [] \<and> contains_byte (CHR '':'') (fst (Cut path (CHR ''/'')))
       then ''./'' else []) @ path)"

definition query_String :: "URL \<Rightarrow> string" where
  "query_String u =
     (if url_ForceQuery u \<or> url_RawQuery u \<noteq> [] then CHR ''?'' # url_RawQuery u else []) @
     (if url_Fragment u \<noteq> [] then CHR ''#'' # EscapedFragment u else [])"

text \<open>\<open>(*URL).String\<close>\<close>

definition URL_String :: "URL \<Rightarrow> string" where
  "URL_String u =
     (if url_Scheme u \<noteq> [] then url_Scheme u @ '':'' else []) @
     (if url_Opaque u \<noteq> [] then url_Opaque u else authority_String u @ path_String u) @
     query_String u"

definition has_ctl :: "string \<Rightarrow> bool" where
  "has_ctl s \<longleftrightarrow> list_ex (\<lambda>c. ord c < 32 \<or> ord c = 127) s"

definition split_query :: "string \<Rightarrow> string \<times> bool \<times> string" where
  "split_query rest =
     (if HasSuffix rest ''?'' \<and> count_list rest (CHR ''?'') = 1 then (butlast rest, True, [])
      else (case Cut rest (CHR ''?'') of (r, q, _) \<Rightarrow> (r, False, q)))"

definition parse_hier :: "URL \<Rightarrow> string \<Rightarrow> URL result" where
  "parse_hier u rest =
     (if (url_Scheme u \<noteq> [] \<or> \<not> HasPrefix rest ''///'') \<and> HasPrefix rest ''//'' then
        (let a = drop 2 rest;
             authority = takeWhile (\<lambda>c. c \<noteq> CHR ''/'') a;
             rest' = dropWhile (\<lambda>c. c \<noteq> CHR ''/'') a
         in bind_result (parseAuthority authority) (\<lambda>(ui, h).
              setPath rest' (u\<lparr>url_User := ui, url_Host := h\<rparr>)))
      else setPath rest (u\<lparr>url_OmitHost := (url_Scheme u \<noteq> [] \<and> HasPrefix rest ''/'')\<rparr>))"

definition parse_no_fragment :: "unicode_tables \<Rightarrow> string \<Rightarrow> URL result" where
  "parse_no_fragment U raw =
     (if has_ctl raw then Inl ''net/url: invalid control character in URL''
      else if raw = ''*'' then Inr (empty_URL\<lparr>url_Path := ''*''\<rparr>)
      else bind_result (getScheme raw) (\<lambda>(scheme0, rest0).
        (let scheme = ToLower U scheme0 in
         case split_query rest0 of (rest, force, q) \<Rightarrow>
         (let u = empty_URL\<lparr>url_Scheme := scheme, url_ForceQuery := force, url_RawQuery := q\<rparr> in
          if \<not> HasPrefix rest ''/'' \<and> scheme \<noteq> [] then Inr (u\<lparr>url_Opaque := rest\<rparr>)
          else if \<not> HasPrefix rest ''/'' \<and> contains_byte (CHR '':'') (fst (Cut rest (CHR ''/''))) then
            Inl ''first path segment in URL cannot contain colon''
          else parse_hier u rest))))"

text \<open>\<open>url.Parse\<close>\<close>

definition Parse :: "unicode_tables \<Rightarrow> string \<Rightarrow> URL result" where
  "Parse U raw = (case Cut raw (CHR ''#'') of (r, frag, _) \<Rightarrow>
     bind_result (parse_no_fragment U r) (\<lambda>u. if frag = [] then Inr u else setFragment frag u))"

section \<open>Reference resolution\<close>

text \<open>\<open>resolvePath\<close>: the loop over the path elements; \<open>dst\<close> is what has been written after the
  initial slash, \<open>first\<close> whether the next element is written without a separator.\<close>

fun resolve_elems :: "string \<Rightarrow> bool \<Rightarrow> string list \<Rightarrow> string" where
  "resolve_elems dst first [] = dst"
| "resolve_elems dst first (e # es) =
     (if e = ''.'' then resolve_elems dst False es
      else if e = ''..'' then
        (case cut_last dst (CHR ''/'') of
           None \<Rightarrow> resolve_elems [] True es
         | Some (d, _) \<Rightarrow> resolve_elems d first es)
      else resolve_elems (dst @ (if first then [] else ''/'') @ e) False es)"

definition resolvePath :: "string \<Rightarrow> string \<Rightarrow> string" where
  "resolvePath base ref =
     (let full = (if ref = [] then base
                  else if hd ref \<noteq> CHR ''/'' then
                    (case cut_last base (CHR ''/'') of None \<Rightarrow> ref | Some (d, _) \<Rightarrow> d @ ''/'' @ ref)
                  else ref)
      in if full = [] then []
         else (let es = split_on (CHR ''/'') full;
                   r = ''/'' @ resolve_elems [] True es @ (if last es \<in> {''.'', ''..''} then ''/'' else [])
               in if HasPrefix r ''//'' then tl r else r))"

text \<open>\<open>setPath\<close> inside \<open>ResolveReference\<close> ignores its error and then leaves the paths as they were.\<close>

definition setPath_ignoring :: "string \<Rightarrow> URL \<Rightarrow> URL" where
  "setPath_ignoring p u = (case setPath p u of Inl _ \<Rightarrow> u | Inr u' \<Rightarrow> u')"

definition ResolveReference :: "URL \<Rightarrow> URL \<Rightarrow> URL" where
  "ResolveReference u ref =
     (let url = (if url_Scheme ref = [] then ref\<lparr>url_Scheme := url_Scheme u\<rparr> else ref) in
      if url_Scheme ref \<noteq> [] \<or> url_Host ref \<noteq> [] \<or> url_User ref \<noteq> None then
        setPath_ignoring (resolvePath (EscapedPath ref) []) url
      else if url_Opaque ref \<noteq> [] then
        url\<lparr>url_User := None, url_Host := [], url_Path := []\<rparr>
      else
        (let url1 = (if url_Path ref = [] \<and> \<not> url_ForceQuery ref \<and> url_RawQuery ref = [] then
                       (let q = url\<lparr>url_RawQuery := url_RawQuery u\<rparr> in
                        if url_Fragment ref = []
                        then q\<lparr>url_Fragment := url_Fragment u, url_RawFragment := url_RawFragment u\<rparr> else q)
                     else url)
         in if url_Path ref = [] \<and> url_Opaque u \<noteq> [] then
              url1\<lparr>url_Opaque := url_Opaque u, url_User := None, url_Host := [], url_Path := []\<rparr>
            else setPath_ignoring (resolvePath (EscapedPath u) (EscapedPath ref))
                   (url1\<lparr>url_Host := url_Host u, url_User := url_User u\<rparr>)))"

section \<open>Query values\<close>

text \<open>\<open>url.Values\<close>: a map from keys to lists of values, as an association list.\<close>

type_synonym url_values = "(string \<times> string list) list"

definition values_Get :: "url_values \<Rightarrow> string \<Rightarrow> string" where
  "values_Get vs k = (case map_of vs k of Some (v # _) \<Rightarrow> v | _ \<Rightarrow> [])"

definition values_Set :: "string \<Rightarrow> string \<Rightarrow> url_values \<Rightarrow> url_values" where
  "values_Set k v vs = AList.update k [v] vs"

definition values_Add :: "string \<Rightarrow> string \<Rightarrow> url_values \<Rightarrow> url_values" where
  "values_Add k v vs = AList.update k (case map_of vs k of None \<Rightarrow> [v] | Some xs \<Rightarrow> xs @ [v]) vs"

definition values_Del :: "string \<Rightarrow> url_values \<Rightarrow> url_values" where
  "values_Del k vs = AList.delete k vs"

text \<open>One \<open>key=value\<close> item of a query: nothing for an empty item, an error for a bad one.\<close>

definition query_item :: "string \<Rightarrow> (string \<times> string) option result" where
  "query_item item =
     (if contains_byte (CHR '';'') item then Inl ''invalid semicolon separator in query''
      else if item = [] then Inr None
      else (case Cut item (CHR ''='') of (k, v, _) \<Rightarrow>
        bind_result (QueryUnescape k) (\<lambda>k'. map_result (\<lambda>v'. Some (k', v')) (QueryUnescape v))))"

text \<open>\<open>parseQuery\<close> goes on after an error and reports the first one; the values of the good items
  are kept (and are what \<open>URL.Query\<close> returns).\<close>

fun parse_items :: "url_values \<Rightarrow> string option \<Rightarrow> string list \<Rightarrow> url_values \<times> string option" where
  "parse_items vs err [] = (vs, err)"
| "parse_items vs err (i # is) =
     (case query_item i of
        Inl e \<Rightarrow> parse_items vs (case err of None \<Rightarrow> Some e | Some e0 \<Rightarrow> Some e0) is
      | Inr None \<Rightarrow> parse_items vs err is
      | Inr (Some (k, v)) \<Rightarrow> parse_items (values_Add k v vs) err is)"

definition ParseQuery :: "string \<Rightarrow> url_values \<times> string option" where
  "ParseQuery q = parse_items [] None (if q = [] then [] else split_on (CHR ''&'') q)"

definition Query :: "URL \<Rightarrow> url_values" where
  "Query u = fst (ParseQuery (url_RawQuery u))"

definition encode_pair :: "string \<Rightarrow> string \<Rightarrow> string" where
  "encode_pair k v = QueryEscape k @ ''='' @ QueryEscape v"

fun join_with :: "string \<Rightarrow> string list \<Rightarrow> string" where
  "join_with sep [] = []"
| "join_with sep [x] = x"
| "join_with sep (x # xs) = x @ sep @ join_with sep xs"

definition encode_items :: "url_values \<Rightarrow> string list" where
  "encode_items vs =
     concat (map (\<lambda>k. map (encode_pair k) (case map_of vs k of None \<Rightarrow> [] | Some xs \<Rightarrow> xs))
       (sort (remdups (map fst vs))))"

definition Encode :: "url_values \<Rightarrow> string" where
  "Encode vs = join_with ''&'' (encode_items vs)"

subsection \<open>Encoding and parsing are inverse\<close>

lemma Cut_no_sep: "c \<notin> set a \<Longrightarrow> Cut (a @ c # b) c = (a, b, True)"
proof -
  assume c: "c \<notin> set a"
  have "takeWhile (\<lambda>x. x \<noteq> c) (a @ c # b) = a" "dropWhile (\<lambda>x. x \<noteq> c) (a @ c # b) = c # b"
    using c by (induction a) auto
  then show ?thesis by (simp add: Cut_def)
qed

lemma split_on_no_sep: "c \<notin> set a \<Longrightarrow> split_on c a = [a]"
  by (induction a) auto

lemma split_on_append: "c \<notin> set a \<Longrightarrow> split_on c (a @ c # b) = a # split_on c b"
  by (induction a) auto

lemma split_on_join:
  "is \<noteq> [] \<Longrightarrow> \<forall>i \<in> set is. c \<notin> set i \<Longrightarrow> split_on c (join_with [c] is) = is"
  by (induction "[c]" "is" rule: join_with.induct) (auto simp: split_on_no_sep split_on_append)

lemma encode_pair_no_amp: "CHR ''&'' \<notin> set (encode_pair k v)"
  using escape_no_sep [of "CHR ''&''"] by (auto simp: encode_pair_def query_sep_def)

lemma query_item_encode [simp]: "query_item (encode_pair k v) = Inr (Some (k, v))"
proof -
  have eq: "CHR ''='' \<notin> set (QueryEscape k)" and sc: "CHR '';'' \<notin> set (QueryEscape s)" for s
    using escape_no_sep [of "CHR ''=''"] escape_no_sep [of "CHR '';''"] by (auto simp: query_sep_def)
  have "\<not> contains_byte (CHR '';'') (encode_pair k v)"
    using sc by (simp add: contains_byte_def encode_pair_def)
  moreover have "Cut (encode_pair k v) (CHR ''='') = (QueryEscape k, QueryEscape v, True)"
    using Cut_no_sep [OF eq] by (simp add: encode_pair_def)
  ultimately show ?thesis by (simp add: query_item_def encode_pair_def)
qed

definition value_pairs :: "url_values \<Rightarrow> (string \<times> string) list" where
  "value_pairs vs = concat (map (\<lambda>k. map (Pair k) (case map_of vs k of None \<Rightarrow> [] | Some xs \<Rightarrow> xs))
     (sort (remdups (map fst vs))))"

lemma encode_items_pairs: "encode_items vs = map (case_prod encode_pair) (value_pairs vs)"
  by (simp add: encode_items_def value_pairs_def map_concat comp_def)

definition all_values :: "url_values \<Rightarrow> string \<Rightarrow> string list" where
  "all_values vs k = (case map_of vs k of None \<Rightarrow> [] | Some xs \<Rightarrow> xs)"

lemma values_Get_all: "values_Get vs k = (case all_values vs k of [] \<Rightarrow> [] | v # _ \<Rightarrow> v)"
  by (auto simp: values_Get_def all_values_def split: option.splits list.splits)

lemma map_of_update: "map_of (AList.update k v vs) = (map_of vs)(k \<mapsto> v)"
  by (rule update_conv')

lemma all_values_Add: "all_values (values_Add k v vs) k' = all_values vs k' @ (if k = k' then [v] else [])"
  by (auto simp: all_values_def values_Add_def map_of_update split: option.splits)

lemma all_values_Set: "all_values (values_Set k v vs) k' = (if k = k' then [v] else all_values vs k')"
  by (auto simp: all_values_def values_Set_def map_of_update)

lemma values_Get_Set [simp]: "values_Get (values_Set k v vs) k' = (if k = k' then v else values_Get vs k')"
  by (simp add: values_Get_all all_values_Set)

lemma all_values_Del: "all_values (values_Del k vs) k' = (if k = k' then [] else all_values vs k')"
  by (auto simp: all_values_def values_Del_def delete_conv')

lemma values_Get_Del [simp]: "values_Get (values_Del k vs) k' = (if k = k' then [] else values_Get vs k')"
  by (simp add: values_Get_all all_values_Del)

lemma parse_items_pairs:
  "snd (parse_items vs err (map (case_prod encode_pair) ps)) = err \<and>
   all_values (fst (parse_items vs err (map (case_prod encode_pair) ps))) k =
     all_values vs k @ map snd (filter (\<lambda>p. fst p = k) ps)"
  by (induction ps arbitrary: vs) (auto simp: all_values_Add)

lemma filter_value_pairs: "map snd (filter (\<lambda>p. fst p = k) (value_pairs vs)) = all_values vs k"
proof -
  define f where "f k' = (case map_of vs k' of None \<Rightarrow> [] | Some xs \<Rightarrow> xs)" for k'
  have in_keys: "map snd (filter (\<lambda>p. fst p = k) (concat (map (\<lambda>k'. map (Pair k') (f k')) ks))) =
      (if k \<in> set ks then f k else [])" if "distinct ks" for ks
    using that by (induction ks) (auto simp: filter_map comp_def map_idI filter_const)
  have "k \<notin> fst ` set vs \<Longrightarrow> f k = []"
    by (simp add: f_def map_of_eq_None_iff [THEN iffD2])
  then show ?thesis
    using in_keys [of "sort (remdups (map fst vs))"] by (auto simp: value_pairs_def f_def all_values_def)
qed

lemma ParseQuery_Encode:
  "snd (ParseQuery (Encode vs)) = None \<and> all_values (fst (ParseQuery (Encode vs))) k = all_values vs k"
proof (cases "value_pairs vs = []")
  case True
  then have "all_values vs k = []" using filter_value_pairs [of k vs] by simp
  with True show ?thesis
    by (simp add: Encode_def encode_items_pairs ParseQuery_def all_values_def)
next
  case False
  then have "encode_items vs \<noteq> []" by (simp add: encode_items_pairs)
  moreover have "\<forall>i \<in> set (encode_items vs). CHR ''&'' \<notin> set i"
    using encode_pair_no_amp by (auto simp: encode_items_pairs)
  ultimately have sp: "split_on (CHR ''&'') (Encode vs) = encode_items vs"
    unfolding Encode_def by (rule split_on_join)
  have "Encode vs \<noteq> []"
  proof
    assume "Encode vs = []"
    with sp have "encode_items vs = [[]]" by simp
    then have "[] \<in> set (encode_items vs)" by simp
    then show False by (auto simp: encode_items_pairs encode_pair_def)
  qed
  with sp show ?thesis
    using parse_items_pairs [of "[]" None "value_pairs vs" k] filter_value_pairs [of k vs]
    by (simp add: ParseQuery_def encode_items_pairs all_values_def)
qed

lemma values_Get_roundtrip: "values_Get (fst (ParseQuery (Encode vs))) k = values_Get vs k"
  using ParseQuery_Encode [of vs k] by (simp add: values_Get_all)

end
