(* ===== verification/GoJson.thy ===== *)
theory GoJson
  imports GoStrings
begin

text \<open>
  The part of \<open>encoding/json\<close> the program uses: printing a value as \<open>json.Marshal\<close> does (HTML
  escaping on) and reading a text back.  Reading is in two structural passes, a scanner that
  makes tokens and a parser with an explicit stack.  A number is kept as its literal.  Go's limit
  of 10000 nested values is not modelled.
\<close>

section \<open>Values and printing\<close>

datatype json = JNull | JBool bool | JNum string | JStr string
  | JArr "json list" | JObj "(string \<times> json) list"

fun dec_digits :: "nat \<Rightarrow> string" where
  "dec_digits n = (if n < 10 then [chr (48 + n)] else dec_digits (n div 10) @ [chr (48 + n mod 10)])"

declare dec_digits.simps [simp del]

definition int_literal :: "int \<Rightarrow> string" where
  "int_literal i = (if i < 0 then CHR ''-'' # dec_digits (nat (- i)) else dec_digits (nat i))"

definition hex_digit_lower :: "nat \<Rightarrow> char" where
  "hex_digit_lower n = (if n < 10 then chr (48 + n) else chr (87 + n))"

definition backslash :: char where "backslash = chr 92"
definition dquote :: char where "dquote = chr 34"

definition u_escape :: "nat \<Rightarrow> string" where
  "u_escape r = [backslash, CHR ''u'', hex_digit_lower (r div 4096), hex_digit_lower (r div 256 mod 16),
     hex_digit_lower (r div 16 mod 16), hex_digit_lower (r mod 16)]"

definition escape_chunk :: "rune \<times> char list \<Rightarrow> string" where
  "escape_chunk p = (case p of (r, bs) \<Rightarrow>
     if r = 34 \<or> r = 92 then [backslash, chr r]
     else if r = 8 then [backslash, CHR ''b''] else if r = 12 then [backslash, CHR ''f'']
     else if r = 10 then [backslash, CHR ''n''] else if r = 13 then [backslash, CHR ''r'']
     else if r = 9 then [backslash, CHR ''t'']
     else if r < 32 \<or> r = 60 \<or> r = 62 \<or> r = 38 then u_escape r
     else if r = rune_error \<and> length bs = 1 then u_escape rune_error
     else if r = 8232 \<or> r = 8233 then u_escape r
     else bs)"

definition string_body :: "string \<Rightarrow> string" where
  "string_body s = concat (map escape_chunk (chunks s))"

definition quote_string :: "string \<Rightarrow> string" where
  "quote_string s = dquote # string_body s @ [dquote]"

fun json_encode :: "json \<Rightarrow> string"
and encode_elems :: "json list \<Rightarrow> string"
and encode_members :: "(string \<times> json) list \<Rightarrow> string" where
  "json_encode JNull = ''null''"
| "json_encode (JBool b) = (if b then ''true'' else ''false'')"
| "json_encode (JNum n) = n"
| "json_encode (JStr s) = quote_string s"
| "json_encode (JArr xs) = ''['' @ encode_elems xs @ '']''"
| "json_encode (JObj ms) = ''{'' @ encode_members ms @ ''}''"
| "encode_elems [] = []"
| "encode_elems [x] = json_encode x"
| "encode_elems (x # y # xs) = json_encode x @ '','' @ encode_elems (y # xs)"
| "encode_members [] = []"
| "encode_members [(k, x)] = quote_string k @ '':'' @ json_encode x"
| "encode_members ((k, x) # m # ms) = quote_string k @ '':'' @ json_encode x @ '','' @ encode_members (m # ms)"

section \<open>Scanning\<close>

datatype token = TLBrace | TRBrace | TLBrack | TRBrack | TComma | TColon | TLit json

definition hex_val :: "char \<Rightarrow> nat option" where
  "hex_val c = (let n = ord c in
     if 48 \<le> n \<and> n \<le> 57 then Some (n - 48) else if 97 \<le> n \<and> n \<le> 102 then Some (n - 87)
     else if 65 \<le> n \<and> n \<le> 70 then Some (n - 55) else None)"

definition getu4 :: "char \<Rightarrow> char \<Rightarrow> char \<Rightarrow> char \<Rightarrow> nat option" where
  "getu4 a b c d = (case (hex_val a, hex_val b, hex_val c, hex_val d) of
     (Some w, Some x, Some y, Some z) \<Rightarrow> Some (((w * 16 + x) * 16 + y) * 16 + z) | _ \<Rightarrow> None)"

definition simple_escape :: "char \<Rightarrow> char option" where
  "simple_escape c =
     (if c = dquote \<or> c = backslash \<or> c = CHR ''/'' then Some c
      else if c = CHR ''b'' then Some (chr 8) else if c = CHR ''f'' then Some (chr 12)
      else if c = CHR ''n'' then Some (chr 10) else if c = CHR ''r'' then Some (chr 13)
      else if c = CHR ''t'' then Some (chr 9) else None)"

definition is_surrogate :: "nat \<Rightarrow> bool" where
  "is_surrogate r \<longleftrightarrow> 55296 \<le> r \<and> r < 57344"

text \<open>The rune of a surrogate pair, if the escape that follows completes one.\<close>

definition low_surrogate :: "nat \<Rightarrow> char list \<Rightarrow> nat option" where
  "low_surrogate hi s = (case s of
     b # u # p # q # r # t # _ \<Rightarrow>
       if b = backslash \<and> u = CHR ''u'' then
         (case getu4 p q r t of
            Some lo \<Rightarrow> if hi < 56320 \<and> 56320 \<le> lo \<and> lo < 57344
                       then Some ((hi - 55296) * 1024 + (lo - 56320) + 65536) else None
          | None \<Rightarrow> None)
       else None
   | _ \<Rightarrow> None)"

definition scan_u :: "char list \<Rightarrow> (string \<times> char list) option" where
  "scan_u s = (case s of
     p # q # r # t # s2 \<Rightarrow>
       (case getu4 p q r t of
          None \<Rightarrow> None
        | Some x \<Rightarrow>
            if is_surrogate x then
              (case low_surrogate x s2 of
                 Some y \<Rightarrow> Some (encode_rune y, drop 6 s2)
               | None \<Rightarrow> Some (encode_rune rune_error, s2))
            else Some (encode_rune x, s2))
   | _ \<Rightarrow> None)"

text \<open>One character of a string literal: the bytes it stands for and the rest of the text.\<close>

definition scan_unit :: "char \<Rightarrow> char list \<Rightarrow> (string \<times> char list) option" where
  "scan_unit c s =
     (if c = backslash then
        (case s of
           [] \<Rightarrow> None
         | e # s1 \<Rightarrow> if e = CHR ''u'' then scan_u s1
                     else map_option (\<lambda>x. ([x], s1)) (simple_escape e))
      else if ord c < 32 then None
      else (case decode_rune c s of (r, n) \<Rightarrow> Some (encode_rune r, drop (n - 1) s)))"

lemma scan_u_shorter: "scan_u s = Some (v, rest) \<Longrightarrow> length rest \<le> length s"
  by (auto simp: scan_u_def split: list.splits option.splits if_splits)

lemma scan_unit_shorter: "scan_unit c s = Some (v, rest) \<Longrightarrow> length rest < Suc (length s)"
  by (auto simp: scan_unit_def split: if_splits list.splits prod.splits dest: scan_u_shorter)

text \<open>The body of a string literal, after the opening quote: its value and the rest of the text.\<close>

function scan_string :: "char list \<Rightarrow> (string \<times> char list) option" where
  "scan_string [] = None"
| "scan_string (c # s) =
     (if c = dquote then Some ([], s)
      else (case scan_unit c s of
              None \<Rightarrow> None
            | Some (v, rest) \<Rightarrow> map_option (\<lambda>(t, r). (v @ t, r)) (scan_string rest)))"
  by pat_completeness auto
termination by (relation "measure length") (auto dest: scan_unit_shorter)

declare scan_string.simps(2) [simp del]

lemma scan_string_shorter: "scan_string s = Some (v, rest) \<Longrightarrow> length rest < length s"
proof (induction s arbitrary: v rest rule: scan_string.induct)
  case 1
  then show ?case by simp
next
  case (2 c s)
  show ?case
  proof (cases "c = dquote")
    case True
    with "2.prems" show ?thesis by (simp add: scan_string.simps(2))
  next
    case False
    with "2.prems" obtain v1 r1 t where u: "scan_unit c s = Some (v1, r1)"
      and t: "scan_string r1 = Some (t, rest)"
      by (auto simp: scan_string.simps(2) split: option.splits prod.splits)
    from "2.IH" [OF False u refl t] scan_unit_shorter [OF u] show ?thesis by simp
  qed
qed

definition is_json_space :: "char \<Rightarrow> bool" where
  "is_json_space c \<longleftrightarrow> ord c \<in> {32, 9, 10, 13}"

definition is_dec :: "char \<Rightarrow> bool" where
  "is_dec c \<longleftrightarrow> 48 \<le> ord c \<and> ord c \<le> 57"

definition is_word_char :: "char \<Rightarrow> bool" where
  "is_word_char c \<longleftrightarrow> is_dec c \<or> (97 \<le> ord c \<and> ord c \<le> 122) \<or> (65 \<le> ord c \<and> ord c \<le> 90) \<or>
     c \<in> set ''+-.''"

definition valid_exponent :: "string \<Rightarrow> bool" where
  "valid_exponent e = (case e of [] \<Rightarrow> False | c # s \<Rightarrow>
     let ds = (if c \<in> set ''+-'' then s else e) in ds \<noteq> [] \<and> list_all is_dec ds)"

definition valid_unsigned :: "string \<Rightarrow> bool" where
  "valid_unsigned n =
     (let ds = takeWhile is_dec n; r = dropWhile is_dec n;
          exp_ok = (\<lambda>r. case r of [] \<Rightarrow> True | c # e \<Rightarrow> c \<in> set ''eE'' \<and> valid_exponent e)
      in ds \<noteq> [] \<and> (hd ds = CHR ''0'' \<longrightarrow> length ds = 1) \<and>
         (case r of
            [] \<Rightarrow> True
          | c # f \<Rightarrow> if c = CHR ''.''
                      then takeWhile is_dec f \<noteq> [] \<and> exp_ok (dropWhile is_dec f)
                      else exp_ok r))"

definition valid_number :: "string \<Rightarrow> bool" where
  "valid_number n = (case n of [] \<Rightarrow> False
     | c # s \<Rightarrow> valid_unsigned (if c = CHR ''-'' then s else n))"

definition word_literal :: "string \<Rightarrow> json option" where
  "word_literal w =
     (if w = ''null'' then Some JNull else if w = ''true'' then Some (JBool True)
      else if w = ''false'' then Some (JBool False)
      else if valid_number w then Some (JNum w) else None)"

definition punctuation :: "char \<Rightarrow> token option" where
  "punctuation c =
     (if c = CHR ''{'' then Some TLBrace else if c = CHR ''}'' then Some TRBrace
      else if c = CHR ''['' then Some TLBrack else if c = CHR '']'' then Some TRBrack
      else if c = CHR '','' then Some TComma else if c = CHR '':'' then Some TColon else None)"

text \<open>One token starting at a character that is not white space, and the rest of the text.\<close>

definition lex_token :: "char \<Rightarrow> char list \<Rightarrow> (token \<times> char list) option" where
  "lex_token c s =
     (case punctuation c of
        Some t \<Rightarrow> Some (t, s)
      | None \<Rightarrow>
          if c = dquote then map_option (\<lambda>(v, rest). (TLit (JStr v), rest)) (scan_string s)
          else if is_word_char c then
            map_option (\<lambda>l. (TLit l, dropWhile is_word_char s)) (word_literal (c # takeWhile is_word_char s))
          else None)"

lemma lex_token_shorter: "lex_token c s = Some (t, rest) \<Longrightarrow> length rest < Suc (length s)"
  using length_dropWhile_le [of is_word_char s]
  by (auto simp: lex_token_def split: option.splits if_splits dest: scan_string_shorter)

function lex :: "char list \<Rightarrow> token list option" where
  "lex [] = Some []"
| "lex (c # s) =
     (if is_json_space c then lex s
      else (case lex_token c s of
              None \<Rightarrow> None
            | Some (t, rest) \<Rightarrow> map_option ((#) t) (lex rest)))"
  by pat_completeness auto
termination by (relation "measure length") (auto dest: lex_token_shorter)

declare lex.simps(2) [simp del]

section \<open>Parsing\<close>

text \<open>The stack holds the arrays and objects being read, the innermost first; the mode says what
  the next token may be.\<close>

datatype frame = FArr "json list" | FObj "(string \<times> json) list" string

datatype mode = Value | ArrFirst | ObjFirst "(string \<times> json) list" | ObjKey "(string \<times> json) list"
  | Colon "(string \<times> json) list" string | After json

fun parse :: "frame list \<Rightarrow> mode \<Rightarrow> token list \<Rightarrow> json option" where
  "parse st (After v) [] = (if st = [] then Some v else None)"
| "parse st m [] = None"
| "parse st Value (t # ts) = (case t of
     TLit v \<Rightarrow> parse st (After v) ts
   | TLBrack \<Rightarrow> parse st ArrFirst ts
   | TLBrace \<Rightarrow> parse st (ObjFirst []) ts
   | _ \<Rightarrow> None)"
| "parse st ArrFirst (t # ts) = (case t of
     TRBrack \<Rightarrow> parse st (After (JArr [])) ts
   | TLit v \<Rightarrow> parse (FArr [] # st) (After v) ts
   | TLBrack \<Rightarrow> parse (FArr [] # st) ArrFirst ts
   | TLBrace \<Rightarrow> parse (FArr [] # st) (ObjFirst []) ts
   | _ \<Rightarrow> None)"
| "parse st (ObjFirst ms) (t # ts) = (case t of
     TRBrace \<Rightarrow> parse st (After (JObj ms)) ts
   | TLit (JStr k) \<Rightarrow> parse st (Colon ms k) ts
   | _ \<Rightarrow> None)"
| "parse st (ObjKey ms) (t # ts) = (case t of
     TLit (JStr k) \<Rightarrow> parse st (Colon ms k) ts
   | _ \<Rightarrow> None)"
| "parse st (Colon ms k) (t # ts) =
     (if t = TColon then parse (FObj ms k # st) Value ts else None)"
| "parse st (After v) (t # ts) = (case st of
     [] \<Rightarrow> None
   | FArr vs # st' \<Rightarrow>
       if t = TComma then parse (FArr (vs @ [v]) # st') Value ts
       else if t = TRBrack then parse st' (After (JArr (vs @ [v]))) ts else None
   | FObj ms k # st' \<Rightarrow>
       if t = TComma then parse st' (ObjKey (ms @ [(k, v)])) ts
       else if t = TRBrace then parse st' (After (JObj (ms @ [(k, v)]))) ts else None)"

text \<open>\<open>json.Unmarshal\<close> into \<open>any\<close>; \<open>None\<close> is a syntax error.\<close>

definition json_decode :: "string \<Rightarrow> json option" where
  "json_decode s = (case lex s of None \<Rightarrow> None | Some ts \<Rightarrow> parse [] Value ts)"

section \<open>Decoding into a struct\<close>

text \<open>
  \<open>json.Unmarshal\<close> into a struct goes through the members of the object in order.  A member belongs
  to the field of that name, or else to the first whose name differs only in case; members without
  a field are skipped, and a value of the wrong type is an error.  \<open>null\<close> leaves a field as it is.
\<close>

type_synonym 'r field_decoder = "json \<Rightarrow> 'r \<Rightarrow> 'r result"

definition string_field :: "((string \<Rightarrow> string) \<Rightarrow> 'r \<Rightarrow> 'r) \<Rightarrow> 'r field_decoder" where
  "string_field upd j r = (case j of JStr s \<Rightarrow> Inr (upd (\<lambda>_. s) r) | JNull \<Rightarrow> Inr r | _ \<Rightarrow> Inl ''json: cannot unmarshal into string'')"

definition bool_field :: "((bool \<Rightarrow> bool) \<Rightarrow> 'r \<Rightarrow> 'r) \<Rightarrow> 'r field_decoder" where
  "bool_field upd j r = (case j of JBool b \<Rightarrow> Inr (upd (\<lambda>_. b) r) | JNull \<Rightarrow> Inr r | _ \<Rightarrow> Inl ''json: cannot unmarshal into bool'')"

definition digit_char :: "char \<Rightarrow> bool" where
  "digit_char c \<longleftrightarrow> 48 \<le> ord c \<and> ord c \<le> 57"

definition dec_value :: "string \<Rightarrow> nat" where
  "dec_value ds = foldl (\<lambda>n c. 10 * n + (ord c - 48)) 0 ds"

text \<open>A number literal as \<open>int64\<close>: a fraction, an exponent or a value out of range is an error.\<close>

definition int64_of_literal :: "string \<Rightarrow> int option" where
  "int64_of_literal s =
     (let (neg, ds) = (case s of c # cs \<Rightarrow> if c = CHR ''-'' then (True, cs) else (False, s) | [] \<Rightarrow> (False, []));
          v = (if neg then - int (dec_value ds) else int (dec_value ds))
      in if ds = [] \<or> \<not> list_all digit_char ds \<or> v < - (2 ^ 63) \<or> 2 ^ 63 \<le> v then None else Some v)"

definition int64_field :: "((int \<Rightarrow> int) \<Rightarrow> 'r \<Rightarrow> 'r) \<Rightarrow> 'r field_decoder" where
  "int64_field upd j r =
     (case j of
        JNum n \<Rightarrow> (case int64_of_literal n of Some v \<Rightarrow> Inr (upd (\<lambda>_. v) r) | None \<Rightarrow> Inl ''json: cannot unmarshal number into int64'')
      | JNull \<Rightarrow> Inr r
      | _ \<Rightarrow> Inl ''json: cannot unmarshal into int64'')"

text \<open>An element \<open>null\<close> keeps the element the slice already has at that index.\<close>

fun string_elems :: "string list \<Rightarrow> json list \<Rightarrow> string list result" where
  "string_elems old [] = Inr []"
| "string_elems old (j # js) =
     (case j of
        JStr s \<Rightarrow> map_result (Cons s) (string_elems (tl old) js)
      | JNull \<Rightarrow> map_result (Cons (case old of s # _ \<Rightarrow> s | [] \<Rightarrow> [])) (string_elems (tl old) js)
      | _ \<Rightarrow> Inl ''json: cannot unmarshal into string'')"

definition strings_field :: "('r \<Rightarrow> string list) \<Rightarrow> ((string list \<Rightarrow> string list) \<Rightarrow> 'r \<Rightarrow> 'r) \<Rightarrow> 'r field_decoder" where
  "strings_field get upd j r =
     (case j of
        JArr js \<Rightarrow> map_result (\<lambda>ss. upd (\<lambda>_. ss) r) (string_elems (get r) js)
      | JNull \<Rightarrow> Inr (upd (\<lambda>_. []) r)
      | _ \<Rightarrow> Inl ''json: cannot unmarshal into slice'')"

definition field_for :: "unicode_tables \<Rightarrow> string \<Rightarrow> (string \<times> 'r field_decoder) list \<Rightarrow> 'r field_decoder option" where
  "field_for U key fds =
     (case map_of fds key of
        Some f \<Rightarrow> Some f
      | None \<Rightarrow> map_option snd (List.find (\<lambda>(name, f). EqualFold U key name) fds))"

definition decode_member :: "unicode_tables \<Rightarrow> (string \<times> 'r field_decoder) list \<Rightarrow> 'r result \<Rightarrow> string \<times> json \<Rightarrow> 'r result" where
  "decode_member U fds r kv =
     bind_result r (\<lambda>x. case field_for U (fst kv) fds of None \<Rightarrow> Inr x | Some f \<Rightarrow> f (snd kv) x)"

definition decode_struct :: "unicode_tables \<Rightarrow> (string \<times> 'r field_decoder) list \<Rightarrow> 'r \<Rightarrow> json \<Rightarrow> 'r result" where
  "decode_struct U fds zero j =
     (case j of
        JObj ms \<Rightarrow> foldl (decode_member U fds) (Inr zero) ms
      | JNull \<Rightarrow> Inr zero
      | _ \<Rightarrow> Inl ''json: cannot unmarshal into struct'')"

definition unmarshal_struct :: "unicode_tables \<Rightarrow> (string \<times> 'r field_decoder) list \<Rightarrow> 'r \<Rightarrow> string \<Rightarrow> 'r result" where
  "unmarshal_struct U fds zero s =
     (case json_decode s of None \<Rightarrow> Inl ''invalid character'' | Some j \<Rightarrow> decode_struct U fds zero j)"

end
