(* ===== verification/Http.thy ===== *)
theory Http
  imports GoURL GoJson
begin

text \<open>
  Requests and responses of \<open>net/http\<close> as the handlers see them.  A response carries its status, the
  headers that are set (a later \<open>Set\<close> replaces), the cookies, and its body; a page is the name of
  its template with the data it is executed with (\<^theory_text>\<open>Rendering\<close> and \<^theory_text>\<open>Templates\<close> make text of it).
\<close>

section \<open>Requests\<close>

text \<open>A body is a form, of some other content type or absent, or it cannot be read.\<close>

datatype request_body = FormBody string | OtherBody | UnreadableBody

record http_request =
  req_Method :: string
  req_Path :: string
  req_RawQuery :: string
  req_Body :: request_body
  req_RemoteAddr :: string
  req_ForwardedFor :: string
  req_Cookies :: "(string \<times> string) list"

definition request_query :: "http_request \<Rightarrow> url_values" where
  "request_query r = fst (ParseQuery (req_RawQuery r))"

text \<open>\<open>copyValues\<close> appends the values of the second map.\<close>

definition copyValues :: "url_values \<Rightarrow> url_values \<Rightarrow> url_values" where
  "copyValues dst src = foldl (\<lambda>m (k, vs). foldl (\<lambda>m v. values_Add k v m) m vs) dst src"

text \<open>The posted form within a limit on the size of the body.\<close>

definition parsePostForm :: "nat \<Rightarrow> http_request \<Rightarrow> url_values \<times> string option" where
  "parsePostForm limit r =
     (if req_Method r \<noteq> ''POST'' then ([], None)
      else (case req_Body r of
          FormBody t \<Rightarrow> if length t > limit then ([], Some ''http: request body too large'') else ParseQuery t
        | OtherBody \<Rightarrow> ([], None)
        | UnreadableBody \<Rightarrow> ([], Some ''unexpected EOF'')))"

definition defaultMaxMemory :: nat where
  "defaultMaxMemory = 10 * 1024 * 1024"

text \<open>\<open>ParseForm\<close>: the posted values come before those of the query.\<close>

definition ParseForm :: "nat \<Rightarrow> http_request \<Rightarrow> url_values result" where
  "ParseForm limit r =
     (case parsePostForm limit r of
        (post, e1) \<Rightarrow>
          (case ParseQuery (req_RawQuery r) of
             (query, e2) \<Rightarrow>
               (case (e1, e2) of
                  (Some e, _) \<Rightarrow> Inl e
                | (None, Some e) \<Rightarrow> Inl e
                | (None, None) \<Rightarrow> Inr (copyValues post query))))"

section \<open>Responses\<close>

datatype response_body = NoBody | TextBody string | JsonBody json | PageBody string "(string \<times> json) list"

record cookie =
  ck_Name :: string
  ck_Value :: string
  ck_Path :: string
  ck_MaxAge :: int
  ck_HttpOnly :: bool
  ck_Secure :: bool
  ck_SameSiteLax :: bool

record http_response =
  rsp_Status :: nat
  rsp_Header :: "(string \<times> string) list"
  rsp_Cookies :: "cookie list"
  rsp_Body :: response_body

fun set_header :: "string \<Rightarrow> string \<Rightarrow> (string \<times> string) list \<Rightarrow> (string \<times> string) list" where
  "set_header k v [] = [(k, v)]"
| "set_header k v ((k', v') # hs) = (if k = k' then (k, v) # hs else (k', v') # set_header k v hs)"

definition header :: "http_response \<Rightarrow> string \<Rightarrow> string option" where
  "header rsp k = map_of (rsp_Header rsp) k"

type_synonym headers = "(string \<times> string) list"

text \<open>The headers \<open>Cache-Control\<close> and \<open>Pragma\<close> many handlers start with.\<close>

definition no_store :: headers where
  "no_store = [(''Cache-Control'', ''no-store''), (''Pragma'', ''no-cache'')]"

definition reply :: "headers \<Rightarrow> nat \<Rightarrow> response_body \<Rightarrow> http_response" where
  "reply hs status body = \<lparr>rsp_Status = status, rsp_Header = hs, rsp_Cookies = [], rsp_Body = body\<rparr>"

definition http_Error :: "headers \<Rightarrow> string \<Rightarrow> nat \<Rightarrow> http_response" where
  "http_Error hs msg status = reply (set_header ''X-Content-Type-Options'' ''nosniff''
     (set_header ''Content-Type'' ''text/plain; charset=utf-8'' hs)) status (TextBody msg)"

definition NotFound :: "headers \<Rightarrow> http_response" where
  "NotFound hs = http_Error hs ''404 page not found'' 404"

text \<open>\<open>Redirect\<close> to an absolute URL; bytes that are not ASCII are percent-encoded in lower case.\<close>

definition hexEscapeNonASCII :: "string \<Rightarrow> string" where
  "hexEscapeNonASCII s = concat (List.map (\<lambda>c. if ord c < 128 then [c]
     else [CHR ''%'', hex_digit_lower (ord c div 16), hex_digit_lower (ord c mod 16)]) s)"

definition Redirect :: "headers \<Rightarrow> string \<Rightarrow> nat \<Rightarrow> http_response" where
  "Redirect hs url status = reply (set_header ''Location'' (hexEscapeNonASCII url) hs) status NoBody"

definition page :: "headers \<Rightarrow> nat \<Rightarrow> string \<Rightarrow> (string \<times> json) list \<Rightarrow> http_response" where
  "page hs status template data =
     reply (set_header ''Content-Type'' ''text/html; charset=utf-8'' hs) status (PageBody template data)"

definition writeJSON :: "headers \<Rightarrow> nat \<Rightarrow> (string \<times> json) list \<Rightarrow> http_response" where
  "writeJSON hs status value =
     reply (set_header ''Content-Type'' ''application/json'' hs) status (JsonBody (JObj value))"

definition writeOAuthError :: "headers \<Rightarrow> nat \<Rightarrow> string \<Rightarrow> string \<Rightarrow> http_response" where
  "writeOAuthError hs status code description =
     writeJSON hs status [(''error'', JStr code), (''error_description'', JStr description)]"

lemma map_of_set_header [simp]: "map_of (set_header k v hs) = (map_of hs)(k \<mapsto> v)"
  by (induction hs) (auto simp: fun_eq_iff)

lemma header_reply [simp]: "header (reply hs status body) k = map_of hs k"
  by (simp add: header_def reply_def)

lemmas response_defs = http_Error_def NotFound_def Redirect_def page_def writeJSON_def writeOAuthError_def

lemma status_simps [simp]:
  "rsp_Status (reply hs st b) = st" "rsp_Status (http_Error hs m st) = st" "rsp_Status (Redirect hs u st) = st"
  "rsp_Status (page hs st t d) = st" "rsp_Status (writeJSON hs st v) = st"
  "rsp_Status (writeOAuthError hs st c e) = st" "rsp_Status (NotFound hs) = 404"
  by (simp_all add: reply_def response_defs)

lemma body_simps [simp]:
  "rsp_Body (reply hs st b) = b" "rsp_Body (http_Error hs m st) = TextBody m" "rsp_Body (Redirect hs u st) = NoBody"
  "rsp_Body (page hs st t d) = PageBody t d" "rsp_Body (writeJSON hs st v) = JsonBody (JObj v)"
  "rsp_Body (writeOAuthError hs st c e) = JsonBody (JObj [(''error'', JStr c), (''error_description'', JStr e)])"
  by (simp_all add: reply_def response_defs)

lemma header_simps [simp]:
  "header (http_Error hs m st) k =
     (if k = ''X-Content-Type-Options'' then Some ''nosniff''
      else if k = ''Content-Type'' then Some ''text/plain; charset=utf-8'' else map_of hs k)"
  "header (Redirect hs u st) k = (if k = ''Location'' then Some (hexEscapeNonASCII u) else map_of hs k)"
  "header (page hs st t d) k = (if k = ''Content-Type'' then Some ''text/html; charset=utf-8'' else map_of hs k)"
  "header (writeJSON hs st v) k = (if k = ''Content-Type'' then Some ''application/json'' else map_of hs k)"
  "header (writeOAuthError hs st c e) k = (if k = ''Content-Type'' then Some ''application/json'' else map_of hs k)"
  by (simp_all add: response_defs)

end
