(* ===== verification/Environment.thy ===== *)
theory Environment
  imports GoStrings
begin

text \<open>
  The outside the program reads through Go's library: the random source and the clock.  Both are
  arbitrary: draw number \<open>i\<close> of the random source either fails or supplies bytes, reading number
  \<open>i\<close> of the clock is a time.  The counters record how many draws and readings have happened, so
  successive calls see successive values.  The record is extended by the components that keep
  state of their own.
\<close>

section \<open>Time\<close>

text \<open>\<open>time.Time\<close> as nanoseconds since the Unix epoch; \<open>time.Duration\<close> in nanoseconds.\<close>

type_synonym time = int
type_synonym duration = int

definition second :: duration where "second = 1000000000"
definition minute :: duration where "minute = 60 * second"
definition hour :: duration where "hour = 60 * minute"

text \<open>The zero \<open>time.Time\<close> is the first of January of the year 1.\<close>

definition zero_time :: time where
  "zero_time = - 62135596800 * second"

definition Unix :: "time \<Rightarrow> int" where
  "Unix t = t div second"

definition time_Unix :: "int \<Rightarrow> time" where
  "time_Unix s = s * second"

definition max_duration :: duration where
  "max_duration = 9223372036854775807"

definition min_duration :: duration where
  "min_duration = - 9223372036854775808"

text \<open>\<open>Time.Sub\<close> saturates at the 64-bit range of durations.\<close>

definition time_Sub :: "time \<Rightarrow> time \<Rightarrow> duration" where
  "time_Sub a b = max min_duration (min max_duration (a - b))"

lemma Unix_time_Unix [simp]: "Unix (time_Unix s) = s"
  by (simp add: Unix_def time_Unix_def second_def)

lemma time_Unix_Unix_le: "time_Unix (Unix t) \<le> t"
  unfolding Unix_def time_Unix_def second_def by linarith

lemma Unix_mono: "s \<le> t \<Longrightarrow> Unix s \<le> Unix t"
  by (simp add: Unix_def zdiv_mono1 second_def)

lemma less_time_Unix_iff: "t < time_Unix s \<longleftrightarrow> Unix t < s"
  unfolding Unix_def time_Unix_def second_def by arith

section \<open>Randomness and the clock\<close>

record environment =
  entropy :: "nat \<Rightarrow> (nat \<Rightarrow> char) option"
  draws :: nat
  clock :: "nat \<Rightarrow> time"
  ticks :: nat

definition rand_Read :: "nat \<Rightarrow> ('a environment_scheme, (char list) result) state" where
  "rand_Read n = State (\<lambda>w.
     (case entropy w (draws w) of
        None \<Rightarrow> Inl ''random source failed''
      | Some f \<Rightarrow> Inr (map f [0..<n]),
      w\<lparr>draws := Suc (draws w)\<rparr>))"

definition now :: "('a environment_scheme, time) state" where
  "now = State (\<lambda>w. (clock w (ticks w), w\<lparr>ticks := Suc (ticks w)\<rparr>))"

lemma run_now [simp]: "run now w = (clock w (ticks w), w\<lparr>ticks := Suc (ticks w)\<rparr>)"
  by (simp add: now_def)

lemma run_rand_Read [simp]:
  "run (rand_Read n) w =
     (case entropy w (draws w) of None \<Rightarrow> Inl ''random source failed'' | Some f \<Rightarrow> Inr (map f [0..<n]),
      w\<lparr>draws := Suc (draws w)\<rparr>)"
  by (simp add: rand_Read_def)

end
