(* ===== verification/GoCrypto.thy ===== *)
theory GoCrypto
  imports GoStrings "HOL-Library.Word"
begin

text \<open>
  The cryptographic parts of Go's library the program calls, as executable functions on byte
  strings: SHA-256, unpadded URL-safe base64, lower-case hex, and AES-256 in Galois/Counter mode
  with an empty associated text.  The lemmas give the lengths and alphabets of the outputs, the
  base64 round trip and the seal/open round trip of the AEAD.
\<close>

unbundle bit_operations_syntax

section \<open>SHA-256\<close>

type_synonym u32 = "32 word"

definition rotr32 :: "nat \<Rightarrow> u32 \<Rightarrow> u32" where
  "rotr32 n x = drop_bit n x OR push_bit (32 - n) x"

definition sha_K :: "u32 list" where
  "sha_K = [
   0x428a2f98, 0x71374491, 0xb5c0fbcf, 0xe9b5dba5, 0x3956c25b, 0x59f111f1, 0x923f82a4, 0xab1c5ed5,
   0xd807aa98, 0x12835b01, 0x243185be, 0x550c7dc3, 0x72be5d74, 0x80deb1fe, 0x9bdc06a7, 0xc19bf174,
   0xe49b69c1, 0xefbe4786, 0x0fc19dc6, 0x240ca1cc, 0x2de92c6f, 0x4a7484aa, 0x5cb0a9dc, 0x76f988da,
   0x983e5152, 0xa831c66d, 0xb00327c8, 0xbf597fc7, 0xc6e00bf3, 0xd5a79147, 0x06ca6351, 0x14292967,
   0x27b70a85, 0x2e1b2138, 0x4d2c6dfc, 0x53380d13, 0x650a7354, 0x766a0abb, 0x81c2c92e, 0x92722c85,
   0xa2bfe8a1, 0xa81a664b, 0xc24b8b70, 0xc76c51a3, 0xd192e819, 0xd6990624, 0xf40e3585, 0x106aa070,
   0x19a4c116, 0x1e376c08, 0x2748774c, 0x34b0bcb5, 0x391c0cb3, 0x4ed8aa4a, 0x5b9cca4f, 0x682e6ff3,
   0x748f82ee, 0x78a5636f, 0x84c87814, 0x8cc70208, 0x90befffa, 0xa4506ceb, 0xbef9a3f7, 0xc67178f2]"

definition sha_init :: "u32 list" where
  "sha_init = [
   0x6a09e667, 0xbb67ae85, 0x3c6ef372, 0xa54ff53a, 0x510e527f, 0x9b05688c, 0x1f83d9ab, 0x5be0cd19]"

definition small_sigma0 :: "u32 \<Rightarrow> u32" where
  "small_sigma0 x = rotr32 7 x XOR rotr32 18 x XOR drop_bit 3 x"

definition small_sigma1 :: "u32 \<Rightarrow> u32" where
  "small_sigma1 x = rotr32 17 x XOR rotr32 19 x XOR drop_bit 10 x"

definition big_sigma0 :: "u32 \<Rightarrow> u32" where
  "big_sigma0 x = rotr32 2 x XOR rotr32 13 x XOR rotr32 22 x"

definition big_sigma1 :: "u32 \<Rightarrow> u32" where
  "big_sigma1 x = rotr32 6 x XOR rotr32 11 x XOR rotr32 25 x"

text \<open>The message schedule, kept with the latest word first.\<close>

fun sha_extend :: "nat \<Rightarrow> u32 list \<Rightarrow> u32 list" where
  "sha_extend 0 ws = ws"
| "sha_extend (Suc n) ws =
     sha_extend n ((small_sigma1 (ws ! 1) + ws ! 6 + small_sigma0 (ws ! 14) + ws ! 15) # ws)"

fun sha_round :: "u32 list \<Rightarrow> u32 \<times> u32 \<Rightarrow> u32 list" where
  "sha_round [a, b, c, d, e, f, g, h] (k, w) =
     (let t1 = h + big_sigma1 e + ((e AND f) XOR (NOT e AND g)) + k + w;
          t2 = big_sigma0 a + ((a AND b) XOR (a AND c) XOR (b AND c))
      in [t1 + t2, a, b, c, d + t1, e, f, g])"
| "sha_round s _ = s"

definition sha_block :: "u32 list \<Rightarrow> u32 list \<Rightarrow> u32 list" where
  "sha_block st block =
     map2 (+) st (foldl sha_round st (zip sha_K (rev (sha_extend 48 (rev block)))))"

definition byte32 :: "char \<Rightarrow> u32" where
  "byte32 c = of_nat (ord c)"

fun be_words :: "char list \<Rightarrow> u32 list" where
  "be_words (a # b # c # d # s) =
     (push_bit 24 (byte32 a) OR push_bit 16 (byte32 b) OR push_bit 8 (byte32 c) OR byte32 d)
     # be_words s"
| "be_words _ = []"

definition low_byte :: "u32 \<Rightarrow> char" where
  "low_byte w = chr (unat (w AND 255))"

definition be_bytes :: "u32 \<Rightarrow> char list" where
  "be_bytes w = [low_byte (drop_bit 24 w), low_byte (drop_bit 16 w), low_byte (drop_bit 8 w), low_byte w]"

definition bit_length :: "char list \<Rightarrow> 64 word" where
  "bit_length m = of_nat (8 * length m)"

definition sha_pad :: "char list \<Rightarrow> char list" where
  "sha_pad m =
     m @ chr 128 # replicate ((119 - length m mod 64) mod 64) (chr 0) @
     be_bytes (ucast (drop_bit 32 (bit_length m))) @ be_bytes (ucast (bit_length m))"

function sha_blocks :: "u32 list \<Rightarrow> u32 list \<Rightarrow> u32 list" where
  "sha_blocks st ws =
     (if ws = [] then st else sha_blocks (sha_block st (take 16 ws)) (drop 16 ws))"
  by pat_completeness auto
termination by (relation "measure (\<lambda>(st, ws). length ws)") (auto simp: neq_Nil_conv)

declare sha_blocks.simps [simp del]

definition Sum256 :: "string \<Rightarrow> char list" where
  "Sum256 m = concat (map be_bytes (sha_blocks sha_init (be_words (sha_pad m))))"

lemma length_be_bytes [simp]: "length (be_bytes w) = 4"
  by (simp add: be_bytes_def)

lemma length_sha_round [simp]: "length (sha_round s x) = length s"
  by (cases "(s, x)" rule: sha_round.cases) (simp_all add: Let_def)

lemma length_foldl_sha_round [simp]: "length (foldl sha_round s xs) = length s"
  by (induction xs arbitrary: s) simp_all

lemma length_sha_block [simp]: "length (sha_block st b) = length st"
  by (simp add: sha_block_def)

lemma length_sha_blocks [simp]: "length (sha_blocks st ws) = length st"
proof (induction st ws rule: sha_blocks.induct)
  case (1 st ws)
  then show ?case by (subst sha_blocks.simps) simp
qed

lemma length_concat_be_bytes: "length (concat (map be_bytes ws)) = 4 * length ws"
  by (induction ws) simp_all

lemma length_Sum256 [simp]: "length (Sum256 m) = 32"
  by (simp add: Sum256_def length_concat_be_bytes sha_init_def)

section \<open>Unpadded URL-safe base64\<close>

definition b64_char :: "nat \<Rightarrow> char" where
  "b64_char n = (if n < 26 then chr (65 + n) else if n < 52 then chr (97 + (n - 26))
     else if n < 62 then chr (48 + (n - 52)) else if n = 62 then CHR ''-'' else CHR ''_'')"

definition b64_val :: "char \<Rightarrow> nat option" where
  "b64_val c = (let n = ord c in
     if 65 \<le> n \<and> n \<le> 90 then Some (n - 65) else if 97 \<le> n \<and> n \<le> 122 then Some (n - 71)
     else if 48 \<le> n \<and> n \<le> 57 then Some (n + 4)
     else if c = CHR ''-'' then Some 62 else if c = CHR ''_'' then Some 63 else None)"

fun b64_encode :: "char list \<Rightarrow> string" where
  "b64_encode [] = []"
| "b64_encode [a] = [b64_char (ord a div 4), b64_char (ord a mod 4 * 16)]"
| "b64_encode [a, b] =
     [b64_char (ord a div 4), b64_char (ord a mod 4 * 16 + ord b div 16), b64_char (ord b mod 16 * 4)]"
| "b64_encode (a # b # c # s) =
     b64_char (ord a div 4) # b64_char (ord a mod 4 * 16 + ord b div 16) #
     b64_char (ord b mod 16 * 4 + ord c div 64) # b64_char (ord c mod 64) # b64_encode s"

definition b64_byte0 :: "nat \<Rightarrow> nat \<Rightarrow> char" where
  "b64_byte0 p q = chr (p * 4 + q div 16)"

definition b64_byte1 :: "nat \<Rightarrow> nat \<Rightarrow> char" where
  "b64_byte1 q r = chr (q mod 16 * 16 + r div 4)"

definition b64_byte2 :: "nat \<Rightarrow> nat \<Rightarrow> char" where
  "b64_byte2 r t = chr (r mod 4 * 64 + t)"

text \<open>The decoder ignores the bits a final short group leaves over; a group of one is an error.\<close>

fun b64_quanta :: "nat list \<Rightarrow> (char list) option" where
  "b64_quanta [] = Some []"
| "b64_quanta [p] = None"
| "b64_quanta [p, q] = Some [b64_byte0 p q]"
| "b64_quanta [p, q, r] = Some [b64_byte0 p q, b64_byte1 q r]"
| "b64_quanta (p # q # r # t # s) =
     map_option (\<lambda>bs. b64_byte0 p q # b64_byte1 q r # b64_byte2 r t # bs) (b64_quanta s)"

text \<open>Carriage returns and newlines are skipped, any other foreign byte is an error.\<close>

definition RawURLDecode :: "string \<Rightarrow> (char list) option" where
  "RawURLDecode s =
     (let vs = map b64_val (filter (\<lambda>c. c \<noteq> chr 10 \<and> c \<noteq> chr 13) s)
      in if None \<in> set vs then None else b64_quanta (map the vs))"

abbreviation RawURLEncode :: "char list \<Rightarrow> string" where
  "RawURLEncode \<equiv> b64_encode"

lemma b64_val_char: "n < 64 \<Longrightarrow> b64_val (b64_char n) = Some n"
  by (simp add: b64_char_def b64_val_def Let_def) auto

lemma b64_char_not_newline: "n < 64 \<Longrightarrow> b64_char n \<noteq> chr 10 \<and> b64_char n \<noteq> chr 13"
proof -
  assume n: "n < 64"
  have "b64_val (chr 10) = None" and "b64_val (chr 13) = None"
    by (simp_all add: b64_val_def char_of_def)
  with b64_val_char [OF n] show ?thesis by auto
qed

fun sextets :: "char list \<Rightarrow> nat list" where
  "sextets [] = []"
| "sextets [a] = [ord a div 4, ord a mod 4 * 16]"
| "sextets [a, b] = [ord a div 4, ord a mod 4 * 16 + ord b div 16, ord b mod 16 * 4]"
| "sextets (a # b # c # s) =
     [ord a div 4, ord a mod 4 * 16 + ord b div 16, ord b mod 16 * 4 + ord c div 64, ord c mod 64]
     @ sextets s"

lemma b64_encode_sextets: "b64_encode s = map b64_char (sextets s)"
  by (induction s rule: b64_encode.induct) simp_all

lemma ord_less: "ord (c :: char) < 256"
  by simp

lemma sextet_bounds:
  fixes a b c :: char
  shows "ord a div 4 < 64" and "ord a mod 4 * 16 < 64" and "ord a mod 4 * 16 + ord b div 16 < 64"
    and "ord b mod 16 * 4 < 64" and "ord b mod 16 * 4 + ord c div 64 < 64"
  using ord_less [of a] ord_less [of b] ord_less [of c] by linarith+

lemma sextets_less: "v \<in> set (sextets s) \<Longrightarrow> v < 64"
  by (induction s rule: sextets.induct) (auto intro: sextet_bounds)

lemma b64_bytes_back:
  fixes a b c :: char
  shows "b64_byte0 (ord a div 4) (ord a mod 4 * 16) = a"
    and "b64_byte0 (ord a div 4) (ord a mod 4 * 16 + ord b div 16) = a"
    and "b64_byte1 (ord a mod 4 * 16 + ord b div 16) (ord b mod 16 * 4) = b"
    and "b64_byte1 (ord a mod 4 * 16 + ord b div 16) (ord b mod 16 * 4 + ord c div 64) = b"
    and "b64_byte2 (ord b mod 16 * 4 + ord c div 64) (ord c mod 64) = c"
proof -
  have d: "ord b div 16 < 16" "ord c div 64 < 4"
    using ord_less [of b] ord_less [of c] by linarith+
  have "ord a div 4 * 4 + (ord a mod 4 * 16) div 16 = ord a" by simp
  then show "b64_byte0 (ord a div 4) (ord a mod 4 * 16) = a" by (simp add: b64_byte0_def)
  have "(ord a mod 4 * 16 + ord b div 16) div 16 = ord a mod 4" using d by simp
  then show "b64_byte0 (ord a div 4) (ord a mod 4 * 16 + ord b div 16) = a"
    by (simp add: b64_byte0_def)
  have q: "(ord a mod 4 * 16 + ord b div 16) mod 16 = ord b div 16"
    using d by (metis add.commute mod_less mod_mult_self1 mult.commute)
  have "ord b div 16 * 16 + ord b mod 16 * 4 div 4 = ord b" by simp
  then show "b64_byte1 (ord a mod 4 * 16 + ord b div 16) (ord b mod 16 * 4) = b"
    using d by (simp add: b64_byte1_def q)
  have "(ord b mod 16 * 4 + ord c div 64) div 4 = ord b mod 16" using d by simp
  then show "b64_byte1 (ord a mod 4 * 16 + ord b div 16) (ord b mod 16 * 4 + ord c div 64) = b"
    using d by (simp add: b64_byte1_def q)
  have "(ord b mod 16 * 4 + ord c div 64) mod 4 = ord c div 64"
    using d by (metis add.commute mod_less mod_mult_self1 mult.commute)
  then show "b64_byte2 (ord b mod 16 * 4 + ord c div 64) (ord c mod 64) = c"
    by (simp add: b64_byte2_def)
qed

lemma b64_quanta_sextets: "b64_quanta (sextets s) = Some s"
  by (induction s rule: sextets.induct) (simp_all add: b64_bytes_back)

lemma RawURLDecode_encode: "RawURLDecode (RawURLEncode s) = Some s"
proof -
  have f: "filter (\<lambda>c. c \<noteq> chr 10 \<and> c \<noteq> chr 13) (b64_encode s) = b64_encode s"
    by (auto simp: filter_id_conv b64_encode_sextets dest!: sextets_less b64_char_not_newline)
  have v: "map b64_val (b64_encode s) = map Some (sextets s)"
    by (auto simp: b64_encode_sextets intro: b64_val_char sextets_less)
  show ?thesis
    unfolding RawURLDecode_def f v Let_def by (simp add: b64_quanta_sextets comp_def)
qed

lemma length_b64_encode: "length (b64_encode s) = (4 * length s + 2) div 3"
  by (induction s rule: b64_encode.induct) simp_all

definition b64_alphabet :: "char \<Rightarrow> bool" where
  "b64_alphabet c \<longleftrightarrow> (65 \<le> ord c \<and> ord c \<le> 90) \<or> (97 \<le> ord c \<and> ord c \<le> 122) \<or>
     (48 \<le> ord c \<and> ord c \<le> 57) \<or> c = CHR ''-'' \<or> c = CHR ''_''"

lemma b64_char_alphabet: "n < 64 \<Longrightarrow> b64_alphabet (b64_char n)"
  using b64_val_char [of n] by (auto simp: b64_val_def b64_alphabet_def Let_def split: if_splits)

lemma b64_encode_alphabet: "list_all b64_alphabet (b64_encode s)"
  by (auto simp: list_all_iff b64_encode_sextets intro: b64_char_alphabet sextets_less)

lemma b64_encode_inj: "b64_encode s = b64_encode t \<Longrightarrow> s = t"
  by (metis RawURLDecode_encode option.inject)

section \<open>Hexadecimal\<close>

definition hex_digit :: "nat \<Rightarrow> char" where
  "hex_digit n = (if n < 10 then chr (48 + n) else chr (87 + n))"

definition hex_lower :: "char list \<Rightarrow> string" where
  "hex_lower bs = concat (map (\<lambda>b. [hex_digit (ord b div 16), hex_digit (ord b mod 16)]) bs)"

lemma length_hex_lower: "length (hex_lower bs) = 2 * length bs"
  by (induction bs) (simp_all add: hex_lower_def)

section \<open>AES-256\<close>

type_synonym u8 = "8 word"

definition sbox :: "u8 list" where
  "sbox = [
   0x63, 0x7c, 0x77, 0x7b, 0xf2, 0x6b, 0x6f, 0xc5, 0x30, 0x01, 0x67, 0x2b, 0xfe, 0xd7, 0xab, 0x76,
   0xca, 0x82, 0xc9, 0x7d, 0xfa, 0x59, 0x47, 0xf0, 0xad, 0xd4, 0xa2, 0xaf, 0x9c, 0xa4, 0x72, 0xc0,
   0xb7, 0xfd, 0x93, 0x26, 0x36, 0x3f, 0xf7, 0xcc, 0x34, 0xa5, 0xe5, 0xf1, 0x71, 0xd8, 0x31, 0x15,
   0x04, 0xc7, 0x23, 0xc3, 0x18, 0x96, 0x05, 0x9a, 0x07, 0x12, 0x80, 0xe2, 0xeb, 0x27, 0xb2, 0x75,
   0x09, 0x83, 0x2c, 0x1a, 0x1b, 0x6e, 0x5a, 0xa0, 0x52, 0x3b, 0xd6, 0xb3, 0x29, 0xe3, 0x2f, 0x84,
   0x53, 0xd1, 0x00, 0xed, 0x20, 0xfc, 0xb1, 0x5b, 0x6a, 0xcb, 0xbe, 0x39, 0x4a, 0x4c, 0x58, 0xcf,
   0xd0, 0xef, 0xaa, 0xfb, 0x43, 0x4d, 0x33, 0x85, 0x45, 0xf9, 0x02, 0x7f, 0x50, 0x3c, 0x9f, 0xa8,
   0x51, 0xa3, 0x40, 0x8f, 0x92, 0x9d, 0x38, 0xf5, 0xbc, 0xb6, 0xda, 0x21, 0x10, 0xff, 0xf3, 0xd2,
   0xcd, 0x0c, 0x13, 0xec, 0x5f, 0x97, 0x44, 0x17, 0xc4, 0xa7, 0x7e, 0x3d, 0x64, 0x5d, 0x19, 0x73,
   0x60, 0x81, 0x4f, 0xdc, 0x22, 0x2a, 0x90, 0x88, 0x46, 0xee, 0xb8, 0x14, 0xde, 0x5e, 0x0b, 0xdb,
   0xe0, 0x32, 0x3a, 0x0a, 0x49, 0x06, 0x24, 0x5c, 0xc2, 0xd3, 0xac, 0x62, 0x91, 0x95, 0xe4, 0x79,
   0xe7, 0xc8, 0x37, 0x6d, 0x8d, 0xd5, 0x4e, 0xa9, 0x6c, 0x56, 0xf4, 0xea, 0x65, 0x7a, 0xae, 0x08,
   0xba, 0x78, 0x25, 0x2e, 0x1c, 0xa6, 0xb4, 0xc6, 0xe8, 0xdd, 0x74, 0x1f, 0x4b, 0xbd, 0x8b, 0x8a,
   0x70, 0x3e, 0xb5, 0x66, 0x48, 0x03, 0xf6, 0x0e, 0x61, 0x35, 0x57, 0xb9, 0x86, 0xc1, 0x1d, 0x9e,
   0xe1, 0xf8, 0x98, 0x11, 0x69, 0xd9, 0x8e, 0x94, 0x9b, 0x1e, 0x87, 0xe9, 0xce, 0x55, 0x28, 0xdf,
   0x8c, 0xa1, 0x89, 0x0d, 0xbf, 0xe6, 0x42, 0x68, 0x41, 0x99, 0x2d, 0x0f, 0xb0, 0x54, 0xbb, 0x16]"

definition sub_byte :: "u8 \<Rightarrow> u8" where
  "sub_byte b = sbox ! unat b"

definition xtime :: "u8 \<Rightarrow> u8" where
  "xtime b = (if bit b 7 then push_bit 1 b XOR 0x1b else push_bit 1 b)"

fun rcon :: "nat \<Rightarrow> u8" where
  "rcon 0 = 1"
| "rcon (Suc n) = xtime (rcon n)"

text \<open>Key expansion on 4-byte words, the latest word first; \<open>i\<close> counts the words made so far.\<close>

definition next_key_word :: "nat \<Rightarrow> u8 list list \<Rightarrow> u8 list" where
  "next_key_word i ws =
     (let t = hd ws;
          t' = (if i mod 8 = 0 then
                  map2 (XOR) (map sub_byte (tl t @ [hd t])) [rcon (i div 8 - 1), 0, 0, 0]
                else if i mod 8 = 4 then map sub_byte t else t)
      in map2 (XOR) (ws ! 7) t')"

fun expand_key :: "nat \<Rightarrow> nat \<Rightarrow> u8 list list \<Rightarrow> u8 list list" where
  "expand_key 0 i ws = ws"
| "expand_key (Suc n) i ws = expand_key n (Suc i) (next_key_word i ws # ws)"

fun group4 :: "'a list \<Rightarrow> 'a list list" where
  "group4 (a # b # c # d # s) = [a, b, c, d] # group4 s"
| "group4 _ = []"

definition round_key :: "u8 list list \<Rightarrow> nat \<Rightarrow> u8 list" where
  "round_key ks r = concat (take 4 (drop (4 * r) ks))"

definition shift_rows :: "u8 list \<Rightarrow> u8 list" where
  "shift_rows s = map (\<lambda>i. s ! i) [0, 5, 10, 15, 4, 9, 14, 3, 8, 13, 2, 7, 12, 1, 6, 11]"

definition mix_column :: "u8 list \<Rightarrow> u8 list" where
  "mix_column c = (let a = c ! 0; b = c ! 1; d = c ! 2; e = c ! 3 in
     [xtime a XOR (xtime b XOR b) XOR d XOR e, a XOR xtime b XOR (xtime d XOR d) XOR e,
      a XOR b XOR xtime d XOR (xtime e XOR e), (xtime a XOR a) XOR b XOR d XOR xtime e])"

definition mix_columns :: "u8 list \<Rightarrow> u8 list" where
  "mix_columns s = concat (map mix_column (group4 s))"

definition add_round_key :: "u8 list \<Rightarrow> u8 list \<Rightarrow> u8 list" where
  "add_round_key k s = map (\<lambda>i. s ! i XOR k ! i) [0..<16]"

definition aes_round :: "u8 list list \<Rightarrow> u8 list \<Rightarrow> nat \<Rightarrow> u8 list" where
  "aes_round ks s r = add_round_key (round_key ks r) (mix_columns (shift_rows (map sub_byte s)))"

definition aes256 :: "u8 list \<Rightarrow> u8 list \<Rightarrow> u8 list" where
  "aes256 key block =
     (let ks = rev (expand_key 52 8 (rev (group4 key)));
          s = foldl (aes_round ks) (add_round_key (round_key ks 0) block) [1..<14]
      in add_round_key (round_key ks 14) (shift_rows (map sub_byte s)))"

lemma length_aes256 [simp]: "length (aes256 k b) = 16"
  by (simp add: aes256_def add_round_key_def Let_def)

section \<open>Galois/Counter mode\<close>

type_synonym u128 = "128 word"

definition byte_word :: "char \<Rightarrow> u8" where
  "byte_word c = of_nat (ord c)"

definition word_byte :: "u8 \<Rightarrow> char" where
  "word_byte w = chr (unat w)"

lemma word_byte_word [simp]: "word_byte (byte_word c) = c"
  by (simp add: word_byte_def byte_word_def unat_of_nat)

lemma byte_word_byte [simp]: "byte_word (word_byte w) = w"
proof -
  have "unat w < 256" using unsigned_less [of w] by simp
  then show ?thesis by (simp add: word_byte_def byte_word_def)
qed

definition block_word :: "u8 list \<Rightarrow> u128" where
  "block_word bs = foldl (\<lambda>a b. push_bit 8 a OR ucast b) 0 bs"

definition word_block :: "u128 \<Rightarrow> u8 list" where
  "word_block w = map (\<lambda>i. ucast (drop_bit (8 * (15 - i)) w)) [0..<16]"

fun gf_mult :: "nat \<Rightarrow> u128 \<Rightarrow> u128 \<Rightarrow> u128 \<Rightarrow> u128" where
  "gf_mult 0 x v z = z"
| "gf_mult (Suc n) x v z =
     gf_mult n x (if bit v 0 then drop_bit 1 v XOR 0xe1000000000000000000000000000000 else drop_bit 1 v)
       (if bit x n then z XOR v else z)"

definition gf_mul :: "u128 \<Rightarrow> u128 \<Rightarrow> u128" where
  "gf_mul x y = gf_mult 128 x y 0"

function pad_blocks :: "u8 list \<Rightarrow> u128 list" where
  "pad_blocks s =
     (if s = [] then []
      else block_word (take 16 s @ replicate (16 - length s) 0) # pad_blocks (drop 16 s))"
  by pat_completeness auto
termination by (relation "measure length") (auto simp: neq_Nil_conv)

declare pad_blocks.simps [simp del]

definition ghash :: "u128 \<Rightarrow> u8 list \<Rightarrow> u128" where
  "ghash h ct = foldl (\<lambda>y b. gf_mul (y XOR b) h) 0 (pad_blocks ct @ [of_nat (8 * length ct)])"

text \<open>The counter block \<open>i\<close> of a 12-byte nonce; number 1 masks the tag, the data start at 2.\<close>

definition counter_block :: "u8 list \<Rightarrow> nat \<Rightarrow> u8 list" where
  "counter_block nonce i = nonce @ map byte_word (be_bytes (of_nat i))"

definition key_stream :: "u8 list \<Rightarrow> u8 list \<Rightarrow> nat \<Rightarrow> u8 list" where
  "key_stream key nonce n =
     take n (concat (map (\<lambda>i. aes256 key (counter_block nonce (i + 2))) [0..<(n + 15) div 16]))"

definition gcm_crypt :: "u8 list \<Rightarrow> u8 list \<Rightarrow> u8 list \<Rightarrow> u8 list" where
  "gcm_crypt key nonce s = map2 (XOR) s (key_stream key nonce (length s))"

definition gcm_tag :: "u8 list \<Rightarrow> u8 list \<Rightarrow> u8 list \<Rightarrow> u8 list" where
  "gcm_tag key nonce ct =
     word_block (ghash (block_word (aes256 key (replicate 16 0))) ct XOR
                 block_word (aes256 key (counter_block nonce 1)))"

definition NonceSize :: nat where
  "NonceSize = 12"

definition tag_size :: nat where
  "tag_size = 16"

definition gcm_Seal :: "u8 list \<Rightarrow> u8 list \<Rightarrow> u8 list \<Rightarrow> u8 list" where
  "gcm_Seal key nonce pt = (let ct = gcm_crypt key nonce pt in ct @ gcm_tag key nonce ct)"

definition gcm_Open :: "u8 list \<Rightarrow> u8 list \<Rightarrow> u8 list \<Rightarrow> (u8 list) option" where
  "gcm_Open key nonce s =
     (if length s < tag_size then None
      else (let ct = take (length s - tag_size) s; tag = drop (length s - tag_size) s
            in if gcm_tag key nonce ct = tag then Some (gcm_crypt key nonce ct) else None))"

lemma length_concat_blocks:
  "length (concat (map (\<lambda>i. aes256 key (counter_block nonce (i + 2))) ns)) = 16 * length ns"
  by (induction ns) simp_all

lemma length_key_stream [simp]: "length (key_stream key nonce n) = n"
proof -
  have "n \<le> 16 * ((n + 15) div 16)" by linarith
  then show ?thesis
    using length_concat_blocks [of key nonce "[0..<(n + 15) div 16]"] by (simp add: key_stream_def)
qed

lemma length_gcm_crypt [simp]: "length (gcm_crypt key nonce s) = length s"
  by (simp add: gcm_crypt_def)

lemma length_gcm_tag [simp]: "length (gcm_tag key nonce s) = tag_size"
  by (simp add: gcm_tag_def word_block_def tag_size_def)

lemma map2_xor_cancel:
  fixes s k :: "u8 list"
  shows "length s = length k \<Longrightarrow> map2 (XOR) (map2 (XOR) s k) k = s"
  by (induction s k rule: list_induct2) (simp_all add: xor.assoc)

lemma gcm_crypt_twice: "gcm_crypt key nonce (gcm_crypt key nonce s) = s"
  by (simp add: gcm_crypt_def map2_xor_cancel)

lemma gcm_Open_Seal: "gcm_Open key nonce (gcm_Seal key nonce pt) = Some pt"
  by (simp add: gcm_Open_def gcm_Seal_def Let_def gcm_crypt_twice)

lemma gcm_Open_Some:
  assumes "gcm_Open key nonce s = Some pt" shows "s = gcm_Seal key nonce pt"
proof -
  let ?ct = "take (length s - tag_size) s"
  have "gcm_tag key nonce ?ct = drop (length s - tag_size) s" "gcm_crypt key nonce ?ct = pt"
    using assms by (auto simp: gcm_Open_def Let_def split: if_splits)
  then have "gcm_Seal key nonce pt = ?ct @ drop (length s - tag_size) s"
    by (metis gcm_Seal_def gcm_crypt_twice)
  then show ?thesis by simp
qed

end
