(* ===== verification/Security.thy ===== *)
theory Security
  imports Environment GoCrypto GoURL
begin

text \<open>
  The package \<open>internal/security\<close>: random and hashed tokens, sealed values, constant-time
  comparison, PKCE, and the checks of URLs and redirect URIs.  Errors are values; the unit result
  stands for Go's single \<open>error\<close> return, where \<open>Inr ()\<close> is \<open>nil\<close>.
\<close>

section \<open>Tokens and sealed values\<close>

definition tokenBytes :: nat where
  "tokenBytes = 32"

definition RandomToken :: "('a environment_scheme, string result) state" where
  "RandomToken = do {
     r \<leftarrow> rand_Read tokenBytes;
     return (map_result RawURLEncode r)
   }"

definition HashToken :: "string \<Rightarrow> string" where
  "HashToken token = RawURLEncode (Sum256 token)"

definition cipher_key :: "string \<Rightarrow> u8 list" where
  "cipher_key secret = map byte_word (Sum256 secret)"

definition Seal :: "string \<Rightarrow> string \<Rightarrow> ('a environment_scheme, string result) state" where
  "Seal secret plaintext = do {
     r \<leftarrow> rand_Read NonceSize;
     return (map_result (\<lambda>nonce. RawURLEncode (nonce @ map word_byte
       (gcm_Seal (cipher_key secret) (map byte_word nonce) (map byte_word plaintext)))) r)
   }"

definition Open :: "string \<Rightarrow> string \<Rightarrow> string result" where
  "Open secret value =
     (case RawURLDecode value of
        None \<Rightarrow> Inl ''invalid sealed value''
      | Some sealed \<Rightarrow>
          if length sealed < NonceSize then Inl ''invalid sealed value''
          else (case gcm_Open (cipher_key secret) (map byte_word (take NonceSize sealed))
                       (map byte_word (drop NonceSize sealed)) of
                  None \<Rightarrow> Inl ''invalid sealed value''
                | Some plaintext \<Rightarrow> Inr (map word_byte plaintext)))"

section \<open>Comparison and PKCE\<close>

text \<open>\<open>subtle.ConstantTimeCompare\<close> accumulates the differing bits of all byte pairs.\<close>

definition ConstantTimeCompare :: "string \<Rightarrow> string \<Rightarrow> bool" where
  "ConstantTimeCompare a b \<longleftrightarrow>
     foldl (\<lambda>v (x, y). v OR (byte_word x XOR byte_word y)) 0 (zip a b) = 0"

definition ConstantTimeEqual :: "string \<Rightarrow> string \<Rightarrow> bool" where
  "ConstantTimeEqual a b \<longleftrightarrow> (if length a \<noteq> length b then False else ConstantTimeCompare a b)"

definition VerifyPKCES256 :: "string \<Rightarrow> string \<Rightarrow> bool" where
  "VerifyPKCES256 verifier challenge =
     (if verifier = [] \<or> challenge = [] then False
      else ConstantTimeEqual (RawURLEncode (Sum256 verifier)) challenge)"

definition challenge_rune :: "rune \<Rightarrow> bool" where
  "challenge_rune r \<longleftrightarrow> (65 \<le> r \<and> r \<le> 90) \<or> (97 \<le> r \<and> r \<le> 122) \<or> (48 \<le> r \<and> r \<le> 57) \<or>
     r = ord (CHR ''-'') \<or> r = ord (CHR ''.'') \<or> r = ord (CHR ''_'') \<or> r = ord (CHR ''~'')"

definition ValidateCodeChallenge :: "string \<Rightarrow> string \<Rightarrow> unit result" where
  "ValidateCodeChallenge challenge method =
     (if challenge = [] then Inl ''code_challenge is required''
      else if method \<noteq> ''S256'' then Inl ''code_challenge_method must be S256''
      else if length challenge < 43 \<or> length challenge > 128 then Inl ''code_challenge length is invalid''
      else if \<not> list_all challenge_rune (runes challenge) then Inl ''code_challenge contains invalid characters''
      else Inr ())"

section \<open>URLs and redirect URIs\<close>

definition CanonicalURL :: "unicode_tables \<Rightarrow> string \<Rightarrow> string result" where
  "CanonicalURL U raw = bind_result (Parse U raw) (\<lambda>u.
     if url_Scheme u = [] \<or> url_Host u = [] then Inl ''url must be absolute''
     else Inr (URL_String (u\<lparr>url_Scheme := ToLower U (url_Scheme u), url_Host := ToLower U (url_Host u),
       url_Fragment := [], url_Path := (if url_Path u = [] then ''/'' else url_Path u)\<rparr>)))"

definition ValidateHTTPSURL :: "unicode_tables \<Rightarrow> string \<Rightarrow> bool \<Rightarrow> URL result" where
  "ValidateHTTPSURL U raw allowHTTP = bind_result (Parse U raw) (\<lambda>u.
     if url_Scheme u = [] \<or> url_Host u = [] then Inl ''url must be absolute''
     else if url_User u \<noteq> None then Inl ''url must not include userinfo''
     else if url_Scheme u = ''http'' \<and> \<not> allowHTTP then Inl ''http is only allowed in dev mode''
     else if url_Scheme u \<noteq> ''https'' \<and> url_Scheme u \<noteq> ''http'' then Inl ''url must use https''
     else if Hostname u = [] \<or> ContainsAny (Hostname u) [CHR '' '', chr 9, chr 13, chr 10]
     then Inl ''url host is invalid''
     else Inr u)"

definition JoinHostPort :: "string \<Rightarrow> string \<Rightarrow> string" where
  "JoinHostPort host port =
     (if contains_byte (CHR '':'') host then ''['' @ host @ '']:'' @ port else host @ '':'' @ port)"

definition normalizedHostPort :: "unicode_tables \<Rightarrow> URL \<Rightarrow> string" where
  "normalizedHostPort U u =
     (let host = ToLower U (Hostname u);
          port = (if Port u = [] then
                    (if url_Scheme u = ''https'' then ''443'' else if url_Scheme u = ''http'' then ''80''
                     else Port u)
                  else Port u)
      in JoinHostPort host port)"

definition SameOrigin :: "unicode_tables \<Rightarrow> URL \<Rightarrow> URL \<Rightarrow> bool" where
  "SameOrigin U a b \<longleftrightarrow> EqualFold U (url_Scheme a) (url_Scheme b) \<and>
     EqualFold U (normalizedHostPort U a) (normalizedHostPort U b)"

definition ValidateRedirectURI :: "unicode_tables \<Rightarrow> string \<Rightarrow> string \<Rightarrow> bool \<Rightarrow> unit result" where
  "ValidateRedirectURI U clientID redirectURI allowHTTP =
     (case ValidateHTTPSURL U clientID allowHTTP of
        Inl e \<Rightarrow> Inl (''client_id: '' @ e)
      | Inr client \<Rightarrow>
          (case ValidateHTTPSURL U redirectURI allowHTTP of
             Inl e \<Rightarrow> Inl (''redirect_uri: '' @ e)
           | Inr redirect \<Rightarrow>
               if url_Fragment redirect \<noteq> [] then Inl ''redirect_uri must not contain a fragment''
               else if \<not> SameOrigin U client redirect
               then Inl ''redirect_uri must have the same origin as client_id''
               else Inr ()))"

section \<open>Facts about tokens\<close>

lemma length_HashToken [simp]: "length (HashToken t) = 43"
  by (simp add: HashToken_def length_b64_encode)

lemma HashToken_not_empty [simp]: "HashToken t \<noteq> []"
  using length_HashToken [of t] by (metis list.size(3) zero_neq_numeral)

lemma HashToken_alphabet: "list_all b64_alphabet (HashToken t)"
  by (simp add: HashToken_def b64_encode_alphabet)

lemma map_byte_word_inj: "map byte_word s = map byte_word t \<longleftrightarrow> s = t"
  by (metis (mono_tags, lifting) list.inj_map_strong word_byte_word)

lemma map_word_byte_word [simp]: "map word_byte (map byte_word s) = s"
  by (simp add: comp_def)

lemma map_byte_word_byte [simp]: "map byte_word (map word_byte s) = s"
  by (simp add: comp_def)

lemma xor_eq_0_word: "(x :: u8) XOR y = 0 \<longleftrightarrow> x = y"
  by (auto simp: bit_eq_iff bit_xor_iff)

lemma foldl_or_zero:
  fixes v :: u8
  shows "foldl (\<lambda>v (x, y). v OR (byte_word x XOR byte_word y)) v ps = 0 \<longleftrightarrow>
    v = 0 \<and> (\<forall>(x, y) \<in> set ps. byte_word x = byte_word y)"
  by (induction ps arbitrary: v) (auto simp: or_eq_0_iff xor_eq_0_word)

lemma ConstantTimeCompare_iff:
  assumes "length a = length b"
  shows "ConstantTimeCompare a b \<longleftrightarrow> a = b"
proof -
  have "(\<forall>(x, y) \<in> set (zip a b). byte_word x = byte_word y) \<longleftrightarrow> a = b"
    using assms by (induction a b rule: list_induct2) (auto, metis word_byte_word)
  then show ?thesis by (simp add: ConstantTimeCompare_def foldl_or_zero)
qed

lemma ConstantTimeEqual_iff [simp]: "ConstantTimeEqual a b \<longleftrightarrow> a = b"
  by (auto simp: ConstantTimeEqual_def ConstantTimeCompare_iff)

lemma VerifyPKCES256_iff: "VerifyPKCES256 v c \<longleftrightarrow> v \<noteq> [] \<and> c = HashToken v"
  using HashToken_not_empty [of v]
  by (auto simp: VerifyPKCES256_def HashToken_def [symmetric] simp del: HashToken_not_empty)

lemma b64_alphabet_ascii: "b64_alphabet c \<Longrightarrow> ascii_char c"
  by (auto simp: b64_alphabet_def ascii_char_def)

lemma b64_alphabet_rune: "b64_alphabet c \<Longrightarrow> challenge_rune (ord c)"
  by (auto simp: b64_alphabet_def challenge_rune_def)

lemma ascii_HashToken [simp]: "ascii (HashToken t)"
  using HashToken_alphabet [of t] by (auto simp: ascii_def list_all_iff intro: b64_alphabet_ascii)

lemma HashToken_challenge: "ValidateCodeChallenge (HashToken v) ''S256'' = Inr ()"
  using HashToken_alphabet [of v]
  by (auto simp: ValidateCodeChallenge_def runes_ascii list_all_iff intro: b64_alphabet_rune)

lemma Open_sealed:
  assumes "length nonce = NonceSize"
  shows "Open secret (RawURLEncode (nonce @ map word_byte
    (gcm_Seal (cipher_key secret) (map byte_word nonce) (map byte_word pt)))) = Inr pt"
  using assms by (simp add: Open_def RawURLDecode_encode gcm_Open_Seal del: map_map)

lemma Open_ok:
  assumes "Open secret value = Inr pt"
  obtains nonce where "length nonce = NonceSize"
    and "RawURLDecode value = Some (nonce @ map word_byte
      (gcm_Seal (cipher_key secret) (map byte_word nonce) (map byte_word pt)))"
proof -
  from assms obtain sealed p where d: "RawURLDecode value = Some sealed"
    and l: "\<not> length sealed < NonceSize"
    and g: "gcm_Open (cipher_key secret) (map byte_word (take NonceSize sealed))
        (map byte_word (drop NonceSize sealed)) = Some p"
    and pt: "pt = map word_byte p"
    by (auto simp: Open_def split: option.splits if_splits)
  have "map word_byte (map byte_word (drop NonceSize sealed)) =
      map word_byte (gcm_Seal (cipher_key secret) (map byte_word (take NonceSize sealed)) (map byte_word pt))"
    using gcm_Open_Some [OF g] pt by (simp only: map_byte_word_byte)
  then have "sealed = take NonceSize sealed @ map word_byte
      (gcm_Seal (cipher_key secret) (map byte_word (take NonceSize sealed)) (map byte_word pt))"
    by (metis append_take_drop_id map_word_byte_word)
  with d l show ?thesis by (intro that [of "take NonceSize sealed"]) auto
qed

section \<open>Facts about URLs\<close>

lemma ValidateHTTPSURL_ok:
  "ValidateHTTPSURL U raw allow = Inr u \<longleftrightarrow>
     Parse U raw = Inr u \<and> url_Host u \<noteq> [] \<and> url_User u = None \<and>
     (url_Scheme u = ''https'' \<or> (url_Scheme u = ''http'' \<and> allow)) \<and>
     Hostname u \<noteq> [] \<and> \<not> ContainsAny (Hostname u) [CHR '' '', chr 9, chr 13, chr 10]"
proof (cases "Parse U raw")
  case (Inl e)
  then show ?thesis by (simp add: ValidateHTTPSURL_def)
next
  case (Inr v)
  show ?thesis
    unfolding ValidateHTTPSURL_def Inr bind_result.simps by (intro iffI; force split: if_splits)
qed

lemma EqualFold_length: "EqualFold U s t \<Longrightarrow> length (runes s) = length (runes t)"
  by (simp add: EqualFold_def list_all2_lengthD)

lemma http_https_differ: "\<not> EqualFold U ''https'' ''http''" "\<not> EqualFold U ''http'' ''https''"
  by (auto dest!: EqualFold_length simp: runes_ascii ascii_char_def)

lemma SameOrigin_schemes:
  assumes "SameOrigin U a b" and "url_Scheme a \<in> {''https'', ''http''}" "url_Scheme b \<in> {''https'', ''http''}"
  shows "url_Scheme a = url_Scheme b"
proof -
  have "EqualFold U (url_Scheme a) (url_Scheme b)" using assms(1) by (simp add: SameOrigin_def)
  with assms(2,3) http_https_differ show ?thesis by (metis empty_iff insert_iff)
qed

lemma ValidateRedirectURI_ok:
  "ValidateRedirectURI U clientID redirectURI allow = Inr () \<longleftrightarrow>
     (\<exists>client redirect. ValidateHTTPSURL U clientID allow = Inr client \<and>
        ValidateHTTPSURL U redirectURI allow = Inr redirect \<and> url_Fragment redirect = [] \<and>
        SameOrigin U client redirect)"
  by (auto simp: ValidateRedirectURI_def split: sum.splits if_splits)

end
