(* ===== verification/JsonRoundTrip.thy ===== *)
theory JsonRoundTrip
  imports GoJson
begin

text \<open>
  Printing a JSON value and reading the text back gives the value: first for strings, whose bytes
  are well-formed UTF-8 (others are replaced by Go), then for whole values.
\<close>

section \<open>Strings\<close>

definition bad_chunk :: "rune \<times> char list \<Rightarrow> bool" where
  "bad_chunk p \<longleftrightarrow> fst p = rune_error \<and> length (snd p) = 1"

definition valid_utf8 :: "string \<Rightarrow> bool" where
  "valid_utf8 s \<longleftrightarrow> list_all (\<lambda>p. \<not> bad_chunk p) (chunks s)"

lemma ord_bound: "ord (c :: char) < 256" by simp

lemma chr_eqI: "n = ord c \<Longrightarrow> chr n = c" by simp

lemma digits64:
  fixes x t :: nat
  assumes "t < 64" shows "(x * 64 + t) mod 64 = t" and "(x * 64 + t) div 64 = x"
  using assms by auto

lemma digits64_3:
  fixes p q t :: nat
  assumes "q < 64" "t < 64" and r: "r = p * 4096 + q * 64 + t"
  shows "r div 4096 = p" "r div 64 mod 64 = q" "r mod 64 = t"
proof -
  have r2: "r = (p * 64 + q) * 64 + t" using r by simp
  have "r div 4096 = r div 64 div 64" by (simp add: div_mult2_eq [symmetric])
  then show "r div 4096 = p" unfolding r2 by (simp only: digits64 assms)
  show "r div 64 mod 64 = q" "r mod 64 = t" unfolding r2 by (simp_all only: digits64 assms)
qed

lemma decode2_ok:
  assumes "decode2 c cs = (r, n)" "\<not> (r = rune_error \<and> n = 1)" "194 \<le> ord c" "ord c < 224"
  shows "\<exists>c1 cs'. cs = c1 # cs' \<and> n = 2 \<and> 128 \<le> r \<and> encode_rune r = [c, c1] \<and>
     (\<forall>x. decode2 c (c1 # x) = (r, n))"
proof -
  from assms obtain c1 cs' where cs: "cs = c1 # cs'" and ct: "is_cont c1"
    and r: "r = (ord c - 192) * 64 + (ord c1 - 128)" and n: "n = 2"
    by (auto simp: decode2_def split: list.splits if_splits)
  have "128 \<le> ord c1" "ord c1 \<le> 191" using ct by (auto simp: is_cont_def)
  moreover obtain p q where "ord c = 192 + p" "ord c1 = 128 + q"
  proof
    show "ord c = 192 + (ord c - 192)" "ord c1 = 128 + (ord c1 - 128)"
      using assms(3) \<open>128 \<le> ord c1\<close> by auto
  qed
  ultimately have "r = p * 64 + q" "q < 64" "ord c = 192 + p" "ord c1 = 128 + q" using r by auto
  with assms(3,4) digits64 [of q p] have "128 \<le> r" "r < 2048" "192 + r div 64 = ord c" "128 + r mod 64 = ord c1"
    by auto
  then have "encode_rune r = [c, c1]"
    by (simp add: encode_rune_def Let_def chr_eqI)
  with cs ct r n \<open>128 \<le> r\<close> show ?thesis by (auto simp: decode2_def)
qed

lemma decode3_ok:
  assumes "decode3 c cs = (r, n)" "\<not> (r = rune_error \<and> n = 1)" "224 \<le> ord c" "ord c < 240"
  shows "\<exists>c1 c2 cs'. cs = c1 # c2 # cs' \<and> n = 3 \<and> 128 \<le> r \<and> encode_rune r = [c, c1, c2] \<and>
     (\<forall>x. decode3 c (c1 # c2 # x) = (r, n))"
proof -
  from assms obtain c1 c2 cs' where cs: "cs = c1 # c2 # cs'"
    and ct: "second_ok (ord c) (ord c1)" "is_cont c2"
    and r: "r = (ord c - 224) * 4096 + (ord c1 - 128) * 64 + (ord c2 - 128)" and n: "n = 3"
    by (auto simp: decode3_def split: list.splits if_splits)
  obtain p q t where p: "ord c = 224 + p" "p < 16" and q: "ord c1 = 128 + q" "q < 64"
    and t: "ord c2 = 128 + t" "t < 64" and pq: "p = 0 \<longrightarrow> 32 \<le> q" "p = 13 \<longrightarrow> q < 32"
  proof
    show "ord c = 224 + (ord c - 224)" "ord c - 224 < 16" using assms(3,4) by auto
    show "ord c1 = 128 + (ord c1 - 128)" "ord c1 - 128 < 64" "ord c2 = 128 + (ord c2 - 128)"
      "ord c2 - 128 < 64" "ord c - 224 = 0 \<longrightarrow> 32 \<le> ord c1 - 128" "ord c - 224 = 13 \<longrightarrow> ord c1 - 128 < 32"
      using ct assms(3) by (auto simp: second_ok_def is_cont_def Let_def split: if_splits)
  qed
  have r': "r = p * 4096 + q * 64 + t" using r p q t by simp
  have "2048 \<le> r" using r' pq by (cases "p = 0") auto
  moreover have "r < 65536" using r' p q t by auto
  moreover have "\<not> (55296 \<le> r \<and> r \<le> 57343)"
  proof (cases "p = 13")
    case True
    with pq have "q < 32" by simp
    with True r' t show ?thesis by simp
  next
    case False
    then have "p \<le> 12 \<or> 14 \<le> p" by linarith
    with r' q t show ?thesis by auto
  qed
  moreover have "r div 4096 = p" "r div 64 mod 64 = q" "r mod 64 = t"
    by (rule digits64_3 [OF q(2) t(2) r'])+
  ultimately have "encode_rune r = [c, c1, c2]"
    using p q t by (auto simp: encode_rune_def Let_def chr_eqI)
  with cs ct r n \<open>2048 \<le> r\<close> show ?thesis by (auto simp: decode3_def)
qed

lemma decode4_ok:
  assumes "decode4 c cs = (r, n)" "\<not> (r = rune_error \<and> n = 1)" "240 \<le> ord c" "ord c < 245"
  shows "\<exists>c1 c2 c3 cs'. cs = c1 # c2 # c3 # cs' \<and> n = 4 \<and> 128 \<le> r \<and> encode_rune r = [c, c1, c2, c3] \<and>
     (\<forall>x. decode4 c (c1 # c2 # c3 # x) = (r, n))"
proof -
  from assms obtain c1 c2 c3 cs' where cs: "cs = c1 # c2 # c3 # cs'"
    and ct: "second_ok (ord c) (ord c1)" "is_cont c2" "is_cont c3"
    and r: "r = (ord c - 240) * 262144 + (ord c1 - 128) * 4096 + (ord c2 - 128) * 64 + (ord c3 - 128)"
    and n: "n = 4"
    by (auto simp: decode4_def split: list.splits if_splits)
  obtain p q t u where p: "ord c = 240 + p" "p < 5" and q: "ord c1 = 128 + q" "q < 64"
    and t: "ord c2 = 128 + t" "t < 64" and u: "ord c3 = 128 + u" "u < 64"
    and pq: "p = 0 \<longrightarrow> 16 \<le> q" "p = 4 \<longrightarrow> q < 16"
  proof
    show "ord c = 240 + (ord c - 240)" "ord c - 240 < 5" using assms(3,4) by auto
    show "ord c1 = 128 + (ord c1 - 128)" "ord c1 - 128 < 64" "ord c2 = 128 + (ord c2 - 128)"
      "ord c2 - 128 < 64" "ord c3 = 128 + (ord c3 - 128)" "ord c3 - 128 < 64"
      "ord c - 240 = 0 \<longrightarrow> 16 \<le> ord c1 - 128" "ord c - 240 = 4 \<longrightarrow> ord c1 - 128 < 16"
      using ct assms(3) by (auto simp: second_ok_def is_cont_def Let_def split: if_splits)
  qed
  have r': "r = p * 262144 + q * 4096 + t * 64 + u" using r p q t u by simp
  have "65536 \<le> r" using r' pq by (cases "p = 0") auto
  moreover have "r \<le> 1114111"
  proof (cases "p = 4")
    case True
    with pq r' t u show ?thesis by simp
  next
    case False
    with p have "p \<le> 3" by simp
    with r' q t u show ?thesis by simp
  qed
  moreover have "r div 262144 = p" "r div 4096 mod 64 = q" "r div 64 mod 64 = t" "r mod 64 = u"
  proof -
    have r3: "r = (p * 64 + q) * 4096 + t * 64 + u" using r' by simp
    have d: "r div 4096 = p * 64 + q" by (rule digits64_3(1) [OF t(2) u(2) r3])
    have "r div 262144 = r div 4096 div 64" by (simp add: div_mult2_eq [symmetric])
    then show "r div 262144 = p" unfolding d by (simp only: digits64 q)
    show "r div 4096 mod 64 = q" unfolding d by (simp only: digits64 q)
    show "r div 64 mod 64 = t" "r mod 64 = u" by (rule digits64_3 [OF t(2) u(2) r3])+
  qed
  ultimately have "encode_rune r = [c, c1, c2, c3]"
    using p q t u by (simp add: encode_rune_def Let_def chr_eqI)
  with cs ct r n \<open>65536 \<le> r\<close> show ?thesis by (auto simp: decode4_def)
qed

text \<open>A well-formed first rune is encoded by exactly the bytes it was decoded from.\<close>

lemma decode_rune_ok:
  assumes "decode_rune c cs = (r, n)" "\<not> (r = rune_error \<and> n = 1)"
  shows "encode_rune r = c # take (n - 1) cs \<and> (\<forall>x. decode_rune c (take (n - 1) cs @ x) = (r, n)) \<and>
    n - 1 \<le> length cs \<and> length (c # take (n - 1) cs) = n \<and>
    (r < 128 \<longrightarrow> ascii_char c \<and> r = ord c \<and> n = 1) \<and> (128 \<le> r \<longrightarrow> 128 \<le> ord c)"
proof -
  consider "ord c < 128" | "194 \<le> ord c" "ord c < 224" | "224 \<le> ord c" "ord c < 240"
    | "240 \<le> ord c" "ord c < 245"
    using assms by (auto simp: decode_rune_def split: if_splits)
  then show ?thesis
  proof cases
    case 1
    then show ?thesis using assms by (auto simp: decode_rune_def ascii_char_def encode_rune_def)
  next
    case 2
    with assms decode2_ok [of c cs r n] show ?thesis by (auto simp: decode_rune_def)
  next
    case 3
    with assms decode3_ok [of c cs r n] show ?thesis by (auto simp: decode_rune_def)
  next
    case 4
    with assms decode4_ok [of c cs r n] show ?thesis by (auto simp: decode_rune_def)
  qed
qed

lemma take_drop_after: "n \<le> length cs \<Longrightarrow> drop n (take n cs @ x) = x" "n \<le> length cs \<Longrightarrow> take n (take n cs @ x) = take n cs"
  by simp_all

lemma hex_val_digit: "n < 16 \<Longrightarrow> hex_val (hex_digit_lower n) = Some n"
  by (auto simp: hex_val_def hex_digit_lower_def Let_def)

lemma hex_digits4: "((r div 4096 * 16 + r div 256 mod 16) * 16 + r div 16 mod 16) * 16 + r mod (16::nat) = r"
proof -
  have "r div 256 = r div 16 div 16" "r div 4096 = r div 16 div 16 div 16"
    by (simp_all add: div_mult2_eq [symmetric])
  then show ?thesis by simp
qed

lemma getu4_digits:
  assumes "r < 65536"
  shows "getu4 (hex_digit_lower (r div 4096)) (hex_digit_lower (r div 256 mod 16))
    (hex_digit_lower (r div 16 mod 16)) (hex_digit_lower (r mod 16)) = Some r"
proof -
  have "r div 4096 < 16" using assms by (simp add: div_less_iff_less_mult)
  then show ?thesis using hex_digits4 [of r] by (simp add: getu4_def hex_val_digit)
qed

lemma scan_u_escape:
  assumes "r < 65536" "\<not> is_surrogate r"
  shows "scan_unit backslash (tl (u_escape r) @ x) = Some (encode_rune r, x)"
  using assms getu4_digits [of r] by (simp add: scan_unit_def u_escape_def scan_u_def)

lemma scan_simple_escape:
  "simple_escape e = Some y \<Longrightarrow> e \<noteq> CHR ''u'' \<Longrightarrow> scan_unit backslash (e # x) = Some ([y], x)"
  by (simp add: scan_unit_def)

definition good_chunk :: "rune \<times> char list \<Rightarrow> bool" where
  "good_chunk p \<longleftrightarrow> (\<exists>c cs n. p = (fst p, c # take (n - 1) cs) \<and> decode_rune c cs = (fst p, n) \<and> \<not> bad_chunk p)"

lemma chunks_good: "valid_utf8 s \<Longrightarrow> list_all good_chunk (chunks s)"
proof (induction s rule: chunks.induct)
  case (2 c cs)
  obtain r n where d: "decode_rune c cs = (r, n)" by (cases "decode_rune c cs")
  then have "chunks (c # cs) = (r, c # take (n - 1) cs) # chunks (drop (n - 1) cs)"
    by (simp add: chunks.simps(2))
  with 2 d show ?case by (force simp: valid_utf8_def good_chunk_def)
qed simp

definition scans_to :: "string \<Rightarrow> string \<Rightarrow> bool" where
  "scans_to t bs \<longleftrightarrow> (\<exists>e es. t = e # es \<and> e \<noteq> dquote \<and> (\<forall>x. scan_unit e (es @ x) = Some (bs, x)))"

lemma backslash_not_dquote: "backslash \<noteq> dquote"
  by (simp add: backslash_def dquote_def)

lemma scans_to_simple:
  "simple_escape e = Some y \<Longrightarrow> e \<noteq> CHR ''u'' \<Longrightarrow> scans_to [backslash, e] [y]"
  unfolding scans_to_def using backslash_not_dquote scan_simple_escape [of e y] by auto

lemma scans_to_u:
  assumes "r < 65536" "\<not> is_surrogate r" shows "scans_to (u_escape r) (encode_rune r)"
proof -
  have "u_escape r = backslash # tl (u_escape r)" by (simp add: u_escape_def)
  moreover note backslash_not_dquote
  moreover have "\<forall>x. scan_unit backslash (tl (u_escape r) @ x) = Some (encode_rune r, x)"
    using scan_u_escape [OF assms] by simp
  ultimately show ?thesis unfolding scans_to_def by (intro exI conjI)
qed

lemma escape_chunk_simple:
  assumes "r \<in> {34, 92, 8, 12, 10, 13, 9}"
  shows "\<exists>e. escape_chunk (r, bs) = [backslash, e] \<and> e \<noteq> CHR ''u'' \<and> simple_escape e = Some (chr r)"
  using assms
  by (elim insertE emptyE) (simp_all add: escape_chunk_def simple_escape_def dquote_def backslash_def char_of_def)

lemma scan_good_chunk:
  assumes "good_chunk (r, bs)" shows "scans_to (escape_chunk (r, bs)) bs"
proof -
  from assms obtain c cs n where bs: "bs = c # take (n - 1) cs" and d: "decode_rune c cs = (r, n)"
    and nb: "\<not> bad_chunk (r, bs)" by (auto simp: good_chunk_def)
  have ok: "\<not> (r = rune_error \<and> n = 1)" using nb bs by (auto simp: bad_chunk_def)
  note dec = decode_rune_ok [OF d ok]
  have enc: "encode_rune r = bs" and lo: "r < 128 \<Longrightarrow> bs = [chr r] \<and> c = chr r" using dec bs by auto
  consider (quote) "r \<in> {34, 92, 8, 12, 10, 13, 9}" | (u) "r \<notin> {34, 92, 8, 12, 10, 13, 9}" "r < 32 \<or> r \<in> {60, 62, 38, 8232, 8233}"
    | (raw) "r \<notin> {34, 92, 8, 12, 10, 13, 9}" "\<not> (r < 32 \<or> r \<in> {60, 62, 38, 8232, 8233})" by blast
  then show ?thesis
  proof cases
    case quote
    with lo have "bs = [chr r]" by auto
    with escape_chunk_simple [OF quote, of bs] show ?thesis by (auto intro: scans_to_simple)
  next
    case u
    then have "r < 65536" "\<not> is_surrogate r" "escape_chunk (r, bs) = u_escape r"
      by (auto simp: is_surrogate_def escape_chunk_def rune_error_def)
    with scans_to_u [of r] enc show ?thesis by simp
  next
    case raw
    then have e: "escape_chunk (r, bs) = bs" using nb by (auto simp: escape_chunk_def bad_chunk_def)
    have "ord c \<noteq> 34 \<and> ord c \<noteq> 92 \<and> 32 \<le> ord c"
      using raw dec by (cases "r < 128") auto
    then have c: "c \<noteq> backslash" "c \<noteq> dquote" "\<not> ord c < 32" by (auto simp: backslash_def dquote_def)
    have "scan_unit c (take (n - 1) cs @ x) = Some (bs, x)" for x
    proof -
      have "decode_rune c (take (n - 1) cs @ x) = (r, n)" "n - 1 \<le> length cs" using dec by auto
      with c enc show ?thesis by (simp add: scan_unit_def)
    qed
    with c show ?thesis using e unfolding scans_to_def bs by auto
  qed
qed

lemma scan_string_body:
  assumes "list_all good_chunk ps"
  shows "scan_string (concat (map escape_chunk ps) @ dquote # rest) = Some (concat (map snd ps), rest)"
  using assms
proof (induction ps)
  case Nil
  then show ?case by (simp add: scan_string.simps(2))
next
  case (Cons p ps)
  obtain r bs where p: "p = (r, bs)" by (cases p)
  with Cons.prems have "scans_to (escape_chunk p) bs" by (simp add: scan_good_chunk)
  then obtain e es where "escape_chunk p = e # es" "e \<noteq> dquote"
    "\<And>x. scan_unit e (es @ x) = Some (bs, x)" by (auto simp: scans_to_def)
  with Cons p show ?case by (simp add: scan_string.simps(2))
qed

lemma scan_quoted:
  "valid_utf8 s \<Longrightarrow> scan_string (string_body s @ dquote # rest) = Some (s, rest)"
  unfolding string_body_def by (simp add: scan_string_body chunks_good)

section \<open>Values\<close>

text \<open>The values whose text can be read back: strings are UTF-8 and numbers are JSON numbers.\<close>

fun wf_json :: "json \<Rightarrow> bool" where
  "wf_json (JNum n) = (valid_number n \<and> list_all is_word_char n)"
| "wf_json (JStr s) = valid_utf8 s"
| "wf_json (JArr js) = list_all wf_json js"
| "wf_json (JObj ms) = list_all (\<lambda>(k, j). valid_utf8 k \<and> wf_json j) ms"
| "wf_json j = True"

fun toks :: "json \<Rightarrow> token list"
and toks_elems :: "json list \<Rightarrow> token list"
and toks_members :: "(string \<times> json) list \<Rightarrow> token list" where
  "toks (JArr xs) = TLBrack # toks_elems xs @ [TRBrack]"
| "toks (JObj ms) = TLBrace # toks_members ms @ [TRBrace]"
| "toks j = [TLit j]"
| "toks_elems [] = []"
| "toks_elems [x] = toks x"
| "toks_elems (x # y # xs) = toks x @ TComma # toks_elems (y # xs)"
| "toks_members [] = []"
| "toks_members [(k, x)] = TLit (JStr k) # TColon # toks x"
| "toks_members ((k, x) # m # ms) = TLit (JStr k) # TColon # toks x @ TComma # toks_members (m # ms)"

definition delimited :: "string \<Rightarrow> bool" where
  "delimited rest \<longleftrightarrow> (case rest of [] \<Rightarrow> True | c # _ \<Rightarrow> \<not> is_word_char c)"

lemma word_char_class:
  assumes "is_word_char c" shows "\<not> is_json_space c" "punctuation c = None" "c \<noteq> dquote"
  using assms by (auto simp: is_word_char_def is_dec_def is_json_space_def punctuation_def dquote_def char_of_eq_iff eq_char_of_iff)

lemma lex_word:
  assumes "list_all is_word_char w" "w \<noteq> []" "word_literal w = Some l" "delimited rest"
  shows "lex (w @ rest) = map_option ((#) (TLit l)) (lex rest)"
proof -
  obtain c s where w: "w = c # s" using assms(2) by (cases w) auto
  have c: "is_word_char c" and s: "\<forall>x \<in> set s. is_word_char x" using assms(1) w by (auto simp: list_all_iff)
  have "takeWhile is_word_char rest = []" "dropWhile is_word_char rest = rest"
    using assms(4) by (auto simp: delimited_def split: list.splits)
  with s have "takeWhile is_word_char (s @ rest) = s" "dropWhile is_word_char (s @ rest) = rest"
    by (simp_all add: takeWhile_append2 dropWhile_append2)
  with c word_char_class [OF c] assms(3) w show ?thesis
    by (simp add: lex.simps(2) lex_token_def)
qed

lemma lex_punctuation:
  "punctuation c = Some t \<Longrightarrow> \<not> is_json_space c \<Longrightarrow> lex (c # rest) = map_option ((#) t) (lex rest)"
  by (simp add: lex.simps(2) lex_token_def)

lemma lex_marks:
  "lex (CHR ''{'' # rest) = map_option ((#) TLBrace) (lex rest)"
  "lex (CHR ''}'' # rest) = map_option ((#) TRBrace) (lex rest)"
  "lex (CHR ''['' # rest) = map_option ((#) TLBrack) (lex rest)"
  "lex (CHR '']'' # rest) = map_option ((#) TRBrack) (lex rest)"
  "lex (CHR '','' # rest) = map_option ((#) TComma) (lex rest)"
  "lex (CHR '':'' # rest) = map_option ((#) TColon) (lex rest)"
  by (rule lex_punctuation; simp add: punctuation_def is_json_space_def)+

lemma delimited_marks:
  "delimited (CHR ''}'' # rest)" "delimited (CHR '']'' # rest)" "delimited (CHR '','' # rest)" "delimited []"
  by (simp_all add: delimited_def is_word_char_def is_dec_def)

lemma lex_quoted:
  assumes "valid_utf8 s"
  shows "lex (quote_string s @ rest) = map_option ((#) (TLit (JStr s))) (lex rest)"
proof -
  have "\<not> is_json_space dquote" "punctuation dquote = None"
    by (simp_all add: is_json_space_def punctuation_def dquote_def char_of_eq_iff)
  then show ?thesis
    by (simp add: quote_string_def lex.simps(2) lex_token_def scan_quoted [OF assms])
qed

lemma valid_number_word:
  assumes "valid_number n" shows "n \<noteq> []" "word_literal n = Some (JNum n)"
proof -
  show "n \<noteq> []" using assms by (cases n) (auto simp: valid_number_def)
  have "\<not> valid_number ''null''" "\<not> valid_number ''true''" "\<not> valid_number ''false''"
    by (simp_all add: valid_number_def valid_unsigned_def is_dec_def)
  with assms show "word_literal n = Some (JNum n)" by (auto simp: word_literal_def)
qed

lemma lex_constants:
  assumes "delimited rest"
  shows "lex (''null'' @ rest) = map_option ((#) (TLit JNull)) (lex rest)"
    "lex (''true'' @ rest) = map_option ((#) (TLit (JBool True))) (lex rest)"
    "lex (''false'' @ rest) = map_option ((#) (TLit (JBool False))) (lex rest)"
  by (rule lex_word [OF _ _ _ assms]; simp add: is_word_char_def is_dec_def word_literal_def)+

lemma lex_encode:
  "wf_json j \<Longrightarrow> delimited rest \<Longrightarrow> lex (json_encode j @ rest) = map_option ((@) (toks j)) (lex rest)"
  "list_all wf_json js \<Longrightarrow> delimited rest \<Longrightarrow> lex (encode_elems js @ rest) = map_option ((@) (toks_elems js)) (lex rest)"
  "list_all (\<lambda>(k, j). valid_utf8 k \<and> wf_json j) ms \<Longrightarrow> delimited rest \<Longrightarrow>
     lex (encode_members ms @ rest) = map_option ((@) (toks_members ms)) (lex rest)"
proof (induction j and js and ms arbitrary: rest and rest and rest rule: json_encode_encode_elems_encode_members.induct)
  case 1 then show ?case by (simp add: lex_constants [simplified] option.map_comp comp_def)
next
  case (2 b) then show ?case by (cases b) (simp_all add: lex_constants [simplified] option.map_comp comp_def)
next
  case (3 n) then show ?case
    by (simp add: lex_word [OF _ valid_number_word(1) valid_number_word(2)] option.map_comp comp_def)
next
  case (4 s) then show ?case by (simp add: lex_quoted option.map_comp comp_def)
next
  case (5 xs) then show ?case by (simp add: lex_marks delimited_marks option.map_comp comp_def)
next
  case (6 ms) then show ?case by (simp add: lex_marks delimited_marks option.map_comp comp_def)
next
  case 7 then show ?case by (cases "lex rest") simp_all
next
  case (8 x) then show ?case by simp
next
  case (9 x y xs) then show ?case by (simp add: lex_marks delimited_marks option.map_comp comp_def)
next
  case 10 then show ?case by (cases "lex rest") simp_all
next
  case (11 k x) then show ?case by (simp add: lex_quoted lex_marks option.map_comp comp_def)
next
  case (12 k x m ms) then show ?case by (simp add: lex_quoted lex_marks delimited_marks option.map_comp comp_def)
qed

lemma toks_start:
  "\<exists>t ts. toks j = t # ts \<and> parse st ArrFirst (t # ts @ us) = parse (FArr [] # st) Value (t # ts @ us)"
  by (cases j) auto

lemma toks_elems_start:
  "js \<noteq> [] \<Longrightarrow> parse st ArrFirst (toks_elems js @ us) = parse (FArr [] # st) Value (toks_elems js @ us)"
proof (induction js rule: induct_list012)
  case (2 x)
  then show ?case using toks_start [of x st us] by auto
next
  case (3 x y xs)
  then show ?case using toks_start [of x st "TComma # toks_elems (y # xs) @ us"] by auto
qed simp

lemma toks_members_start:
  "ms \<noteq> [] \<Longrightarrow> parse st (ObjFirst []) (toks_members ms @ us) = parse st (ObjKey []) (toks_members ms @ us)"
  by (cases ms rule: toks_members.cases) auto

lemma parse_toks:
  "parse st Value (toks j @ ts) = parse st (After j) ts"
  "js \<noteq> [] \<Longrightarrow> parse (FArr vs # st) Value (toks_elems js @ TRBrack # ts) = parse st (After (JArr (vs @ js))) ts"
  "ms \<noteq> [] \<Longrightarrow> parse st (ObjKey ms0) (toks_members ms @ TRBrace # ts) = parse st (After (JObj (ms0 @ ms))) ts"
proof (induction j and js and ms arbitrary: st ts and vs st ts and ms0 st ts rule: json_encode_encode_elems_encode_members.induct)
  case (5 xs)
  then show ?case by (cases "xs = []") (simp_all add: toks_elems_start)
next
  case (6 ms)
  then show ?case by (cases "ms = []") (simp_all add: toks_members_start)
qed simp_all

text \<open>Reading back what was printed.\<close>

lemma json_decode_encode:
  assumes "wf_json j" shows "json_decode (json_encode j) = Some j"
  using lex_encode(1) [OF assms, of "[]"] parse_toks(1) [of "[]" j "[]"] by (simp add: json_decode_def delimited_marks)

section \<open>Integers\<close>

lemma dec_digits_dec: "list_all is_dec (dec_digits n)"
proof (induction n rule: dec_digits.induct)
  case (1 n)
  have "is_dec (chr (48 + n mod 10))" "n < 10 \<Longrightarrow> is_dec (chr (48 + n))" by (simp_all add: is_dec_def)
  with 1 show ?case by (subst dec_digits.simps) auto
qed

lemma dec_digits_not_empty [simp]: "dec_digits n \<noteq> []"
  by (subst dec_digits.simps) simp

lemma dec_digits_head: "hd (dec_digits n) = CHR ''0'' \<Longrightarrow> length (dec_digits n) = 1"
proof (induction n rule: dec_digits.induct)
  case (1 n)
  show ?case
  proof (cases "n < 10")
    case True
    then show ?thesis by (subst dec_digits.simps) simp
  next
    case False
    then have d: "dec_digits n = dec_digits (n div 10) @ [chr (48 + n mod 10)]" by (subst dec_digits.simps) simp
    with 1 have "hd (dec_digits (n div 10)) = CHR ''0''" by simp
    with 1 False have "length (dec_digits (n div 10)) = 1" by simp
    moreover have "hd (dec_digits m) = CHR ''0'' \<Longrightarrow> length (dec_digits m) = 1 \<Longrightarrow> m = 0" for m
      by (subst (asm) (1 2) dec_digits.simps) (auto simp: char_of_eq_iff take_bit_eq_mod split: if_splits)
    ultimately have "n div 10 = 0" using \<open>hd (dec_digits (n div 10)) = CHR ''0''\<close> by blast
    with False show ?thesis by simp
  qed
qed

lemma valid_unsigned_digits: "valid_unsigned (dec_digits n)"
proof -
  have tw: "takeWhile is_dec (dec_digits n) = dec_digits n" and dw: "dropWhile is_dec (dec_digits n) = []"
    using dec_digits_dec [of n] unfolding takeWhile_eq_all_conv dropWhile_eq_Nil_conv list_all_iff by auto
  show ?thesis unfolding valid_unsigned_def Let_def tw dw using dec_digits_head [of n] by simp
qed

lemma dec_value_append: "dec_value (ds @ [c]) = 10 * dec_value ds + (ord c - 48)"
  by (simp add: dec_value_def)

lemma dec_value_digits: "dec_value (dec_digits n) = n"
proof (induction n rule: dec_digits.induct)
  case (1 n)
  show ?case
  proof (cases "n < 10")
    case True
    then show ?thesis by (subst dec_digits.simps) (simp add: dec_value_def)
  next
    case False
    then have "dec_digits n = dec_digits (n div 10) @ [chr (48 + n mod 10)]" by (subst dec_digits.simps) simp
    with 1 False show ?thesis by (simp add: dec_value_append)
  qed
qed

lemma dec_digit_char: "is_dec c \<Longrightarrow> digit_char c" "is_dec c \<Longrightarrow> is_word_char c" "is_dec c \<Longrightarrow> c \<noteq> CHR ''-''"
  by (auto simp: is_dec_def digit_char_def is_word_char_def)

lemma dec_digits_not_minus: "dec_digits n = c # cs \<Longrightarrow> c \<noteq> CHR ''-''"
  using dec_digits_dec [of n] dec_digit_char(3) [of c] by auto

lemma valid_int_literal: "valid_number (int_literal i)" "list_all is_word_char (int_literal i)"
proof -
  obtain c cs where d: "dec_digits (nat i) = c # cs" by (cases "dec_digits (nat i)") auto
  then show "valid_number (int_literal i)"
    using valid_unsigned_digits [of "nat i"] valid_unsigned_digits [of "nat (- i)"] dec_digits_not_minus [OF d]
    by (auto simp: valid_number_def int_literal_def)
  show "list_all is_word_char (int_literal i)"
    using dec_digits_dec [of "nat i"] dec_digits_dec [of "nat (- i)"]
    by (auto simp: int_literal_def list_all_iff dec_digit_char) (simp add: is_word_char_def)
qed

lemma int64_of_int_literal:
  assumes "- (2 ^ 63) \<le> i" "i < 2 ^ 63" shows "int64_of_literal (int_literal i) = Some i"
proof -
  have dig: "list_all digit_char (dec_digits n)" for n
    using dec_digits_dec [of n] by (auto simp: list_all_iff dec_digit_char)
  show ?thesis
  proof (cases "i < 0")
    case True
    with assms dig show ?thesis by (simp add: int64_of_literal_def int_literal_def dec_value_digits)
  next
    case False
    obtain c cs where d: "dec_digits (nat i) = c # cs" by (cases "dec_digits (nat i)") auto
    have "(case dec_digits (nat i) of [] \<Rightarrow> (False, []) | c # cs \<Rightarrow> if c = CHR ''-'' then (True, cs) else (False, dec_digits (nat i)))
      = (False, dec_digits (nat i))"
      using dec_digits_not_minus [OF d] d by simp
    with False assms dig show ?thesis
      by (simp add: int64_of_literal_def int_literal_def dec_value_digits)
  qed
qed

end
