(* ===== verification/Backends.thy ===== *)
theory Backends
  imports JsonRoundTrip Environment GoURL
begin

text \<open>
  The package \<open>internal/backends\<close>: the values a login backend exchanges with the server, and how
  the state of a login in progress is written to and read from JSON.  A Go map with string keys is
  an association list kept in ascending byte order of its keys, which is the order in which
  \<open>encoding/json\<close> prints it.
\<close>

section \<open>Maps with string keys\<close>

fun bytes_less :: "string \<Rightarrow> string \<Rightarrow> bool" where
  "bytes_less s [] = False"
| "bytes_less [] (d # t) = True"
| "bytes_less (c # s) (d # t) = (ord c < ord d \<or> (c = d \<and> bytes_less s t))"

fun map_set :: "string \<Rightarrow> 'v \<Rightarrow> (string \<times> 'v) list \<Rightarrow> (string \<times> 'v) list" where
  "map_set k v [] = [(k, v)]"
| "map_set k v ((k', v') # m) =
     (if k = k' then (k, v) # m
      else if bytes_less k k' then (k, v) # (k', v') # m
      else (k', v') # map_set k v m)"

type_synonym values_map = "(string \<times> json) list"

text \<open>A literal \<open>map[string]any{...}\<close>, and the value of a decoded object (a later duplicate wins).\<close>

definition map_of_entries :: "(string \<times> 'v) list \<Rightarrow> (string \<times> 'v) list" where
  "map_of_entries es = foldl (\<lambda>m (k, v). map_set k v m) [] es"

fun any_of_json :: "json \<Rightarrow> json" where
  "any_of_json (JArr js) = JArr (List.map any_of_json js)"
| "any_of_json (JObj ms) = JObj (map_of_entries (List.map (\<lambda>(k, v). (k, any_of_json v)) ms))"
| "any_of_json j = j"

text \<open>
  \<open>json.Unmarshal\<close> into a \<open>map[string]any\<close>: an object gives its members, \<open>null\<close> the nil map
  (here \<^const>\<open>None\<close>), everything else is an error.
\<close>

definition unmarshal_map :: "string \<Rightarrow> values_map option result" where
  "unmarshal_map s =
     (case json_decode s of
        None \<Rightarrow> Inl ''invalid character''
      | Some (JObj ms) \<Rightarrow> Inr (Some (map_of_entries (List.map (\<lambda>(k, v). (k, any_of_json v)) ms)))
      | Some JNull \<Rightarrow> Inr None
      | Some _ \<Rightarrow> Inl ''json: cannot unmarshal into Go value of type map[string]interface {}'')"

section \<open>What a backend exchanges with the server\<close>

record backend_request =
  RequestID :: string
  breq_Me :: string
  Scopes :: "string list"

text \<open>\<open>Values\<close> is a possibly nil map.\<close>

record BackendState =
  bs_State :: string
  bs_Nonce :: string
  bs_Values :: "values_map option"

definition empty_BackendState :: BackendState where
  "empty_BackendState = \<lparr>bs_State = [], bs_Nonce = [], bs_Values = None\<rparr>"

record Identity =
  id_Subject :: string
  id_Username :: string
  id_Email :: string
  id_EmailVerified :: bool
  id_Name :: string
  id_PreferredUsername :: string
  id_Groups :: "string list"
  id_RawClaims :: values_map

text \<open>The interface \<open>Backend\<close>: a backend is its two operations on the world.\<close>

record 'w Backend =
  be_Name :: string
  BeginAuth :: "backend_request \<Rightarrow> ('w, (string \<times> BackendState) result) state"
  CompleteAuth :: "url_values \<Rightarrow> BackendState \<Rightarrow> ('w, Identity result) state"

text \<open>Assigning one entry of \<open>Values\<close>, the map being made first where it is nil.\<close>

definition set_value :: "string \<Rightarrow> json \<Rightarrow> BackendState \<Rightarrow> BackendState" where
  "set_value k v bs =
     bs\<lparr>bs_Values := Some (map_set k v (case bs_Values bs of None \<Rightarrow> [] | Some m \<Rightarrow> m))\<rparr>"

text \<open>Reading one entry with a type assertion; the zero value when it is absent or of another type.\<close>

definition value_of :: "BackendState \<Rightarrow> string \<Rightarrow> json option" where
  "value_of bs k = (case bs_Values bs of None \<Rightarrow> None | Some m \<Rightarrow> map_of m k)"

definition bool_value :: "BackendState \<Rightarrow> string \<Rightarrow> bool" where
  "bool_value bs k = (case value_of bs k of Some (JBool b) \<Rightarrow> b | _ \<Rightarrow> False)"

definition string_value :: "BackendState \<Rightarrow> string \<Rightarrow> string" where
  "string_value bs k = (case value_of bs k of Some (JStr s) \<Rightarrow> s | _ \<Rightarrow> [])"

section \<open>JSON of a backend state\<close>

text \<open>\<open>json.Marshal\<close> of the struct, with \<open>omitempty\<close> on the map.\<close>

definition marshal_state :: "BackendState \<Rightarrow> string" where
  "marshal_state bs = json_encode (JObj
     ([(''state'', JStr (bs_State bs)), (''nonce'', JStr (bs_Nonce bs))] @
      (case bs_Values bs of None \<Rightarrow> [] | Some m \<Rightarrow> if m = [] then [] else [(''values'', JObj m)])))"

text \<open>The field decoder of the map: an object is added to the map the field already has.\<close>

definition values_field :: "BackendState field_decoder" where
  "values_field j bs =
     (case j of
        JObj ms \<Rightarrow> Inr (bs\<lparr>bs_Values := Some (foldl (\<lambda>m (k, v). map_set k (any_of_json v) m)
          (case bs_Values bs of None \<Rightarrow> [] | Some m \<Rightarrow> m) ms)\<rparr>)
      | JNull \<Rightarrow> Inr (bs\<lparr>bs_Values := None\<rparr>)
      | _ \<Rightarrow> Inl ''json: cannot unmarshal into map'')"

definition state_fields :: "(string \<times> BackendState field_decoder) list" where
  "state_fields = [(''state'', string_field bs_State_update), (''nonce'', string_field bs_Nonce_update),
     (''values'', values_field)]"

definition unmarshal_state :: "unicode_tables \<Rightarrow> string \<Rightarrow> BackendState result" where
  "unmarshal_state U s = unmarshal_struct U state_fields empty_BackendState s"

section \<open>Facts about maps\<close>

lemma map_of_map_set [simp]: "map_of (map_set k v m) = (map_of m)(k \<mapsto> v)"
  by (induction m) (auto simp: fun_eq_iff)

lemma value_of_set_value [simp]:
  "value_of (set_value k v bs) k' = (if k' = k then Some v else value_of bs k')"
  by (auto simp: value_of_def set_value_def split: option.splits)

text \<open>The byte order of strings is a strict linear order.\<close>

lemma bytes_less_irrefl [simp]: "\<not> bytes_less s s"
  by (induction s) auto

lemma ord_eq [simp]: "(ord c :: nat) = ord d \<longleftrightarrow> c = d"
  by (rule of_char_eq_iff)

lemma bytes_less_linear: "bytes_less s t \<or> s = t \<or> bytes_less t s"
proof (induction s t rule: bytes_less.induct)
  case (1 s)
  then show ?case by (cases s) auto
next
  case (3 c s d t)
  then show ?case using linorder_less_linear [of "ord c :: nat" "ord d"] by auto
qed auto

lemma bytes_less_trans: "bytes_less s t \<Longrightarrow> bytes_less t u \<Longrightarrow> bytes_less s u"
proof (induction s t arbitrary: u rule: bytes_less.induct)
  case (2 d t)
  then show ?case by (cases u) auto
next
  case (3 c s d t)
  then show ?case by (cases u) auto
qed auto

definition go_map :: "(string \<times> 'v) list \<Rightarrow> bool" where
  "go_map m \<longleftrightarrow> sorted_wrt (\<lambda>p q. bytes_less (fst p) (fst q)) m"

lemma go_map_simps [simp]:
  "go_map []" "go_map (p # m) \<longleftrightarrow> (\<forall>q \<in> set m. bytes_less (fst p) (fst q)) \<and> go_map m"
  by (auto simp: go_map_def)

lemma map_set_keys: "q \<in> set (map_set k v m) \<Longrightarrow> q = (k, v) \<or> q \<in> set m"
  by (induction m) (auto split: if_splits)

lemma go_map_set: "go_map m \<Longrightarrow> go_map (map_set k v m)"
proof (induction m)
  case (Cons p m)
  obtain k' v' where p: "p = (k', v')" by (cases p)
  show ?case
  proof (cases "k = k' \<or> bytes_less k k'")
    case True
    with Cons p show ?thesis by (auto intro: bytes_less_trans)
  next
    case False
    then have "bytes_less k' k" using bytes_less_linear [of k k'] by auto
    with False Cons p show ?thesis by (auto dest!: map_set_keys)
  qed
qed simp

lemma map_set_last:
  "\<forall>q \<in> set m. bytes_less (fst q) k \<Longrightarrow> map_set k v m = m @ [(k, v)]"
proof (induction m)
  case (Cons p m)
  obtain k' v' where p: "p = (k', v')" by (cases p)
  with Cons.prems have "bytes_less k' k" by simp
  then have "k \<noteq> k'" "\<not> bytes_less k k'" using bytes_less_trans [of k' k k'] by auto
  with Cons p show ?case by simp
qed simp

text \<open>Building a map from entries that are already in order gives the entries.\<close>

lemma foldl_map_set:
  "go_map (m0 @ m) \<Longrightarrow> \<forall>(k, v) \<in> set m. f v = v \<Longrightarrow> foldl (\<lambda>m (k, v). map_set k (f v) m) m0 m = m0 @ m"
proof (induction m arbitrary: m0)
  case (Cons p m)
  obtain k v where p: "p = (k, v)" by (cases p)
  have "\<forall>q \<in> set m0. bytes_less (fst q) k"
    using Cons.prems(1) p by (auto simp: go_map_def sorted_wrt_append)
  then have "map_set k v m0 = m0 @ [p]" using p by (simp add: map_set_last)
  moreover have "foldl (\<lambda>m (k, v). map_set k (f v) m) (m0 @ [p]) m = (m0 @ [p]) @ m"
    by (rule Cons.IH) (use Cons.prems in auto)
  ultimately show ?case using p Cons.prems(2) by simp
qed simp

section \<open>A backend state survives storage\<close>

definition wf_state :: "BackendState \<Rightarrow> bool" where
  "wf_state bs \<longleftrightarrow> valid_utf8 (bs_State bs) \<and> valid_utf8 (bs_Nonce bs) \<and>
     (case bs_Values bs of
        None \<Rightarrow> True
      | Some m \<Rightarrow> m \<noteq> [] \<and> go_map m \<and> list_all (\<lambda>(k, v). valid_utf8 k \<and> wf_json v \<and> any_of_json v = v) m)"

lemma ascii_valid_utf8: "ascii s \<Longrightarrow> valid_utf8 s"
  by (auto simp: valid_utf8_def chunks_ascii list_all_iff bad_chunk_def rune_error_def ascii_def ascii_char_def)

lemma state_names_valid: "valid_utf8 ''state''" "valid_utf8 ''nonce''" "valid_utf8 ''values''"
  by (rule ascii_valid_utf8; simp add: ascii_char_def)+

lemma unmarshal_marshal_state:
  assumes "wf_state bs" shows "unmarshal_state U (marshal_state bs) = Inr bs"
proof (cases "bs_Values bs")
  case None
  with assms show ?thesis
    unfolding marshal_state_def unmarshal_state_def unmarshal_struct_def
    by (subst json_decode_encode)
      (simp_all add: wf_state_def state_names_valid decode_struct_def decode_member_def field_for_def
        state_fields_def string_field_def empty_BackendState_def)
next
  case (Some m)
  have m: "m \<noteq> []" "go_map m" "\<forall>(k, v) \<in> set m. any_of_json v = v"
    using assms Some by (auto simp: wf_state_def list_all_iff)
  have f: "foldl (\<lambda>m (k, v). map_set k (any_of_json v) m) [] m = m"
    using foldl_map_set [of "[]" m any_of_json] m by simp
  have w: "list_all (\<lambda>(k, j). valid_utf8 k \<and> wf_json j) m"
    using assms Some by (auto simp: wf_state_def list_all_iff)
  from Some assms m f w show ?thesis
    unfolding marshal_state_def unmarshal_state_def unmarshal_struct_def
    by (subst json_decode_encode)
      (simp_all add: wf_state_def state_names_valid decode_struct_def decode_member_def field_for_def
        state_fields_def string_field_def values_field_def empty_BackendState_def)
qed

lemma wf_state_set_value:
  assumes "wf_state bs" "valid_utf8 k" "wf_json v" "any_of_json v = v"
  shows "wf_state (set_value k v bs)"
proof -
  let ?m = "case bs_Values bs of None \<Rightarrow> [] | Some m \<Rightarrow> m"
  have "go_map ?m" "\<forall>(k, v) \<in> set ?m. valid_utf8 k \<and> wf_json v \<and> any_of_json v = v"
    using assms(1) by (auto simp: wf_state_def list_all_iff split: option.splits)
  then have "go_map (map_set k v ?m)" "\<forall>(k, v) \<in> set (map_set k v ?m). valid_utf8 k \<and> wf_json v \<and> any_of_json v = v"
    using assms(2-4) by (auto simp: go_map_set dest!: map_set_keys)
  moreover have "map_set k v m \<noteq> []" for m :: values_map by (cases m) (auto split: if_splits)
  ultimately show ?thesis using assms(1) by (auto simp: wf_state_def set_value_def list_all_iff)
qed

end
