(* ===== verification/Config.thy ===== *)
theory Config
  imports Security Backends
begin

text \<open>
  The package \<open>internal/config\<close>: the configuration, its defaults, the environment variables that
  override it, and its validation, which also puts URLs into canonical form and fills in defaults.
  Reading the YAML file is the library's; \<open>Load\<close> takes what it produces.  A configuration error is
  a value of a datatype whose arguments are what the message is formatted from.
\<close>

section \<open>The configuration\<close>

record ServerConfig =
  Listen :: string
  PublicURL :: string
  Issuer :: string
  srv_TrustedProxies :: "string list"

record SecurityConfig =
  CookieSecret :: string
  CodeTTL :: duration
  AuthRequestTTL :: duration
  AccessTokenTTL :: duration
  RequireHTTPS :: bool
  RequirePKCE :: bool
  ConsentRequired :: bool
  ClientMetadataDiscoveryEnabled :: bool
  DevMode :: bool

record RateLimitConfig =
  rl_Enabled :: bool
  RequestsPerMinute :: int
  Burst :: int
  rl_TrustedProxies :: "string list"

record DynamicProfilesConfig =
  dp_Enabled :: bool
  dp_Backend :: string
  MetadataName :: string

record ManagedProfilesConfig =
  mpc_Enabled :: bool
  mpc_Backend :: string

record ProfileConfig =
  Me :: string
  DisplayName :: string
  Email :: string
  prof_Backend :: string
  AllowedSubjects :: "string list"
  AllowedUsernames :: "string list"
  AllowedEmails :: "string list"
  AllowedGroups :: "string list"

record BackendConfig =
  Type :: string
  be_Issuer :: string
  be_ClientID :: string
  be_ClientSecret :: string
  be_RedirectURI :: string
  be_Scopes :: "string list"
  InsecureSkipVerify :: bool

record StorageConfig =
  st_Type :: string
  st_Path :: string

record Config =
  Server :: ServerConfig
  Security :: SecurityConfig
  RateLimit :: RateLimitConfig
  DynamicProfiles :: DynamicProfilesConfig
  ManagedProfiles :: ManagedProfilesConfig
  Profiles :: "ProfileConfig list"
  Backends :: "(string \<times> BackendConfig) list"
  Storage :: StorageConfig

text \<open>The zero values a Go map lookup and a composite literal start from.\<close>

definition no_backend :: BackendConfig where
  "no_backend = \<lparr>Type = [], be_Issuer = [], be_ClientID = [], be_ClientSecret = [], be_RedirectURI = [],
     be_Scopes = [], InsecureSkipVerify = False\<rparr>"

definition no_profile :: ProfileConfig where
  "no_profile = \<lparr>Me = [], DisplayName = [], Email = [], prof_Backend = [], AllowedSubjects = [],
     AllowedUsernames = [], AllowedEmails = [], AllowedGroups = []\<rparr>"

definition backend_config :: "Config \<Rightarrow> string \<Rightarrow> BackendConfig" where
  "backend_config cfg name = (case map_of (Backends cfg) name of None \<Rightarrow> no_backend | Some b \<Rightarrow> b)"

definition Default :: Config where
  "Default = \<lparr>
     Server = \<lparr>Listen = '':8080'', PublicURL = [], Issuer = [], srv_TrustedProxies = []\<rparr>,
     Security = \<lparr>CookieSecret = [], CodeTTL = 5 * minute, AuthRequestTTL = 10 * minute,
       AccessTokenTTL = 24 * hour, RequireHTTPS = True, RequirePKCE = True, ConsentRequired = True,
       ClientMetadataDiscoveryEnabled = True, DevMode = False\<rparr>,
     RateLimit = \<lparr>rl_Enabled = True, RequestsPerMinute = 60, Burst = 20, rl_TrustedProxies = []\<rparr>,
     DynamicProfiles = \<lparr>dp_Enabled = False, dp_Backend = [], MetadataName = ''indieauth-identity''\<rparr>,
     ManagedProfiles = \<lparr>mpc_Enabled = False, mpc_Backend = ''authentik''\<rparr>,
     Profiles = [], Backends = [],
     Storage = \<lparr>st_Type = ''sqlite'', st_Path = ''/data/bridge.db''\<rparr>\<rparr>"

section \<open>Environment variables\<close>

definition parseBool :: "unicode_tables \<Rightarrow> string \<Rightarrow> bool" where
  "parseBool U v \<longleftrightarrow> ToLower U (TrimSpace v) \<in> {''1'', ''true'', ''yes'', ''y'', ''on''}"

definition is_digit :: "char \<Rightarrow> bool" where
  "is_digit c \<longleftrightarrow> 48 \<le> ord c \<and> ord c \<le> 57"

definition digits_value :: "string \<Rightarrow> int" where
  "digits_value ds = foldl (\<lambda>n c. 10 * n + int (ord c - 48)) 0 ds"

text \<open>
  \<open>fmt.Sscanf(s, "%d", &n)\<close>: an optional sign and the digits that follow; what comes after them is
  not looked at.  Values outside 64 bits are an error.
\<close>

definition scan_int :: "string \<Rightarrow> int option" where
  "scan_int s =
     (let (neg, body) = (case s of
            c # cs \<Rightarrow> if c = CHR ''-'' then (True, cs) else if c = CHR ''+'' then (False, cs) else (False, s)
          | [] \<Rightarrow> (False, []));
          ds = takeWhile is_digit body;
          v = (if neg then - digits_value ds else digits_value ds)
      in if ds = [] \<or> v < - (2 ^ 63) \<or> 2 ^ 63 \<le> v then None else Some v)"

definition parsePositiveInt :: "string \<Rightarrow> int option" where
  "parsePositiveInt v =
     (case scan_int (TrimSpace v) of None \<Rightarrow> None | Some n \<Rightarrow> if n \<le> 0 then None else Some n)"

text \<open>\<open>set\<close>: a variable that is set and not empty replaces the value.\<close>

definition set_env :: "(string \<Rightarrow> string) \<Rightarrow> string \<Rightarrow> string \<Rightarrow> string" where
  "set_env getenv key old = (if getenv key = [] then old else getenv key)"

definition set_env_bool :: "unicode_tables \<Rightarrow> (string \<Rightarrow> string) \<Rightarrow> string \<Rightarrow> bool \<Rightarrow> bool" where
  "set_env_bool U getenv key old = (if getenv key = [] then old else parseBool U (getenv key))"

definition set_env_int :: "(string \<Rightarrow> string) \<Rightarrow> string \<Rightarrow> int \<Rightarrow> int" where
  "set_env_int getenv key old =
     (if getenv key = [] then old else (case parsePositiveInt (getenv key) of None \<Rightarrow> old | Some n \<Rightarrow> n))"

definition env_server :: "(string \<Rightarrow> string) \<Rightarrow> ServerConfig \<Rightarrow> ServerConfig" where
  "env_server getenv s = s\<lparr>
     Listen := set_env getenv ''IAB_SERVER_LISTEN'' (Listen s),
     PublicURL := set_env getenv ''IAB_SERVER_PUBLIC_URL'' (PublicURL s),
     Issuer := set_env getenv ''IAB_SERVER_ISSUER'' (Issuer s)\<rparr>"

definition env_security :: "unicode_tables \<Rightarrow> (string \<Rightarrow> string) \<Rightarrow> SecurityConfig \<Rightarrow> SecurityConfig" where
  "env_security U getenv s = s\<lparr>
     CookieSecret := set_env getenv ''IAB_SECURITY_COOKIE_SECRET'' (CookieSecret s),
     DevMode := set_env_bool U getenv ''IAB_SECURITY_DEV_MODE'' (DevMode s),
     RequireHTTPS := set_env_bool U getenv ''IAB_SECURITY_REQUIRE_HTTPS'' (RequireHTTPS s),
     RequirePKCE := set_env_bool U getenv ''IAB_SECURITY_REQUIRE_PKCE'' (RequirePKCE s),
     ConsentRequired := set_env_bool U getenv ''IAB_SECURITY_CONSENT_REQUIRED'' (ConsentRequired s),
     ClientMetadataDiscoveryEnabled := set_env_bool U getenv ''IAB_SECURITY_CLIENT_METADATA_DISCOVERY_ENABLED''
       (ClientMetadataDiscoveryEnabled s)\<rparr>"

definition env_rate_limit :: "unicode_tables \<Rightarrow> (string \<Rightarrow> string) \<Rightarrow> RateLimitConfig \<Rightarrow> RateLimitConfig" where
  "env_rate_limit U getenv r = r\<lparr>
     rl_Enabled := set_env_bool U getenv ''IAB_RATE_LIMIT_ENABLED'' (rl_Enabled r),
     RequestsPerMinute := set_env_int getenv ''IAB_RATE_LIMIT_REQUESTS_PER_MINUTE'' (RequestsPerMinute r),
     Burst := set_env_int getenv ''IAB_RATE_LIMIT_BURST'' (Burst r)\<rparr>"

definition env_authentik :: "(string \<Rightarrow> string) \<Rightarrow> BackendConfig \<Rightarrow> BackendConfig" where
  "env_authentik getenv b0 =
     (let b = b0\<lparr>
            be_Issuer := set_env getenv ''IAB_BACKENDS_AUTHENTIK_ISSUER'' (be_Issuer b0),
            be_ClientID := set_env getenv ''IAB_BACKENDS_AUTHENTIK_CLIENT_ID'' (be_ClientID b0),
            be_ClientSecret := set_env getenv ''IAB_BACKENDS_AUTHENTIK_CLIENT_SECRET'' (be_ClientSecret b0),
            be_RedirectURI := set_env getenv ''IAB_BACKENDS_AUTHENTIK_REDIRECT_URI'' (be_RedirectURI b0)\<rparr>
      in if Type b = [] \<and> (be_Issuer b \<noteq> [] \<or> be_ClientID b \<noteq> [] \<or> be_ClientSecret b \<noteq> [])
         then b\<lparr>Type := ''authentik''\<rparr> else b)"

definition applyEnv :: "unicode_tables \<Rightarrow> (string \<Rightarrow> string) \<Rightarrow> Config \<Rightarrow> Config" where
  "applyEnv U getenv cfg =
     (let cfg = cfg\<lparr>Server := env_server getenv (Server cfg),
            Security := env_security U getenv (Security cfg),
            RateLimit := env_rate_limit U getenv (RateLimit cfg),
            Storage := (Storage cfg)\<lparr>st_Path := set_env getenv ''IAB_STORAGE_PATH'' (st_Path (Storage cfg))\<rparr>\<rparr>;
          b = env_authentik getenv (backend_config cfg ''authentik'')
      in if Type b \<noteq> [] \<or> be_Issuer b \<noteq> [] \<or> be_ClientID b \<noteq> [] \<or> be_ClientSecret b \<noteq> [] \<or> be_RedirectURI b \<noteq> []
         then cfg\<lparr>Backends := map_set ''authentik'' b (Backends cfg)\<rparr> else cfg)"

section \<open>Validation\<close>

datatype config_error =
    ReadFailed string
  | FieldRequired string
  | FieldURL string string
  | WeakCookieSecret
  | NonPositiveTTL
  | NoProfiles
  | ProfileURL nat string
  | DuplicateProfile string
  | ProfileBackendRequired nat
  | ProfileSelectorRequired nat
  | NoBackends
  | BackendTypeRequired string
  | BackendFieldsRequired string
  | BackendURL string string string
  | BackendNotConfigured string string
  | MetadataNameInvalid
  | BackendsDiffer
  | UnsupportedStorage string

text \<open>A public URL in canonical form without trailing slashes.\<close>

definition base_url :: "unicode_tables \<Rightarrow> string \<Rightarrow> string \<Rightarrow> config_error + string" where
  "base_url U field raw =
     (case CanonicalURL U raw of Inl e \<Rightarrow> Inl (FieldURL field e) | Inr u \<Rightarrow> Inr (TrimRight u ''/''))"

definition validate_server :: "unicode_tables \<Rightarrow> ServerConfig \<Rightarrow> config_error + ServerConfig" where
  "validate_server U s =
     (if Listen s = [] then Inl (FieldRequired ''server.listen'')
      else if PublicURL s = [] then Inl (FieldRequired ''server.public_url'')
      else bind_result (base_url U ''server.public_url'' (PublicURL s)) (\<lambda>pub.
        bind_result (base_url U ''server.issuer'' (if Issuer s = [] then pub else Issuer s)) (\<lambda>iss.
          Inr (s\<lparr>PublicURL := pub, Issuer := iss\<rparr>))))"

definition validate_security :: "SecurityConfig \<Rightarrow> config_error + unit" where
  "validate_security s =
     (if (CookieSecret s = [] \<or> CookieSecret s = ''change-me'') \<and> \<not> DevMode s then Inl WeakCookieSecret
      else if CodeTTL s \<le> 0 \<or> AuthRequestTTL s \<le> 0 \<or> AccessTokenTTL s \<le> 0 then Inl NonPositiveTTL
      else Inr ())"

definition default_rate_limit :: "RateLimitConfig \<Rightarrow> RateLimitConfig" where
  "default_rate_limit r = r\<lparr>
     RequestsPerMinute := (if RequestsPerMinute r \<le> 0 then 60 else RequestsPerMinute r),
     Burst := (if Burst r \<le> 0 then 20 else Burst r)\<rparr>"

text \<open>The loop over the profiles, with its index and the set \<open>seenProfiles\<close>.\<close>

fun validate_profiles :: "unicode_tables \<Rightarrow> nat \<Rightarrow> string list \<Rightarrow> ProfileConfig list \<Rightarrow> config_error + ProfileConfig list" where
  "validate_profiles U i seen [] = Inr []"
| "validate_profiles U i seen (p # ps) =
     (case CanonicalURL U (Me p) of
        Inl e \<Rightarrow> Inl (ProfileURL i e)
      | Inr me \<Rightarrow>
          if me \<in> set seen then Inl (DuplicateProfile me)
          else if prof_Backend p = [] then Inl (ProfileBackendRequired i)
          else if AllowedSubjects p = [] \<and> AllowedUsernames p = [] \<and> AllowedEmails p = [] \<and> AllowedGroups p = []
          then Inl (ProfileSelectorRequired i)
          else map_result (\<lambda>rest. p\<lparr>Me := me\<rparr> # rest) (validate_profiles U (Suc i) (me # seen) ps))"

definition validate_backend :: "unicode_tables \<Rightarrow> bool \<Rightarrow> string \<times> BackendConfig \<Rightarrow> config_error + BackendConfig" where
  "validate_backend U allowHTTP nb = (case nb of (name, b) \<Rightarrow>
     if Type b = [] then Inl (BackendTypeRequired name)
     else if be_Issuer b = [] \<or> be_ClientID b = [] \<or> be_ClientSecret b = [] \<or> be_RedirectURI b = []
     then Inl (BackendFieldsRequired name)
     else bind_result (case ValidateHTTPSURL U (be_Issuer b) allowHTTP of
            Inl e \<Rightarrow> Inl (BackendURL name ''issuer'' e) | Inr _ \<Rightarrow> Inr ()) (\<lambda>_.
       bind_result (case ValidateHTTPSURL U (be_RedirectURI b) allowHTTP of
            Inl e \<Rightarrow> Inl (BackendURL name ''redirect_uri'' e) | Inr _ \<Rightarrow> Inr ()) (\<lambda>_.
         Inr (if be_Scopes b = [] then b\<lparr>be_Scopes := [''openid'', ''profile'', ''email'']\<rparr> else b))))"

fun validate_backends :: "unicode_tables \<Rightarrow> bool \<Rightarrow> (string \<times> BackendConfig) list \<Rightarrow> config_error + (string \<times> BackendConfig) list" where
  "validate_backends U allowHTTP [] = Inr []"
| "validate_backends U allowHTTP (nb # nbs) =
     bind_result (validate_backend U allowHTTP nb) (\<lambda>b.
       map_result (\<lambda>rest. (fst nb, b) # rest) (validate_backends U allowHTTP nbs))"

definition validate_dynamic :: "(string \<times> BackendConfig) list \<Rightarrow> DynamicProfilesConfig \<Rightarrow> config_error + unit" where
  "validate_dynamic bes d =
     (if \<not> dp_Enabled d then Inr ()
      else if dp_Backend d = [] then Inl (FieldRequired ''dynamic_profiles.backend'')
      else if map_of bes (dp_Backend d) = None then Inl (BackendNotConfigured ''dynamic_profiles.backend'' (dp_Backend d))
      else if TrimSpace (MetadataName d) = [] then Inl (FieldRequired ''dynamic_profiles.metadata_name'')
      else if ContainsAny (MetadataName d) ([CHR '' '', chr 9, chr 13, chr 10, chr 34, chr 39] @ ''<>'')
      then Inl MetadataNameInvalid
      else Inr ())"

definition validate_managed :: "(string \<times> BackendConfig) list \<Rightarrow> DynamicProfilesConfig \<Rightarrow> ManagedProfilesConfig \<Rightarrow> config_error + unit" where
  "validate_managed bes d m =
     (if \<not> mpc_Enabled m then Inr ()
      else if mpc_Backend m = [] then Inl (FieldRequired ''managed_profiles.backend'')
      else if map_of bes (mpc_Backend m) = None then Inl (BackendNotConfigured ''managed_profiles.backend'' (mpc_Backend m))
      else if dp_Enabled d \<and> mpc_Backend m \<noteq> dp_Backend d then Inl BackendsDiffer
      else Inr ())"

definition validate_storage :: "StorageConfig \<Rightarrow> config_error + StorageConfig" where
  "validate_storage s =
     (let s = (if st_Type s = [] then s\<lparr>st_Type := ''sqlite''\<rparr> else s)
      in if st_Type s \<noteq> ''sqlite'' then Inl (UnsupportedStorage (st_Type s))
         else if st_Path s = [] then Inl (FieldRequired ''storage.path'')
         else Inr s)"

definition allow_http :: "Config \<Rightarrow> bool" where
  "allow_http cfg \<longleftrightarrow> DevMode (Security cfg) \<or> \<not> RequireHTTPS (Security cfg)"

definition Validate :: "unicode_tables \<Rightarrow> Config \<Rightarrow> config_error + Config" where
  "Validate U cfg =
     bind_result (validate_server U (Server cfg)) (\<lambda>server.
     bind_result (validate_security (Security cfg)) (\<lambda>_.
     if Profiles cfg = [] \<and> \<not> dp_Enabled (DynamicProfiles cfg) \<and> \<not> mpc_Enabled (ManagedProfiles cfg)
     then Inl NoProfiles
     else
     bind_result (validate_profiles U 0 [] (Profiles cfg)) (\<lambda>profiles.
     if Backends cfg = [] then Inl NoBackends
     else
     bind_result (validate_backends U (allow_http cfg) (Backends cfg)) (\<lambda>bes.
     bind_result (validate_dynamic bes (DynamicProfiles cfg)) (\<lambda>_.
     bind_result (validate_managed bes (DynamicProfiles cfg) (ManagedProfiles cfg)) (\<lambda>_.
     bind_result (validate_storage (Storage cfg)) (\<lambda>storage.
       Inr (cfg\<lparr>Server := server, RateLimit := default_rate_limit (RateLimit cfg), Profiles := profiles,
         Backends := bes, Storage := storage\<rparr>))))))))"

text \<open>
  \<open>read\<close> is what reading and decoding the file over the defaults gives, for a path that is not empty.
\<close>

definition Load :: "unicode_tables \<Rightarrow> (string \<Rightarrow> string) \<Rightarrow> (string \<Rightarrow> Config \<Rightarrow> string + Config) \<Rightarrow> string \<Rightarrow> config_error + Config" where
  "Load U getenv read path0 =
     (let path = (if path0 = [] then getenv ''IAB_CONFIG'' else path0)
      in case (if path \<noteq> [] then read path Default else Inr Default) of
           Inl e \<Rightarrow> Inl (ReadFailed e)
         | Inr cfg \<Rightarrow> Validate U (applyEnv U getenv cfg))"

definition ProfileByMe :: "unicode_tables \<Rightarrow> Config \<Rightarrow> string \<Rightarrow> ProfileConfig option" where
  "ProfileByMe U cfg me =
     (case CanonicalURL U me of
        Inl e \<Rightarrow> None
      | Inr canonical \<Rightarrow> List.find (\<lambda>p. Me p = canonical) (Profiles cfg))"

end
