(* ===== verification/Network.thy ===== *)
theory Network
  imports Environment GoURL GoCrypto
begin

text \<open>
  The network as the program reaches it through Go's \<open>net\<close> and \<open>net/http\<close>: IP addresses and
  their classes, host name lookup, dialling, and an HTTP client that follows redirects.  What the
  resolver answers, which addresses accept a connection and what servers reply is arbitrary, and
  may change from one call to the next.  \<open>dialled\<close> records every address a connection was
  attempted to, so that what the program may reach can be stated.  Timeouts are failing replies;
  a proxy configured in the environment is not modelled.
\<close>

section \<open>Addresses\<close>

text \<open>\<open>net.IP\<close> is a byte slice of length 4 or 16; other lengths, and nil, are not addresses.\<close>

type_synonym ip = "u8 list"

definition To4 :: "ip \<Rightarrow> ip option" where
  "To4 ip =
     (if length ip = 4 then Some ip
      else if length ip = 16 \<and> take 10 ip = replicate 10 0 \<and> ip ! 10 = 255 \<and> ip ! 11 = 255 then Some (drop 12 ip)
      else None)"

definition IsLoopback :: "ip \<Rightarrow> bool" where
  "IsLoopback ip = (case To4 ip of
     Some a \<Rightarrow> a ! 0 = 127
   | None \<Rightarrow> ip = replicate 15 0 @ [1])"

definition IsPrivate :: "ip \<Rightarrow> bool" where
  "IsPrivate ip = (case To4 ip of
     Some a \<Rightarrow> a ! 0 = 10 \<or> (a ! 0 = 172 \<and> a ! 1 AND 240 = 16) \<or> (a ! 0 = 192 \<and> a ! 1 = 168)
   | None \<Rightarrow> length ip = 16 \<and> ip ! 0 AND 254 = 252)"

definition IsLinkLocalUnicast :: "ip \<Rightarrow> bool" where
  "IsLinkLocalUnicast ip = (case To4 ip of
     Some a \<Rightarrow> a ! 0 = 169 \<and> a ! 1 = 254
   | None \<Rightarrow> length ip = 16 \<and> ip ! 0 = 254 \<and> ip ! 1 AND 192 = 128)"

definition IsLinkLocalMulticast :: "ip \<Rightarrow> bool" where
  "IsLinkLocalMulticast ip = (case To4 ip of
     Some a \<Rightarrow> a ! 0 = 224 \<and> a ! 1 = 0 \<and> a ! 2 = 0
   | None \<Rightarrow> length ip = 16 \<and> ip ! 0 = 255 \<and> ip ! 1 AND 15 = 2)"

definition IsMulticast :: "ip \<Rightarrow> bool" where
  "IsMulticast ip = (case To4 ip of
     Some a \<Rightarrow> a ! 0 AND 240 = 224
   | None \<Rightarrow> length ip = 16 \<and> ip ! 0 = 255)"

definition IsUnspecified :: "ip \<Rightarrow> bool" where
  "IsUnspecified ip \<longleftrightarrow> To4 ip = Some [0, 0, 0, 0] \<or> ip = replicate 16 0"

text \<open>\<open>100.64.0.0/10\<close>, the range of carrier-grade NAT, as \<open>IPNet.Contains\<close> tests it.\<close>

definition in_carrierGradeNAT :: "ip \<Rightarrow> bool" where
  "in_carrierGradeNAT ip = (case To4 ip of Some a \<Rightarrow> a ! 0 = 100 \<and> a ! 1 AND 192 = 64 | None \<Rightarrow> False)"

section \<open>Requests, responses and the world\<close>

type_synonym http_header = "(string \<times> string) list"

record web_request =
  wr_Method :: string
  wr_URL :: URL
  wr_Accept :: string
  wr_ContentType :: string
  wr_Body :: string

text \<open>A reply; \<open>wp_Truncated\<close> is a read error after the bytes of the body.\<close>

record web_response =
  wp_Status :: nat
  wp_StatusText :: string
  wp_ContentType :: string
  wp_Location :: string
  wp_Body :: string
  wp_Truncated :: bool

record network = environment +
  resolver :: "nat \<Rightarrow> string \<Rightarrow> ip list result"
  lookups :: nat
  accepts :: "nat \<Rightarrow> ip \<Rightarrow> bool"
  dialled :: "ip list"
  replies :: "nat \<Rightarrow> web_request \<Rightarrow> web_response result"
  exchanges :: nat

definition LookupIPAddr :: "string \<Rightarrow> ('a network_scheme, ip list result) state" where
  "LookupIPAddr host = State (\<lambda>w. (resolver w (lookups w) host, w\<lparr>lookups := Suc (lookups w)\<rparr>))"

definition try_dial :: "ip \<Rightarrow> ('a network_scheme, bool) state" where
  "try_dial ip = State (\<lambda>w. (accepts w (length (dialled w)) ip, w\<lparr>dialled := dialled w @ [ip]\<rparr>))"

definition exchange :: "web_request \<Rightarrow> ('a network_scheme, web_response result) state" where
  "exchange r = State (\<lambda>w. (replies w (exchanges w) r, w\<lparr>exchanges := Suc (exchanges w)\<rparr>))"

lemma run_network [simp]:
  "run (LookupIPAddr host) w = (resolver w (lookups w) host, w\<lparr>lookups := Suc (lookups w)\<rparr>)"
  "run (try_dial ip) w = (accepts w (length (dialled w)) ip, w\<lparr>dialled := dialled w @ [ip]\<rparr>)"
  "run (exchange r) w = (replies w (exchanges w) r, w\<lparr>exchanges := Suc (exchanges w)\<rparr>)"
  by (simp_all add: LookupIPAddr_def try_dial_def exchange_def)

section \<open>The client\<close>

text \<open>
  What the program sets of an \<open>http.Client\<close>: a filter its \<open>DialContext\<close> applies to resolved addresses,
  and \<open>CheckRedirect\<close>, which gets the number of requests made so far and the target.  \<open>max_via\<close> is a
  number of requests from which on \<open>CheckRedirect\<close> refuses every target; it bounds the recursion.
\<close>

record 'w http_client =
  dial_ok :: "ip \<Rightarrow> bool"
  max_via :: nat
  check_redirect :: "nat \<Rightarrow> URL \<Rightarrow> ('w, unit result) state"

text \<open>Addresses are tried in the order of the resolver's answer, the filtered ones skipped.\<close>

fun dial_addresses :: "(ip \<Rightarrow> bool) \<Rightarrow> ip list \<Rightarrow> ('a network_scheme, unit result) state" where
  "dial_addresses ok [] = return (Inl ''no address accepted the connection'')"
| "dial_addresses ok (ip # ips) =
     (if \<not> ok ip then dial_addresses ok ips
      else do { c \<leftarrow> try_dial ip; if c then return (Inr ()) else dial_addresses ok ips })"

definition dial :: "(ip \<Rightarrow> bool) \<Rightarrow> string \<Rightarrow> ('a network_scheme, unit result) state" where
  "dial ok host = do {
     r \<leftarrow> LookupIPAddr host;
     case r of Inl e \<Rightarrow> return (Inl e) | Inr ips \<Rightarrow> dial_addresses ok ips
   }"

definition is_redirect :: "nat \<Rightarrow> bool" where
  "is_redirect s \<longleftrightarrow> s \<in> {301, 302, 303, 307, 308}"

text \<open>A redirect other than 307 and 308 turns the request into a \<open>GET\<close> without a body.\<close>

definition redirected :: "nat \<Rightarrow> URL \<Rightarrow> web_request \<Rightarrow> web_request" where
  "redirected status u r =
     (if status \<in> {307, 308} then r\<lparr>wr_URL := u\<rparr>
      else r\<lparr>wr_URL := u, wr_Method := ''GET'', wr_ContentType := [], wr_Body := []\<rparr>)"

text \<open>\<open>Client.Do\<close>: \<open>via\<close> is the number of requests made so far.\<close>

function client_Do :: "unicode_tables \<Rightarrow> ('a network_scheme) http_client \<Rightarrow> nat \<Rightarrow> web_request \<Rightarrow>
    ('a network_scheme, web_response result) state" where
  "client_Do U c via r =
   (if url_Scheme (wr_URL r) \<noteq> ''http'' \<and> url_Scheme (wr_URL r) \<noteq> ''https'' then return (Inl ''unsupported protocol scheme'')
   else if url_Host (wr_URL r) = [] then return (Inl ''http: no Host in request URL'')
   else do {
     d \<leftarrow> dial (dial_ok c) (Hostname (wr_URL r));
     case d of
       Inl e \<Rightarrow> return (Inl e)
     | Inr _ \<Rightarrow> do {
         p \<leftarrow> exchange r;
         case p of
           Inl e \<Rightarrow> return (Inl e)
         | Inr resp \<Rightarrow>
             if \<not> is_redirect (wp_Status resp) \<or> wp_Location resp = [] then return (Inr resp)
             else (case Parse U (wp_Location resp) of
                 Inl e \<Rightarrow> return (Inl e)
               | Inr loc \<Rightarrow>
                   let u = ResolveReference (wr_URL r) loc in
                   do {
                     k \<leftarrow> check_redirect c (Suc via) u;
                     case k of
                       Inl e \<Rightarrow> return (Inl e)
                     | Inr _ \<Rightarrow>
                         if max_via c \<le> Suc via then return (Inl ''too many redirects'')
                         else client_Do U c (Suc via) (redirected (wp_Status resp) u r)
                   })
       }
   })"
  by pat_completeness auto
termination by (relation "measure (\<lambda>(U, c, via, r). max_via c - via)") auto

declare client_Do.simps [simp del]

text \<open>\<open>http.NewRequest\<close>: the URL is parsed again and an empty port is dropped.\<close>

definition removeEmptyPort :: "string \<Rightarrow> string" where
  "removeEmptyPort host = (if HasSuffix host '':'' then butlast host else host)"

definition NewRequest :: "unicode_tables \<Rightarrow> string \<Rightarrow> string \<Rightarrow> web_request result" where
  "NewRequest U method raw = map_result (\<lambda>u. \<lparr>wr_Method = method,
     wr_URL = u\<lparr>url_Host := removeEmptyPort (url_Host u)\<rparr>, wr_Accept = [], wr_ContentType = [], wr_Body = []\<rparr>)
     (Parse U raw)"

text \<open>\<open>io.ReadAll(io.LimitReader(body, n))\<close>.\<close>

definition read_limited :: "web_response \<Rightarrow> nat \<Rightarrow> string result" where
  "read_limited resp n =
     (if wp_Truncated resp \<and> length (wp_Body resp) < n then Inl ''unexpected EOF'' else Inr (take n (wp_Body resp)))"

section \<open>What is dialled\<close>

text \<open>Every address dialled from a world on satisfies a condition.\<close>

definition dials_only :: "(ip \<Rightarrow> bool) \<Rightarrow> 'a network_scheme \<Rightarrow> bool" where
  "dials_only P w \<longleftrightarrow> list_all P (dialled w)"

lemma dials_only_simps [simp]:
  "dials_only P (w\<lparr>lookups := n\<rparr>) = dials_only P w"
  "dials_only P (w\<lparr>exchanges := n\<rparr>) = dials_only P w"
  "dials_only P (w\<lparr>dialled := dialled w @ [ip]\<rparr>) \<longleftrightarrow> dials_only P w \<and> P ip"
  by (auto simp: dials_only_def)

text \<open>
  An invariant of worlds that the network operations keep, dialling being restricted to the addresses
  that satisfy \<open>P\<close>: the HTTP client keeps it when its dial filter implies \<open>P\<close>.
\<close>

locale network_invariant =
  fixes I :: "'a network_scheme \<Rightarrow> bool" and P :: "ip \<Rightarrow> bool"
  assumes inv_lookups: "I w \<Longrightarrow> I (w\<lparr>lookups := Suc (lookups w)\<rparr>)"
    and inv_exchanges: "I w \<Longrightarrow> I (w\<lparr>exchanges := Suc (exchanges w)\<rparr>)"
    and inv_dialled: "I w \<Longrightarrow> P ip \<Longrightarrow> I (w\<lparr>dialled := dialled w @ [ip]\<rparr>)"
begin

lemma keeps_lookup: "keeps I (LookupIPAddr h) anything"
  by (simp add: keeps_def inv_lookups)

lemma keeps_exchange: "keeps I (exchange r) anything"
  by (simp add: keeps_def inv_exchanges)

lemma keeps_dial_addresses:
  "(\<And>ip. ok ip \<Longrightarrow> P ip) \<Longrightarrow> keeps I (dial_addresses ok ips) anything"
proof (induction ips)
  case (Cons ip ips)
  have "keeps I (try_dial ip) anything" if "ok ip"
    using Cons.prems that by (auto simp: keeps_def inv_dialled)
  with Cons show ?case by (auto intro!: keeps_if keeps_bind [where P = anything] keeps_return)
qed (simp add: keeps_return)

lemma keeps_dial: "(\<And>ip. ok ip \<Longrightarrow> P ip) \<Longrightarrow> keeps I (dial ok host) anything"
  unfolding dial_def
  by (intro keeps_bind [OF keeps_lookup] keeps_case_sum keeps_return keeps_dial_addresses) simp_all

lemma keeps_client_Do:
  assumes ok: "\<And>ip. dial_ok c ip \<Longrightarrow> P ip"
    and check: "\<And>n u. keeps I (check_redirect c n u) anything"
  shows "keeps I (client_Do U c via r) anything"
  using ok check
proof (induction U c via r rule: client_Do.induct)
  case (1 U c via r)
  show ?case
    unfolding client_Do.simps [of U c via r] Let_def
    by (intro keeps_bind [OF keeps_dial] keeps_bind [OF keeps_exchange] keeps_bind [OF "1.prems"(2)]
        keeps_case_sum keeps_if keeps_return "1.IH") (auto intro: "1.prems")
qed

end

interpretation dials: network_invariant "dials_only P" P for P
  by unfold_locales simp_all

end
