(* ===== verification/GoHtml.thy ===== *)
theory GoHtml
  imports GoStrings "HOL-Library.Word"
begin

text \<open>
  The text scanning of \<open>internal/indieauth\<close>: what its four regular expressions match in a page, as
  deterministic scanners, and \<open>html.UnescapeString\<close>.  Each expression is leftmost-first and every
  choice in it is forced by the next byte, so matching at a position needs no search; \<open>FindAll\<close>
  tries the positions from left to right and continues after a match.  Under \<open>(?i)\<close> the letters
  \<open>k\<close> and \<open>s\<close> also match the Kelvin sign and the long s.
\<close>

section \<open>Pieces of the expressions\<close>

definition re_space :: "char \<Rightarrow> bool" where
  "re_space c \<longleftrightarrow> ord c \<in> {9, 10, 12, 13, 32}"

definition fold_letter :: "char \<Rightarrow> char \<Rightarrow> bool" where
  "fold_letter l c \<longleftrightarrow> c = l \<or> (65 \<le> ord c \<and> ord c \<le> 90 \<and> ord c + 32 = ord l)"

text \<open>The rest of the text after a letter, matched without regard to case.\<close>

definition match_letter :: "char \<Rightarrow> string \<Rightarrow> string option" where
  "match_letter l s =
     (case s of
        [] \<Rightarrow> None
      | c # cs \<Rightarrow>
          if fold_letter l c then Some cs
          else if l = CHR ''k'' \<and> take 3 s = [chr 226, chr 132, chr 170] then Some (drop 3 s)
          else if l = CHR ''s'' \<and> take 2 s = [chr 197, chr 191] then Some (drop 2 s)
          else None)"

fun match_word :: "string \<Rightarrow> string \<Rightarrow> string option" where
  "match_word [] s = Some s"
| "match_word (l # ls) s = (case match_letter l s of None \<Rightarrow> None | Some t \<Rightarrow> match_word ls t)"

text \<open>\<open>\s*=\s*\<close>\<close>

definition match_equals :: "string \<Rightarrow> string option" where
  "match_equals s =
     (case dropWhile re_space s of
        [] \<Rightarrow> None
      | c # cs \<Rightarrow> if c = CHR ''='' then Some (dropWhile re_space cs) else None)"

definition double_quote :: char where "double_quote = chr 34"
definition single_quote :: char where "single_quote = chr 39"

section \<open>Tags\<close>

text \<open>\<open>(?is)<link\s+[^>]*>\<close> and \<open>(?is)<meta\s+[^>]*>\<close> at one position: the tag and what follows it.\<close>

definition match_tag :: "string \<Rightarrow> string \<Rightarrow> (string \<times> string) option" where
  "match_tag name s =
     (case s of
        [] \<Rightarrow> None
      | c # cs \<Rightarrow>
          if c \<noteq> CHR ''<'' then None
          else (case match_word name cs of
              Some (d # ds) \<Rightarrow>
                if re_space d \<and> CHR ''>'' \<in> set ds
                then (let rest = tl (dropWhile (\<lambda>x. x \<noteq> CHR ''>'') ds) in Some (take (length s - length rest) s, rest))
                else None
            | _ \<Rightarrow> None))"

text \<open>
  \<open>FindAll\<close> of a scanner, \<open>n\<close> being at least the length of the text: a match is never empty.
\<close>

fun find_all :: "(string \<Rightarrow> ('m \<times> string) option) \<Rightarrow> nat \<Rightarrow> string \<Rightarrow> 'm list" where
  "find_all scan 0 s = []"
| "find_all scan (Suc n) s =
     (case scan s of
        Some (m, rest) \<Rightarrow> m # find_all scan n rest
      | None \<Rightarrow> (case s of [] \<Rightarrow> [] | c # cs \<Rightarrow> find_all scan n cs))"

definition find_tags :: "string \<Rightarrow> string \<Rightarrow> string list" where
  "find_tags name body = find_all (match_tag name) (length body) body"

section \<open>Attributes\<close>

text \<open>\<open>(?is)(rel|href)\s*=\s*["']([^"']+)["']\<close>\<close>

definition match_rel_href :: "string \<Rightarrow> ((string \<times> string) \<times> string) option" where
  "match_rel_href s =
     (case (case match_word ''rel'' s of Some t \<Rightarrow> Some t | None \<Rightarrow> match_word ''href'' s) of
        None \<Rightarrow> None
      | Some t \<Rightarrow>
          (case match_equals t of
             Some (q # v) \<Rightarrow>
               let value = takeWhile (\<lambda>c. c \<noteq> double_quote \<and> c \<noteq> single_quote) v;
                   rest = dropWhile (\<lambda>c. c \<noteq> double_quote \<and> c \<noteq> single_quote) v
               in if (q = double_quote \<or> q = single_quote) \<and> value \<noteq> [] \<and> rest \<noteq> []
                  then Some ((take (length s - length t) s, value), tl rest) else None
           | _ \<Rightarrow> None))"

text \<open>The first and the later characters of an attribute name, folded letters included.\<close>

definition name_start :: "string \<Rightarrow> string option" where
  "name_start s =
     (case s of
        [] \<Rightarrow> None
      | c # cs \<Rightarrow>
          if (97 \<le> ord c \<and> ord c \<le> 122) \<or> (65 \<le> ord c \<and> ord c \<le> 90) \<or> c = CHR ''_'' \<or> c = CHR '':'' then Some cs
          else if take 3 s = [chr 226, chr 132, chr 170] then Some (drop 3 s)
          else if take 2 s = [chr 197, chr 191] then Some (drop 2 s)
          else None)"

definition name_more :: "string \<Rightarrow> string option" where
  "name_more s =
     (case name_start s of
        Some t \<Rightarrow> Some t
      | None \<Rightarrow> (case s of
            [] \<Rightarrow> None
          | c # cs \<Rightarrow> if (48 \<le> ord c \<and> ord c \<le> 57) \<or> c = CHR ''.'' \<or> c = CHR ''-'' then Some cs else None))"

fun skip_name :: "nat \<Rightarrow> string \<Rightarrow> string" where
  "skip_name 0 s = s"
| "skip_name (Suc n) s = (case name_more s of None \<Rightarrow> s | Some t \<Rightarrow> skip_name n t)"

text \<open>\<open>(?is)([a-z_:][a-z0-9_.:-]*)\s*=\s*(?:"([^"]*)"|'([^']*)')\<close>\<close>

definition match_attr :: "string \<Rightarrow> ((string \<times> string) \<times> string) option" where
  "match_attr s =
     (case name_start s of
        None \<Rightarrow> None
      | Some t0 \<Rightarrow>
          let t = skip_name (length t0) t0 in
          (case match_equals t of
             Some (q # v) \<Rightarrow>
               let rest = dropWhile (\<lambda>c. c \<noteq> q) v
               in if (q = double_quote \<or> q = single_quote) \<and> rest \<noteq> []
                  then Some ((take (length s - length t) s, takeWhile (\<lambda>c. c \<noteq> q) v), tl rest) else None
           | _ \<Rightarrow> None))"

section \<open>Character references\<close>

text \<open>The code points that 0x80 to 0x9F stand for.\<close>

definition replacementTable :: "nat list" where
  "replacementTable = [8364, 129, 8218, 402, 8222, 8230, 8224, 8225, 710, 8240, 352, 8249, 338, 141, 381, 143,
     144, 8216, 8217, 8220, 8221, 8226, 8211, 8212, 732, 8482, 353, 8250, 339, 157, 382, 376]"

definition ref_digit :: "bool \<Rightarrow> char \<Rightarrow> nat option" where
  "ref_digit hex c =
     (if 48 \<le> ord c \<and> ord c \<le> 57 then Some (ord c - 48)
      else if hex \<and> 97 \<le> ord c \<and> ord c \<le> 102 then Some (ord c - 87)
      else if hex \<and> 65 \<le> ord c \<and> ord c \<le> 70 then Some (ord c - 55)
      else None)"

definition is_ref_digit :: "bool \<Rightarrow> char \<Rightarrow> bool" where
  "is_ref_digit hex c \<longleftrightarrow> ref_digit hex c \<noteq> None"

text \<open>The value is a 32-bit \<open>rune\<close> and wraps.\<close>

definition ref_value :: "bool \<Rightarrow> string \<Rightarrow> 32 word" where
  "ref_value hex ds = foldl (\<lambda>x c. (if hex then 16 else 10) * x +
     (case ref_digit hex c of None \<Rightarrow> 0 | Some d \<Rightarrow> of_nat d)) 0 ds"

definition ref_rune :: "32 word \<Rightarrow> nat" where
  "ref_rune x =
     (let v = sint x
      in if 128 \<le> v \<and> v \<le> 159 then replacementTable ! nat (v - 128)
         else if v = 0 \<or> (55296 \<le> v \<and> v \<le> 57343) \<or> 1114111 < v \<or> v < 0 then rune_error
         else nat v)"

text \<open>
  A reference after its ampersand: what it stands for and the rest, or \<^const>\<open>None\<close> when the
  ampersand stands for itself.  A numeric reference needs more than its first digit.
\<close>

definition numeric_ref :: "string \<Rightarrow> (string \<times> string) option" where
  "numeric_ref s =
     (if length s \<le> 2 then None
      else
        let hex = (s ! 1 = CHR ''x'' \<or> s ! 1 = CHR ''X'');
            body = drop (if hex then 2 else 1) s;
            ds = takeWhile (is_ref_digit hex) body;
            rest0 = dropWhile (is_ref_digit hex) body;
            rest = (case rest0 of c # cs \<Rightarrow> if c = CHR '';'' then cs else rest0 | [] \<Rightarrow> [])
        in if Suc (length s - length rest) \<le> 3 then None
           else Some (encode_rune (ref_rune (ref_value hex ds)), rest))"

definition entity_char :: "char \<Rightarrow> bool" where
  "entity_char c \<longleftrightarrow> (97 \<le> ord c \<and> ord c \<le> 122) \<or> (65 \<le> ord c \<and> ord c \<le> 90) \<or> (48 \<le> ord c \<and> ord c \<le> 57)"

text \<open>The longest prefix of two to six letters that is an entity without semicolon.\<close>

fun entity_prefix :: "unicode_tables \<Rightarrow> nat \<Rightarrow> string \<Rightarrow> (string \<times> nat) option" where
  "entity_prefix U 0 name = None"
| "entity_prefix U (Suc j) name =
     (if Suc j \<le> 1 then None
      else (case ut_entity U (take (Suc j) name) of
              Some v \<Rightarrow> Some (v, Suc j)
            | None \<Rightarrow> entity_prefix U j name))"

definition named_ref :: "unicode_tables \<Rightarrow> string \<Rightarrow> string \<times> string" where
  "named_ref U s =
     (let name0 = takeWhile entity_char s;
          rest0 = dropWhile entity_char s;
          (name, rest) = (case rest0 of c # cs \<Rightarrow> if c = CHR '';'' then (name0 @ [c], cs) else (name0, rest0) | [] \<Rightarrow> (name0, []))
      in if name = [] then (''&'', s)
         else (case ut_entity U name of
                 Some v \<Rightarrow> (v, rest)
               | None \<Rightarrow>
                   (case entity_prefix U (if length name - 1 > 6 then 6 else length name - 1) name of
                      Some (v, j) \<Rightarrow> (v, drop j s)
                    | None \<Rightarrow> (CHR ''&'' # name, rest))))"

definition unescapeEntity :: "unicode_tables \<Rightarrow> string \<Rightarrow> string \<times> string" where
  "unescapeEntity U s =
     (case s of
        [] \<Rightarrow> (''&'', [])
      | c # cs \<Rightarrow>
          if c = CHR ''#'' then (case numeric_ref s of None \<Rightarrow> (''&'', s) | Some r \<Rightarrow> r)
          else named_ref U s)"

fun unescape_html :: "unicode_tables \<Rightarrow> nat \<Rightarrow> string \<Rightarrow> string" where
  "unescape_html U 0 s = s"
| "unescape_html U (Suc n) [] = []"
| "unescape_html U (Suc n) (c # cs) =
     (if c = CHR ''&'' then (case unescapeEntity U cs of (v, rest) \<Rightarrow> v @ unescape_html U n rest)
      else c # unescape_html U n cs)"

definition UnescapeString :: "unicode_tables \<Rightarrow> string \<Rightarrow> string" where
  "UnescapeString U s = unescape_html U (length s) s"

end
