(* ===== verification/IndieAuth.thy ===== *)
theory IndieAuth
  imports Config Network GoHtml
begin

text \<open>
  The package \<open>internal/indieauth\<close>: scopes, who may act for a profile, the profile object, the
  redirect URIs a client declares, the identity a profile page is bound to, and the discovery of
  an authorization server.  The functions that fetch pages are computations on the network.
\<close>

section \<open>Scopes and profiles\<close>

definition SupportedScopes :: "string list" where
  "SupportedScopes = [''profile'', ''email'']"

definition ScopeAllowed :: "string \<Rightarrow> bool" where
  "ScopeAllowed scope \<longleftrightarrow> scope = [] \<or> list_all (\<lambda>item. item \<in> set SupportedScopes) (Fields scope)"

definition IdentityAllowed :: "unicode_tables \<Rightarrow> ProfileConfig \<Rightarrow> Identity \<Rightarrow> bool" where
  "IdentityAllowed U profile identity =
     (if list_ex (\<lambda>subject. subject \<noteq> [] \<and> subject = id_Subject identity) (AllowedSubjects profile) then True
      else if list_ex (\<lambda>username. username \<noteq> [] \<and>
          (EqualFold U username (id_Username identity) \<or> EqualFold U username (id_PreferredUsername identity)))
        (AllowedUsernames profile) then True
      else if list_ex (\<lambda>email. email \<noteq> [] \<and> EqualFold U email (id_Email identity)) (AllowedEmails profile) then True
      else list_ex (\<lambda>allowed. list_ex (\<lambda>actual. allowed \<noteq> [] \<and> allowed = actual) (id_Groups identity))
        (AllowedGroups profile))"

definition ProfileObject :: "ProfileConfig \<Rightarrow> values_map" where
  "ProfileObject profile =
     (let out = map_of_entries [(''url'', JStr (Me profile))];
          out = (if DisplayName profile \<noteq> [] then map_set ''name'' (JStr (DisplayName profile)) out else out);
          out = (if Email profile \<noteq> [] then map_set ''email'' (JStr (Email profile)) out else out)
      in out)"

text \<open>Marshalling a map of strings cannot fail.\<close>

definition ProfileJSON :: "ProfileConfig \<Rightarrow> string" where
  "ProfileJSON profile = json_encode (JObj (ProfileObject profile))"

definition DynamicProfileJSON :: "string \<Rightarrow> Identity \<Rightarrow> string" where
  "DynamicProfileJSON me identity =
     (let profile = no_profile\<lparr>Me := me, DisplayName := id_Name identity\<rparr>;
          profile = (if id_EmailVerified identity then profile\<lparr>Email := id_Email identity\<rparr> else profile)
      in ProfileJSON profile)"

section \<open>Fetch targets\<close>

definition isUnsafeMetadataIP :: "ip \<Rightarrow> bool" where
  "isUnsafeMetadataIP ip =
     (if ip = [] then True
      else IsLoopback ip \<or> IsPrivate ip \<or> in_carrierGradeNAT ip \<or> IsLinkLocalUnicast ip \<or>
        IsLinkLocalMulticast ip \<or> IsMulticast ip \<or> IsUnspecified ip)"

definition validateMetadataFetchTarget :: "URL \<Rightarrow> bool \<Rightarrow> ('a network_scheme, unit result) state" where
  "validateMetadataFetchTarget u allowPrivate =
     (if allowPrivate then return (Inr ())
      else if Hostname u = [] then return (Inl ''client metadata host is invalid'')
      else do {
        r \<leftarrow> LookupIPAddr (Hostname u);
        return (case r of
          Inl e \<Rightarrow> Inl e
        | Inr ips \<Rightarrow>
            if ips = [] then Inl ''client metadata host did not resolve''
            else if list_ex isUnsafeMetadataIP ips
            then Inl ''client metadata host resolves to a private or local address''
            else Inr ())
      })"

text \<open>The client of the metadata fetch: redirects are checked, dialling is not.\<close>

definition clientWithRedirectGuard :: "bool \<Rightarrow> ('a network_scheme) http_client" where
  "clientWithRedirectGuard allowPrivate = \<lparr>dial_ok = (\<lambda>_. True), max_via = 5,
     check_redirect = (\<lambda>via u.
       if 5 \<le> via then return (Inl ''too many redirects'')
       else validateMetadataFetchTarget u allowPrivate)\<rparr>"

text \<open>The client that only connects to safe addresses, unless private ones are allowed.\<close>

definition SafeHTTPClient :: "unicode_tables \<Rightarrow> URL \<Rightarrow> bool \<Rightarrow> bool \<Rightarrow> ('a network_scheme, 'a network_scheme http_client result) state" where
  "SafeHTTPClient U original allowPrivate allowSameOriginRedirects = do {
     r \<leftarrow> validateMetadataFetchTarget original allowPrivate;
     return (case r of
       Inl e \<Rightarrow> Inl e
     | Inr _ \<Rightarrow> Inr \<lparr>dial_ok = (\<lambda>ip. allowPrivate \<or> \<not> isUnsafeMetadataIP ip), max_via = 3,
         check_redirect = (\<lambda>via u.
           if \<not> allowSameOriginRedirects then return (Inl ''redirects are not allowed'')
           else if 3 \<le> via then return (Inl ''too many redirects'')
           else if \<not> SameOrigin U original u then return (Inl ''redirects must remain on the same origin'')
           else validateMetadataFetchTarget u allowPrivate)\<rparr>)
   }"

definition status_ok :: "nat \<Rightarrow> bool" where
  "status_ok s \<longleftrightarrow> \<not> (s < 200 \<or> 300 \<le> s)"

section \<open>Redirect URIs of a client\<close>

record ClientMetadata =
  cm_RedirectURIs :: "string list"
  cm_RedirectURI :: string

definition ClientMetadata_fields :: "(string \<times> ClientMetadata field_decoder) list" where
  "ClientMetadata_fields = [(''redirect_uris'', strings_field cm_RedirectURIs cm_RedirectURIs_update),
     (''redirect_uri'', string_field cm_RedirectURI_update)]"

definition redirectURIsFromJSON :: "unicode_tables \<Rightarrow> string \<Rightarrow> string list" where
  "redirectURIsFromJSON U body =
     (case unmarshal_struct U ClientMetadata_fields \<lparr>cm_RedirectURIs = [], cm_RedirectURI = []\<rparr> body of
        Inl e \<Rightarrow> []
      | Inr m \<Rightarrow> cm_RedirectURIs m @ (if cm_RedirectURI m \<noteq> [] then [cm_RedirectURI m] else []))"

text \<open>A Go map read at an absent key gives the empty string.\<close>

definition attr :: "(string \<times> string) list \<Rightarrow> string \<Rightarrow> string" where
  "attr m k = (case map_of m k of None \<Rightarrow> [] | Some v \<Rightarrow> v)"

definition relContains :: "unicode_tables \<Rightarrow> string \<Rightarrow> string \<Rightarrow> bool" where
  "relContains U rel want \<longleftrightarrow> list_ex (\<lambda>part. EqualFold U part want) (Fields rel)"

definition redirectURIsFromHTML :: "unicode_tables \<Rightarrow> string \<Rightarrow> string list" where
  "redirectURIsFromHTML U body = concat (List.map (\<lambda>tag.
     let attrs = map_of_entries (List.map (\<lambda>(n, v). (ToLower U n, v)) (find_all match_rel_href (length tag) tag))
     in if \<not> relContains U (attr attrs ''rel'') ''redirect_uri'' \<or> attr attrs ''href'' = [] then []
        else [attr attrs ''href'']) (find_tags ''link'' body))"

definition resolveRedirectURIs :: "unicode_tables \<Rightarrow> URL \<Rightarrow> string list \<Rightarrow> string list" where
  "resolveRedirectURIs U base uris = concat (List.map (\<lambda>raw.
     case Parse U (TrimSpace raw) of
       Inl e \<Rightarrow> []
     | Inr u \<Rightarrow> if URL_String u = [] then []
               else [URL_String (if \<not> IsAbs u then ResolveReference base u else u)]) uris)"

definition DiscoverClientRedirectURIs :: "unicode_tables \<Rightarrow> string \<Rightarrow> bool \<Rightarrow> ('a network_scheme, string list result) state" where
  "DiscoverClientRedirectURIs U clientID allowHTTP =
     (case ValidateHTTPSURL U clientID allowHTTP of
        Inl e \<Rightarrow> return (Inl e)
      | Inr clientURL \<Rightarrow> do {
          t \<leftarrow> validateMetadataFetchTarget clientURL allowHTTP;
          case t of
            Inl e \<Rightarrow> return (Inl e)
          | Inr _ \<Rightarrow>
              (case NewRequest U ''GET'' (URL_String clientURL) of
                 Inl e \<Rightarrow> return (Inl e)
               | Inr req \<Rightarrow> do {
                   p \<leftarrow> client_Do U (clientWithRedirectGuard allowHTTP) 0
                     (req\<lparr>wr_Accept := ''application/json, text/html;q=0.9''\<rparr>);
                   return (case p of
                     Inl e \<Rightarrow> Inl e
                   | Inr resp \<Rightarrow>
                       if \<not> status_ok (wp_Status resp) then Inl ''client metadata could not be fetched''
                       else bind_result (read_limited resp (128 * 1024)) (\<lambda>body.
                         if redirectURIsFromJSON U body \<noteq> []
                         then Inr (resolveRedirectURIs U clientURL (redirectURIsFromJSON U body))
                         else if redirectURIsFromHTML U body \<noteq> []
                         then Inr (resolveRedirectURIs U clientURL (redirectURIsFromHTML U body))
                         else Inl ''client metadata did not declare redirect_uri''))
                 })
        })"

definition normalizedRedirect :: "unicode_tables \<Rightarrow> string \<Rightarrow> bool \<Rightarrow> string result" where
  "normalizedRedirect U raw allowHTTP = bind_result (ValidateHTTPSURL U raw allowHTTP) (\<lambda>u.
     if url_Fragment u \<noteq> [] then Inl ''redirect_uri must not contain a fragment'' else Inr (URL_String u))"

definition ValidateClientRedirect ::
  "unicode_tables \<Rightarrow> string \<Rightarrow> string \<Rightarrow> bool \<Rightarrow> bool \<Rightarrow> ('a network_scheme, unit result) state" where
  "ValidateClientRedirect U clientID redirectURI allowHTTP discoveryEnabled =
     (if is_ok (ValidateRedirectURI U clientID redirectURI allowHTTP) then return (Inr ())
      else if \<not> discoveryEnabled then return (Inl ''redirect_uri must have the same origin as client_id'')
      else do {
        d \<leftarrow> DiscoverClientRedirectURIs U clientID allowHTTP;
        return (case d of
          Inl e \<Rightarrow> Inl e
        | Inr uris \<Rightarrow> bind_result (normalizedRedirect U redirectURI allowHTTP) (\<lambda>requested.
            if list_ex (\<lambda>discovered. normalizedRedirect U discovered allowHTTP = Inr requested) uris then Inr ()
            else Inl ''redirect_uri is not declared by client metadata''))
      })"

section \<open>The identity a profile page is bound to\<close>

definition profileMetadataLimit :: nat where
  "profileMetadataLimit = 256 * 1024"

record ProfileIdentityBinding =
  pib_Me :: string
  pib_Issuer :: string
  pib_Subject :: string

definition htmlAttributes :: "unicode_tables \<Rightarrow> string \<Rightarrow> (string \<times> string) list" where
  "htmlAttributes U tag = map_of_entries (List.map (\<lambda>(n, v). (ToLower U n, UnescapeString U v))
     (find_all match_attr (length tag) tag))"

definition identityMetadataFromHTML :: "unicode_tables \<Rightarrow> string \<Rightarrow> string \<Rightarrow> bool \<Rightarrow> (string \<times> string) result" where
  "identityMetadataFromHTML U body metadataName allowHTTP =
     (let found = concat (List.map (\<lambda>tag.
            let attrs = htmlAttributes U tag; value = TrimSpace (attr attrs ''content'')
            in if \<not> EqualFold U (attr attrs ''name'') metadataName then []
               else if value \<noteq> [] then [value] else []) (find_tags ''meta'' body))
      in case found of
           [] \<Rightarrow> Inl ''profile page does not contain the metadata''
         | [value] \<Rightarrow>
             (case Fields value of
                [issuer, subject] \<Rightarrow>
                  (case ValidateHTTPSURL U issuer allowHTTP of
                     Inl e \<Rightarrow> Inl (''profile identity issuer: '' @ e)
                   | Inr issuerURL \<Rightarrow>
                       if TrimSpace subject = [] \<or> length (TrimSpace subject) > 512
                       then Inl ''profile identity subject is invalid''
                       else Inr (URL_String issuerURL, subject))
              | _ \<Rightarrow> Inl ''the metadata must contain an issuer and subject'')
         | _ \<Rightarrow> Inl ''profile page contains multiple metadata tags'')"

text \<open>The links of a page, each with its \<open>rel\<close> and its target as an absolute URL.\<close>

definition page_links :: "unicode_tables \<Rightarrow> string \<Rightarrow> URL \<Rightarrow> (string \<times> string) list" where
  "page_links U body base = concat (List.map (\<lambda>tag.
     let attrs = htmlAttributes U tag; href = TrimSpace (attr attrs ''href'')
     in if href = [] then []
        else (case Parse U href of
                Inl e \<Rightarrow> []
              | Inr u \<Rightarrow> [(attr attrs ''rel'', URL_String (if \<not> IsAbs u then ResolveReference base u else u))]))
     (find_tags ''link'' body))"

definition pageDelegatesToBridge :: "unicode_tables \<Rightarrow> string \<Rightarrow> URL \<Rightarrow> string \<Rightarrow> bool" where
  "pageDelegatesToBridge U body base bridgePublicURL =
     (let bridge = TrimRight bridgePublicURL ''/'';
          wanted = [(''indieauth-metadata'', bridge @ ''/.well-known/oauth-authorization-server''),
                    (''authorization_endpoint'', bridge @ ''/authorize'')]
      in list_ex (\<lambda>(rels, href). list_ex (\<lambda>(rel, endpoint). relContains U rels rel \<and> href = endpoint) wanted)
           (page_links U body base))"

text \<open>A profile URL without fragment and with a path.\<close>

definition profile_page :: "URL \<Rightarrow> URL" where
  "profile_page u = u\<lparr>url_Fragment := [], url_Path := (if url_Path u = [] then ''/'' else url_Path u)\<rparr>"

definition profile_page_binding ::
  "unicode_tables \<Rightarrow> URL \<Rightarrow> web_response \<Rightarrow> string \<Rightarrow> bool \<Rightarrow> string \<Rightarrow> string \<Rightarrow> ProfileIdentityBinding result" where
  "profile_page_binding U profileURL resp metadataName allowHTTP bridgePublicURL expectedIssuer =
     (if \<not> status_ok (wp_Status resp) then Inl ''profile page could not be fetched''
      else if ToLower U (wp_ContentType resp) \<noteq> [] \<and> \<not> Contains (ToLower U (wp_ContentType resp)) ''text/html''
      then Inl ''profile page is not HTML''
      else bind_result (read_limited resp (profileMetadataLimit + 1)) (\<lambda>body.
        if length body > profileMetadataLimit then Inl ''profile page is too large''
        else if \<not> pageDelegatesToBridge U body profileURL bridgePublicURL
        then Inl ''profile page does not delegate IndieAuth to this bridge''
        else bind_result (identityMetadataFromHTML U body metadataName allowHTTP) (\<lambda>(issuer, subject).
          if issuer \<noteq> expectedIssuer then Inl ''profile identity issuer does not match the configured backend''
          else map_result (\<lambda>me. \<lparr>pib_Me = me, pib_Issuer = issuer, pib_Subject = subject\<rparr>)
            (CanonicalURL U (URL_String profileURL)))))"

definition DiscoverProfileIdentity ::
  "unicode_tables \<Rightarrow> string \<Rightarrow> bool \<Rightarrow> string \<Rightarrow> string \<Rightarrow> string \<Rightarrow>
   ('a network_scheme, ProfileIdentityBinding result) state" where
  "DiscoverProfileIdentity U me allowHTTP metadataName bridgePublicURL expectedIssuer =
     (case ValidateHTTPSURL U me allowHTTP of
        Inl e \<Rightarrow> return (Inl e)
      | Inr u \<Rightarrow>
          let profileURL = profile_page u in
          do {
            c \<leftarrow> SafeHTTPClient U profileURL allowHTTP True;
            case c of
              Inl e \<Rightarrow> return (Inl e)
            | Inr client \<Rightarrow>
                (case NewRequest U ''GET'' (URL_String profileURL) of
                   Inl e \<Rightarrow> return (Inl e)
                 | Inr req \<Rightarrow> do {
                     p \<leftarrow> client_Do U client 0 (req\<lparr>wr_Accept := ''text/html''\<rparr>);
                     return (bind_result p (\<lambda>resp.
                       profile_page_binding U profileURL resp metadataName allowHTTP bridgePublicURL expectedIssuer))
                   })
          })"

section \<open>Discovery of an authorization server\<close>

definition authorizationMetadataLimit :: nat where
  "authorizationMetadataLimit = 128 * 1024"

record AuthorizationServer =
  as_Me :: string
  as_MetadataEndpoint :: string
  as_Issuer :: string
  as_AuthorizationEndpoint :: string
  as_TokenEndpoint :: string
  as_LegacyVerification :: bool

record authorizationServerMetadata =
  asm_Issuer :: string
  asm_AuthorizationEndpoint :: string
  asm_TokenEndpoint :: string

definition metadata_fields :: "(string \<times> authorizationServerMetadata field_decoder) list" where
  "metadata_fields = [(''issuer'', string_field asm_Issuer_update),
     (''authorization_endpoint'', string_field asm_AuthorizationEndpoint_update),
     (''token_endpoint'', string_field asm_TokenEndpoint_update)]"

definition fetchLimited ::
  "unicode_tables \<Rightarrow> ('a network_scheme) http_client \<Rightarrow> string \<Rightarrow> string \<Rightarrow> nat \<Rightarrow> ('a network_scheme, string result) state" where
  "fetchLimited U client rawURL accept limit =
     (case NewRequest U ''GET'' rawURL of
        Inl e \<Rightarrow> return (Inl e)
      | Inr req \<Rightarrow> do {
          p \<leftarrow> client_Do U client 0 (req\<lparr>wr_Accept := accept\<rparr>);
          return (bind_result p (\<lambda>resp.
            if \<not> status_ok (wp_Status resp) then Inl ''metadata could not be fetched''
            else bind_result (read_limited resp (limit + 1)) (\<lambda>body.
              if length body > limit then Inl ''metadata response is too large'' else Inr body)))
        })"

text \<open>The links by their lower-case relation, in the order of the page.\<close>

definition linksFromHTML :: "unicode_tables \<Rightarrow> string \<Rightarrow> URL \<Rightarrow> string \<Rightarrow> string list" where
  "linksFromHTML U body base key =
     concat (List.map (\<lambda>(rels, href). List.map (\<lambda>_. href) (filter (\<lambda>rel. ToLower U rel = key) (Fields rels)))
       (page_links U body base))"

definition firstLink :: "string list \<Rightarrow> string" where
  "firstLink links = (case links of [] \<Rightarrow> [] | l # _ \<Rightarrow> l)"

definition validateDiscoveredEndpoint :: "unicode_tables \<Rightarrow> string \<Rightarrow> bool \<Rightarrow> ('a network_scheme, unit result) state" where
  "validateDiscoveredEndpoint U raw allowHTTP =
     (case ValidateHTTPSURL U raw allowHTTP of
        Inl e \<Rightarrow> return (Inl e)
      | Inr u \<Rightarrow>
          if url_Fragment u \<noteq> [] then return (Inl ''endpoint must not contain a fragment'')
          else validateMetadataFetchTarget u allowHTTP)"

text \<open>The step that reads the metadata document, when the profile links to one.\<close>

definition read_metadata ::
  "unicode_tables \<Rightarrow> bool \<Rightarrow> AuthorizationServer \<Rightarrow> ('a network_scheme, AuthorizationServer result) state" where
  "read_metadata U allowHTTP server =
     (if as_MetadataEndpoint server = [] then return (Inr server)
      else (case ValidateHTTPSURL U (as_MetadataEndpoint server) allowHTTP of
          Inl e \<Rightarrow> return (Inl ''invalid IndieAuth metadata endpoint'')
        | Inr metadataURL \<Rightarrow> do {
            c \<leftarrow> SafeHTTPClient U metadataURL allowHTTP True;
            case c of
              Inl e \<Rightarrow> return (Inl e)
            | Inr client \<Rightarrow> do {
                b \<leftarrow> fetchLimited U client (URL_String metadataURL) ''application/json'' authorizationMetadataLimit;
                return (bind_result b (\<lambda>body.
                  case unmarshal_struct U metadata_fields
                    \<lparr>asm_Issuer = [], asm_AuthorizationEndpoint = [], asm_TokenEndpoint = []\<rparr> body of
                    Inl e \<Rightarrow> Inl ''IndieAuth metadata is not valid JSON''
                  | Inr m \<Rightarrow> Inr (server\<lparr>as_Issuer := asm_Issuer m,
                      as_AuthorizationEndpoint := asm_AuthorizationEndpoint m, as_TokenEndpoint := asm_TokenEndpoint m\<rparr>)))
              }
          }))"

definition check_issuer :: "unicode_tables \<Rightarrow> bool \<Rightarrow> AuthorizationServer \<Rightarrow> AuthorizationServer result" where
  "check_issuer U allowHTTP server =
     (if as_AuthorizationEndpoint server = [] then Inl ''profile did not advertise an authorization endpoint''
      else if as_Issuer server = [] then Inr server
      else (case ValidateHTTPSURL U (as_Issuer server) allowHTTP of
          Inl e \<Rightarrow> Inl ''invalid authorization server issuer''
        | Inr issuer \<Rightarrow>
            if url_Fragment issuer \<noteq> [] then Inl ''invalid authorization server issuer''
            else Inr (server\<lparr>as_Issuer := URL_String issuer\<rparr>)))"

definition DiscoverAuthorizationServer :: "unicode_tables \<Rightarrow> string \<Rightarrow> bool \<Rightarrow> ('a network_scheme, AuthorizationServer result) state" where
  "DiscoverAuthorizationServer U me allowHTTP =
     (case ValidateHTTPSURL U me allowHTTP of
        Inl e \<Rightarrow> return (Inl e)
      | Inr u \<Rightarrow>
          let profileURL = profile_page u in
          do {
            c \<leftarrow> SafeHTTPClient U profileURL allowHTTP True;
            case c of
              Inl e \<Rightarrow> return (Inl e)
            | Inr client \<Rightarrow> do {
                b \<leftarrow> fetchLimited U client (URL_String profileURL) ''text/html'' profileMetadataLimit;
                case b of
                  Inl e \<Rightarrow> return (Inl e)
                | Inr body \<Rightarrow> do {
                    s \<leftarrow> read_metadata U allowHTTP \<lparr>as_Me = URL_String profileURL,
                      as_MetadataEndpoint = firstLink (linksFromHTML U body profileURL ''indieauth-metadata''),
                      as_Issuer = [],
                      as_AuthorizationEndpoint = firstLink (linksFromHTML U body profileURL ''authorization_endpoint''),
                      as_TokenEndpoint = firstLink (linksFromHTML U body profileURL ''token_endpoint''),
                      as_LegacyVerification = False\<rparr>;
                    case bind_result s (check_issuer U allowHTTP) of
                      Inl e \<Rightarrow> return (Inl e)
                    | Inr server \<Rightarrow> do {
                        va \<leftarrow> validateDiscoveredEndpoint U (as_AuthorizationEndpoint server) allowHTTP;
                        if \<not> is_ok va then return (Inl ''invalid authorization endpoint'')
                        else do {
                          vt \<leftarrow> (if as_TokenEndpoint server \<noteq> []
                                then validateDiscoveredEndpoint U (as_TokenEndpoint server) allowHTTP
                                else return (Inr ()));
                          if \<not> is_ok vt then return (Inl ''invalid token endpoint'')
                          else return (map_result (\<lambda>m. server\<lparr>as_Me := m,
                            as_LegacyVerification := (as_TokenEndpoint server = [])\<rparr>)
                            (CanonicalURL U (URL_String profileURL)))
                        }
                      }
                  }
              }
          })"

section \<open>Invariants of the functions that fetch\<close>

context network_invariant
begin

lemma keeps_target: "keeps I (validateMetadataFetchTarget u allow) anything"
  unfolding validateMetadataFetchTarget_def
  by (intro keeps_if keeps_return keeps_bind [OF keeps_lookup]) simp_all

lemma keeps_SafeHTTPClient:
  assumes "\<And>ip. allow \<or> \<not> isUnsafeMetadataIP ip \<Longrightarrow> P ip"
  shows "keeps I (SafeHTTPClient U orig allow redirects)
    (on_ok (\<lambda>c. (\<forall>ip. dial_ok c ip \<longrightarrow> P ip) \<and> (\<forall>n u. keeps I (check_redirect c n u) anything)))"
  unfolding SafeHTTPClient_def
  by (intro keeps_bind [OF keeps_target] keeps_return)
    (use assms in \<open>auto split: sum.splits intro!: keeps_if keeps_return keeps_target\<close>)

lemma keeps_guarded_client:
  assumes "\<And>ip. P ip" shows "keeps I (client_Do U (clientWithRedirectGuard allow) via r) anything"
  by (rule keeps_client_Do)
    (use assms in \<open>auto simp: clientWithRedirectGuard_def intro!: keeps_if keeps_return keeps_target\<close>)

lemma keeps_ValidateClientRedirect:
  assumes "\<And>ip. P ip" shows "keeps I (ValidateClientRedirect U c r allow disc) anything"
  unfolding ValidateClientRedirect_def DiscoverClientRedirectURIs_def
  by (intro keeps_if keeps_return keeps_bind [where P = anything] keeps_case_sum keeps_target
      keeps_guarded_client assms TrueI)

lemma keeps_safe_Do:
  "(\<forall>ip. dial_ok c ip \<longrightarrow> P ip) \<and> (\<forall>n u. keeps I (check_redirect c n u) anything) \<Longrightarrow> keeps I (client_Do U c via r) anything"
  by (rule keeps_client_Do) auto

lemma keeps_DiscoverProfileIdentity:
  assumes "\<And>ip. allow \<or> \<not> isUnsafeMetadataIP ip \<Longrightarrow> P ip"
  shows "keeps I (DiscoverProfileIdentity U me allow name pub iss) anything"
  unfolding DiscoverProfileIdentity_def Let_def
  by (intro keeps_case_sum keeps_return keeps_bind [OF keeps_SafeHTTPClient [OF assms]] keeps_bind [OF keeps_safe_Do])
    simp_all

lemma keeps_fetchLimited:
  "(\<forall>ip. dial_ok c ip \<longrightarrow> P ip) \<and> (\<forall>n u. keeps I (check_redirect c n u) anything) \<Longrightarrow>
   keeps I (fetchLimited U c raw accept limit) anything"
  unfolding fetchLimited_def
  by (intro keeps_case_sum keeps_return keeps_bind [OF keeps_safe_Do]) simp_all

lemma keeps_read_metadata:
  assumes "\<And>ip. allow \<or> \<not> isUnsafeMetadataIP ip \<Longrightarrow> P ip"
  shows "keeps I (read_metadata U allow server) anything"
  unfolding read_metadata_def
  by (intro keeps_if keeps_case_sum keeps_return keeps_bind [OF keeps_SafeHTTPClient [OF assms]]
      keeps_bind [OF keeps_fetchLimited]) simp_all

lemma keeps_endpoint: "keeps I (validateDiscoveredEndpoint U raw allow) anything"
  unfolding validateDiscoveredEndpoint_def
  by (intro keeps_case_sum keeps_if keeps_return keeps_target) simp_all

lemma keeps_DiscoverAuthorizationServer:
  assumes "\<And>ip. allow \<or> \<not> isUnsafeMetadataIP ip \<Longrightarrow> P ip"
  shows "keeps I (DiscoverAuthorizationServer U me allow) anything"
  unfolding DiscoverAuthorizationServer_def Let_def
  by (intro keeps_case_sum keeps_if keeps_return keeps_bind [OF keeps_SafeHTTPClient [OF assms]]
      keeps_bind [OF keeps_fetchLimited] keeps_bind [OF keeps_read_metadata [OF assms]]
      keeps_bind [where m = "validateDiscoveredEndpoint U x allow" and P = anything for x] keeps_endpoint
      keeps_bind [where P = anything]) simp_all

end

end
