(* ===== verification/Store.thy ===== *)
theory Store
  imports Security Backends Network
begin

text \<open>
  The package \<open>internal/storage\<close> on SQLite.  A table is the list of its rows, in the order a scan
  visits them; every statement either fails, with some error text and no effect, or acts on the
  tables as its SQL says, the constraints of the schema included.  Which statements fail is
  arbitrary: \<open>faults\<close> gives the error of the statement with that number, if it has one.  Times are
  stored as Unix seconds.  A transaction restores the tables when it is not committed.
\<close>

section \<open>Records\<close>

text \<open>The structs of the package; \<open>[]byte\<close> profile JSON is text, empty for nil.\<close>

record AuthRequest =
  ar_ID :: string
  ar_Backend :: string
  ar_BackendState :: BackendState
  ar_Me :: string
  ar_ClientID :: string
  ar_RedirectURI :: string
  ar_Scope :: string
  ar_ClientState :: string
  ar_CodeChallenge :: string
  ar_CodeChallengeMethod :: string
  ar_ProfileJSON :: string
  ar_ExpiresAt :: time
  ar_CreatedAt :: time

record AuthorizationCode =
  ac_CodeHash :: string
  ac_Me :: string
  ac_ClientID :: string
  ac_RedirectURI :: string
  ac_Scope :: string
  ac_CodeChallenge :: string
  ac_CodeChallengeMethod :: string
  ac_ProfileJSON :: string
  ac_ExpiresAt :: time
  ac_CreatedAt :: time

record AccessToken =
  at_TokenHash :: string
  at_Me :: string
  at_ClientID :: string
  at_Scope :: string
  at_ProfileJSON :: string
  at_ExpiresAt :: time
  at_CreatedAt :: time
  at_RevokedAt :: "time option"

record ConsentRequest =
  cr_ID :: string
  cr_CSRFToken :: string
  cr_Me :: string
  cr_ClientID :: string
  cr_RedirectURI :: string
  cr_Scope :: string
  cr_ClientState :: string
  cr_CodeChallenge :: string
  cr_CodeChallengeMethod :: string
  cr_ProfileJSON :: string
  cr_Subject :: string
  cr_ExpiresAt :: time
  cr_CreatedAt :: time

record AuditEvent =
  ae_EventType :: string
  ae_Subject :: string
  ae_Me :: string
  ae_ClientID :: string
  ae_CreatedAt :: time

record ManagedProfile =
  mp_Handle :: string
  mp_Issuer :: string
  mp_Subject :: string
  mp_DisplayName :: string
  mp_Bio :: string
  mp_WebsiteURL :: string
  mp_Accent :: string
  mp_Customized :: bool
  mp_CreatedAt :: time
  mp_UpdatedAt :: time

text \<open>The rows of the tables, column by column.\<close>

record auth_request_row =
  q_id :: string
  q_backend :: string
  q_backend_state :: string
  q_backend_state_value :: string
  q_me :: string
  q_client_id :: string
  q_redirect_uri :: string
  q_scope :: string
  q_client_state :: string
  q_code_challenge :: string
  q_code_challenge_method :: string
  q_profile_json :: string
  q_expires_at :: int
  q_created_at :: int

record code_row =
  c_code_hash :: string
  c_me :: string
  c_client_id :: string
  c_redirect_uri :: string
  c_scope :: string
  c_code_challenge :: string
  c_code_challenge_method :: string
  c_profile_json :: string
  c_expires_at :: int
  c_created_at :: int
  c_used_at :: "int option"

record token_row =
  t_token_hash :: string
  t_me :: string
  t_client_id :: string
  t_scope :: string
  t_profile_json :: string
  t_expires_at :: int
  t_created_at :: int
  t_revoked_at :: "int option"

record consent_row =
  r_id :: string
  r_csrf_token :: string
  r_me :: string
  r_client_id :: string
  r_redirect_uri :: string
  r_scope :: string
  r_client_state :: string
  r_code_challenge :: string
  r_code_challenge_method :: string
  r_profile_json :: string
  r_subject :: string
  r_expires_at :: int
  r_created_at :: int

record audit_row =
  e_event_type :: string
  e_subject :: string
  e_me :: string
  e_client_id :: string
  e_created_at :: int

record profile_row =
  p_handle :: string
  p_issuer :: string
  p_subject :: string
  p_display_name :: string
  p_bio :: string
  p_website_url :: string
  p_accent :: string
  p_customized :: bool
  p_created_at :: int
  p_updated_at :: int

record database =
  auth_requests :: "auth_request_row list"
  authorization_codes :: "code_row list"
  access_tokens :: "token_row list"
  consent_requests :: "consent_row list"
  audit_events :: "audit_row list"
  managed_profiles :: "profile_row list"

definition empty_database :: database where
  "empty_database = \<lparr>auth_requests = [], authorization_codes = [], access_tokens = [],
     consent_requests = [], audit_events = [], managed_profiles = []\<rparr>"

datatype store_error = ErrNotFound | ErrUsed | ErrExpired | ErrRevoked | ErrConflict | DbError string

type_synonym 'a stored = "store_error + 'a"

section \<open>Statements and transactions\<close>

record store_world = network +
  db :: database
  faults :: "nat \<Rightarrow> string option"
  db_ops :: nat

text \<open>One SQL statement: it may fail from outside, or by a constraint of the schema.\<close>

definition sql :: "(database \<Rightarrow> string + 'a \<times> database) \<Rightarrow> ('w store_world_scheme, 'a stored) state" where
  "sql f = State (\<lambda>w.
     case faults w (db_ops w) of
       Some e \<Rightarrow> (Inl (DbError e), w\<lparr>db_ops := Suc (db_ops w)\<rparr>)
     | None \<Rightarrow>
         (case f (db w) of
            Inl e \<Rightarrow> (Inl (DbError e), w\<lparr>db_ops := Suc (db_ops w)\<rparr>)
          | Inr (x, d) \<Rightarrow> (Inr x, w\<lparr>db_ops := Suc (db_ops w), db := d\<rparr>)))"

definition sql_query :: "(database \<Rightarrow> 'a) \<Rightarrow> ('w store_world_scheme, 'a stored) state" where
  "sql_query f = sql (\<lambda>d. Inr (f d, d))"

definition sql_exec :: "(database \<Rightarrow> database) \<Rightarrow> ('w store_world_scheme, unit stored) state" where
  "sql_exec f = sql (\<lambda>d. Inr ((), f d))"

text \<open>An insert that the key of the table may refuse.\<close>

definition unique_failed :: "string \<Rightarrow> string" where
  "unique_failed column = ''constraint failed: UNIQUE constraint failed: '' @ column"

definition sql_insert :: "string \<Rightarrow> (database \<Rightarrow> bool) \<Rightarrow> (database \<Rightarrow> database) \<Rightarrow> ('w store_world_scheme, unit stored) state" where
  "sql_insert column taken f = sql (\<lambda>d. if taken d then Inl (unique_failed column) else Inr ((), f d))"

text \<open>
  \<open>BeginTx\<close>, the body, \<open>Commit\<close>; the deferred \<open>Rollback\<close> undoes the body when an error is returned.
\<close>

definition transaction :: "('w store_world_scheme, 'a stored) state \<Rightarrow> ('w store_world_scheme, 'a stored) state" where
  "transaction body = do {
     b \<leftarrow> sql_query (\<lambda>_. ());
     case b of
       Inl e \<Rightarrow> return (Inl e)
     | Inr _ \<Rightarrow> do {
         snapshot \<leftarrow> gets db;
         r \<leftarrow> body;
         c \<leftarrow> (case r of Inl e \<Rightarrow> return (Inl e) | Inr x \<Rightarrow> sql_query (\<lambda>_. x));
         case c of
           Inl e \<Rightarrow> do { modify (db_update (\<lambda>_. snapshot)); return (Inl e) }
         | Inr x \<Rightarrow> return (Inr x)
       }
   }"

section \<open>Authorization requests\<close>

definition auth_row_of :: "AuthRequest \<Rightarrow> auth_request_row" where
  "auth_row_of ar = \<lparr>q_id = ar_ID ar, q_backend = ar_Backend ar,
     q_backend_state = marshal_state (ar_BackendState ar),
     q_backend_state_value = bs_State (ar_BackendState ar), q_me = ar_Me ar, q_client_id = ar_ClientID ar,
     q_redirect_uri = ar_RedirectURI ar, q_scope = ar_Scope ar, q_client_state = ar_ClientState ar,
     q_code_challenge = ar_CodeChallenge ar, q_code_challenge_method = ar_CodeChallengeMethod ar,
     q_profile_json = ar_ProfileJSON ar, q_expires_at = Unix (ar_ExpiresAt ar),
     q_created_at = Unix (ar_CreatedAt ar)\<rparr>"

definition EncodeBackendState :: "BackendState \<Rightarrow> string" where
  "EncodeBackendState st = marshal_state st"

definition CreateAuthRequest :: "AuthRequest \<Rightarrow> ('w store_world_scheme, unit stored) state" where
  "CreateAuthRequest ar =
     sql_insert ''auth_requests.id'' (\<lambda>d. \<exists>q \<in> set (auth_requests d). q_id q = ar_ID ar)
       (auth_requests_update (\<lambda>rows. rows @ [auth_row_of ar]))"

definition scanAuthRequest :: "BackendState \<Rightarrow> auth_request_row \<Rightarrow> AuthRequest" where
  "scanAuthRequest bs q = \<lparr>ar_ID = q_id q, ar_Backend = q_backend q, ar_BackendState = bs, ar_Me = q_me q,
     ar_ClientID = q_client_id q, ar_RedirectURI = q_redirect_uri q, ar_Scope = q_scope q,
     ar_ClientState = q_client_state q, ar_CodeChallenge = q_code_challenge q,
     ar_CodeChallengeMethod = q_code_challenge_method q, ar_ProfileJSON = q_profile_json q,
     ar_ExpiresAt = time_Unix (q_expires_at q), ar_CreatedAt = time_Unix (q_created_at q)\<rparr>"

definition GetAuthRequestByBackendState ::
  "unicode_tables \<Rightarrow> string \<Rightarrow> string \<Rightarrow> ('w store_world_scheme, AuthRequest stored) state" where
  "GetAuthRequestByBackendState U backendName st = do {
     row \<leftarrow> sql_query (\<lambda>d. List.find (\<lambda>q. q_backend q = backendName \<and> q_backend_state_value q = st) (auth_requests d));
     case row of
       Inl e \<Rightarrow> return (Inl e)
     | Inr None \<Rightarrow> return (Inl ErrNotFound)
     | Inr (Some q) \<Rightarrow>
         (case unmarshal_state U (q_backend_state q) of
            Inl e \<Rightarrow> return (Inl (DbError e))
          | Inr bs \<Rightarrow> do {
              t \<leftarrow> now;
              if time_Unix (q_expires_at q) < t then return (Inl ErrExpired)
              else return (Inr (scanAuthRequest bs q))
            })
   }"

definition DeleteAuthRequest :: "string \<Rightarrow> ('w store_world_scheme, unit stored) state" where
  "DeleteAuthRequest i = sql_exec (auth_requests_update (filter (\<lambda>q. q_id q \<noteq> i)))"

section \<open>Authorization codes\<close>

definition code_row_of :: "string \<Rightarrow> AuthorizationCode \<Rightarrow> code_row" where
  "code_row_of code rec = \<lparr>c_code_hash = HashToken code, c_me = ac_Me rec, c_client_id = ac_ClientID rec,
     c_redirect_uri = ac_RedirectURI rec, c_scope = ac_Scope rec, c_code_challenge = ac_CodeChallenge rec,
     c_code_challenge_method = ac_CodeChallengeMethod rec, c_profile_json = ac_ProfileJSON rec,
     c_expires_at = Unix (ac_ExpiresAt rec), c_created_at = Unix (ac_CreatedAt rec), c_used_at = None\<rparr>"

definition CreateAuthorizationCode :: "string \<Rightarrow> AuthorizationCode \<Rightarrow> ('w store_world_scheme, unit stored) state" where
  "CreateAuthorizationCode code rec =
     sql_insert ''authorization_codes.code_hash''
       (\<lambda>d. \<exists>c \<in> set (authorization_codes d). c_code_hash c = HashToken code)
       (authorization_codes_update (\<lambda>rows. rows @ [code_row_of code rec]))"

definition scanAuthorizationCode :: "code_row \<Rightarrow> AuthorizationCode" where
  "scanAuthorizationCode c = \<lparr>ac_CodeHash = c_code_hash c, ac_Me = c_me c, ac_ClientID = c_client_id c,
     ac_RedirectURI = c_redirect_uri c, ac_Scope = c_scope c, ac_CodeChallenge = c_code_challenge c,
     ac_CodeChallengeMethod = c_code_challenge_method c, ac_ProfileJSON = c_profile_json c,
     ac_ExpiresAt = time_Unix (c_expires_at c), ac_CreatedAt = time_Unix (c_created_at c)\<rparr>"

text \<open>The update of one unused code, with the number of rows it changed.\<close>

definition unused :: "string \<Rightarrow> code_row \<Rightarrow> bool" where
  "unused hash c \<longleftrightarrow> c_code_hash c = hash \<and> c_used_at c = None"

definition mark_used :: "string \<Rightarrow> int \<Rightarrow> code_row \<Rightarrow> code_row" where
  "mark_used hash u c = (if unused hash c then c\<lparr>c_used_at := Some u\<rparr> else c)"

definition use_code :: "string \<Rightarrow> time \<Rightarrow> ('w store_world_scheme, nat stored) state" where
  "use_code hash t = sql (\<lambda>d. Inr (length (filter (unused hash) (authorization_codes d)),
     authorization_codes_update (List.map (mark_used hash (Unix t))) d))"

definition consume_body :: "string \<Rightarrow> time \<Rightarrow> ('w store_world_scheme, AuthorizationCode stored) state" where
  "consume_body code t = do {
     row \<leftarrow> sql_query (\<lambda>d. List.find (\<lambda>c. c_code_hash c = HashToken code) (authorization_codes d));
     case row of
       Inl e \<Rightarrow> return (Inl e)
     | Inr None \<Rightarrow> return (Inl ErrNotFound)
     | Inr (Some c) \<Rightarrow>
         if c_used_at c \<noteq> None then return (Inl ErrUsed)
         else if \<not> t < time_Unix (c_expires_at c) then return (Inl ErrExpired)
         else do {
           affected \<leftarrow> use_code (HashToken code) t;
           case affected of
             Inl e \<Rightarrow> return (Inl e)
           | Inr n \<Rightarrow> if n \<noteq> 1 then return (Inl ErrUsed) else return (Inr (scanAuthorizationCode c))
         }
   }"

definition ConsumeAuthorizationCode :: "string \<Rightarrow> time \<Rightarrow> ('w store_world_scheme, AuthorizationCode stored) state" where
  "ConsumeAuthorizationCode code t = transaction (consume_body code t)"

section \<open>Access tokens\<close>

definition token_row_of :: "string \<Rightarrow> AccessToken \<Rightarrow> token_row" where
  "token_row_of token rec = \<lparr>t_token_hash = HashToken token, t_me = at_Me rec, t_client_id = at_ClientID rec,
     t_scope = at_Scope rec, t_profile_json = at_ProfileJSON rec, t_expires_at = Unix (at_ExpiresAt rec),
     t_created_at = Unix (at_CreatedAt rec), t_revoked_at = None\<rparr>"

definition CreateAccessToken :: "string \<Rightarrow> AccessToken \<Rightarrow> ('w store_world_scheme, unit stored) state" where
  "CreateAccessToken token rec =
     sql_insert ''access_tokens.token_hash''
       (\<lambda>d. \<exists>r \<in> set (access_tokens d). t_token_hash r = HashToken token)
       (access_tokens_update (\<lambda>rows. rows @ [token_row_of token rec]))"

definition scanAccessToken :: "token_row \<Rightarrow> AccessToken" where
  "scanAccessToken r = \<lparr>at_TokenHash = t_token_hash r, at_Me = t_me r, at_ClientID = t_client_id r,
     at_Scope = t_scope r, at_ProfileJSON = t_profile_json r, at_ExpiresAt = time_Unix (t_expires_at r),
     at_CreatedAt = time_Unix (t_created_at r), at_RevokedAt = None\<rparr>"

definition GetAccessToken :: "string \<Rightarrow> time \<Rightarrow> ('w store_world_scheme, AccessToken stored) state" where
  "GetAccessToken token t = do {
     row \<leftarrow> sql_query (\<lambda>d. List.find (\<lambda>r. t_token_hash r = HashToken token) (access_tokens d));
     return (case row of
       Inl e \<Rightarrow> Inl e
     | Inr None \<Rightarrow> Inl ErrNotFound
     | Inr (Some r) \<Rightarrow>
         if t_revoked_at r \<noteq> None then Inl ErrRevoked
         else if \<not> t < time_Unix (t_expires_at r) then Inl ErrExpired
         else Inr (scanAccessToken r))
   }"

definition revoke_row :: "string \<Rightarrow> int \<Rightarrow> token_row \<Rightarrow> token_row" where
  "revoke_row hash u r =
     (if t_token_hash r = hash \<and> t_revoked_at r = None then r\<lparr>t_revoked_at := Some u\<rparr> else r)"

definition RevokeAccessToken :: "string \<Rightarrow> time \<Rightarrow> ('w store_world_scheme, unit stored) state" where
  "RevokeAccessToken token t =
     sql_exec (access_tokens_update (List.map (revoke_row (HashToken token) (Unix t))))"

section \<open>Consent requests\<close>

definition consent_row_of :: "ConsentRequest \<Rightarrow> consent_row" where
  "consent_row_of cr = \<lparr>r_id = cr_ID cr, r_csrf_token = cr_CSRFToken cr, r_me = cr_Me cr,
     r_client_id = cr_ClientID cr, r_redirect_uri = cr_RedirectURI cr, r_scope = cr_Scope cr,
     r_client_state = cr_ClientState cr, r_code_challenge = cr_CodeChallenge cr,
     r_code_challenge_method = cr_CodeChallengeMethod cr, r_profile_json = cr_ProfileJSON cr,
     r_subject = cr_Subject cr, r_expires_at = Unix (cr_ExpiresAt cr), r_created_at = Unix (cr_CreatedAt cr)\<rparr>"

definition CreateConsentRequest :: "ConsentRequest \<Rightarrow> ('w store_world_scheme, unit stored) state" where
  "CreateConsentRequest cr =
     sql_insert ''consent_requests.id'' (\<lambda>d. \<exists>r \<in> set (consent_requests d). r_id r = cr_ID cr)
       (consent_requests_update (\<lambda>rows. rows @ [consent_row_of cr]))"

definition scanConsentRequest :: "consent_row \<Rightarrow> ConsentRequest" where
  "scanConsentRequest r = \<lparr>cr_ID = r_id r, cr_CSRFToken = r_csrf_token r, cr_Me = r_me r,
     cr_ClientID = r_client_id r, cr_RedirectURI = r_redirect_uri r, cr_Scope = r_scope r,
     cr_ClientState = r_client_state r, cr_CodeChallenge = r_code_challenge r,
     cr_CodeChallengeMethod = r_code_challenge_method r, cr_ProfileJSON = r_profile_json r,
     cr_Subject = r_subject r, cr_ExpiresAt = time_Unix (r_expires_at r), cr_CreatedAt = time_Unix (r_created_at r)\<rparr>"

definition GetConsentRequest :: "string \<Rightarrow> time \<Rightarrow> ('w store_world_scheme, ConsentRequest stored) state" where
  "GetConsentRequest i t = do {
     row \<leftarrow> sql_query (\<lambda>d. List.find (\<lambda>r. r_id r = i) (consent_requests d));
     return (case row of
       Inl e \<Rightarrow> Inl e
     | Inr None \<Rightarrow> Inl ErrNotFound
     | Inr (Some r) \<Rightarrow>
         if \<not> t < time_Unix (r_expires_at r) then Inl ErrExpired else Inr (scanConsentRequest r))
   }"

definition DeleteConsentRequest :: "string \<Rightarrow> ('w store_world_scheme, unit stored) state" where
  "DeleteConsentRequest i = sql_exec (consent_requests_update (filter (\<lambda>r. r_id r \<noteq> i)))"

section \<open>Audit events\<close>

definition CreateAuditEvent :: "AuditEvent \<Rightarrow> ('w store_world_scheme, unit stored) state" where
  "CreateAuditEvent event = do {
     createdAt \<leftarrow> (if ae_CreatedAt event = zero_time then now else return (ae_CreatedAt event));
     sql_exec (audit_events_update (\<lambda>rows. rows @
       [\<lparr>e_event_type = ae_EventType event, e_subject = ae_Subject event, e_me = ae_Me event,
         e_client_id = ae_ClientID event, e_created_at = Unix createdAt\<rparr>]))
   }"

section \<open>Managed profiles\<close>

text \<open>\<open>COLLATE NOCASE\<close> compares with the 26 upper case letters of ASCII folded to lower case.\<close>

definition ascii_lower :: "char \<Rightarrow> char" where
  "ascii_lower c = (if 65 \<le> ord c \<and> ord c \<le> 90 then chr (ord c + 32) else c)"

definition nocase_eq :: "string \<Rightarrow> string \<Rightarrow> bool" where
  "nocase_eq s t \<longleftrightarrow> List.map ascii_lower s = List.map ascii_lower t"

definition profile_row_of :: "ManagedProfile \<Rightarrow> profile_row" where
  "profile_row_of mp = \<lparr>p_handle = mp_Handle mp, p_issuer = mp_Issuer mp, p_subject = mp_Subject mp,
     p_display_name = mp_DisplayName mp, p_bio = mp_Bio mp, p_website_url = mp_WebsiteURL mp,
     p_accent = mp_Accent mp, p_customized = mp_Customized mp,
     p_created_at = Unix (mp_CreatedAt mp), p_updated_at = Unix (mp_UpdatedAt mp)\<rparr>"

definition insert_profile :: "ManagedProfile \<Rightarrow> database \<Rightarrow> string + unit \<times> database" where
  "insert_profile mp d =
     (if \<exists>p \<in> set (managed_profiles d). nocase_eq (p_handle p) (mp_Handle mp)
      then Inl (unique_failed ''managed_profiles.handle'')
      else if \<exists>p \<in> set (managed_profiles d). p_issuer p = mp_Issuer mp \<and> p_subject p = mp_Subject mp
      then Inl (unique_failed ''managed_profiles.issuer, managed_profiles.subject'')
      else Inr ((), d\<lparr>managed_profiles := managed_profiles d @ [profile_row_of mp]\<rparr>))"

definition CreateManagedProfile :: "unicode_tables \<Rightarrow> ManagedProfile \<Rightarrow> ('w store_world_scheme, unit stored) state" where
  "CreateManagedProfile U mp = do {
     r \<leftarrow> sql (insert_profile mp);
     return (case r of
       Inl (DbError e) \<Rightarrow> if Contains (ToLower U e) ''unique constraint'' then Inl ErrConflict else Inl (DbError e)
     | _ \<Rightarrow> r)
   }"

definition scanManagedProfile :: "profile_row option stored \<Rightarrow> ManagedProfile stored" where
  "scanManagedProfile row = (case row of
       Inl e \<Rightarrow> Inl e
     | Inr None \<Rightarrow> Inl ErrNotFound
     | Inr (Some p) \<Rightarrow> Inr \<lparr>mp_Handle = p_handle p, mp_Issuer = p_issuer p, mp_Subject = p_subject p,
         mp_DisplayName = p_display_name p, mp_Bio = p_bio p, mp_WebsiteURL = p_website_url p,
         mp_Accent = p_accent p, mp_Customized = p_customized p,
         mp_CreatedAt = time_Unix (p_created_at p), mp_UpdatedAt = time_Unix (p_updated_at p)\<rparr>)"

definition GetManagedProfileByHandle :: "string \<Rightarrow> ('w store_world_scheme, ManagedProfile stored) state" where
  "GetManagedProfileByHandle handle = do {
     row \<leftarrow> sql_query (\<lambda>d. List.find (\<lambda>p. nocase_eq (p_handle p) handle) (managed_profiles d));
     return (scanManagedProfile row)
   }"

definition GetManagedProfileByIdentity :: "string \<Rightarrow> string \<Rightarrow> ('w store_world_scheme, ManagedProfile stored) state" where
  "GetManagedProfileByIdentity issuer subject = do {
     row \<leftarrow> sql_query (\<lambda>d. List.find (\<lambda>p. p_issuer p = issuer \<and> p_subject p = subject) (managed_profiles d));
     return (scanManagedProfile row)
   }"

definition update_profile :: "ManagedProfile \<Rightarrow> profile_row \<Rightarrow> profile_row" where
  "update_profile mp p =
     (if p_issuer p = mp_Issuer mp \<and> p_subject p = mp_Subject mp
      then p\<lparr>p_display_name := mp_DisplayName mp, p_bio := mp_Bio mp, p_website_url := mp_WebsiteURL mp,
        p_accent := mp_Accent mp, p_customized := mp_Customized mp, p_updated_at := Unix (mp_UpdatedAt mp)\<rparr>
      else p)"

definition UpdateManagedProfile :: "ManagedProfile \<Rightarrow> ('w store_world_scheme, unit stored) state" where
  "UpdateManagedProfile mp = do {
     r \<leftarrow> sql (\<lambda>d. Inr (
       length (filter (\<lambda>p. p_issuer p = mp_Issuer mp \<and> p_subject p = mp_Subject mp) (managed_profiles d)),
       managed_profiles_update (List.map (update_profile mp)) d));
     return (case r of Inl e \<Rightarrow> Inl e | Inr affected \<Rightarrow> if affected \<noteq> 1 then Inl ErrNotFound else Inr ())
   }"

section \<open>Cleanup\<close>

definition cleanup_statements :: "int \<Rightarrow> (database \<Rightarrow> database) list" where
  "cleanup_statements cutoff = [
     auth_requests_update (filter (\<lambda>q. \<not> q_expires_at q \<le> cutoff)),
     consent_requests_update (filter (\<lambda>r. \<not> r_expires_at r \<le> cutoff)),
     authorization_codes_update (filter (\<lambda>c. \<not> (c_expires_at c \<le> cutoff \<or> c_used_at c \<noteq> None))),
     access_tokens_update (filter (\<lambda>t. \<not> t_expires_at t \<le> cutoff))]"

fun exec_all :: "(database \<Rightarrow> database) list \<Rightarrow> ('w store_world_scheme, unit stored) state" where
  "exec_all [] = return (Inr ())"
| "exec_all (f # fs) = do {
     r \<leftarrow> sql_exec f;
     case r of Inl e \<Rightarrow> return (Inl e) | Inr _ \<Rightarrow> exec_all fs
   }"

definition Cleanup :: "time \<Rightarrow> ('w store_world_scheme, unit stored) state" where
  "Cleanup t = exec_all (cleanup_statements (Unix t))"

end
