(* ===== verification/Server.thy ===== *)
theory Server
  imports Http IndieAuth Store
begin

text \<open>
  The login flow of \<open>internal/http/server.go\<close>: the server's data, the handlers of the authorization,
  callback, consent, token, introspection and revocation endpoints, and the managed profiles of
  \<open>internal/http/managed_profiles.go\<close> they use.  A handler is a computation that returns the response;
  its early returns are the branches that end in one.  Logging is not modelled.
\<close>

section \<open>The server\<close>

text \<open>
  The backends are in the order in which a loop over the map visits them.  The clock, the store and
  the network are in the world.
\<close>

record 'w Server =
  cfg :: Config
  backends :: "(string \<times> 'w Backend) list"
  tables :: unicode_tables

definition backendStateDynamicProfile :: string where
  "backendStateDynamicProfile = ''indieauth_dynamic_profile''"
definition backendStateProfileIssuer :: string where
  "backendStateProfileIssuer = ''indieauth_profile_issuer''"
definition backendStateProfileSubject :: string where
  "backendStateProfileSubject = ''indieauth_profile_subject''"
definition backendStateSetup :: string where
  "backendStateSetup = ''indieauth_setup''"

definition audit :: "string \<Rightarrow> string \<Rightarrow> string \<Rightarrow> string \<Rightarrow> ('a store_world_scheme, unit) state" where
  "audit eventType subject me clientID = do {
     t \<leftarrow> now;
     r \<leftarrow> CreateAuditEvent \<lparr>ae_EventType = eventType, ae_Subject = subject, ae_Me = me,
       ae_ClientID = clientID, ae_CreatedAt = t\<rparr>;
     return ()
   }"

definition displayScope :: "string \<Rightarrow> string" where
  "displayScope scope = (if scope = [] then ''(none)'' else scope)"

definition consentContentSecurityPolicy :: "string \<Rightarrow> string" where
  "consentContentSecurityPolicy scriptNonce =
     ''default-src '' @ [chr 39] @ ''none'' @ [chr 39] @ ''; style-src '' @ [chr 39] @ ''unsafe-inline'' @ [chr 39] @
     ''; script-src '' @ [chr 39] @ ''nonce-'' @ scriptNonce @ [chr 39] @ '' '' @ [chr 39] @ ''self'' @ [chr 39] @
     ''; base-uri '' @ [chr 39] @ ''none'' @ [chr 39] @ ''; frame-ancestors '' @ [chr 39] @ ''none'' @ [chr 39]"

section \<open>Redirects back to the client\<close>

text \<open>The redirect URI with parameters set in its query.\<close>

definition redirect_with :: "unicode_tables \<Rightarrow> string \<Rightarrow> (url_values \<Rightarrow> url_values) \<Rightarrow> string result" where
  "redirect_with U redirectURI f =
     map_result (\<lambda>redirect. URL_String (redirect\<lparr>url_RawQuery := Encode (f (Query redirect))\<rparr>)) (Parse U redirectURI)"

definition redirectWithError :: "unicode_tables \<Rightarrow> headers \<Rightarrow> string \<Rightarrow> string \<Rightarrow> string \<Rightarrow> http_response" where
  "redirectWithError U hs redirectURI st errorCode =
     (case redirect_with U redirectURI (\<lambda>values.
        let values = values_Set ''error'' errorCode values
        in if st \<noteq> [] then values_Set ''state'' st values else values) of
        Inl e \<Rightarrow> http_Error hs ''invalid stored redirect'' 500
      | Inr location \<Rightarrow> Redirect hs location 302)"

record codeIssueRequest =
  ci_Me :: string
  ci_ClientID :: string
  ci_RedirectURI :: string
  ci_Scope :: string
  ci_ClientState :: string
  ci_CodeChallenge :: string
  ci_CodeChallengeMethod :: string
  ci_ProfileJSON :: string
  ci_Subject :: string

text \<open>The record of a new code; its hash is set by the store.\<close>

definition code_of_request :: "codeIssueRequest \<Rightarrow> time \<Rightarrow> duration \<Rightarrow> AuthorizationCode" where
  "code_of_request req t ttl = \<lparr>ac_CodeHash = [], ac_Me = ci_Me req, ac_ClientID = ci_ClientID req,
     ac_RedirectURI = ci_RedirectURI req, ac_Scope = ci_Scope req, ac_CodeChallenge = ci_CodeChallenge req,
     ac_CodeChallengeMethod = ci_CodeChallengeMethod req, ac_ProfileJSON = ci_ProfileJSON req,
     ac_ExpiresAt = t + ttl, ac_CreatedAt = t\<rparr>"

definition issueCodeAndRedirect ::
  "('a store_world_scheme) Server \<Rightarrow> headers \<Rightarrow> codeIssueRequest \<Rightarrow> ('a store_world_scheme, http_response result) state" where
  "issueCodeAndRedirect s hs req = do {
     c \<leftarrow> RandomToken;
     case c of
       Inl e \<Rightarrow> return (Inl e)
     | Inr code \<Rightarrow> do {
         t \<leftarrow> now;
         r \<leftarrow> CreateAuthorizationCode code (code_of_request req t (CodeTTL (Security (cfg s))));
         case r of
           Inl e \<Rightarrow> return (Inl ''store'')
         | Inr _ \<Rightarrow> do {
             audit ''authorization_code_issued'' (ci_Subject req) (ci_Me req) (ci_ClientID req);
             return (map_result (\<lambda>location. Redirect hs location 302)
               (redirect_with (tables s) (ci_RedirectURI req) (\<lambda>values.
                  let values = values_Set ''code'' code values;
                      values = (if ci_ClientState req \<noteq> [] then values_Set ''state'' (ci_ClientState req) values else values)
                  in values_Set ''iss'' (Issuer (Server (cfg s))) values)))
           }
       }
   }"

definition legacyIndieAuthSignIn :: "url_values \<Rightarrow> bool" where
  "legacyIndieAuthSignIn q \<longleftrightarrow> values_Get q ''response_type'' = [] \<and> values_Get q ''scope'' = [] \<and>
     values_Get q ''code_challenge'' = [] \<and> values_Get q ''code_challenge_method'' = []"

section \<open>Managed profiles\<close>

definition managedHandleMaxLength :: nat where "managedHandleMaxLength = 32"
definition managedDisplayNameMaxLength :: nat where "managedDisplayNameMaxLength = 80"
definition managedBioMaxLength :: nat where "managedBioMaxLength = 280"

definition managedProfileAccents :: "string list" where
  "managedProfileAccents = [''teal'', ''blue'', ''violet'', ''rose'', ''amber'']"

definition reservedManagedHandles :: "string list" where
  "reservedManagedHandles = [''admin'', ''administrator'', ''api'', ''auth'', ''help'', ''indieauth'', ''root'',
     ''security'', ''setup'', ''support'', ''system'', ''test'']"

definition handle_separator :: "rune \<Rightarrow> bool" where
  "handle_separator r \<longleftrightarrow> r = ord (CHR ''.'') \<or> r = ord (CHR ''_'') \<or> r = ord (CHR ''-'')"

definition handle_rune :: "rune \<Rightarrow> bool" where
  "handle_rune r \<longleftrightarrow> (97 \<le> r \<and> r \<le> 122) \<or> (48 \<le> r \<and> r \<le> 57) \<or> handle_separator r"

text \<open>The loop over the runes, with what is written so far and \<open>lastSeparator\<close>.\<close>

fun handle_loop :: "unicode_tables \<Rightarrow> string \<Rightarrow> bool \<Rightarrow> rune list \<Rightarrow> string" where
  "handle_loop U out lastSeparator [] = out"
| "handle_loop U out lastSeparator (r # rs) =
     (if handle_rune r
      then handle_loop U (if length out < managedHandleMaxLength then out @ [chr r] else out) (handle_separator r) rs
      else if (IsLetter U r \<or> IsNumber U r \<or> IsSpace r) \<and> \<not> lastSeparator \<and> out \<noteq> [] \<and>
        length out < managedHandleMaxLength
      then handle_loop U (out @ ''-'') True rs
      else handle_loop U out lastSeparator rs)"

definition normalizeManagedHandle :: "unicode_tables \<Rightarrow> string \<Rightarrow> string" where
  "normalizeManagedHandle U value = Trim (handle_loop U [] False (runes (ToLower U (TrimSpace value)))) ''._-''"

definition managedHandleSuffix :: "string \<Rightarrow> string \<Rightarrow> string" where
  "managedHandleSuffix issuer subject = hex_lower (take 4 (Sum256 (issuer @ [chr 0] @ subject)))"

fun first_handle :: "unicode_tables \<Rightarrow> string list \<Rightarrow> string option" where
  "first_handle U [] = None"
| "first_handle U (candidate # cs) =
     (if normalizeManagedHandle U candidate \<noteq> [] then Some (normalizeManagedHandle U candidate) else first_handle U cs)"

definition desiredManagedHandle :: "unicode_tables \<Rightarrow> Identity \<Rightarrow> string \<Rightarrow> string" where
  "desiredManagedHandle U identity issuer =
     (case first_handle U [id_PreferredUsername identity, id_Username identity, id_Name identity] of
        Some handle \<Rightarrow> if handle \<in> set reservedManagedHandles then ''user-'' @ handle else handle
      | None \<Rightarrow> ''user-'' @ managedHandleSuffix issuer (id_Subject identity))"

definition managedProfileURL :: "Config \<Rightarrow> string \<Rightarrow> string" where
  "managedProfileURL c handle = PublicURL (Server c) @ ''/@'' @ PathEscape handle"

text \<open>The profile a first sign-in creates.\<close>

definition new_profile :: "string \<Rightarrow> string \<Rightarrow> string \<Rightarrow> string \<Rightarrow> time \<Rightarrow> ManagedProfile" where
  "new_profile handle issuer subject displayName t = \<lparr>mp_Handle = handle, mp_Issuer = issuer, mp_Subject = subject,
     mp_DisplayName = displayName, mp_Bio = [], mp_WebsiteURL = [], mp_Accent = ''teal'', mp_Customized = False,
     mp_CreatedAt = t, mp_UpdatedAt = t\<rparr>"

definition display_name :: "Identity \<Rightarrow> string \<Rightarrow> string" where
  "display_name identity handle = (if TrimSpace (id_Name identity) = [] then ''@'' @ handle else TrimSpace (id_Name identity))"

text \<open>The handle tried when the desired one is taken.\<close>

definition fallback_handle :: "string \<Rightarrow> string \<Rightarrow> string" where
  "fallback_handle handle suffix =
     TrimRight (take (min (length handle) (managedHandleMaxLength - length suffix - 1)) handle) ''._-'' @ ''-'' @ suffix"

text \<open>A profile that exists follows the name of the identity until it is customised.\<close>

definition refresh_profile :: "Identity \<Rightarrow> ManagedProfile \<Rightarrow> ('a store_world_scheme, ManagedProfile stored) state" where
  "refresh_profile identity existing0 =
     (let displayName = display_name identity (mp_Handle existing0);
          existing = (if mp_Accent existing0 = [] then existing0\<lparr>mp_Accent := ''teal''\<rparr> else existing0)
      in if \<not> mp_Customized existing \<and> displayName \<noteq> mp_DisplayName existing
         then do {
           t \<leftarrow> now;
           r \<leftarrow> UpdateManagedProfile (existing\<lparr>mp_DisplayName := displayName, mp_UpdatedAt := t\<rparr>);
           return (case r of
             Inl e \<Rightarrow> Inl e
           | Inr _ \<Rightarrow> Inr (existing\<lparr>mp_DisplayName := displayName, mp_UpdatedAt := t\<rparr>))
         }
         else return (Inr existing))"

definition create_profile :: "unicode_tables \<Rightarrow> Identity \<Rightarrow> string \<Rightarrow> ('a store_world_scheme, ManagedProfile stored) state" where
  "create_profile U identity issuer =
     (let handle = desiredManagedHandle U identity issuer in
      do {
        t \<leftarrow> now;
        let profile = new_profile handle issuer (id_Subject identity) (display_name identity handle) t;
        r \<leftarrow> CreateManagedProfile U profile;
        case r of
          Inr _ \<Rightarrow> return (Inr profile)
        | Inl e \<Rightarrow>
            if e \<noteq> ErrConflict then return (Inl e)
            else do {
              x \<leftarrow> GetManagedProfileByIdentity issuer (id_Subject identity);
              case x of
                Inr existing \<Rightarrow> return (Inr existing)
              | Inl _ \<Rightarrow> do {
                  let profile2 = profile\<lparr>mp_Handle :=
                    fallback_handle handle (managedHandleSuffix issuer (id_Subject identity))\<rparr>;
                  r2 \<leftarrow> CreateManagedProfile U profile2;
                  return (case r2 of Inl e2 \<Rightarrow> Inl e2 | Inr _ \<Rightarrow> Inr profile2)
                }
            }
      })"

definition ensureManagedProfile ::
  "('a store_world_scheme) Server \<Rightarrow> Identity \<Rightarrow> string \<Rightarrow> ('a store_world_scheme, ManagedProfile stored) state" where
  "ensureManagedProfile s identity issuer =
     (if \<not> mpc_Enabled (ManagedProfiles (cfg s)) then return (Inl ErrNotFound)
      else if TrimSpace (id_Subject identity) = [] then return (Inl (DbError ''identity subject is required''))
      else do {
        x \<leftarrow> GetManagedProfileByIdentity issuer (id_Subject identity);
        case x of
          Inr existing \<Rightarrow> refresh_profile identity existing
        | Inl e \<Rightarrow> if e \<noteq> ErrNotFound then return (Inl e) else create_profile (tables s) identity issuer
      })"

text \<open>
  The managed profile a \<open>me\<close> URL names: no managed profile URL at all, one that names no profile (or
  whose lookup fails), or the profile.
\<close>

datatype managed_me = NotManaged | NoSuchProfile | Managed ManagedProfile

definition managed_handle_of :: "('a store_world_scheme) Server \<Rightarrow> string \<Rightarrow> string" where
  "managed_handle_of s me =
     (case (Parse (tables s) me, Parse (tables s) (PublicURL (Server (cfg s)))) of
        (Inr u, Inr publicURL) \<Rightarrow>
          if \<not> SameOrigin (tables s) u publicURL \<or> \<not> HasPrefix (url_Path u) ''/@'' \<or>
            contains_byte (CHR ''/'') (TrimPrefix (url_Path u) ''/@'') then []
          else normalizeManagedHandle (tables s) (TrimPrefix (url_Path u) ''/@'')
      | _ \<Rightarrow> [])"

definition managedProfileForMe ::
  "('a store_world_scheme) Server \<Rightarrow> string \<Rightarrow> ('a store_world_scheme, managed_me) state" where
  "managedProfileForMe s me =
     (if \<not> mpc_Enabled (ManagedProfiles (cfg s)) \<or> managed_handle_of s me = [] then return NotManaged
      else do {
        x \<leftarrow> GetManagedProfileByHandle (managed_handle_of s me);
        return (case x of
          Inl e \<Rightarrow> NoSuchProfile
        | Inr profile \<Rightarrow> if me \<noteq> managedProfileURL (cfg s) (mp_Handle profile) then NoSuchProfile else Managed profile)
      })"

section \<open>GET /authorize\<close>

text \<open>The checks on the query before the store and the network are asked: the canonical \<open>me\<close> URL.\<close>

definition authorize_me :: "('a store_world_scheme) Server \<Rightarrow> url_values \<Rightarrow> string result" where
  "authorize_me s q =
     (if values_Get q ''response_type'' \<noteq> [] \<and> values_Get q ''response_type'' \<noteq> ''code'' then Inl ''unsupported response_type''
      else if values_Get q ''state'' = [] then Inl ''state is required''
      else if \<not> ScopeAllowed (values_Get q ''scope'') then Inl ''unsupported scope''
      else (case bind_result (ValidateHTTPSURL (tables s) (values_Get q ''me'') (allow_http (cfg s)))
              (\<lambda>meURL. CanonicalURL (tables s) (URL_String meURL)) of
          Inl e \<Rightarrow> Inl ''invalid me URL''
        | Inr me \<Rightarrow> Inr me))"

definition authorize_challenge :: "('a store_world_scheme) Server \<Rightarrow> url_values \<Rightarrow> unit result" where
  "authorize_challenge s q =
     (let challenge = values_Get q ''code_challenge''; challengeMethod = values_Get q ''code_challenge_method''
      in if RequirePKCE (Security (cfg s)) \<and> \<not> legacyIndieAuthSignIn q
         then ValidateCodeChallenge challenge challengeMethod
         else if challenge \<noteq> [] \<and> challengeMethod \<noteq> ''S256'' then Inl ''code_challenge_method must be S256''
         else Inr ())"

text \<open>
  The profile that is asked for, and for one that is not configured the identity it is bound to: a
  managed profile by its row, any other by its page.
\<close>

definition authorize_profile ::
  "('a store_world_scheme) Server \<Rightarrow> string \<Rightarrow> ProfileConfig option \<Rightarrow> managed_me \<Rightarrow> string \<Rightarrow>
   ('a store_world_scheme, (ProfileConfig \<times> ProfileIdentityBinding option) result) state" where
  "authorize_profile s me static managed clientID =
     (case managed of
        Managed p \<Rightarrow> return (Inr (no_profile\<lparr>Me := me, DisplayName := mp_DisplayName p,
            prof_Backend := mpc_Backend (ManagedProfiles (cfg s))\<rparr>,
          Some \<lparr>pib_Me = me, pib_Issuer = mp_Issuer p, pib_Subject = mp_Subject p\<rparr>))
      | _ \<Rightarrow>
          (case static of
             Some p \<Rightarrow> return (Inr (p, None))
           | None \<Rightarrow> do {
               let be = dp_Backend (DynamicProfiles (cfg s));
               b \<leftarrow> DiscoverProfileIdentity (tables s) me (allow_http (cfg s)) (MetadataName (DynamicProfiles (cfg s)))
                 (PublicURL (Server (cfg s))) (be_Issuer (backend_config (cfg s) be));
               case b of
                 Inl e \<Rightarrow> do {
                   audit ''profile_metadata_rejected'' [] me clientID;
                   return (Inl e)
                 }
               | Inr binding \<Rightarrow> return (Inr (no_profile\<lparr>Me := pib_Me binding, prof_Backend := be\<rparr>, Some binding))
             }))"

text \<open>What is kept in the backend state of a profile that is not configured.\<close>

definition bind_state :: "bool \<Rightarrow> ProfileIdentityBinding option \<Rightarrow> BackendState \<Rightarrow> BackendState" where
  "bind_state staticProfile binding bs =
     (if staticProfile then bs
      else set_value backendStateProfileSubject (JStr (case binding of Some b \<Rightarrow> pib_Subject b | None \<Rightarrow> []))
        (set_value backendStateProfileIssuer (JStr (case binding of Some b \<Rightarrow> pib_Issuer b | None \<Rightarrow> []))
          (set_value backendStateDynamicProfile (JBool True) bs)))"

definition auth_request_of ::
  "string \<Rightarrow> ProfileConfig \<Rightarrow> BackendState \<Rightarrow> url_values \<Rightarrow> time \<Rightarrow> duration \<Rightarrow> AuthRequest" where
  "auth_request_of requestID profile bs q t ttl = \<lparr>ar_ID = requestID, ar_Backend = prof_Backend profile,
     ar_BackendState = bs, ar_Me = Me profile, ar_ClientID = values_Get q ''client_id'',
     ar_RedirectURI = values_Get q ''redirect_uri'', ar_Scope = values_Get q ''scope'',
     ar_ClientState = values_Get q ''state'', ar_CodeChallenge = values_Get q ''code_challenge'',
     ar_CodeChallengeMethod = values_Get q ''code_challenge_method'', ar_ProfileJSON = ProfileJSON profile,
     ar_ExpiresAt = t + ttl, ar_CreatedAt = t\<rparr>"

text \<open>The start of the login at the backend, once the request has been accepted.\<close>

definition begin_login ::
  "('a store_world_scheme) Server \<Rightarrow> url_values \<Rightarrow> bool \<Rightarrow> ProfileConfig \<Rightarrow> ProfileIdentityBinding option \<Rightarrow>
   ('a store_world_scheme, http_response) state" where
  "begin_login s q staticProfile profile binding =
     (case map_of (backends s) (prof_Backend profile) of
        None \<Rightarrow> return (http_Error [] ''profile backend is not available'' 500)
      | Some backend \<Rightarrow> do {
          i \<leftarrow> RandomToken;
          case i of
            Inl e \<Rightarrow> return (http_Error [] ''request creation failed'' 500)
          | Inr requestID \<Rightarrow> do {
              b \<leftarrow> BeginAuth backend \<lparr>RequestID = requestID, breq_Me = Me profile,
                Scopes = Fields (values_Get q ''scope'')\<rparr>;
              case b of
                Inl e \<Rightarrow> return (http_Error [] ''backend authorization failed'' 502)
              | Inr (redirectURL, backendState) \<Rightarrow> do {
                  t \<leftarrow> now;
                  r \<leftarrow> CreateAuthRequest (auth_request_of requestID profile
                    (bind_state staticProfile binding backendState) q t (AuthRequestTTL (Security (cfg s))));
                  case r of
                    Inl e \<Rightarrow> return (http_Error [] ''request creation failed'' 500)
                  | Inr _ \<Rightarrow> do {
                      audit ''auth_request_created'' [] (Me profile) (values_Get q ''client_id'');
                      return (Redirect [] redirectURL 302)
                    }
                }
            }
        })"

definition handleAuthorize :: "('a store_world_scheme) Server \<Rightarrow> http_request \<Rightarrow> ('a store_world_scheme, http_response) state" where
  "handleAuthorize s r =
     (let q = request_query r in
      case authorize_me s q of
        Inl e \<Rightarrow> return (http_Error [] e 400)
      | Inr me \<Rightarrow> do {
          let static = ProfileByMe (tables s) (cfg s) me;
          managed \<leftarrow> managedProfileForMe s me;
          if managed = NoSuchProfile then return (http_Error [] ''unknown managed profile'' 400)
          else if static = None \<and> managed = NotManaged \<and> \<not> dp_Enabled (DynamicProfiles (cfg s))
          then return (http_Error [] ''unknown me URL'' 400)
          else if \<not> is_ok (ValidateHTTPSURL (tables s) (values_Get q ''client_id'') (allow_http (cfg s)))
          then return (http_Error [] ''invalid client_id'' 400)
          else do {
            v \<leftarrow> ValidateClientRedirect (tables s) (values_Get q ''client_id'') (values_Get q ''redirect_uri'')
              (allow_http (cfg s)) (ClientMetadataDiscoveryEnabled (Security (cfg s)));
            if \<not> is_ok v then do {
              audit ''auth_request_rejected'' [] me (values_Get q ''client_id'');
              return (http_Error [] ''invalid redirect_uri'' 400)
            }
            else (case authorize_challenge s q of
                Inl e \<Rightarrow> return (http_Error [] e 400)
              | Inr _ \<Rightarrow> do {
                  p \<leftarrow> authorize_profile s me static managed (values_Get q ''client_id'');
                  case p of
                    Inl e \<Rightarrow> return (http_Error [] ''profile identity metadata could not be verified'' 400)
                  | Inr (profile, binding) \<Rightarrow> begin_login s q (static \<noteq> None) profile binding
                })
          }
        })"

section \<open>GET /auth/callback and /callback/{backend}\<close>

text \<open>The loop over the backends when none is named in the path.\<close>

fun find_in_backends ::
  "unicode_tables \<Rightarrow> (string \<times> ('a store_world_scheme) Backend) list \<Rightarrow> string \<Rightarrow>
   ('a store_world_scheme, (AuthRequest \<times> ('a store_world_scheme) Backend) stored) state" where
  "find_in_backends U [] st = return (Inl ErrNotFound)"
| "find_in_backends U ((name, backend) # bs) st = do {
     r \<leftarrow> GetAuthRequestByBackendState U name st;
     case r of
       Inr ar \<Rightarrow> return (Inr (ar, backend))
     | Inl e \<Rightarrow> if e \<noteq> ErrNotFound \<and> e \<noteq> ErrExpired then return (Inl e) else find_in_backends U bs st
   }"

definition findAuthRequest ::
  "('a store_world_scheme) Server \<Rightarrow> string \<Rightarrow> string \<Rightarrow>
   ('a store_world_scheme, (AuthRequest \<times> ('a store_world_scheme) Backend) stored) state" where
  "findAuthRequest s requestedBackend st =
     (if requestedBackend \<noteq> [] then
        (case map_of (backends s) requestedBackend of
           None \<Rightarrow> return (Inl ErrNotFound)
         | Some backend \<Rightarrow> do {
             r \<leftarrow> GetAuthRequestByBackendState (tables s) requestedBackend st;
             return (map_result (\<lambda>ar. (ar, backend)) r)
           })
      else find_in_backends (tables s) (backends s) st)"

text \<open>Whether the identity may act for the profile, and the profile JSON it gets.\<close>

definition identity_decision :: "('a store_world_scheme) Server \<Rightarrow> AuthRequest \<Rightarrow> Identity \<Rightarrow> string option" where
  "identity_decision s ar identity =
     (if bool_value (ar_BackendState ar) backendStateDynamicProfile then
        (if string_value (ar_BackendState ar) backendStateProfileIssuer = be_Issuer (backend_config (cfg s) (ar_Backend ar)) \<and>
            ConstantTimeEqual (string_value (ar_BackendState ar) backendStateProfileSubject) (id_Subject identity)
         then Some (DynamicProfileJSON (ar_Me ar) identity) else None)
      else (case ProfileByMe (tables s) (cfg s) (ar_Me ar) of
          None \<Rightarrow> None
        | Some profile \<Rightarrow> if IdentityAllowed (tables s) profile identity then Some (ar_ProfileJSON ar) else None))"

definition consent_of_request :: "AuthRequest \<Rightarrow> string \<Rightarrow> string \<Rightarrow> string \<Rightarrow> string \<Rightarrow> time \<Rightarrow> duration \<Rightarrow> ConsentRequest" where
  "consent_of_request ar consentID csrfToken profileJSON subject t ttl = \<lparr>cr_ID = consentID, cr_CSRFToken = csrfToken,
     cr_Me = ar_Me ar, cr_ClientID = ar_ClientID ar, cr_RedirectURI = ar_RedirectURI ar, cr_Scope = ar_Scope ar,
     cr_ClientState = ar_ClientState ar, cr_CodeChallenge = ar_CodeChallenge ar,
     cr_CodeChallengeMethod = ar_CodeChallengeMethod ar, cr_ProfileJSON = profileJSON, cr_Subject = subject,
     cr_ExpiresAt = t + ttl, cr_CreatedAt = t\<rparr>"

definition request_of_auth :: "AuthRequest \<Rightarrow> string \<Rightarrow> string \<Rightarrow> codeIssueRequest" where
  "request_of_auth ar profileJSON subject = \<lparr>ci_Me = ar_Me ar, ci_ClientID = ar_ClientID ar,
     ci_RedirectURI = ar_RedirectURI ar, ci_Scope = ar_Scope ar, ci_ClientState = ar_ClientState ar,
     ci_CodeChallenge = ar_CodeChallenge ar, ci_CodeChallengeMethod = ar_CodeChallengeMethod ar,
     ci_ProfileJSON = profileJSON, ci_Subject = subject\<rparr>"

definition request_of_consent :: "ConsentRequest \<Rightarrow> codeIssueRequest" where
  "request_of_consent cr = \<lparr>ci_Me = cr_Me cr, ci_ClientID = cr_ClientID cr,
     ci_RedirectURI = cr_RedirectURI cr, ci_Scope = cr_Scope cr, ci_ClientState = cr_ClientState cr,
     ci_CodeChallenge = cr_CodeChallenge cr, ci_CodeChallengeMethod = cr_CodeChallengeMethod cr,
     ci_ProfileJSON = cr_ProfileJSON cr, ci_Subject = cr_Subject cr\<rparr>"

definition ask_consent ::
  "('a store_world_scheme) Server \<Rightarrow> AuthRequest \<Rightarrow> string \<Rightarrow> string \<Rightarrow> ('a store_world_scheme, http_response) state" where
  "ask_consent s ar profileJSON subject = do {
     i \<leftarrow> RandomToken;
     case i of
       Inl e \<Rightarrow> return (http_Error [] ''consent creation failed'' 500)
     | Inr consentID \<Rightarrow> do {
         c \<leftarrow> RandomToken;
         case c of
           Inl e \<Rightarrow> return (http_Error [] ''consent creation failed'' 500)
         | Inr csrfToken \<Rightarrow> do {
             t \<leftarrow> now;
             r \<leftarrow> CreateConsentRequest (consent_of_request ar consentID csrfToken profileJSON subject t
               (CodeTTL (Security (cfg s))));
             case r of
               Inl e \<Rightarrow> return (http_Error [] ''consent creation failed'' 500)
             | Inr _ \<Rightarrow> do {
                 audit ''consent_required'' subject (ar_Me ar) (ar_ClientID ar);
                 return (Redirect [] (PublicURL (Server (cfg s)) @ ''/consent?id='' @ QueryEscape consentID) 302)
               }
           }
       }
   }"

text \<open>The sealed identity of a setup session.\<close>

record setupIdentityState =
  sis_Issuer :: string
  sis_Subject :: string
  sis_ExpiresAt :: int

definition setup_json :: "setupIdentityState \<Rightarrow> string" where
  "setup_json st = json_encode (JObj [(''issuer'', JStr (sis_Issuer st)), (''subject'', JStr (sis_Subject st)),
     (''expires_at'', JNum (int_literal (sis_ExpiresAt st)))])"

definition setup_fields :: "(string \<times> setupIdentityState field_decoder) list" where
  "setup_fields = [(''issuer'', string_field sis_Issuer_update), (''subject'', string_field sis_Subject_update),
     (''expires_at'', int64_field sis_ExpiresAt_update)]"

definition sealSetupIdentity ::
  "('a store_world_scheme) Server \<Rightarrow> string \<Rightarrow> string \<Rightarrow> ('a store_world_scheme, string result) state" where
  "sealSetupIdentity s issuer subject = do {
     t \<leftarrow> now;
     Seal (CookieSecret (Security (cfg s))) (setup_json \<lparr>sis_Issuer = issuer, sis_Subject = subject,
       sis_ExpiresAt = Unix (t + AuthRequestTTL (Security (cfg s)))\<rparr>)
   }"

definition openSetupIdentity ::
  "('a store_world_scheme) Server \<Rightarrow> string \<Rightarrow> ('a store_world_scheme, setupIdentityState result) state" where
  "openSetupIdentity s value =
     (case bind_result (Open (CookieSecret (Security (cfg s))) value)
        (unmarshal_struct (tables s) setup_fields \<lparr>sis_Issuer = [], sis_Subject = [], sis_ExpiresAt = 0\<rparr>) of
        Inl e \<Rightarrow> return (Inl ''setup session is invalid; sign in again'')
      | Inr st \<Rightarrow>
          if sis_Issuer st = [] \<or> sis_Subject st = [] then return (Inl ''setup session expired; sign in again'')
          else do {
            t \<leftarrow> now;
            return (if Unix t > sis_ExpiresAt st then Inl ''setup session expired; sign in again'' else Inr st)
          })"

text \<open>The HTML fragments the setup page shows for copying.\<close>

definition quoted :: "string \<Rightarrow> string" where
  "quoted t = [chr 34] @ t @ [chr 34]"

definition identityFragment :: "Config \<Rightarrow> string \<Rightarrow> string \<Rightarrow> string" where
  "identityFragment c issuer subject = ''<meta name='' @ quoted (MetadataName (DynamicProfiles c)) @
     '' content='' @ quoted (issuer @ '' '' @ subject) @ ''>''"

definition discoveryFragment :: "Config \<Rightarrow> string" where
  "discoveryFragment c =
     ''<link rel='' @ quoted ''indieauth-metadata'' @ '' href='' @
       quoted (PublicURL (Server c) @ ''/.well-known/oauth-authorization-server'') @ ''>'' @ [chr 10] @
     ''<link rel='' @ quoted ''authorization_endpoint'' @ '' href='' @ quoted (PublicURL (Server c) @ ''/authorize'') @ ''>'' @ [chr 10] @
     ''<link rel='' @ quoted ''token_endpoint'' @ '' href='' @ quoted (PublicURL (Server c) @ ''/token'') @ ''>''"

definition accent_or_default :: "string \<Rightarrow> string" where
  "accent_or_default accent = (if accent \<in> set managedProfileAccents then accent else ''teal'')"

definition setup_page :: "Config \<Rightarrow> string \<Rightarrow> string \<Rightarrow> string \<Rightarrow> ManagedProfile option \<Rightarrow> http_response" where
  "setup_page c issuer subject identityToken managed =
     (let str = (\<lambda>f. JStr (case managed of None \<Rightarrow> [] | Some p \<Rightarrow> f p)) in
      page no_store 200 ''setup'' [
        (''DiscoveryFragment'', JStr (discoveryFragment c)),
        (''IdentityFragment'', JStr (identityFragment c issuer subject)),
        (''IdentityToken'', JStr identityToken),
        (''ManagedProfileURL'', str (\<lambda>p. managedProfileURL c (mp_Handle p))),
        (''ManagedDisplayName'', str mp_DisplayName),
        (''ManagedBio'', str mp_Bio),
        (''ManagedWebsiteURL'', str mp_WebsiteURL),
        (''ManagedAccent'', JStr (accent_or_default (case managed of None \<Rightarrow> [] | Some p \<Rightarrow> mp_Accent p))),
        (''ExternalProfiles'', JBool (dp_Enabled (DynamicProfiles c))),
        (''CheckAction'', JStr (PublicURL (Server c) @ ''/setup/check'')),
        (''ProfileUpdateAction'', JStr (PublicURL (Server c) @ ''/setup/profile'')),
        (''TestURL'', JStr (PublicURL (Server c) @ ''/test'')),
        (''HomeURL'', JStr (PublicURL (Server c) @ ''/''))])"

definition renderSetupIdentity ::
  "('a store_world_scheme) Server \<Rightarrow> Identity \<Rightarrow> string \<Rightarrow> ('a store_world_scheme, http_response) state" where
  "renderSetupIdentity s identity issuer = do {
     t \<leftarrow> sealSetupIdentity s issuer (id_Subject identity);
     case t of
       Inl e \<Rightarrow> return (http_Error [] ''setup page creation failed'' 500)
     | Inr identityToken \<Rightarrow>
         if \<not> mpc_Enabled (ManagedProfiles (cfg s))
         then return (setup_page (cfg s) issuer (id_Subject identity) identityToken None)
         else do {
           p \<leftarrow> ensureManagedProfile s identity issuer;
           return (case p of
             Inl e \<Rightarrow> http_Error [] ''managed profile provisioning failed'' 500
           | Inr profile \<Rightarrow> setup_page (cfg s) issuer (id_Subject identity) identityToken (Some profile))
         }
   }"

text \<open>What happens between finding the request and deleting it.\<close>

definition complete_login ::
  "('a store_world_scheme) Server \<Rightarrow> url_values \<Rightarrow> AuthRequest \<Rightarrow> ('a store_world_scheme) Backend \<Rightarrow>
   ('a store_world_scheme, http_response) state" where
  "complete_login s query ar backend = do {
     x \<leftarrow> CompleteAuth backend query (ar_BackendState ar);
     case x of
       Inl e \<Rightarrow> do {
         audit ''backend_login_rejected'' [] (ar_Me ar) (ar_ClientID ar);
         return (http_Error [] ''authentication failed'' 401)
       }
     | Inr identity \<Rightarrow>
         if bool_value (ar_BackendState ar) backendStateSetup
         then renderSetupIdentity s identity (be_Issuer (backend_config (cfg s) (ar_Backend ar)))
         else (case identity_decision s ar identity of
             None \<Rightarrow> do {
               audit ''identity_claim_rejected'' (id_Subject identity) (ar_Me ar) (ar_ClientID ar);
               return (http_Error [] ''identity is not allowed for requested profile'' 403)
             }
           | Some profileJSON \<Rightarrow>
               if ConsentRequired (Security (cfg s)) then ask_consent s ar profileJSON (id_Subject identity)
               else do {
                 i \<leftarrow> issueCodeAndRedirect s [] (request_of_auth ar profileJSON (id_Subject identity));
                 return (case i of Inl e \<Rightarrow> http_Error [] ''code creation failed'' 500 | Inr rsp \<Rightarrow> rsp)
               })
   }"

text \<open>\<open>backendName\<close> is the path value, empty for \<open>/auth/callback\<close>.\<close>

definition handleCallback ::
  "('a store_world_scheme) Server \<Rightarrow> string \<Rightarrow> http_request \<Rightarrow> ('a store_world_scheme, http_response) state" where
  "handleCallback s backendName r =
     (let st = values_Get (request_query r) ''state'' in
      if st = [] then return (http_Error [] ''state is required'' 400)
      else do {
        f \<leftarrow> findAuthRequest s backendName st;
        case f of
          Inl e \<Rightarrow> return (http_Error [] ''invalid or expired state'' 400)
        | Inr (ar, backend) \<Rightarrow> do {
            rsp \<leftarrow> complete_login s (request_query r) ar backend;
            d \<leftarrow> DeleteAuthRequest (ar_ID ar);
            return rsp
          }
      })"

section \<open>GET and POST /consent\<close>

definition handleConsentGet :: "('a store_world_scheme) Server \<Rightarrow> http_request \<Rightarrow> ('a store_world_scheme, http_response) state" where
  "handleConsentGet s r = do {
     t \<leftarrow> now;
     c \<leftarrow> GetConsentRequest (values_Get (request_query r) ''id'') t;
     case c of
       Inl e \<Rightarrow> return (http_Error [] ''invalid or expired consent request'' 400)
     | Inr cr \<Rightarrow> do {
         n \<leftarrow> RandomToken;
         return (case n of
           Inl e \<Rightarrow> http_Error [] ''consent page creation failed'' 500
         | Inr scriptNonce \<Rightarrow>
             page (set_header ''Content-Security-Policy'' (consentContentSecurityPolicy scriptNonce) no_store) 200 ''consent'' [
               (''ID'', JStr (cr_ID cr)), (''CSRFToken'', JStr (cr_CSRFToken cr)), (''Me'', JStr (cr_Me cr)),
               (''ClientID'', JStr (cr_ClientID cr)), (''RedirectURI'', JStr (cr_RedirectURI cr)),
               (''Scope'', JStr (displayScope (cr_Scope cr))), (''ScriptNonce'', JStr scriptNonce),
               (''FormAction'', JStr (PublicURL (Server (cfg s)) @ ''/consent?id='' @ QueryEscape (cr_ID cr)))])
       }
   }"

text \<open>The decision on a consent request whose token matched; the request is deleted afterwards.\<close>

definition decide_consent ::
  "('a store_world_scheme) Server \<Rightarrow> url_values \<Rightarrow> ConsentRequest \<Rightarrow> ('a store_world_scheme, http_response) state" where
  "decide_consent s form cr =
     (if values_Get form ''decision'' \<noteq> ''approve'' then do {
        audit ''consent_denied'' (cr_Subject cr) (cr_Me cr) (cr_ClientID cr);
        return (redirectWithError (tables s) no_store (cr_RedirectURI cr) (cr_ClientState cr) ''access_denied'')
      }
      else do {
        i \<leftarrow> issueCodeAndRedirect s no_store (request_of_consent cr);
        return (case i of Inl e \<Rightarrow> http_Error no_store ''code creation failed'' 500 | Inr rsp \<Rightarrow> rsp)
      })"

definition handleConsentPost :: "('a store_world_scheme) Server \<Rightarrow> http_request \<Rightarrow> ('a store_world_scheme, http_response) state" where
  "handleConsentPost s r =
     (case ParseForm defaultMaxMemory r of
        Inl e \<Rightarrow> return (http_Error no_store ''invalid form body'' 400)
      | Inr form \<Rightarrow> do {
          let consentID = (if values_Get form ''id'' = [] then values_Get (request_query r) ''id'' else values_Get form ''id'');
          t \<leftarrow> now;
          c \<leftarrow> GetConsentRequest consentID t;
          case c of
            Inl e \<Rightarrow> return (http_Error no_store ''invalid or expired consent request'' 400)
          | Inr cr \<Rightarrow>
              if \<not> ConstantTimeEqual (values_Get form ''csrf'') (cr_CSRFToken cr) then do {
                audit ''consent_rejected'' (cr_Subject cr) (cr_Me cr) (cr_ClientID cr);
                return (http_Error no_store ''invalid consent token'' 400)
              }
              else do {
                rsp \<leftarrow> decide_consent s form cr;
                d \<leftarrow> DeleteConsentRequest (cr_ID cr);
                return rsp
              }
        })"

section \<open>POST /token and POST /authorize\<close>

text \<open>The member \<open>profile\<close> of a response, when the stored JSON is a map (or null).\<close>

definition with_profile :: "string \<Rightarrow> (string \<times> json) list \<Rightarrow> (string \<times> json) list" where
  "with_profile profileJSON response =
     (if profileJSON = [] then response
      else (case unmarshal_map profileJSON of
          Inl e \<Rightarrow> response
        | Inr None \<Rightarrow> map_set ''profile'' JNull response
        | Inr (Some m) \<Rightarrow> map_set ''profile'' (JObj m) response))"

text \<open>The rejection of an exchange: an audit event and an OAuth error.\<close>

definition reject ::
  "string \<Rightarrow> string \<Rightarrow> string \<Rightarrow> string \<Rightarrow> string \<Rightarrow> ('a store_world_scheme, http_response) state" where
  "reject event me clientID code description = do {
     audit event [] me clientID;
     return (writeOAuthError no_store 400 code description)
   }"

definition token_of_code :: "AuthorizationCode \<Rightarrow> time \<Rightarrow> duration \<Rightarrow> AccessToken" where
  "token_of_code rec t ttl = \<lparr>at_TokenHash = [], at_Me = ac_Me rec, at_ClientID = ac_ClientID rec,
     at_Scope = ac_Scope rec, at_ProfileJSON = ac_ProfileJSON rec, at_ExpiresAt = t + ttl, at_CreatedAt = t,
     at_RevokedAt = None\<rparr>"

definition token_response :: "AuthorizationCode \<Rightarrow> string \<Rightarrow> http_response" where
  "token_response rec token = writeJSON no_store 200 (with_profile (ac_ProfileJSON rec) (map_of_entries [
     (''access_token'', JStr token), (''token_type'', JStr ''Bearer''), (''scope'', JStr (ac_Scope rec)),
     (''me'', JStr (ac_Me rec))]))"

definition issue_token ::
  "('a store_world_scheme) Server \<Rightarrow> AuthorizationCode \<Rightarrow> ('a store_world_scheme, http_response) state" where
  "issue_token s rec = do {
     k \<leftarrow> RandomToken;
     case k of
       Inl e \<Rightarrow> return (writeOAuthError no_store 500 ''server_error'' ''token creation failed'')
     | Inr token \<Rightarrow> do {
         t \<leftarrow> now;
         r \<leftarrow> CreateAccessToken token (token_of_code rec t (AccessTokenTTL (Security (cfg s))));
         case r of
           Inl e \<Rightarrow> return (writeOAuthError no_store 500 ''server_error'' ''token storage failed'')
         | Inr _ \<Rightarrow> do {
             audit ''access_token_issued'' [] (ac_Me rec) (ac_ClientID rec);
             return (token_response rec token)
           }
       }
   }"

definition handleToken :: "('a store_world_scheme) Server \<Rightarrow> http_request \<Rightarrow> ('a store_world_scheme, http_response) state" where
  "handleToken s r =
     (case ParseForm defaultMaxMemory r of
        Inl e \<Rightarrow> return (writeOAuthError no_store 400 ''invalid_request'' ''invalid form body'')
      | Inr form \<Rightarrow>
          let clientID = values_Get form ''client_id''; code = values_Get form ''code'';
              rejected = reject ''token_exchange_rejected'' in
          if values_Get form ''grant_type'' \<noteq> ''authorization_code''
          then rejected [] clientID ''unsupported_grant_type'' ''grant_type must be authorization_code''
          else if code = [] then rejected [] clientID ''invalid_request'' ''code is required''
          else do {
            t \<leftarrow> now;
            c \<leftarrow> ConsumeAuthorizationCode code t;
            case c of
              Inl e \<Rightarrow> rejected [] clientID ''invalid_grant'' ''authorization code is invalid''
            | Inr rec \<Rightarrow>
                if ac_ClientID rec \<noteq> clientID \<or> ac_RedirectURI rec \<noteq> values_Get form ''redirect_uri''
                then rejected (ac_Me rec) clientID ''invalid_grant'' ''client_id or redirect_uri mismatch''
                else if RequirePKCE (Security (cfg s)) \<and> ac_CodeChallenge rec = []
                then rejected (ac_Me rec) (ac_ClientID rec) ''invalid_grant'' ''PKCE verification failed''
                else if ac_CodeChallenge rec \<noteq> [] \<and> \<not> VerifyPKCES256 (values_Get form ''code_verifier'') (ac_CodeChallenge rec)
                then rejected (ac_Me rec) (ac_ClientID rec) ''invalid_grant'' ''PKCE verification failed''
                else issue_token s rec
          })"

definition profile_response :: "AuthorizationCode \<Rightarrow> http_response" where
  "profile_response rec = writeJSON no_store 200 (with_profile (ac_ProfileJSON rec) [(''me'', JStr (ac_Me rec))])"

definition handleAuthorizationCodeProfile ::
  "http_request \<Rightarrow> ('a store_world_scheme, http_response) state" where
  "handleAuthorizationCodeProfile r =
     (case ParseForm defaultMaxMemory r of
        Inl e \<Rightarrow> return (writeOAuthError no_store 400 ''invalid_request'' ''invalid form body'')
      | Inr form \<Rightarrow>
          let clientID = values_Get form ''client_id''; code = values_Get form ''code'';
              rejected = reject ''authorization_code_profile_rejected'' in
          if code = [] then rejected [] clientID ''invalid_request'' ''code is required''
          else do {
            t \<leftarrow> now;
            c \<leftarrow> ConsumeAuthorizationCode code t;
            case c of
              Inl e \<Rightarrow> rejected [] clientID ''invalid_grant'' ''authorization code is invalid''
            | Inr rec \<Rightarrow>
                if ac_ClientID rec \<noteq> clientID \<or> ac_RedirectURI rec \<noteq> values_Get form ''redirect_uri''
                then rejected (ac_Me rec) clientID ''invalid_grant'' ''client_id or redirect_uri mismatch''
                else if ac_CodeChallenge rec \<noteq> [] \<and> \<not> VerifyPKCES256 (values_Get form ''code_verifier'') (ac_CodeChallenge rec)
                then rejected (ac_Me rec) (ac_ClientID rec) ''invalid_grant'' ''PKCE verification failed''
                else do {
                  audit ''authorization_code_profile_returned'' [] (ac_Me rec) (ac_ClientID rec);
                  return (profile_response rec)
                }
          })"

section \<open>POST /introspect and POST /revoke\<close>

definition inactive_response :: http_response where
  "inactive_response = writeJSON no_store 200 [(''active'', JBool False)]"

definition active_response :: "AccessToken \<Rightarrow> http_response" where
  "active_response rec = writeJSON no_store 200 (with_profile (at_ProfileJSON rec) (map_of_entries [
     (''active'', JBool True), (''client_id'', JStr (at_ClientID rec)), (''scope'', JStr (at_Scope rec)),
     (''me'', JStr (at_Me rec)), (''exp'', JNum (int_literal (Unix (at_ExpiresAt rec)))),
     (''iat'', JNum (int_literal (Unix (at_CreatedAt rec))))]))"

definition handleIntrospect :: "http_request \<Rightarrow> ('a store_world_scheme, http_response) state" where
  "handleIntrospect r =
     (case ParseForm defaultMaxMemory r of
        Inl e \<Rightarrow> return (writeOAuthError no_store 400 ''invalid_request'' ''invalid form body'')
      | Inr form \<Rightarrow>
          if values_Get form ''token'' = []
          then return (writeOAuthError no_store 400 ''invalid_request'' ''token is required'')
          else do {
            t \<leftarrow> now;
            x \<leftarrow> GetAccessToken (values_Get form ''token'') t;
            return (case x of Inl e \<Rightarrow> inactive_response | Inr rec \<Rightarrow> active_response rec)
          })"

definition handleRevoke :: "http_request \<Rightarrow> ('a store_world_scheme, http_response) state" where
  "handleRevoke r =
     (case ParseForm defaultMaxMemory r of
        Inl e \<Rightarrow> return (writeOAuthError no_store 400 ''invalid_request'' ''invalid form body'')
      | Inr form \<Rightarrow>
          if values_Get form ''token'' = []
          then return (writeOAuthError no_store 400 ''invalid_request'' ''token is required'')
          else do {
            t \<leftarrow> now;
            x \<leftarrow> GetAccessToken (values_Get form ''token'') t;
            (case x of
               Inl e \<Rightarrow> return ()
             | Inr rec \<Rightarrow> audit ''access_token_revoked'' [] (at_Me rec) (at_ClientID rec));
            t2 \<leftarrow> now;
            d \<leftarrow> RevokeAccessToken (values_Get form ''token'') t2;
            return (reply no_store 200 NoBody)
          })"

section \<open>GET /setup\<close>

definition handleSetup :: "('a store_world_scheme) Server \<Rightarrow> ('a store_world_scheme, http_response) state" where
  "handleSetup s =
     (let dyn = DynamicProfiles (cfg s); man = ManagedProfiles (cfg s) in
      if \<not> dp_Enabled dyn \<and> \<not> mpc_Enabled man then return (NotFound [])
      else
        let backendName = (if mpc_Enabled man then mpc_Backend man else dp_Backend dyn) in
        (case map_of (backends s) backendName of
           None \<Rightarrow> return (http_Error [] ''profile backend is not available'' 500)
         | Some backend \<Rightarrow> do {
             i \<leftarrow> RandomToken;
             case i of
               Inl e \<Rightarrow> return (http_Error [] ''setup request creation failed'' 500)
             | Inr requestID \<Rightarrow> do {
                 b \<leftarrow> BeginAuth backend \<lparr>RequestID = requestID, breq_Me = [], Scopes = []\<rparr>;
                 case b of
                   Inl e \<Rightarrow> return (http_Error [] ''backend authorization failed'' 502)
                 | Inr (redirectURL, backendState) \<Rightarrow> do {
                     t \<leftarrow> now;
                     r \<leftarrow> CreateAuthRequest \<lparr>ar_ID = requestID, ar_Backend = backendName,
                       ar_BackendState = set_value backendStateSetup (JBool True) backendState, ar_Me = [],
                       ar_ClientID = [], ar_RedirectURI = [], ar_Scope = [], ar_ClientState = [],
                       ar_CodeChallenge = [], ar_CodeChallengeMethod = [], ar_ProfileJSON = [],
                       ar_ExpiresAt = t + AuthRequestTTL (Security (cfg s)), ar_CreatedAt = t\<rparr>;
                     return (case r of
                       Inl e \<Rightarrow> http_Error [] ''setup request creation failed'' 500
                     | Inr _ \<Rightarrow> Redirect [] redirectURL 302)
                   }
               }
           }))"

section \<open>Pages and metadata\<close>

definition handleIndex :: "Config \<Rightarrow> http_response" where
  "handleIndex c =
     (let base = PublicURL (Server c) in
      page [] 200 ''landing'' [
        (''Issuer'', JStr (Issuer (Server c))), (''AuthorizeURL'', JStr (base @ ''/authorize'')),
        (''TokenURL'', JStr (base @ ''/token'')),
        (''MetadataURL'', JStr (base @ ''/.well-known/oauth-authorization-server'')),
        (''HealthPageURL'', JStr (base @ ''/health'')), (''TestURL'', JStr (base @ ''/test'')),
        (''SetupURL'', JStr (if dp_Enabled (DynamicProfiles c) \<or> mpc_Enabled (ManagedProfiles c) then base @ ''/setup'' else [])),
        (''DevMode'', JBool (DevMode (Security c)))])"

definition handleHealth :: "Config \<Rightarrow> http_response" where
  "handleHealth c = page [(''Cache-Control'', ''no-store'')] 200 ''health'' [(''HomeURL'', JStr (PublicURL (Server c) @ ''/''))]"

definition handleHealthz :: http_response where
  "handleHealthz = reply [] 204 NoBody"

definition handleMetadata :: "Config \<Rightarrow> http_response" where
  "handleMetadata c =
     (let base = PublicURL (Server c); strs = (\<lambda>xs. JArr (List.map JStr xs)) in
      writeJSON [] 200 (map_of_entries [
        (''issuer'', JStr (Issuer (Server c))),
        (''authorization_endpoint'', JStr (base @ ''/authorize'')),
        (''token_endpoint'', JStr (base @ ''/token'')),
        (''response_types_supported'', strs [''code'']),
        (''grant_types_supported'', strs [''authorization_code'']),
        (''code_challenge_methods_supported'', strs [''S256'']),
        (''authorization_response_iss_parameter_supported'', JBool True),
        (''scopes_supported'', strs SupportedScopes),
        (''token_endpoint_auth_methods_supported'', strs [''none'']),
        (''introspection_endpoint'', JStr (base @ ''/introspect'')),
        (''revocation_endpoint'', JStr (base @ ''/revoke''))]))"

end
