(* ===== verification/StoreLaws.thy ===== *)
theory StoreLaws
  imports Store
begin

text \<open>
  What the store promises: which relations between the world before and after an operation each
  operation respects, the exact result of the reading operations, atomicity of the consumption of
  a code, and the uniqueness of the keys.
\<close>

section \<open>Running statements\<close>

lemma run_sql:
  "run (sql f) w = (case faults w (db_ops w) of
       Some e \<Rightarrow> (Inl (DbError e), w\<lparr>db_ops := Suc (db_ops w)\<rparr>)
     | None \<Rightarrow>
         (case f (db w) of
            Inl e \<Rightarrow> (Inl (DbError e), w\<lparr>db_ops := Suc (db_ops w)\<rparr>)
          | Inr (x, d) \<Rightarrow> (Inr x, w\<lparr>db_ops := Suc (db_ops w), db := d\<rparr>)))"
  by (simp add: sql_def)

lemma run_sql_query:
  "run (sql_query f) w = (case faults w (db_ops w) of
       Some e \<Rightarrow> (Inl (DbError e), w\<lparr>db_ops := Suc (db_ops w)\<rparr>)
     | None \<Rightarrow> (Inr (f (db w)), w\<lparr>db_ops := Suc (db_ops w)\<rparr>))"
  by (auto simp: sql_query_def run_sql split: option.splits)

lemma run_sql_exec:
  "run (sql_exec f) w = (case faults w (db_ops w) of
       Some e \<Rightarrow> (Inl (DbError e), w\<lparr>db_ops := Suc (db_ops w)\<rparr>)
     | None \<Rightarrow> (Inr (), w\<lparr>db_ops := Suc (db_ops w), db := f (db w)\<rparr>))"
  by (auto simp: sql_exec_def run_sql split: option.splits)

lemma run_sql_insert:
  "run (sql_insert column taken f) w = (case faults w (db_ops w) of
       Some e \<Rightarrow> (Inl (DbError e), w\<lparr>db_ops := Suc (db_ops w)\<rparr>)
     | None \<Rightarrow>
         if taken (db w) then (Inl (DbError (unique_failed column)), w\<lparr>db_ops := Suc (db_ops w)\<rparr>)
         else (Inr (), w\<lparr>db_ops := Suc (db_ops w), db := f (db w)\<rparr>))"
  by (auto simp: sql_insert_def run_sql split: option.splits)

lemmas run_statements = run_sql run_sql_query run_sql_exec run_sql_insert

text \<open>A world in which no statement fails from outside.\<close>

definition healthy :: "'w store_world_scheme \<Rightarrow> bool" where
  "healthy w \<longleftrightarrow> (\<forall>n. faults w n = None)"

lemma healthy_faults [simp]: "healthy w \<Longrightarrow> faults w n = None"
  by (simp add: healthy_def)

section \<open>Invariants and statements\<close>

text \<open>An invariant of worlds that does not look at the counters of draws, ticks and statements.\<close>

locale store_invariant =
  fixes I :: "'w store_world_scheme \<Rightarrow> bool"
  assumes inv_ticks: "I w \<Longrightarrow> I (w\<lparr>ticks := Suc (ticks w)\<rparr>)"
    and inv_ops: "I w \<Longrightarrow> I (w\<lparr>db_ops := Suc (db_ops w)\<rparr>)"
begin

lemma keeps_now: "keeps I now anything"
  by (auto simp: keeps_def inv_ticks)

lemma keeps_sql:
  assumes "\<And>w x d. I w \<Longrightarrow> f (db w) = Inr (x, d) \<Longrightarrow> I (w\<lparr>db_ops := Suc (db_ops w), db := d\<rparr>) \<and> Q x"
  shows "keeps I (sql f) (on_ok Q)"
  using assms by (auto simp: keeps_def run_sql inv_ops split: option.splits sum.splits)

lemma keeps_sql_query: "(\<And>w. I w \<Longrightarrow> Q (f (db w))) \<Longrightarrow> keeps I (sql_query f) (on_ok Q)"
  by (auto simp: keeps_def run_sql_query inv_ops split: option.splits)

lemma keeps_sql_exec:
  assumes "\<And>w. I w \<Longrightarrow> I (w\<lparr>db_ops := Suc (db_ops w), db := f (db w)\<rparr>)"
  shows "keeps I (sql_exec f) anything"
  using assms by (auto simp: keeps_def run_sql_exec inv_ops split: option.splits)

lemma keeps_sql_insert:
  assumes "\<And>w. I w \<Longrightarrow> \<not> taken (db w) \<Longrightarrow> I (w\<lparr>db_ops := Suc (db_ops w), db := f (db w)\<rparr>)"
  shows "keeps I (sql_insert column taken f) anything"
  using assms by (auto simp: keeps_def run_sql_insert inv_ops split: option.splits)

lemma keeps_on_ok_anything: "keeps I m Q \<Longrightarrow> keeps I m (on_ok anything)"
  by (rule keeps_weaken) (auto simp: on_ok_def split: sum.splits)

end

text \<open>An invariant of the tables alone, lifted to worlds.\<close>

definition on_db :: "(database \<Rightarrow> bool) \<Rightarrow> 'w store_world_scheme \<Rightarrow> bool" where
  "on_db J w \<longleftrightarrow> J (db w)"

lemma on_db_simps [simp]:
  "on_db J (w\<lparr>db_ops := n, db := d\<rparr>) = J d" "on_db J (w\<lparr>db_ops := n\<rparr>) = on_db J w"
  "on_db J (w\<lparr>ticks := n\<rparr>) = on_db J w" "on_db J (w\<lparr>draws := n\<rparr>) = on_db J w"
  by (simp_all add: on_db_def)

section \<open>The consumption of a code\<close>

lemma transaction_cases:
  obtains (not_begun) e where "val_of (transaction body) w = Inl e" "db (world_of (transaction body) w) = db w"
  | (rolled_back) e where "val_of (transaction body) w = Inl e" "db (world_of (transaction body) w) = db w"
  | (committed) x w1 where "w1 = w\<lparr>db_ops := Suc (db_ops w)\<rparr>" "val_of (transaction body) w = Inr x"
      "val_of body w1 = Inr x" "db (world_of (transaction body) w) = db (world_of body w1)"
proof -
  let ?w1 = "w\<lparr>db_ops := Suc (db_ops w)\<rparr>"
  show ?thesis
  proof (cases "faults w (db_ops w)")
    case (Some e)
    then show ?thesis by (intro not_begun) (simp_all add: transaction_def run_sql_query)
  next
    case None
    obtain r w2 where b: "run body ?w1 = (r, w2)" by (cases "run body ?w1")
    show ?thesis
    proof (cases r)
      case (Inl e)
      with None b show ?thesis by (intro rolled_back [of e]) (simp_all add: transaction_def run_sql_query)
    next
      case (Inr x)
      show ?thesis
      proof (cases "faults w2 (db_ops w2)")
        case (Some e)
        with None b Inr show ?thesis
          by (intro rolled_back [of "DbError e"]) (simp_all add: transaction_def run_sql_query)
      next
        case None2: None
        with None b Inr show ?thesis
          by (intro committed [of ?w1 x]) (simp_all add: transaction_def run_sql_query)
      qed
    qed
  qed
qed

text \<open>What consuming a code does, whatever statements fail.\<close>

definition use_db :: "string \<Rightarrow> time \<Rightarrow> database \<Rightarrow> database" where
  "use_db hash t = authorization_codes_update (List.map (mark_used hash (Unix t)))"

lemma consume_body_ok:
  assumes "val_of (consume_body code t) w = Inr rec"
  obtains c where "List.find (\<lambda>c. c_code_hash c = HashToken code) (authorization_codes (db w)) = Some c"
    and "c_used_at c = None" and "t < time_Unix (c_expires_at c)" and "rec = scanAuthorizationCode c"
    and "length (filter (unused (HashToken code)) (authorization_codes (db w))) = 1"
    and "db (world_of (consume_body code t) w) = use_db (HashToken code) t (db w)"
  using assms unfolding consume_body_def
  by (auto simp: run_sql_query use_code_def run_sql use_db_def split: option.splits if_splits)

lemma ConsumeAuthorizationCode_ok:
  assumes "val_of (ConsumeAuthorizationCode code t) w = Inr rec"
  obtains c where "List.find (\<lambda>c. c_code_hash c = HashToken code) (authorization_codes (db w)) = Some c"
    and "c_used_at c = None" and "t < time_Unix (c_expires_at c)" and "rec = scanAuthorizationCode c"
    and "length (filter (unused (HashToken code)) (authorization_codes (db w))) = 1"
    and "db (world_of (ConsumeAuthorizationCode code t) w) = use_db (HashToken code) t (db w)"
  using transaction_cases [of "consume_body code t" w]
proof cases
  case (committed x w1)
  with assms have "val_of (consume_body code t) w1 = Inr rec" by (simp add: ConsumeAuthorizationCode_def)
  then show ?thesis
    by (rule consume_body_ok) (rule that; use committed in \<open>simp add: ConsumeAuthorizationCode_def\<close>)
qed (use assms in \<open>simp_all add: ConsumeAuthorizationCode_def\<close>)

lemma ConsumeAuthorizationCode_failed:
  assumes "val_of (ConsumeAuthorizationCode code t) w = Inl e"
  shows "db (world_of (ConsumeAuthorizationCode code t) w) = db w"
  using transaction_cases [of "consume_body code t" w] assms
  by cases (simp_all add: ConsumeAuthorizationCode_def)

text \<open>With no failing statement the answer is decided by the row of the code and the time.\<close>

lemma ConsumeAuthorizationCode_healthy:
  assumes "healthy w"
  shows "val_of (ConsumeAuthorizationCode code t) w =
    (case List.find (\<lambda>c. c_code_hash c = HashToken code) (authorization_codes (db w)) of
       None \<Rightarrow> Inl ErrNotFound
     | Some c \<Rightarrow>
         if c_used_at c \<noteq> None then Inl ErrUsed
         else if \<not> t < time_Unix (c_expires_at c) then Inl ErrExpired
         else if length (filter (unused (HashToken code)) (authorization_codes (db w))) \<noteq> 1 then Inl ErrUsed
         else Inr (scanAuthorizationCode c))"
  using assms
  by (auto simp: ConsumeAuthorizationCode_def consume_body_def transaction_def run_statements use_code_def
      split: option.splits)

section \<open>Keys stay unique\<close>

definition unique_keys :: "database \<Rightarrow> bool" where
  "unique_keys d \<longleftrightarrow> distinct (List.map q_id (auth_requests d)) \<and>
     distinct (List.map c_code_hash (authorization_codes d)) \<and>
     distinct (List.map t_token_hash (access_tokens d)) \<and>
     distinct (List.map r_id (consent_requests d)) \<and>
     distinct (List.map (\<lambda>p. List.map ascii_lower (p_handle p)) (managed_profiles d)) \<and>
     distinct (List.map (\<lambda>p. (p_issuer p, p_subject p)) (managed_profiles d))"

lemma unique_keys_empty [simp]: "unique_keys empty_database"
  by (simp add: unique_keys_def empty_database_def)

lemma distinct_filter_one:
  assumes "distinct (List.map k xs)" "x \<in> set xs" "P x" and only: "\<And>y. P y \<Longrightarrow> k y = k x"
  shows "filter P xs = [x]"
  using assms(1-3)
proof (induction xs)
  case (Cons y ys)
  have k: "k y \<notin> k ` set ys" "distinct (List.map k ys)" using Cons.prems(1) by simp_all
  show ?case
  proof (cases "x = y")
    case True
    have "\<forall>z \<in> set ys. \<not> P z" using k(1) only True by (metis image_eqI)
    with True \<open>P x\<close> show ?thesis by (simp add: filter_None_not_in)
  next
    case False
    with Cons.prems(2) have x: "x \<in> set ys" by simp
    with k(1) have "k y \<noteq> k x" by (metis image_eqI)
    with only have "\<not> P y" by blast
    with Cons.IH [OF k(2) x \<open>P x\<close>] show ?thesis by simp
  qed
qed simp

lemma unique_code_one:
  assumes "unique_keys d" "List.find (\<lambda>c. c_code_hash c = h) (authorization_codes d) = Some c" "c_used_at c = None"
  shows "length (filter (unused h) (authorization_codes d)) = 1"
proof -
  have "c \<in> set (authorization_codes d)" "c_code_hash c = h" using assms(2) by (auto dest: find_Some_in)
  moreover have "distinct (List.map c_code_hash (authorization_codes d))" using assms(1) by (simp add: unique_keys_def)
  ultimately have "filter (unused h) (authorization_codes d) = [c]"
    using assms(3) by (intro distinct_filter_one [where k = c_code_hash]) (auto simp: unused_def)
  then show ?thesis by simp
qed

lemma map_mark_used_hash [simp]: "List.map c_code_hash (List.map (mark_used h u) cs) = List.map c_code_hash cs"
  by (simp add: mark_used_def comp_def if_distrib cong: if_cong)

lemma map_revoke_hash [simp]: "List.map t_token_hash (List.map (revoke_row h u) ts) = List.map t_token_hash ts"
  by (simp add: revoke_row_def comp_def if_distrib cong: if_cong)

lemma map_update_profile_keys [simp]:
  "List.map (\<lambda>p. List.map ascii_lower (p_handle p)) (List.map (update_profile mp) ps) =
     List.map (\<lambda>p. List.map ascii_lower (p_handle p)) ps"
  "List.map (\<lambda>p. (p_issuer p, p_subject p)) (List.map (update_profile mp) ps) =
     List.map (\<lambda>p. (p_issuer p, p_subject p)) ps"
  by (auto simp: update_profile_def)

interpretation any_world: store_invariant "\<lambda>_. True"
  by unfold_locales simp_all

section \<open>The contract of the store\<close>

text \<open>
  What a client of the store can rely on for an invariant \<open>I\<close> of the world: the tokens it draws
  satisfy \<open>tok\<close>, and the records it reads satisfy what the records it writes must satisfy.
\<close>

locale store_contract = store_invariant I
  for I :: "'w store_world_scheme \<Rightarrow> bool" +
  fixes tok :: "string \<Rightarrow> bool"
    and okA :: "AuthRequest \<Rightarrow> bool" and okC :: "ConsentRequest \<Rightarrow> bool"
    and okK :: "AuthorizationCode \<Rightarrow> bool" and okT :: "AccessToken \<Rightarrow> bool"
  assumes keeps_RandomToken: "keeps I RandomToken (on_ok tok)"
    and keeps_Seal: "keeps I (Seal k p) anything"
    and keeps_CreateAuthRequest: "okA ar \<Longrightarrow> keeps I (CreateAuthRequest ar) anything"
    and keeps_GetAuthRequest: "keeps I (GetAuthRequestByBackendState U b st) (on_ok okA)"
    and keeps_DeleteAuthRequest: "keeps I (DeleteAuthRequest i) anything"
    and keeps_CreateAuthorizationCode:
      "tok code \<Longrightarrow> okK rec \<Longrightarrow> keeps I (CreateAuthorizationCode code rec) anything"
    and keeps_Consume: "keeps I (ConsumeAuthorizationCode code t) (on_ok okK)"
    and keeps_CreateAccessToken: "tok token \<Longrightarrow> okT trec \<Longrightarrow> keeps I (CreateAccessToken token trec) anything"
    and keeps_GetAccessToken: "keeps I (GetAccessToken token t) (on_ok okT)"
    and keeps_RevokeAccessToken: "keeps I (RevokeAccessToken token t) anything"
    and keeps_CreateConsentRequest: "okC cr \<Longrightarrow> keeps I (CreateConsentRequest cr) anything"
    and keeps_GetConsentRequest: "keeps I (GetConsentRequest i t) (on_ok okC)"
    and keeps_DeleteConsentRequest: "keeps I (DeleteConsentRequest i) anything"
    and keeps_CreateAuditEvent: "keeps I (CreateAuditEvent ev) anything"
    and keeps_CreateManagedProfile: "keeps I (CreateManagedProfile U mp) anything"
    and keeps_GetManagedProfileByHandle: "keeps I (GetManagedProfileByHandle h) anything"
    and keeps_GetManagedProfileByIdentity: "keeps I (GetManagedProfileByIdentity iss sub) anything"
    and keeps_UpdateManagedProfile: "keeps I (UpdateManagedProfile mp) anything"
    and keeps_Cleanup: "keeps I (Cleanup t) anything"
begin

lemmas keeps_store = keeps_now keeps_RandomToken keeps_Seal keeps_GetAuthRequest keeps_DeleteAuthRequest
  keeps_Consume keeps_GetAccessToken keeps_RevokeAccessToken keeps_GetConsentRequest
  keeps_DeleteConsentRequest keeps_CreateAuditEvent keeps_CreateManagedProfile
  keeps_GetManagedProfileByHandle keeps_GetManagedProfileByIdentity keeps_UpdateManagedProfile

end

text \<open>
  The contract follows from facts about table contents alone: a condition \<open>J\<close> of the tables and a
  condition \<open>E\<close> of the random draws still to come.
\<close>

definition inv :: "(database \<Rightarrow> bool) \<Rightarrow> ((nat \<Rightarrow> (nat \<Rightarrow> char) option) \<Rightarrow> nat \<Rightarrow> bool) \<Rightarrow> 'w store_world_scheme \<Rightarrow> bool" where
  "inv J E w \<longleftrightarrow> J (db w) \<and> E (entropy w) (draws w)"

lemma inv_simps [simp]:
  "inv J E (w\<lparr>db_ops := n, db := d\<rparr>) \<longleftrightarrow> J d \<and> E (entropy w) (draws w)"
  "inv J E (w\<lparr>db := d\<rparr>) \<longleftrightarrow> J d \<and> E (entropy w) (draws w)"
  "inv J E (w\<lparr>db_ops := n\<rparr>) \<longleftrightarrow> inv J E w"
  "inv J E (w\<lparr>ticks := n\<rparr>) \<longleftrightarrow> inv J E w"
  by (simp_all add: inv_def)

locale table_contract =
  fixes J :: "database \<Rightarrow> bool" and E :: "(nat \<Rightarrow> (nat \<Rightarrow> char) option) \<Rightarrow> nat \<Rightarrow> bool"
    and tok :: "string \<Rightarrow> bool"
    and okA :: "AuthRequest \<Rightarrow> bool" and okC :: "ConsentRequest \<Rightarrow> bool"
    and okK :: "AuthorizationCode \<Rightarrow> bool" and okT :: "AccessToken \<Rightarrow> bool"
  assumes draw: "E en n \<Longrightarrow> E en (Suc n)"
    and drawn: "E en n \<Longrightarrow> en n = Some f \<Longrightarrow> tok (RawURLEncode (List.map f [0..<tokenBytes]))"
    and add_auth: "J d \<Longrightarrow> okA ar \<Longrightarrow> \<forall>q \<in> set (auth_requests d). q_id q \<noteq> ar_ID ar \<Longrightarrow>
      J (auth_requests_update (\<lambda>qs. qs @ [auth_row_of ar]) d)"
    and filter_auth: "J d \<Longrightarrow> J (auth_requests_update (filter PA) d)"
    and read_auth: "J d \<Longrightarrow> q \<in> set (auth_requests d) \<Longrightarrow> unmarshal_state U (q_backend_state q) = Inr bs \<Longrightarrow>
      okA (scanAuthRequest bs q)"
    and add_code: "J d \<Longrightarrow> tok code \<Longrightarrow> okK rec \<Longrightarrow> \<forall>c \<in> set (authorization_codes d). c_code_hash c \<noteq> HashToken code \<Longrightarrow>
      J (authorization_codes_update (\<lambda>cs. cs @ [code_row_of code rec]) d)"
    and mark_code: "J d \<Longrightarrow> J (authorization_codes_update (List.map (mark_used h u)) d)"
    and filter_code: "J d \<Longrightarrow> J (authorization_codes_update (filter PK) d)"
    and read_code: "J d \<Longrightarrow> c \<in> set (authorization_codes d) \<Longrightarrow> okK (scanAuthorizationCode c)"
    and add_token: "J d \<Longrightarrow> tok token \<Longrightarrow> okT trec \<Longrightarrow> \<forall>r \<in> set (access_tokens d). t_token_hash r \<noteq> HashToken token \<Longrightarrow>
      J (access_tokens_update (\<lambda>ts. ts @ [token_row_of token trec]) d)"
    and revoke_token: "J d \<Longrightarrow> J (access_tokens_update (List.map (revoke_row h u)) d)"
    and filter_token: "J d \<Longrightarrow> J (access_tokens_update (filter PT) d)"
    and read_token: "J d \<Longrightarrow> r \<in> set (access_tokens d) \<Longrightarrow> okT (scanAccessToken r)"
    and add_consent: "J d \<Longrightarrow> okC cr \<Longrightarrow> \<forall>r \<in> set (consent_requests d). r_id r \<noteq> cr_ID cr \<Longrightarrow>
      J (consent_requests_update (\<lambda>rs. rs @ [consent_row_of cr]) d)"
    and filter_consent: "J d \<Longrightarrow> J (consent_requests_update (filter PC) d)"
    and read_consent: "J d \<Longrightarrow> x \<in> set (consent_requests d) \<Longrightarrow> okC (scanConsentRequest x)"
    and add_audit: "J d \<Longrightarrow> J (audit_events_update (\<lambda>es. es @ [ev]) d)"
    and add_profile: "J d \<Longrightarrow> insert_profile mp d = Inr ((), d') \<Longrightarrow> J d'"
    and change_profile: "J d \<Longrightarrow> J (managed_profiles_update (List.map (update_profile mp)) d)"
begin

lemma keeps_rand: "keeps (inv J E) (rand_Read n) anything"
  by (auto simp: keeps_def inv_def draw split: option.splits)

lemma keeps_token: "keeps (inv J E) RandomToken (on_ok tok)"
  by (auto simp: keeps_def inv_def draw RandomToken_def drawn split: option.splits)

end

sublocale table_contract \<subseteq> tables: store_invariant "inv J E"
  by unfold_locales simp_all

context table_contract
begin

lemma keeps_read_auth: "keeps (inv J E) (GetAuthRequestByBackendState U b st) (on_ok okA)"
proof -
  have q: "keeps (inv J E) (sql_query (\<lambda>d. List.find (\<lambda>q. q_backend q = b \<and> q_backend_state_value q = st) (auth_requests d)))
      (on_ok (\<lambda>r. \<forall>q. r = Some q \<longrightarrow> (\<forall>U bs. unmarshal_state U (q_backend_state q) = Inr bs \<longrightarrow> okA (scanAuthRequest bs q))))"
    by (rule tables.keeps_sql_query) (auto simp: inv_def intro: read_auth dest: find_Some_in)
  show ?thesis
    unfolding GetAuthRequestByBackendState_def
    by (intro keeps_bind [OF q] keeps_case_sum keeps_case_option keeps_return
        keeps_bind [OF tables.keeps_now] keeps_if) auto
qed

lemma keeps_read_token: "keeps (inv J E) (GetAccessToken token t) (on_ok okT)"
proof -
  have q: "keeps (inv J E) (sql_query (\<lambda>d. List.find (\<lambda>r. t_token_hash r = HashToken token) (access_tokens d)))
      (on_ok (\<lambda>r. \<forall>q. r = Some q \<longrightarrow> okT (scanAccessToken q)))"
    by (rule tables.keeps_sql_query) (auto simp: inv_def intro: read_token dest: find_Some_in)
  show ?thesis
    unfolding GetAccessToken_def
    by (intro keeps_bind [OF q] keeps_return) (auto split: sum.splits option.splits)
qed

lemma keeps_read_consent: "keeps (inv J E) (GetConsentRequest i t) (on_ok okC)"
proof -
  have q: "keeps (inv J E) (sql_query (\<lambda>d. List.find (\<lambda>r. r_id r = i) (consent_requests d)))
      (on_ok (\<lambda>r. \<forall>q. r = Some q \<longrightarrow> okC (scanConsentRequest q)))"
    by (rule tables.keeps_sql_query) (auto simp: inv_def intro: read_consent dest: find_Some_in)
  show ?thesis
    unfolding GetConsentRequest_def
    by (intro keeps_bind [OF q] keeps_return) (auto split: sum.splits option.splits)
qed

lemma keeps_use_code: "keeps (inv J E) (ConsumeAuthorizationCode code t) (on_ok okK)"
proof (rule keepsI)
  fix w :: "'w store_world_scheme"
  assume w: "inv J E w"
  have E: "E (entropy (world_of (ConsumeAuthorizationCode code t) w)) (draws (world_of (ConsumeAuthorizationCode code t) w))"
    using w by (auto simp: inv_def ConsumeAuthorizationCode_def consume_body_def use_code_def transaction_def
        run_statements split: option.splits)
  show "inv J E (world_of (ConsumeAuthorizationCode code t) w) \<and> on_ok okK (val_of (ConsumeAuthorizationCode code t) w)"
  proof (cases "val_of (ConsumeAuthorizationCode code t) w")
    case (Inl e)
    then show ?thesis using w E by (simp add: inv_def ConsumeAuthorizationCode_failed)
  next
    case (Inr rec)
    then show ?thesis
      by (rule ConsumeAuthorizationCode_ok)
        (use w E Inr in \<open>auto simp: inv_def use_db_def mark_code intro: read_code dest: find_Some_in\<close>)
  qed
qed

lemma keeps_audit: "keeps (inv J E) (CreateAuditEvent ev) anything"
  unfolding CreateAuditEvent_def
  by (intro keeps_bind [where P = anything] keeps_if keeps_return tables.keeps_now tables.keeps_sql_exec)
    (simp_all add: inv_def add_audit)

lemma keeps_make_profile: "keeps (inv J E) (CreateManagedProfile U mp) anything"
proof -
  have "keeps (inv J E) (sql (insert_profile mp)) (on_ok anything)"
    by (rule tables.keeps_sql) (auto simp: inv_def intro: add_profile)
  then show ?thesis
    unfolding CreateManagedProfile_def by (rule keeps_bind) (rule keeps_return, simp)
qed

lemma keeps_change_profile: "keeps (inv J E) (UpdateManagedProfile mp) anything"
proof -
  have "keeps (inv J E) (sql (\<lambda>d. Inr (
       length (filter (\<lambda>p. p_issuer p = mp_Issuer mp \<and> p_subject p = mp_Subject mp) (managed_profiles d)),
       managed_profiles_update (List.map (update_profile mp)) d))) (on_ok anything)"
    by (rule tables.keeps_sql) (auto simp: inv_def change_profile)
  then show ?thesis
    unfolding UpdateManagedProfile_def by (rule keeps_bind) (rule keeps_return, simp)
qed

lemma keeps_exec_all:
  "(\<And>f d. f \<in> set fs \<Longrightarrow> J d \<Longrightarrow> J (f d)) \<Longrightarrow> keeps (inv J E) (exec_all fs) anything"
proof (induction fs)
  case Nil
  then show ?case by (simp add: keeps_return)
next
  case (Cons f fs)
  have "keeps (inv J E) (sql_exec f) anything"
    by (rule tables.keeps_sql_exec) (use Cons.prems [of f] in \<open>simp add: inv_def\<close>)
  then show ?case
    unfolding exec_all.simps
    by (rule keeps_bind) (intro keeps_case_sum keeps_return Cons.IH TrueI, use Cons.prems in auto)
qed

lemma keeps_clean: "keeps (inv J E) (Cleanup t) anything"
  unfolding Cleanup_def
  by (rule keeps_exec_all)
    (auto simp: cleanup_statements_def filter_auth filter_consent filter_code filter_token)

end

sublocale table_contract \<subseteq> store_contract "inv J E" tok okA okC okK okT
proof
  show "keeps (inv J E) (Seal k p) anything" for k p
    unfolding Seal_def by (intro keeps_bind [OF keeps_rand] keeps_return) simp
  show "keeps (inv J E) (CreateAuthRequest ar) anything" if "okA ar" for ar
    unfolding CreateAuthRequest_def
    by (rule tables.keeps_sql_insert) (use that in \<open>auto simp: inv_def intro!: add_auth\<close>)
  show "keeps (inv J E) (CreateAuthorizationCode code rec) anything" if "tok code" "okK rec" for code rec
    unfolding CreateAuthorizationCode_def
    by (rule tables.keeps_sql_insert) (use that in \<open>auto simp: inv_def intro!: add_code\<close>)
  show "keeps (inv J E) (CreateAccessToken token trec) anything" if "tok token" "okT trec" for token trec
    unfolding CreateAccessToken_def
    by (rule tables.keeps_sql_insert) (use that in \<open>auto simp: inv_def intro!: add_token\<close>)
  show "keeps (inv J E) (CreateConsentRequest cr) anything" if "okC cr" for cr
    unfolding CreateConsentRequest_def
    by (rule tables.keeps_sql_insert) (use that in \<open>auto simp: inv_def intro!: add_consent\<close>)
  show "keeps (inv J E) (DeleteAuthRequest i) anything" for i
    unfolding DeleteAuthRequest_def by (rule tables.keeps_sql_exec) (simp add: inv_def filter_auth)
  show "keeps (inv J E) (DeleteConsentRequest i) anything" for i
    unfolding DeleteConsentRequest_def by (rule tables.keeps_sql_exec) (simp add: inv_def filter_consent)
  show "keeps (inv J E) (RevokeAccessToken token t) anything" for token t
    unfolding RevokeAccessToken_def by (rule tables.keeps_sql_exec) (simp add: inv_def revoke_token)
  show "keeps (inv J E) (GetManagedProfileByHandle h) anything" for h
    unfolding GetManagedProfileByHandle_def
    by (rule keeps_bind [OF tables.keeps_sql_query [where Q = anything]]) (simp_all add: keeps_return)
  show "keeps (inv J E) (GetManagedProfileByIdentity i s) anything" for i s
    unfolding GetManagedProfileByIdentity_def
    by (rule keeps_bind [OF tables.keeps_sql_query [where Q = anything]]) (simp_all add: keeps_return)
qed (rule keeps_token keeps_read_auth keeps_read_token keeps_read_consent keeps_use_code keeps_audit
    keeps_make_profile keeps_change_profile keeps_clean)+

section \<open>The keys\<close>

lemma unique_keys_insert_profile:
  assumes "unique_keys d" "insert_profile mp d = Inr ((), d')" shows "unique_keys d'"
proof -
  from assms(2) have d': "d' = d\<lparr>managed_profiles := managed_profiles d @ [profile_row_of mp]\<rparr>"
    and "\<forall>p \<in> set (managed_profiles d). \<not> nocase_eq (p_handle p) (mp_Handle mp)"
    and "\<forall>p \<in> set (managed_profiles d). \<not> (p_issuer p = mp_Issuer mp \<and> p_subject p = mp_Subject mp)"
    by (auto simp: insert_profile_def split: if_splits)
  moreover from this have
    "List.map ascii_lower (mp_Handle mp) \<notin> (\<lambda>p. List.map ascii_lower (p_handle p)) ` set (managed_profiles d)"
    "(mp_Issuer mp, mp_Subject mp) \<notin> (\<lambda>p. (p_issuer p, p_subject p)) ` set (managed_profiles d)"
    unfolding nocase_eq_def by (force simp only: image_iff prod.inject)+
  ultimately show ?thesis using assms(1) by (simp add: unique_keys_def profile_row_of_def)
qed

interpretation keys: table_contract unique_keys "\<lambda>_ _. True" anything anything anything anything anything
proof
  show "unique_keys d'" if "unique_keys d" "insert_profile mp d = Inr ((), d')" for d mp d'
    using that by (rule unique_keys_insert_profile)
qed (auto simp: unique_keys_def auth_row_of_def code_row_of_def token_row_of_def consent_row_of_def
      distinct_map_filter simp del: map_map)

end
