(* ===== verification/ServerLaws.thy ===== *)
theory ServerLaws
  imports Server StoreLaws
begin

text \<open>
  Every handler of the login flow keeps every invariant that the store, the network and the backends
  keep.  The locale states what that takes; an invariant of the whole server is then one
  interpretation, in which only facts about single rows and records are left to prove.
\<close>

section \<open>What an accepted redirect URI is\<close>

definition redirect_accepted :: "unicode_tables \<Rightarrow> string \<Rightarrow> string \<Rightarrow> bool \<Rightarrow> bool \<Rightarrow> bool" where
  "redirect_accepted U clientID redirectURI allow discovery \<longleftrightarrow>
     is_ok (ValidateRedirectURI U clientID redirectURI allow) \<or>
     (discovery \<and> is_ok (ValidateHTTPSURL U clientID allow) \<and> is_ok (normalizedRedirect U redirectURI allow))"

lemma DiscoverClientRedirectURIs_client:
  "is_ok (val_of (DiscoverClientRedirectURIs U c allow) w) \<Longrightarrow> is_ok (ValidateHTTPSURL U c allow)"
  by (auto simp: DiscoverClientRedirectURIs_def split: sum.splits)

lemma ValidateClientRedirect_accepted:
  "is_ok (val_of (ValidateClientRedirect U c r allow disc) w) \<Longrightarrow> redirect_accepted U c r allow disc"
  using DiscoverClientRedirectURIs_client [of U c allow w]
  by (cases "normalizedRedirect U r allow")
    (auto simp: ValidateClientRedirect_def redirect_accepted_def case_prod_beta split: sum.splits if_splits)

section \<open>The contract of the server\<close>

definition setup_request_of :: "string \<Rightarrow> string \<Rightarrow> BackendState \<Rightarrow> time \<Rightarrow> duration \<Rightarrow> AuthRequest" where
  "setup_request_of requestID backendName bs t ttl = \<lparr>ar_ID = requestID, ar_Backend = backendName,
     ar_BackendState = set_value backendStateSetup (JBool True) bs, ar_Me = [],
     ar_ClientID = [], ar_RedirectURI = [], ar_Scope = [], ar_ClientState = [],
     ar_CodeChallenge = [], ar_CodeChallengeMethod = [], ar_ProfileJSON = [],
     ar_ExpiresAt = t + ttl, ar_CreatedAt = t\<rparr>"

text \<open>
  The request that \<open>handleAuthorize\<close> stores has passed the checks of the query, the redirect URI and
  the code challenge.
\<close>

definition request_checked :: "('w store_world_scheme) Server \<Rightarrow> url_values \<Rightarrow> bool" where
  "request_checked s q \<longleftrightarrow> is_ok (authorize_me s q) \<and> authorize_challenge s q = Inr () \<and>
     redirect_accepted (tables s) (values_Get q ''client_id'') (values_Get q ''redirect_uri'')
       (allow_http (cfg s)) (ClientMetadataDiscoveryEnabled (Security (cfg s)))"

locale server_contract =
  store_contract I tok okA okC okK okT + network_invariant I "\<lambda>_. True"
  for I :: "'w store_world_scheme \<Rightarrow> bool" and tok okA okC okK okT +
  fixes s :: "('w store_world_scheme) Server" and okB :: "BackendState \<Rightarrow> bool"
  assumes begin_auth: "(n, b) \<in> set (backends s) \<Longrightarrow> keeps I (BeginAuth b breq) (on_ok (\<lambda>(u, bs). okB bs))"
    and complete_auth: "(n, b) \<in> set (backends s) \<Longrightarrow> keeps I (CompleteAuth b cb bs) anything"
    and accept_login: "request_checked s q \<Longrightarrow> okB bs \<Longrightarrow>
      okA (auth_request_of i profile (bind_state st binding bs) q t ttl)"
    and accept_setup: "okB bs \<Longrightarrow> okA (setup_request_of i name bs t ttl)"
    and consent_of_auth: "okA ar \<Longrightarrow> \<not> bool_value (ar_BackendState ar) backendStateSetup \<Longrightarrow>
      okC (consent_of_request ar i c pj subj t ttl)"
    and code_of_auth: "okA ar \<Longrightarrow> \<not> bool_value (ar_BackendState ar) backendStateSetup \<Longrightarrow>
      okK (code_of_request (request_of_auth ar pj subj) t ttl)"
    and code_of_consent: "okC cr \<Longrightarrow> okK (code_of_request (request_of_consent cr) t ttl)"
    and token_of_rec: "okK rec \<Longrightarrow> okT (token_of_code rec t ttl)"
begin

lemma backend_in: "map_of (backends s) n = Some b \<Longrightarrow> (n, b) \<in> set (backends s)"
  by (rule map_of_SomeD)

lemma keeps_audit_event: "keeps I (audit e su me c) anything"
  unfolding audit_def
  by (intro keeps_bind [where P = anything] keeps_now keeps_CreateAuditEvent keeps_return TrueI)

lemmas keeps_basic = keeps_now keeps_audit_event

lemma keeps_issueCode:
  assumes "\<And>t ttl. okK (code_of_request req t ttl)"
  shows "keeps I (issueCodeAndRedirect s hs req) anything"
  unfolding issueCodeAndRedirect_def
  by (intro keeps_bind [OF keeps_RandomToken] keeps_case_sum keeps_return keeps_bind [OF keeps_now]
      keeps_bind [OF keeps_CreateAuthorizationCode] keeps_bind [OF keeps_audit_event])
    (use assms in simp_all)

lemma keeps_issue_token:
  assumes "okK rec" shows "keeps I (issue_token s rec) anything"
  unfolding issue_token_def
  by (intro keeps_bind [OF keeps_RandomToken] keeps_case_sum keeps_return keeps_bind [OF keeps_now]
      keeps_bind [OF keeps_CreateAccessToken] keeps_bind [OF keeps_audit_event])
    (use token_of_rec [OF assms] in simp_all)

lemma keeps_reject: "keeps I (reject e me c code d) anything"
  unfolding reject_def by (intro keeps_bind [OF keeps_audit_event] keeps_return TrueI)

lemma keeps_handleToken: "keeps I (handleToken s r) anything"
  unfolding handleToken_def Let_def
  by (intro keeps_case_sum keeps_return keeps_if keeps_reject keeps_bind [OF keeps_now]
      keeps_bind [OF keeps_Consume] keeps_issue_token TrueI) simp

lemma keeps_handleAuthorizationCodeProfile: "keeps I (handleAuthorizationCodeProfile r) anything"
  unfolding handleAuthorizationCodeProfile_def Let_def
  by (intro keeps_case_sum keeps_return keeps_if keeps_reject keeps_bind [OF keeps_now]
      keeps_bind [OF keeps_Consume] keeps_bind [OF keeps_audit_event] TrueI)

lemma keeps_handleIntrospect: "keeps I (handleIntrospect r) anything"
  unfolding handleIntrospect_def
  by (intro keeps_case_sum keeps_return keeps_if keeps_bind [OF keeps_now]
      keeps_bind [OF keeps_GetAccessToken] TrueI)

lemma keeps_handleRevoke: "keeps I (handleRevoke r) anything"
  unfolding handleRevoke_def
  by (intro keeps_case_sum keeps_return keeps_if keeps_bind [OF keeps_now]
      keeps_bind [OF keeps_GetAccessToken] keeps_bind [OF keeps_RevokeAccessToken] keeps_bind [where P = anything]
      keeps_audit_event TrueI)

lemma keeps_handleConsentGet: "keeps I (handleConsentGet s r) anything"
  unfolding handleConsentGet_def
  by (intro keeps_case_sum keeps_return keeps_bind [OF keeps_now] keeps_bind [OF keeps_GetConsentRequest]
      keeps_bind [OF keeps_RandomToken] TrueI)

lemma keeps_decide_consent: "okC cr \<Longrightarrow> keeps I (decide_consent s form cr) anything"
  unfolding decide_consent_def
  by (intro keeps_if keeps_return keeps_bind [OF keeps_audit_event] keeps_bind [OF keeps_issueCode]
      code_of_consent TrueI) auto

lemma keeps_handleConsentPost: "keeps I (handleConsentPost s r) anything"
  unfolding handleConsentPost_def Let_def
  by (intro keeps_case_sum keeps_return keeps_if keeps_bind [OF keeps_now] keeps_bind [OF keeps_GetConsentRequest]
      keeps_bind [OF keeps_audit_event] keeps_bind [OF keeps_decide_consent] keeps_bind [OF keeps_DeleteConsentRequest]
      TrueI) simp

section \<open>Managed profiles\<close>

lemma keeps_refresh_profile: "keeps I (refresh_profile i p) anything"
  unfolding refresh_profile_def Let_def
  by (intro keeps_if keeps_return keeps_bind [OF keeps_now] keeps_bind [OF keeps_UpdateManagedProfile] TrueI)

lemma keeps_create_profile: "keeps I (create_profile U i iss) anything"
  unfolding create_profile_def Let_def
  by (intro keeps_case_sum keeps_if keeps_return keeps_bind [OF keeps_now] keeps_bind [OF keeps_CreateManagedProfile]
      keeps_bind [OF keeps_GetManagedProfileByIdentity] TrueI)

lemma keeps_ensureManagedProfile: "keeps I (ensureManagedProfile s i iss) anything"
  unfolding ensureManagedProfile_def
  by (intro keeps_case_sum keeps_if keeps_return keeps_bind [OF keeps_GetManagedProfileByIdentity]
      keeps_refresh_profile keeps_create_profile TrueI)

lemma keeps_managedProfileForMe: "keeps I (managedProfileForMe s me) anything"
  unfolding managedProfileForMe_def
  by (intro keeps_if keeps_return keeps_bind [OF keeps_GetManagedProfileByHandle] TrueI)

section \<open>Authorization and callback\<close>

lemma keeps_authorize_profile: "keeps I (authorize_profile s me st man c) anything"
  unfolding authorize_profile_def Let_def
  by (cases man; cases st)
    (auto intro!: keeps_return keeps_case_sum keeps_bind [OF keeps_DiscoverProfileIdentity] keeps_bind [OF keeps_audit_event])

lemma keeps_begin_login:
  assumes "request_checked s q" shows "keeps I (begin_login s q st profile binding) anything"
  unfolding begin_login_def
  by (intro keeps_case_option keeps_case_sum keeps_case_prod keeps_return keeps_bind [OF keeps_RandomToken]
      keeps_bind [OF begin_auth [OF backend_in]] keeps_bind [OF keeps_now] keeps_bind [OF keeps_CreateAuthRequest]
      keeps_bind [OF keeps_audit_event] accept_login assms TrueI) (auto simp: on_ok_def)

lemma keeps_redirect_check:
  "keeps I (ValidateClientRedirect U c r allow disc) (on_ok (\<lambda>_. redirect_accepted U c r allow disc))"
proof (rule keepsI)
  fix w :: "'w store_world_scheme"
  assume w: "I w"
  let ?m = "ValidateClientRedirect U c r allow disc :: ('w store_world_scheme, unit result) state"
  have "keeps I ?m anything" by (rule keeps_ValidateClientRedirect) simp
  with w have "I (world_of ?m w)" by (simp add: keeps_def)
  moreover have "on_ok (\<lambda>_. redirect_accepted U c r allow disc) (val_of ?m w)"
    using ValidateClientRedirect_accepted [of U c r allow disc w] by (auto simp: on_ok_def split: sum.splits)
  ultimately show "I (world_of ?m w) \<and> on_ok (\<lambda>_. redirect_accepted U c r allow disc) (val_of ?m w)" by simp
qed

lemma keeps_handleAuthorize: "keeps I (handleAuthorize s r) anything"
  unfolding handleAuthorize_def Let_def
  by (intro keeps_case_sum keeps_if keeps_case_prod keeps_return keeps_bind [OF keeps_managedProfileForMe]
      keeps_bind [OF keeps_redirect_check] keeps_bind [OF keeps_audit_event]
      keeps_bind [OF keeps_authorize_profile] keeps_begin_login TrueI)
    (auto simp: request_checked_def on_ok_def split: sum.splits)

lemma keeps_handleSetup: "keeps I (handleSetup s) anything"
  unfolding handleSetup_def Let_def setup_request_of_def [symmetric]
  by (intro keeps_case_option keeps_case_sum keeps_case_prod keeps_if keeps_return keeps_bind [OF keeps_RandomToken]
      keeps_bind [OF begin_auth [OF backend_in]] keeps_bind [OF keeps_now] keeps_bind [OF keeps_CreateAuthRequest]
      accept_setup TrueI) (auto simp: on_ok_def)

lemma keeps_ask_consent:
  assumes "okA ar" "\<not> bool_value (ar_BackendState ar) backendStateSetup"
  shows "keeps I (ask_consent s ar pj subj) anything"
  unfolding ask_consent_def
  by (intro keeps_case_sum keeps_return keeps_bind [OF keeps_RandomToken] keeps_bind [OF keeps_now]
      keeps_bind [OF keeps_CreateConsentRequest] keeps_bind [OF keeps_audit_event] consent_of_auth assms TrueI)

lemma keeps_renderSetupIdentity: "keeps I (renderSetupIdentity s i iss) anything"
  unfolding renderSetupIdentity_def sealSetupIdentity_def
  by (intro keeps_bind [where P = anything] keeps_now keeps_Seal keeps_case_sum keeps_if keeps_return
      keeps_ensureManagedProfile TrueI)

lemma keeps_complete_login:
  assumes "okA ar" "(n, b) \<in> set (backends s)"
  shows "keeps I (complete_login s q ar b) anything"
  unfolding complete_login_def
  by (intro keeps_bind [OF complete_auth [OF assms(2)]] keeps_bind [OF keeps_audit_event] keeps_case_sum keeps_if keeps_case_option
      keeps_return keeps_renderSetupIdentity keeps_ask_consent keeps_bind [OF keeps_issueCode] code_of_auth assms(1) TrueI)

lemma keeps_find_in_backends:
  "set bs \<subseteq> set (backends s) \<Longrightarrow>
   keeps I (find_in_backends U bs st) (on_ok (\<lambda>(ar, b). okA ar \<and> (\<exists>n. (n, b) \<in> set (backends s))))"
proof (induction bs)
  case (Cons nb bs)
  obtain n b where nb: "nb = (n, b)" by (cases nb)
  with Cons show ?case
    by (auto intro!: keeps_bind [OF keeps_GetAuthRequest] keeps_case_sum keeps_if keeps_return)
qed (simp add: keeps_return)

lemma keeps_findAuthRequest:
  "keeps I (findAuthRequest s n st) (on_ok (\<lambda>(ar, b). okA ar \<and> (\<exists>n. (n, b) \<in> set (backends s))))"
  unfolding findAuthRequest_def
  by (intro keeps_if keeps_case_option keeps_return keeps_bind [OF keeps_GetAuthRequest] keeps_find_in_backends)
    (auto simp: on_ok_def dest: backend_in split: sum.splits)

lemma keeps_handleCallback: "keeps I (handleCallback s n r) anything"
proof -
  have "keeps I (do { rsp \<leftarrow> complete_login s q ar b; d \<leftarrow> DeleteAuthRequest (ar_ID ar); return rsp }) anything"
    if "okA ar \<and> (\<exists>n. (n, b) \<in> set (backends s))" for q ar b
    using that by (auto intro!: keeps_bind [OF keeps_complete_login] keeps_bind [OF keeps_DeleteAuthRequest] keeps_return)
  then show ?thesis
    unfolding handleCallback_def Let_def
    by (intro keeps_if keeps_return keeps_bind [OF keeps_findAuthRequest] keeps_case_sum keeps_case_prod TrueI) simp
qed

end

end
