(* ===== verification/Managed.thy ===== *)
theory Managed
  imports Server
begin

text \<open>
  The handlers of the managed profiles of \<open>internal/http/managed_profiles.go\<close>: editing a profile with
  a setup session, and showing it.
\<close>

section \<open>Checks\<close>

definition normalizeManagedWebsite :: "unicode_tables \<Rightarrow> string \<Rightarrow> string result" where
  "normalizeManagedWebsite U value0 =
     (let value = TrimSpace value0 in
      if value = [] then Inr []
      else (case Parse U value of
          Inl e \<Rightarrow> Inl ''website must be a full HTTPS URL''
        | Inr u \<Rightarrow>
            if url_Scheme u \<noteq> ''https'' \<or> url_Host u = [] \<or> url_User u \<noteq> None
            then Inl ''website must be a full HTTPS URL''
            else Inr (URL_String u)))"

definition validManagedProfileText :: "string \<Rightarrow> nat \<Rightarrow> bool \<Rightarrow> bool" where
  "validManagedProfileText value maxLength multiline =
     (if RuneCountInString value > maxLength then False
      else list_all (\<lambda>r. \<not> (IsControl r \<and> \<not> (multiline \<and> (r = 10 \<or> r = 13 \<or> r = 9)))) (runes value))"

definition managedProfileInitial :: "unicode_tables \<Rightarrow> ManagedProfile \<Rightarrow> string" where
  "managedProfileInitial U profile =
     (let value = (if TrimSpace (mp_DisplayName profile) = [] then mp_Handle profile else TrimSpace (mp_DisplayName profile))
      in case List.find (\<lambda>r. IsLetter U r \<or> IsNumber U r) (runes value) of
           None \<Rightarrow> ''@''
         | Some r \<Rightarrow> encode_rune (unicode_ToUpper U r))"

section \<open>POST /setup/profile\<close>

definition setupBodyLimit :: nat where
  "setupBodyLimit = 16 * 1024"

text \<open>The checks of the form: the values the profile gets, or the error.\<close>

definition profile_form :: "unicode_tables \<Rightarrow> url_values \<Rightarrow> (string \<times> string \<times> string \<times> string) result" where
  "profile_form U form =
     (let displayName = TrimSpace (values_Get form ''display_name''); bio = TrimSpace (values_Get form ''bio'');
          accent = TrimSpace (values_Get form ''accent'') in
      if displayName = [] \<or> \<not> validManagedProfileText displayName managedDisplayNameMaxLength False
      then Inl ''display name must be between 1 and 80 characters''
      else if \<not> validManagedProfileText bio managedBioMaxLength True
      then Inl ''bio must be at most 280 characters''
      else bind_result (normalizeManagedWebsite U (values_Get form ''website_url'')) (\<lambda>websiteURL.
        if accent \<notin> set managedProfileAccents then Inl ''invalid accent''
        else Inr (displayName, bio, websiteURL, accent)))"

definition handleManagedProfileUpdate ::
  "('a store_world_scheme) Server \<Rightarrow> http_request \<Rightarrow> ('a store_world_scheme, http_response) state" where
  "handleManagedProfileUpdate s r =
     (if \<not> mpc_Enabled (ManagedProfiles (cfg s)) then return (NotFound [])
      else (case ParseForm setupBodyLimit r of
          Inl e \<Rightarrow> return (http_Error no_store ''invalid profile form'' 400)
        | Inr form \<Rightarrow> do {
            i \<leftarrow> openSetupIdentity s (values_Get form ''identity_token'');
            case i of
              Inl e \<Rightarrow> return (http_Error no_store e 401)
            | Inr identity \<Rightarrow> do {
                p \<leftarrow> GetManagedProfileByIdentity (sis_Issuer identity) (sis_Subject identity);
                case p of
                  Inl e \<Rightarrow> return (if e = ErrNotFound then http_Error no_store ''managed profile not found; sign in again'' 404
                    else http_Error no_store ''profile lookup failed'' 500)
                | Inr profile \<Rightarrow>
                    (case profile_form (tables s) form of
                       Inl e \<Rightarrow> return (http_Error no_store e 400)
                     | Inr (displayName, bio, websiteURL, accent) \<Rightarrow> do {
                         t \<leftarrow> now;
                         u \<leftarrow> UpdateManagedProfile (profile\<lparr>mp_DisplayName := displayName, mp_Bio := bio,
                           mp_WebsiteURL := websiteURL, mp_Accent := accent, mp_Customized := True, mp_UpdatedAt := t\<rparr>);
                         case u of
                           Inl e \<Rightarrow> return (http_Error no_store ''profile update failed'' 500)
                         | Inr _ \<Rightarrow> do {
                             let me = managedProfileURL (cfg s) (mp_Handle profile);
                             audit ''managed_profile_updated'' (sis_Subject identity) me [];
                             return (Redirect no_store me 303)
                           }
                       })
              }
          }))"

section \<open>GET /@handle\<close>

definition profile_page_response :: "('a store_world_scheme) Server \<Rightarrow> ManagedProfile \<Rightarrow> http_response" where
  "profile_page_response s profile =
     (let base = PublicURL (Server (cfg s)); me = managedProfileURL (cfg s) (mp_Handle profile) in
      page [(''Cache-Control'', ''public, max-age=60'')] 200 ''managed-profile'' [
        (''Title'', JStr (mp_DisplayName profile)), (''Handle'', JStr (mp_Handle profile)),
        (''Initial'', JStr (managedProfileInitial (tables s) profile)), (''Bio'', JStr (mp_Bio profile)),
        (''WebsiteURL'', JStr (mp_WebsiteURL profile)), (''Accent'', JStr (accent_or_default (mp_Accent profile))),
        (''Me'', JStr me), (''MetadataURL'', JStr (base @ ''/.well-known/oauth-authorization-server'')),
        (''AuthorizationURL'', JStr (base @ ''/authorize'')), (''TokenURL'', JStr (base @ ''/token'')),
        (''TestURL'', JStr (base @ ''/test?me='' @ QueryEscape me)), (''SetupURL'', JStr (base @ ''/setup''))])"

definition handleManagedProfile ::
  "('a store_world_scheme) Server \<Rightarrow> http_request \<Rightarrow> ('a store_world_scheme, http_response) state" where
  "handleManagedProfile s r =
     (let path = req_Path r; requested = TrimPrefix path ''/@''; handle = normalizeManagedHandle (tables s) requested in
      if \<not> mpc_Enabled (ManagedProfiles (cfg s)) \<or> \<not> HasPrefix path ''/@'' \<or> contains_byte (CHR ''/'') requested
      then return (NotFound [])
      else if handle = [] then return (NotFound [])
      else if requested \<noteq> handle then return (Redirect [] (managedProfileURL (cfg s) handle) 301)
      else do {
        p \<leftarrow> GetManagedProfileByHandle handle;
        return (case p of
          Inl e \<Rightarrow> if e = ErrNotFound then NotFound [] else http_Error [] ''profile lookup failed'' 500
        | Inr profile \<Rightarrow> profile_page_response s profile)
      })"

end
