(* ===== verification/Tools.thy ===== *)
theory Tools
  imports Managed
begin

text \<open>
  The tools of \<open>internal/http/tools.go\<close>: the check of a published profile, and the test client, which
  is an IndieAuth client of its own.  Its session is a sealed cookie.
\<close>

section \<open>POST /setup/check\<close>

definition renderSetupCheck :: "Config \<Rightarrow> headers \<Rightarrow> string \<Rightarrow> string option \<Rightarrow> http_response" where
  "renderSetupCheck c hs me checkErr =
     page hs 200 ''setup-check'' (
       [(''Valid'', JBool (checkErr = None)), (''Me'', JStr me),
        (''SetupURL'', JStr (PublicURL (Server c) @ ''/setup'')), (''TestURL'', JStr (PublicURL (Server c) @ ''/test''))] @
       (case checkErr of None \<Rightarrow> [] | Some e \<Rightarrow> [(''Error'', JStr e)]))"

definition check_binding :: "setupIdentityState \<Rightarrow> ProfileIdentityBinding result \<Rightarrow> string option" where
  "check_binding st binding =
     (case binding of
        Inl e \<Rightarrow> Some e
      | Inr b \<Rightarrow>
          if \<not> ConstantTimeEqual (pib_Subject b) (sis_Subject st) \<or> pib_Issuer b \<noteq> sis_Issuer st
          then Some ''the published identity does not match the account used during setup''
          else None)"

definition handleSetupCheck ::
  "('a store_world_scheme) Server \<Rightarrow> http_request \<Rightarrow> ('a store_world_scheme, http_response) state" where
  "handleSetupCheck s r =
     (if \<not> dp_Enabled (DynamicProfiles (cfg s)) then return (NotFound [])
      else (case ParseForm setupBodyLimit r of
          Inl e \<Rightarrow> return (renderSetupCheck (cfg s) no_store [] (Some ''invalid form body''))
        | Inr form \<Rightarrow> do {
            let me = TrimSpace (values_Get form ''me'');
            i \<leftarrow> openSetupIdentity s (values_Get form ''identity_token'');
            case i of
              Inl e \<Rightarrow> return (renderSetupCheck (cfg s) no_store me (Some e))
            | Inr identityState \<Rightarrow> do {
                b \<leftarrow> DiscoverProfileIdentity (tables s) me (allow_http (cfg s)) (MetadataName (DynamicProfiles (cfg s)))
                  (PublicURL (Server (cfg s))) (be_Issuer (backend_config (cfg s) (dp_Backend (DynamicProfiles (cfg s)))));
                return (renderSetupCheck (cfg s) no_store me (check_binding identityState b))
              }
          }))"

section \<open>The test client\<close>

definition testClientCookieName :: string where "testClientCookieName = ''iab_test_client''"
definition testClientBodyLimit :: nat where "testClientBodyLimit = 256 * 1024"

record testClientState =
  tcs_State :: string
  tcs_Me :: string
  tcs_AuthorizationEndpoint :: string
  tcs_AuthorizationIssuer :: string
  tcs_TokenEndpoint :: string
  tcs_CodeVerifier :: string
  tcs_LegacyVerification :: bool
  tcs_ExpiresAt :: int

definition test_json :: "testClientState \<Rightarrow> string" where
  "test_json st = json_encode (JObj (
     [(''state'', JStr (tcs_State st)), (''me'', JStr (tcs_Me st)),
      (''authorization_endpoint'', JStr (tcs_AuthorizationEndpoint st))] @
     (if tcs_AuthorizationIssuer st \<noteq> [] then [(''authorization_issuer'', JStr (tcs_AuthorizationIssuer st))] else []) @
     [(''token_endpoint'', JStr (tcs_TokenEndpoint st)), (''code_verifier'', JStr (tcs_CodeVerifier st))] @
     (if tcs_LegacyVerification st then [(''legacy_verification'', JBool True)] else []) @
     [(''expires_at'', JNum (int_literal (tcs_ExpiresAt st)))]))"

definition test_fields :: "(string \<times> testClientState field_decoder) list" where
  "test_fields = [(''state'', string_field tcs_State_update), (''me'', string_field tcs_Me_update),
     (''authorization_endpoint'', string_field tcs_AuthorizationEndpoint_update),
     (''authorization_issuer'', string_field tcs_AuthorizationIssuer_update),
     (''token_endpoint'', string_field tcs_TokenEndpoint_update),
     (''code_verifier'', string_field tcs_CodeVerifier_update),
     (''legacy_verification'', bool_field tcs_LegacyVerification_update),
     (''expires_at'', int64_field tcs_ExpiresAt_update)]"

definition no_test_state :: testClientState where
  "no_test_state = \<lparr>tcs_State = [], tcs_Me = [], tcs_AuthorizationEndpoint = [], tcs_AuthorizationIssuer = [],
     tcs_TokenEndpoint = [], tcs_CodeVerifier = [], tcs_LegacyVerification = False, tcs_ExpiresAt = 0\<rparr>"

definition setTestCookie :: "unicode_tables \<Rightarrow> Config \<Rightarrow> string \<Rightarrow> int \<Rightarrow> cookie" where
  "setTestCookie U c value maxAge = \<lparr>ck_Name = testClientCookieName, ck_Value = value, ck_Path = ''/test'',
     ck_MaxAge = maxAge, ck_HttpOnly = True,
     ck_Secure = (case Parse U (PublicURL (Server c)) of Inl e \<Rightarrow> False | Inr u \<Rightarrow> url_Scheme u = ''https''),
     ck_SameSiteLax = True\<rparr>"

definition clearTestCookie :: "unicode_tables \<Rightarrow> Config \<Rightarrow> cookie" where
  "clearTestCookie U c = setTestCookie U c [] (- 1)"

definition with_cookie :: "cookie \<Rightarrow> http_response \<Rightarrow> http_response" where
  "with_cookie ck rsp = rsp\<lparr>rsp_Cookies := rsp_Cookies rsp @ [ck]\<rparr>"

definition renderTestError :: "Config \<Rightarrow> string \<Rightarrow> http_response" where
  "renderTestError c message = page no_store 400 ''test-result'' [(''Error'', JStr message),
     (''TestURL'', JStr (PublicURL (Server c) @ ''/test'')), (''SetupURL'', JStr (PublicURL (Server c) @ ''/setup''))]"

definition test_csp :: string where
  "test_csp = ''default-src '' @ [chr 39] @ ''none'' @ [chr 39] @ ''; style-src '' @ [chr 39] @ ''unsafe-inline'' @ [chr 39] @
     ''; script-src '' @ [chr 39] @ ''self'' @ [chr 39] @ ''; base-uri '' @ [chr 39] @ ''none'' @ [chr 39] @
     ''; frame-ancestors '' @ [chr 39] @ ''none'' @ [chr 39]"

definition handleTestClient :: "Config \<Rightarrow> http_request \<Rightarrow> http_response" where
  "handleTestClient c r =
     (let base = PublicURL (Server c) in
      page [(''Content-Security-Policy'', test_csp)] 200 ''test-client'' [
        (''RedirectURI'', JStr (base @ ''/test/callback'')), (''StartURL'', JStr (base @ ''/test/start'')),
        (''SetupURL'', JStr (base @ ''/setup'')), (''HomeURL'', JStr (base @ ''/'')),
        (''Me'', JStr (TrimSpace (values_Get (request_query r) ''me'')))])"

text \<open>The parameters of the authorization request.\<close>

definition test_query :: "Config \<Rightarrow> AuthorizationServer \<Rightarrow> string \<Rightarrow> string \<Rightarrow> url_values \<Rightarrow> url_values" where
  "test_query c discovered st challenge q0 =
     (let q = values_Set ''state'' st (values_Set ''redirect_uri'' (PublicURL (Server c) @ ''/test/callback'')
            (values_Set ''client_id'' (PublicURL (Server c) @ ''/test'') (values_Set ''me'' (as_Me discovered) q0)))
      in if as_LegacyVerification discovered
         then values_Del ''code_challenge_method'' (values_Del ''code_challenge'' (values_Del ''scope''
           (values_Del ''response_type'' q)))
         else values_Set ''code_challenge_method'' ''S256'' (values_Set ''code_challenge'' challenge
           (values_Set ''scope'' ''profile email'' (values_Set ''response_type'' ''code'' q))))"

definition test_state_of :: "AuthorizationServer \<Rightarrow> string \<Rightarrow> string \<Rightarrow> int \<Rightarrow> testClientState" where
  "test_state_of discovered st verifier expires = \<lparr>tcs_State = st, tcs_Me = as_Me discovered,
     tcs_AuthorizationEndpoint = as_AuthorizationEndpoint discovered, tcs_AuthorizationIssuer = as_Issuer discovered,
     tcs_TokenEndpoint = as_TokenEndpoint discovered, tcs_CodeVerifier = verifier,
     tcs_LegacyVerification = as_LegacyVerification discovered, tcs_ExpiresAt = expires\<rparr>"

definition handleTestStart ::
  "('a store_world_scheme) Server \<Rightarrow> http_request \<Rightarrow> ('a store_world_scheme, http_response) state" where
  "handleTestStart s r =
     (case ParseForm setupBodyLimit r of
        Inl e \<Rightarrow> return (renderTestError (cfg s) ''invalid form body'')
      | Inr form \<Rightarrow> do {
          a \<leftarrow> DiscoverAuthorizationServer (tables s) (TrimSpace (values_Get form ''me'')) (allow_http (cfg s));
          case a of
            Inl e \<Rightarrow> return (renderTestError (cfg s) (''endpoint discovery failed: '' @ e))
          | Inr discovered \<Rightarrow> do {
              i \<leftarrow> RandomToken;
              case i of
                Inl e \<Rightarrow> return (renderTestError (cfg s) ''test state creation failed'')
              | Inr st \<Rightarrow> do {
                  v \<leftarrow> RandomToken;
                  case v of
                    Inl e \<Rightarrow> return (renderTestError (cfg s) ''PKCE verifier creation failed'')
                  | Inr verifier \<Rightarrow> do {
                      t \<leftarrow> now;
                      let ttl = AuthRequestTTL (Security (cfg s));
                      x \<leftarrow> Seal (CookieSecret (Security (cfg s)))
                        (test_json (test_state_of discovered st verifier (Unix (t + ttl))));
                      return (case x of
                        Inl e \<Rightarrow> renderTestError (cfg s) ''test state creation failed''
                      | Inr sealed \<Rightarrow> with_cookie (setTestCookie (tables s) (cfg s) sealed (ttl div second))
                          (case Parse (tables s) (as_AuthorizationEndpoint discovered) of
                             Inl e \<Rightarrow> renderTestError (cfg s) ''discovered authorization endpoint is invalid''
                           | Inr u \<Rightarrow> Redirect no_store (URL_String (u\<lparr>url_RawQuery :=
                               Encode (test_query (cfg s) discovered st (RawURLEncode (Sum256 verifier)) (Query u))\<rparr>)) 302))
                    }
                }
            }
        })"

section \<open>GET /test/callback\<close>

text \<open>\<open>json.MarshalIndent\<close> with two spaces.\<close>

definition new_line :: "nat \<Rightarrow> string" where
  "new_line n = chr 10 # replicate (2 * n) (CHR '' '')"

fun json_indent :: "nat \<Rightarrow> json \<Rightarrow> string"
and indent_elems :: "nat \<Rightarrow> json list \<Rightarrow> string"
and indent_members :: "nat \<Rightarrow> (string \<times> json) list \<Rightarrow> string" where
  "json_indent n (JArr xs) = (if xs = [] then ''[]'' else ''['' @ indent_elems (Suc n) xs @ new_line n @ '']'')"
| "json_indent n (JObj ms) = (if ms = [] then ''{}'' else ''{'' @ indent_members (Suc n) ms @ new_line n @ ''}'')"
| "json_indent n j = json_encode j"
| "indent_elems n [] = []"
| "indent_elems n [x] = new_line n @ json_indent n x"
| "indent_elems n (x # y # xs) = new_line n @ json_indent n x @ '','' @ indent_elems n (y # xs)"
| "indent_members n [] = []"
| "indent_members n [(k, x)] = new_line n @ quote_string k @ '': '' @ json_indent n x"
| "indent_members n ((k, x) # m # ms) =
     new_line n @ quote_string k @ '': '' @ json_indent n x @ '','' @ indent_members n (m # ms)"

definition values_json :: "url_values \<Rightarrow> json" where
  "values_json vs = JObj (map_of_entries (List.map (\<lambda>(k, xs). (k, JArr (List.map JStr xs))) vs))"

text \<open>
  A body that is JSON is printed as such.  The content type makes no difference: it only lets a body
  that is not JSON be decoded, which then fails.  Numbers keep their literals.
\<close>

definition prettyTokenResponse :: "string \<Rightarrow> string" where
  "prettyTokenResponse body =
     (case json_decode body of
        Some j \<Rightarrow> json_indent 0 (any_of_json j)
      | None \<Rightarrow>
          (case ParseQuery body of
             (values, None) \<Rightarrow> if values \<noteq> [] then json_indent 0 (values_json values) else body
           | _ \<Rightarrow> body))"

definition renderTestResult :: "Config \<Rightarrow> testClientState \<Rightarrow> url_values \<Rightarrow> web_response \<Rightarrow> string \<Rightarrow> http_response" where
  "renderTestResult c st authorizationResponse tokenResponse body =
     page no_store 200 ''test-result'' [
       (''Me'', JStr (tcs_Me st)),
       (''Endpoints'', JStr (json_indent 0 (JObj [
         (''authorization_endpoint'', JStr (tcs_AuthorizationEndpoint st)),
         (''issuer'', JStr (tcs_AuthorizationIssuer st)), (''token_endpoint'', JStr (tcs_TokenEndpoint st))]))),
       (''AuthorizationResponse'', JStr (json_indent 0 (values_json authorizationResponse))),
       (''TokenResponse'', JStr (''HTTP '' @ wp_StatusText tokenResponse @ [chr 10] @ prettyTokenResponse body)),
       (''ExchangeLabel'', JStr (if tcs_LegacyVerification st then ''Legacy verification response'' else ''Token response'')),
       (''TestURL'', JStr (PublicURL (Server c) @ ''/test'')), (''SetupURL'', JStr (PublicURL (Server c) @ ''/setup''))]"

text \<open>The session in the cookie, if it can be opened, is complete and has not expired.\<close>

definition open_test_state ::
  "('a store_world_scheme) Server \<Rightarrow> string \<Rightarrow> ('a store_world_scheme, testClientState result) state" where
  "open_test_state s value =
     (case Open (CookieSecret (Security (cfg s))) value of
        Inl e \<Rightarrow> return (Inl ''test session is invalid'')
      | Inr plaintext \<Rightarrow>
          (case unmarshal_struct (tables s) test_fields no_test_state plaintext of
             Inl e \<Rightarrow> return (Inl ''test session is invalid or expired'')
           | Inr st \<Rightarrow>
               if tcs_State st = [] then return (Inl ''test session is invalid or expired'')
               else do {
                 t \<leftarrow> now;
                 return (if Unix t > tcs_ExpiresAt st then Inl ''test session is invalid or expired'' else Inr st)
               }))"

text \<open>The checks of the authorization response: the code.\<close>

definition check_authorization_response :: "testClientState \<Rightarrow> url_values \<Rightarrow> string result" where
  "check_authorization_response st q =
     (if \<not> ConstantTimeEqual (values_Get q ''state'') (tcs_State st)
      then Inl ''authorization response state did not match''
      else if values_Get q ''error'' \<noteq> []
      then Inl (''authorization server returned '' @ values_Get q ''error'' @ '': '' @ values_Get q ''error_description'')
      else if values_Get q ''code'' = [] \<or> length (values_Get q ''code'') > 4096
      then Inl ''authorization response did not include a code''
      else if tcs_AuthorizationIssuer st \<noteq> [] \<and> values_Get q ''iss'' \<noteq> tcs_AuthorizationIssuer st
      then Inl ''authorization response issuer did not match discovery metadata''
      else Inr (values_Get q ''code''))"

definition test_form :: "Config \<Rightarrow> testClientState \<Rightarrow> string \<Rightarrow> url_values" where
  "test_form c st code =
     (let form = [(''code'', [code]), (''client_id'', [PublicURL (Server c) @ ''/test'']),
            (''redirect_uri'', [PublicURL (Server c) @ ''/test/callback''])]
      in if tcs_LegacyVerification st then form
         else values_Set ''code_verifier'' (tcs_CodeVerifier st) (values_Set ''grant_type'' ''authorization_code'' form))"

text \<open>The exchange of the code at the token endpoint, or at the authorization endpoint of a legacy server.\<close>

definition exchange_code ::
  "('a store_world_scheme) Server \<Rightarrow> testClientState \<Rightarrow> url_values \<Rightarrow> string \<Rightarrow> ('a store_world_scheme, http_response) state" where
  "exchange_code s st q code =
     (let failed = (\<lambda>m. return (renderTestError (cfg s) m));
          endpoint = (if tcs_LegacyVerification st then tcs_AuthorizationEndpoint st else tcs_TokenEndpoint st) in
      case ValidateHTTPSURL (tables s) endpoint (allow_http (cfg s)) of
        Inl e \<Rightarrow> failed ''stored token endpoint is invalid''
      | Inr tokenURL \<Rightarrow> do {
          c \<leftarrow> SafeHTTPClient (tables s) tokenURL (allow_http (cfg s)) False;
          case c of
            Inl e \<Rightarrow> failed ''token endpoint is unavailable''
          | Inr client \<Rightarrow>
              (case NewRequest (tables s) ''POST'' (URL_String tokenURL) of
                 Inl e \<Rightarrow> failed ''token request creation failed''
               | Inr req \<Rightarrow> do {
                   p \<leftarrow> client_Do (tables s) client 0 (req\<lparr>wr_Body := Encode (test_form (cfg s) st code),
                     wr_ContentType := ''application/x-www-form-urlencoded'',
                     wr_Accept := ''application/json, application/x-www-form-urlencoded''\<rparr>);
                   case p of
                     Inl e \<Rightarrow> failed (''token request failed: '' @ e)
                   | Inr resp \<Rightarrow>
                       (case read_limited resp (testClientBodyLimit + 1) of
                          Inl e \<Rightarrow> failed ''token response could not be read''
                        | Inr body \<Rightarrow>
                            if length body > testClientBodyLimit then failed ''token response could not be read''
                            else return (renderTestResult (cfg s) st q resp body))
                 })
        })"

definition handleTestCallback ::
  "('a store_world_scheme) Server \<Rightarrow> http_request \<Rightarrow> ('a store_world_scheme, http_response) state" where
  "handleTestCallback s r =
     (let q = request_query r; clear = with_cookie (clearTestCookie (tables s) (cfg s));
          failed = (\<lambda>m. return (clear (renderTestError (cfg s) m))) in
      case map_of (req_Cookies r) testClientCookieName of
        None \<Rightarrow> failed ''test session is missing or expired''
      | Some value \<Rightarrow> do {
          o1 \<leftarrow> open_test_state s value;
          case o1 of
            Inl e \<Rightarrow> failed e
          | Inr st \<Rightarrow>
              (case check_authorization_response st q of
                 Inl e \<Rightarrow> failed e
               | Inr code \<Rightarrow> do {
                   rsp \<leftarrow> exchange_code s st q code;
                   return (clear rsp)
                 })
        })"

end
