(* ===== verification/Oidc.thy ===== *)
theory Oidc
  imports Config StoreLaws
begin

text \<open>
  The package \<open>internal/backends/oidc\<close> (and \<open>authentik\<close>, which is the same backend under its own
  name), and how the program builds its backends from the configuration.  The OpenID Connect library
  is a parameter: discovering a provider, exchanging a code, verifying an ID token and asking for
  user information.  The provider is looked up once for each backend, and kept in the world.
  The URL the browser is sent to is built as \<open>oauth2.Config.AuthCodeURL\<close> builds it.
\<close>

section \<open>The library\<close>

record provider =
  AuthURL :: string
  TokenURL :: string

record OidcConfig =
  oc_Name :: string
  oc_Issuer :: string
  oc_ClientID :: string
  oc_ClientSecret :: string
  oc_RedirectURI :: string
  oc_Scopes :: "string list"
  oc_InsecureSkipVerify :: bool

text \<open>
  A token response with its member \<open>id_token\<close>; a verified ID token with its claims as JSON text.
\<close>

record oauth_token =
  tk_AccessToken :: string
  tk_id_token :: "json option"

record id_token =
  it_Subject :: string
  it_Nonce :: string
  it_Claims :: string

text \<open>The HTTP client a call of the library uses: the default one, or one that does not verify certificates.\<close>

datatype http_context = DefaultClient | InsecureClient

definition contextWithHTTPClient :: "http_context \<Rightarrow> bool \<Rightarrow> http_context" where
  "contextWithHTTPClient ctx insecure = (if \<not> insecure then ctx else InsecureClient)"

text \<open>The configuration of \<open>oauth2\<close>, without the endpoint, which the provider has.\<close>

record oauth2_config =
  o2_ClientID :: string
  o2_ClientSecret :: string
  o2_RedirectURL :: string
  o2_Scopes :: "string list"

text \<open>A verifier is the provider with the client ID it expects.\<close>

record 'w oidc_library =
  NewProvider :: "http_context \<Rightarrow> string \<Rightarrow> ('w, provider result) state"
  Exchange :: "http_context \<Rightarrow> oauth2_config \<Rightarrow> provider \<Rightarrow> string \<Rightarrow> ('w, oauth_token result) state"
  Verify :: "http_context \<Rightarrow> provider \<Rightarrow> string \<Rightarrow> string \<Rightarrow> ('w, id_token result) state"
  UserInfo :: "http_context \<Rightarrow> provider \<Rightarrow> oauth_token \<Rightarrow> ('w, string result) state"

record oidc_world = store_world +
  providers :: "string \<Rightarrow> provider option"

section \<open>The backend\<close>

text \<open>
  A backend as \<open>New\<close> makes it.  Its provider, which later calls set and share, is in the world under the
  instance; verifier and \<open>oauth2\<close> configuration are functions of it and of the configuration.
\<close>

record oidc_backend =
  ob_instance :: string
  ob_name :: string
  ob_config :: OidcConfig

definition oauth2_of :: "OidcConfig \<Rightarrow> oauth2_config" where
  "oauth2_of c = \<lparr>o2_ClientID = oc_ClientID c, o2_ClientSecret = oc_ClientSecret c,
     o2_RedirectURL = oc_RedirectURI c, o2_Scopes = oc_Scopes c\<rparr>"

definition ensureProvider ::
  "('a oidc_world_scheme) oidc_library \<Rightarrow> oidc_backend \<Rightarrow> ('a oidc_world_scheme, provider result) state" where
  "ensureProvider lib b = do {
     p \<leftarrow> gets (\<lambda>w. providers w (ob_instance b));
     case p of
       Some provider \<Rightarrow> return (Inr provider)
     | None \<Rightarrow> do {
         r \<leftarrow> NewProvider lib (contextWithHTTPClient DefaultClient (oc_InsecureSkipVerify (ob_config b))) (oc_Issuer (ob_config b));
         case r of
           Inl e \<Rightarrow> return (Inl e)
         | Inr provider \<Rightarrow> do {
             modify (\<lambda>w. w\<lparr>providers := (providers w)(ob_instance b \<mapsto> provider)\<rparr>);
             return (Inr provider)
           }
       }
   }"

fun join_space :: "string list \<Rightarrow> string" where
  "join_space [] = []"
| "join_space [s] = s"
| "join_space (s # t # ss) = s @ '' '' @ join_space (t # ss)"

definition AuthCodeURL :: "oauth2_config \<Rightarrow> provider \<Rightarrow> string \<Rightarrow> string \<Rightarrow> string" where
  "AuthCodeURL c p st nonce =
     (let v = values_Set ''client_id'' (o2_ClientID c) (values_Set ''response_type'' ''code'' []);
          v = (if o2_RedirectURL c \<noteq> [] then values_Set ''redirect_uri'' (o2_RedirectURL c) v else v);
          v = (if o2_Scopes c \<noteq> [] then values_Set ''scope'' (join_space (o2_Scopes c)) v else v);
          v = (if st \<noteq> [] then values_Set ''state'' st v else v);
          v = values_Set ''nonce'' nonce v
      in AuthURL p @ (if contains_byte (CHR ''?'') (AuthURL p) then ''&'' else ''?'') @ Encode v)"

definition oidc_BeginAuth ::
  "('a oidc_world_scheme) oidc_library \<Rightarrow> oidc_backend \<Rightarrow> backend_request \<Rightarrow>
   ('a oidc_world_scheme, (string \<times> BackendState) result) state" where
  "oidc_BeginAuth lib b req = do {
     p \<leftarrow> ensureProvider lib b;
     case p of
       Inl e \<Rightarrow> return (Inl e)
     | Inr provider \<Rightarrow> do {
         s \<leftarrow> RandomToken;
         case s of
           Inl e \<Rightarrow> return (Inl e)
         | Inr st \<Rightarrow> do {
             n \<leftarrow> RandomToken;
             return (map_result (\<lambda>nonce. (AuthCodeURL (oauth2_of (ob_config b)) provider st nonce,
               \<lparr>bs_State = st, bs_Nonce = nonce, bs_Values = None\<rparr>)) n)
           }
       }
   }"

text \<open>Decoding JSON into a map that exists: an object adds its members, \<open>null\<close> makes the map nil.\<close>

definition merge_claims :: "string \<Rightarrow> values_map \<Rightarrow> values_map result" where
  "merge_claims text claims =
     (case json_decode text of
        None \<Rightarrow> Inl ''invalid character''
      | Some (JObj ms) \<Rightarrow> Inr (foldl (\<lambda>m (k, v). map_set k (any_of_json v) m) claims ms)
      | Some JNull \<Rightarrow> Inr []
      | Some _ \<Rightarrow> Inl ''json: cannot unmarshal into Go value of type map[string]interface {}'')"

definition stringClaim :: "values_map \<Rightarrow> string \<Rightarrow> string" where
  "stringClaim claims name = (case map_of claims name of Some (JStr s) \<Rightarrow> s | _ \<Rightarrow> [])"

definition boolClaim :: "values_map \<Rightarrow> string \<Rightarrow> bool" where
  "boolClaim claims name = (case map_of claims name of Some (JBool b) \<Rightarrow> b | _ \<Rightarrow> False)"

definition stringSliceClaim :: "values_map \<Rightarrow> string \<Rightarrow> string list" where
  "stringSliceClaim claims name =
     (case map_of claims name of
        Some (JArr js) \<Rightarrow> concat (List.map (\<lambda>j. case j of JStr s \<Rightarrow> [s] | _ \<Rightarrow> []) js)
      | _ \<Rightarrow> [])"

definition identityFromClaims :: "string \<Rightarrow> values_map \<Rightarrow> Identity" where
  "identityFromClaims subject claims = \<lparr>id_Subject = subject, id_Username = stringClaim claims ''username'',
     id_Email = stringClaim claims ''email'', id_EmailVerified = boolClaim claims ''email_verified'',
     id_Name = stringClaim claims ''name'', id_PreferredUsername = stringClaim claims ''preferred_username'',
     id_Groups = stringSliceClaim claims ''groups'', id_RawClaims = claims\<rparr>"

definition oidc_CompleteAuth ::
  "('a oidc_world_scheme) oidc_library \<Rightarrow> oidc_backend \<Rightarrow> url_values \<Rightarrow> BackendState \<Rightarrow>
   ('a oidc_world_scheme, Identity result) state" where
  "oidc_CompleteAuth lib b query st = do {
     p \<leftarrow> ensureProvider lib b;
     case p of
       Inl e \<Rightarrow> return (Inl e)
     | Inr provider \<Rightarrow>
         if values_Get query ''error'' \<noteq> [] then return (Inl (''oidc error: '' @ values_Get query ''error''))
         else if \<not> ConstantTimeEqual (values_Get query ''state'') (bs_State st) then return (Inl ''invalid oidc state'')
         else if values_Get query ''code'' = [] then return (Inl ''missing oidc code'')
         else let ctx = contextWithHTTPClient DefaultClient (oc_InsecureSkipVerify (ob_config b)) in do {
           k \<leftarrow> Exchange lib ctx (oauth2_of (ob_config b)) provider (values_Get query ''code'');
           case k of
             Inl e \<Rightarrow> return (Inl (''oidc token exchange failed: '' @ e))
           | Inr token \<Rightarrow>
               (case tk_id_token token of
                  Some (JStr rawIDToken) \<Rightarrow>
                    if rawIDToken = [] then return (Inl ''oidc token response missing id_token'')
                    else do {
                      v \<leftarrow> Verify lib ctx provider (oc_ClientID (ob_config b)) rawIDToken;
                      case v of
                        Inl e \<Rightarrow> return (Inl (''oidc id_token verification failed: '' @ e))
                      | Inr idToken \<Rightarrow>
                          if \<not> ConstantTimeEqual (it_Nonce idToken) (bs_Nonce st) then return (Inl ''invalid oidc nonce'')
                          else (case merge_claims (it_Claims idToken) [] of
                              Inl e \<Rightarrow> return (Inl e)
                            | Inr claims \<Rightarrow> do {
                                u \<leftarrow> UserInfo lib ctx provider token;
                                return (Inr (identityFromClaims (it_Subject idToken)
                                  (case bind_result u (\<lambda>info. merge_claims info claims) of
                                     Inl e \<Rightarrow> claims | Inr merged \<Rightarrow> merged)))
                              })
                    }
                | _ \<Rightarrow> return (Inl ''oidc token response missing id_token''))
         }
   }"

text \<open>\<open>i\<close> tells the instances that \<open>New\<close> makes apart.\<close>

definition oidc_New :: "string \<Rightarrow> OidcConfig \<Rightarrow> oidc_backend" where
  "oidc_New i c0 =
     (let c = (if oc_Scopes c0 = [] then c0\<lparr>oc_Scopes := [''openid'', ''profile'', ''email'']\<rparr> else c0);
          c = (if oc_Name c = [] then c\<lparr>oc_Name := ''oidc''\<rparr> else c)
      in \<lparr>ob_instance = i, ob_name = oc_Name c, ob_config = c\<rparr>)"

definition oidc_Name :: "oidc_backend \<Rightarrow> string" where
  "oidc_Name b = ob_name b"

definition authentik_New :: "string \<Rightarrow> OidcConfig \<Rightarrow> oidc_backend" where
  "authentik_New i c =
     (let c = c\<lparr>oc_Name := ''authentik''\<rparr>;
          c = (if oc_Scopes c = [] then c\<lparr>oc_Scopes := [''openid'', ''profile'', ''email'']\<rparr> else c)
      in oidc_New i c)"

text \<open>The methods of the interface \<open>backends.Backend\<close>.\<close>

definition as_backend :: "('a oidc_world_scheme) oidc_library \<Rightarrow> oidc_backend \<Rightarrow> ('a oidc_world_scheme) Backend" where
  "as_backend lib b = \<lparr>be_Name = oidc_Name b, BeginAuth = oidc_BeginAuth lib b, CompleteAuth = oidc_CompleteAuth lib b\<rparr>"

section \<open>The backends of a configuration\<close>

text \<open>The names of the map are distinct, so they tell the instances apart.\<close>

definition backend_of_config ::
  "('a oidc_world_scheme) oidc_library \<Rightarrow> bool \<Rightarrow> string \<Rightarrow> BackendConfig \<Rightarrow> ('a oidc_world_scheme) Backend result" where
  "backend_of_config lib devMode name b =
     (let c = \<lparr>oc_Name = name, oc_Issuer = be_Issuer b, oc_ClientID = be_ClientID b,
            oc_ClientSecret = be_ClientSecret b, oc_RedirectURI = be_RedirectURI b, oc_Scopes = be_Scopes b,
            oc_InsecureSkipVerify = (InsecureSkipVerify b \<or> devMode)\<rparr>
      in if Type b = ''authentik'' then Inr (as_backend lib (authentik_New name c))
         else if Type b = ''oidc'' then Inr (as_backend lib (oidc_New name c))
         else Inl (''unsupported backend type: '' @ Type b))"

fun build_all ::
  "('a oidc_world_scheme) oidc_library \<Rightarrow> bool \<Rightarrow> (string \<times> BackendConfig) list \<Rightarrow>
   (string \<times> ('a oidc_world_scheme) Backend) list result" where
  "build_all lib dev [] = Inr []"
| "build_all lib dev ((name, b) # bs) =
     bind_result (backend_of_config lib dev name b) (\<lambda>backend.
       map_result (\<lambda>rest. (name, backend) # rest) (build_all lib dev bs))"

definition buildBackends ::
  "('a oidc_world_scheme) oidc_library \<Rightarrow> Config \<Rightarrow> (string \<times> ('a oidc_world_scheme) Backend) list result" where
  "buildBackends lib cfg = build_all lib (DevMode (Security cfg)) (Config.Backends cfg)"

section \<open>The contract of a backend\<close>

text \<open>
  A computation that leaves the tables, the faults of the database and the random source alone, apart
  from drawing.
\<close>

definition store_blind :: "('w store_world_scheme, 'a) state \<Rightarrow> bool" where
  "store_blind m \<longleftrightarrow> (\<forall>w. db (world_of m w) = db w \<and> entropy (world_of m w) = entropy w \<and>
     draws w \<le> draws (world_of m w) \<and> faults (world_of m w) = faults w)"

lemma store_blind_return [simp]: "store_blind (return x)"
  by (simp add: store_blind_def)

lemma store_blind_gets [simp]: "store_blind (gets f)"
  by (simp add: store_blind_def)

lemma store_blind_bind: "store_blind m \<Longrightarrow> (\<And>x. store_blind (f x)) \<Longrightarrow> store_blind (m \<bind> f)"
  by (simp add: store_blind_def case_prod_beta) (metis le_trans)

lemma store_blind_now [simp]: "store_blind now"
  by (simp add: store_blind_def)

lemma store_blind_RandomToken [simp]: "store_blind RandomToken"
  by (simp add: store_blind_def RandomToken_def split: option.splits)

lemma store_blind_case_sum:
  "(\<And>e. store_blind (f e)) \<Longrightarrow> (\<And>x. store_blind (g x)) \<Longrightarrow>
   store_blind (case r of Inl e \<Rightarrow> f e | Inr x \<Rightarrow> g x)"
  by (cases r) auto

lemma store_blind_case_option:
  "store_blind f \<Longrightarrow> (\<And>x. store_blind (g x)) \<Longrightarrow> store_blind (case r of None \<Rightarrow> f | Some x \<Rightarrow> g x)"
  by (cases r) auto

lemma store_blind_if: "store_blind m \<Longrightarrow> store_blind n \<Longrightarrow> store_blind (if b then m else n)"
  by simp

lemmas store_blind_rules = store_blind_bind store_blind_case_sum store_blind_case_option store_blind_if
  store_blind_return store_blind_gets store_blind_RandomToken

text \<open>What the server relies on: a backend does not touch the store, and its states can be stored.\<close>

locale login_backend =
  fixes be :: "('w store_world_scheme) Backend"
  assumes blind_begin: "store_blind (BeginAuth be r)"
    and begin_state: "val_of (BeginAuth be r) w = Inr (u, bs) \<Longrightarrow> wf_state bs"
    and blind_complete: "store_blind (CompleteAuth be q st)"
begin

lemma keeps_blind:
  fixes I :: "'w store_world_scheme \<Rightarrow> bool"
  assumes "store_blind m"
    and "\<And>w w'. I w \<Longrightarrow> db w' = db w \<Longrightarrow> entropy w' = entropy w \<Longrightarrow> draws w \<le> draws w' \<Longrightarrow>
    faults w' = faults w \<Longrightarrow> I w'"
  shows "keeps I m anything"
  using assms by (simp add: store_blind_def keeps_def)

lemma keeps_BeginAuth:
  assumes "\<And>w w'. I w \<Longrightarrow> db w' = db w \<Longrightarrow> entropy w' = entropy w \<Longrightarrow> draws w \<le> draws w' \<Longrightarrow>
    faults w' = faults w \<Longrightarrow> I w'"
  shows "keeps I (BeginAuth be r) (on_ok (\<lambda>(u, bs). wf_state bs))"
proof (rule keepsI)
  fix w
  assume "I w"
  moreover have "keeps I (BeginAuth be r) anything" by (rule keeps_blind [OF blind_begin]) (rule assms)
  ultimately have "I (world_of (BeginAuth be r) w)" by (simp add: keeps_def)
  moreover have "on_ok (\<lambda>(u, bs). wf_state bs) (val_of (BeginAuth be r) w)"
    using begin_state [of r w] by (auto simp: on_ok_def split: sum.splits)
  ultimately show "I (world_of (BeginAuth be r) w) \<and> on_ok (\<lambda>(u, bs). wf_state bs) (val_of (BeginAuth be r) w)"
    by simp
qed

lemma keeps_CompleteAuth:
  assumes "\<And>w w'. I w \<Longrightarrow> db w' = db w \<Longrightarrow> entropy w' = entropy w \<Longrightarrow> draws w \<le> draws w' \<Longrightarrow>
    faults w' = faults w \<Longrightarrow> I w'"
  shows "keeps I (CompleteAuth be q st) anything"
  by (rule keeps_blind [OF blind_complete assms])

end

text \<open>The documented behaviour of the library that this needs: it does not touch the program's store.\<close>

definition library_blind :: "('a oidc_world_scheme) oidc_library \<Rightarrow> bool" where
  "library_blind lib \<longleftrightarrow> (\<forall>x iss. store_blind (NewProvider lib x iss)) \<and> (\<forall>x c p code. store_blind (Exchange lib x c p code)) \<and>
     (\<forall>x p i t. store_blind (Verify lib x p i t)) \<and> (\<forall>x p t. store_blind (UserInfo lib x p t))"

lemma store_blind_ensureProvider: "library_blind lib \<Longrightarrow> store_blind (ensureProvider lib b)"
proof -
  assume "library_blind lib"
  moreover have "store_blind (modify (\<lambda>w. w\<lparr>providers := (providers w)(ob_instance b \<mapsto> p)\<rparr>))" for p
    by (simp add: store_blind_def)
  ultimately show ?thesis
    unfolding ensureProvider_def by (intro store_blind_rules) (simp_all add: library_blind_def)
qed

lemma RandomToken_utf8: "val_of RandomToken w = Inr t \<Longrightarrow> valid_utf8 t"
proof -
  assume "val_of RandomToken w = Inr t"
  then obtain b where "t = RawURLEncode b" by (auto simp: RandomToken_def split: option.splits)
  then have "ascii t"
    using b64_encode_alphabet [of b] by (auto simp: ascii_def list_all_iff intro: b64_alphabet_ascii)
  then show ?thesis by (rule ascii_valid_utf8)
qed

lemma oidc_begin_state:
  assumes "val_of (oidc_BeginAuth lib b r) w = Inr (u, bs)" shows "wf_state bs"
  using assms RandomToken_utf8
  by (auto simp: oidc_BeginAuth_def case_prod_beta wf_state_def map_result_ok split: sum.splits)

lemma oidc_blind:
  assumes "library_blind lib"
  shows "store_blind (oidc_BeginAuth lib b r)" "store_blind (oidc_CompleteAuth lib b q st)"
proof -
  have lib: "store_blind (Exchange lib x c p code)" "store_blind (Verify lib x p i raw)" "store_blind (UserInfo lib x p tk)"
    for x c p i code raw tk using assms by (simp_all add: library_blind_def)
  show "store_blind (oidc_BeginAuth lib b r)"
    unfolding oidc_BeginAuth_def by (intro store_blind_rules store_blind_ensureProvider assms)
  have json: "store_blind (case j of JStr s \<Rightarrow> f s | _ \<Rightarrow> return x)" if "\<And>s. store_blind (f s)"
    for j x and f :: "string \<Rightarrow> ('a oidc_world_scheme, Identity result) state"
    using that by (auto split: json.split)
  show "store_blind (oidc_CompleteAuth lib b q st)"
    unfolding oidc_CompleteAuth_def Let_def by (intro store_blind_rules json store_blind_ensureProvider lib assms)
qed

lemma oidc_login_backend:
  assumes "library_blind lib" shows "login_backend (as_backend lib b)"
proof
  show "store_blind (BeginAuth (as_backend lib b) r)" "store_blind (CompleteAuth (as_backend lib b) q st)" for r q st
    by (simp_all add: as_backend_def oidc_blind [OF assms])
  show "wf_state bs" if "val_of (BeginAuth (as_backend lib b) r) w = Inr (u, bs)" for r w u bs
    using that by (auto simp: as_backend_def intro: oidc_begin_state)
qed

lemma built_login_backends:
  assumes "library_blind lib" "build_all lib dev bcs = Inr bes" "(n, be) \<in> set bes"
  shows "login_backend be"
  using assms(2,3)
proof (induction bcs arbitrary: bes)
  case (Cons nb bcs)
  obtain name b where nb: "nb = (name, b)" by (cases nb)
  with Cons.prems(1) obtain be' rest where "backend_of_config lib dev name b = Inr be'"
    "build_all lib dev bcs = Inr rest" "bes = (name, be') # rest"
    by (auto simp: bind_result_ok map_result_ok)
  moreover from this have "login_backend be'"
    using assms(1) by (auto simp: backend_of_config_def Let_def oidc_login_backend split: if_splits)
  ultimately show ?case using Cons by auto
qed simp

text \<open>A library that gives fixed answers, whatever they are, satisfies the hypothesis.\<close>

definition answering :: "provider result \<Rightarrow> oauth_token result \<Rightarrow> id_token result \<Rightarrow> string result \<Rightarrow>
    ('a oidc_world_scheme) oidc_library" where
  "answering p k v u = \<lparr>NewProvider = (\<lambda>_ _. return p), Exchange = (\<lambda>_ _ _ _. return k),
     Verify = (\<lambda>_ _ _ _. return v), UserInfo = (\<lambda>_ _ _. return u)\<rparr>"

lemma answering_blind: "library_blind (answering p k v u)"
  by (simp add: library_blind_def answering_def)

interpretation oidc_login: login_backend "as_backend (answering p k v u) b" for p k v u b
  by (rule oidc_login_backend) (rule answering_blind)

end
