(* ===== verification/Flow.thy ===== *)
theory Flow
  imports ServerLaws Tools Oidc
begin

text \<open>
  The server as a state machine: a step is one request handled from beginning to end, or one run of
  the periodic cleanup.  Requests are handled one after the other here; in \<^theory_text>\<open>Concurrent\<close> the steps of handlers
  that run at the same time are interleaved.
\<close>

section \<open>Steps\<close>

datatype event =
    Authorize http_request
  | Callback string http_request
  | ConsentGet http_request
  | ConsentPost http_request
  | Token http_request
  | CodeProfile http_request
  | Introspect http_request
  | Revoke http_request
  | Setup
  | SetupCheck http_request
  | ProfileUpdate http_request
  | ProfilePage http_request
  | TestStart http_request
  | TestCallback http_request
  | CleanupTick time
  | ClockRead

fun handle :: "('a store_world_scheme) Server \<Rightarrow> event \<Rightarrow> ('a store_world_scheme, http_response) state" where
  "handle s (Authorize r) = handleAuthorize s r"
| "handle s (Callback b r) = handleCallback s b r"
| "handle s (ConsentGet r) = handleConsentGet s r"
| "handle s (ConsentPost r) = handleConsentPost s r"
| "handle s (Token r) = handleToken s r"
| "handle s (CodeProfile r) = handleAuthorizationCodeProfile r"
| "handle s (Introspect r) = handleIntrospect r"
| "handle s (Revoke r) = handleRevoke r"
| "handle s Setup = handleSetup s"
| "handle s (SetupCheck r) = handleSetupCheck s r"
| "handle s (ProfileUpdate r) = handleManagedProfileUpdate s r"
| "handle s (ProfilePage r) = handleManagedProfile s r"
| "handle s (TestStart r) = handleTestStart s r"
| "handle s (TestCallback r) = handleTestCallback s r"
| "handle s (CleanupTick t) = do { c \<leftarrow> Cleanup t; return (reply [] 0 NoBody) }"
| "handle s ClockRead = do { t \<leftarrow> now; return (reply [] 0 NoBody) }"

inductive step :: "('a store_world_scheme) Server \<Rightarrow> 'a store_world_scheme \<Rightarrow> event \<Rightarrow> http_response \<Rightarrow>
    'a store_world_scheme \<Rightarrow> bool" where
  step: "run (handle s ev) w = (rsp, w') \<Longrightarrow> step s w ev rsp w'"

inductive_cases stepE: "step s w ev rsp w'"
inductive_simps step_iff: "step s w ev rsp w'"

text \<open>The worlds a run can reach.\<close>

inductive reachable :: "('a store_world_scheme) Server \<Rightarrow> 'a store_world_scheme \<Rightarrow> 'a store_world_scheme \<Rightarrow> bool"
  for s w0 where
  start: "reachable s w0 w0"
| next_step: "reachable s w0 w \<Longrightarrow> step s w ev rsp w' \<Longrightarrow> reachable s w0 w'"

text \<open>A run with its responses.\<close>

fun run_events :: "('a store_world_scheme) Server \<Rightarrow> event list \<Rightarrow> 'a store_world_scheme \<Rightarrow>
    http_response list \<times> 'a store_world_scheme" where
  "run_events s [] w = ([], w)"
| "run_events s (ev # evs) w =
     (case run (handle s ev) w of (rsp, w') \<Rightarrow>
        case run_events s evs w' of (rsps, w'') \<Rightarrow> (rsp # rsps, w''))"

lemma reachable_trans: "reachable s b c \<Longrightarrow> reachable s a b \<Longrightarrow> reachable s a c"
  by (induction rule: reachable.induct) (auto intro: reachable.intros)

lemma run_events_reachable: "reachable s w (snd (run_events s evs w))"
proof (induction evs arbitrary: w)
  case (Cons ev evs)
  obtain rsp w' where r: "run (handle s ev) w = (rsp, w')" by (cases "run (handle s ev) w")
  have "reachable s w w'" by (rule next_step [OF start]) (rule step.intros [OF r])
  with Cons [of w'] r show ?case by (auto simp: case_prod_beta intro: reachable_trans)
qed (simp add: start)

text \<open>An exchange of a code, at the token endpoint or at the authorization endpoint.\<close>

definition exchange_of :: "event \<Rightarrow> http_request \<Rightarrow> bool" where
  "exchange_of ev r \<longleftrightarrow> ev = Token r \<or> ev = CodeProfile r"

section \<open>Requests that leave the tables alone\<close>

text \<open>What they take of an invariant: it survives the network, the clock, and draws of random bytes.\<close>

locale outside_calls =
  store_invariant I + network_invariant I "\<lambda>_. True"
  for I :: "'w store_world_scheme \<Rightarrow> bool" +
  assumes any_draw: "keeps I RandomToken anything"
    and any_seal: "keeps I (Seal k p) anything"
begin

lemma keeps_sealSetupIdentity: "keeps I (sealSetupIdentity s iss sub) anything"
  unfolding sealSetupIdentity_def by (intro keeps_bind [OF keeps_now] any_seal)

lemma keeps_openSetupIdentity: "keeps I (openSetupIdentity s v) anything"
  unfolding openSetupIdentity_def
  by (intro keeps_case_sum keeps_if keeps_return keeps_bind [OF keeps_now] TrueI)

lemma keeps_handleSetupCheck: "keeps I (handleSetupCheck s r) anything"
  unfolding handleSetupCheck_def Let_def
  by (intro keeps_case_sum keeps_if keeps_return keeps_bind [OF keeps_openSetupIdentity]
      keeps_bind [OF keeps_DiscoverProfileIdentity] TrueI)

lemma keeps_handleTestStart: "keeps I (handleTestStart s r) anything"
  unfolding handleTestStart_def Let_def
  by (intro keeps_case_sum keeps_return keeps_bind [OF keeps_DiscoverAuthorizationServer]
      keeps_bind [OF any_draw] keeps_bind [OF keeps_now] keeps_bind [OF any_seal] TrueI)

lemma keeps_exchange_code: "keeps I (exchange_code s st q c) anything"
  unfolding exchange_code_def Let_def
  by (intro keeps_case_sum keeps_if keeps_return keeps_bind [OF keeps_SafeHTTPClient] keeps_bind [OF keeps_safe_Do] TrueI)
    simp_all

lemma keeps_handleTestCallback: "keeps I (handleTestCallback s r) anything"
  unfolding handleTestCallback_def open_test_state_def Let_def
  by (intro keeps_case_sum keeps_case_option keeps_if keeps_return keeps_bind [where P = anything]
      keeps_now keeps_exchange_code TrueI)

lemmas keeps_outside = keeps_handleSetupCheck keeps_handleTestStart keeps_handleTestCallback

end

sublocale server_contract \<subseteq> outside: outside_calls I
  by unfold_locales (rule keeps_any [OF keeps_RandomToken], rule keeps_Seal)

section \<open>Invariants of runs\<close>

context server_contract
begin

lemma keeps_handleManagedProfileUpdate: "keeps I (handleManagedProfileUpdate s r) anything"
  unfolding handleManagedProfileUpdate_def Let_def
  by (intro keeps_case_sum keeps_case_prod keeps_if keeps_return keeps_bind [OF outside.keeps_openSetupIdentity]
      keeps_bind [OF keeps_GetManagedProfileByIdentity] keeps_bind [OF keeps_now]
      keeps_bind [OF keeps_UpdateManagedProfile] keeps_bind [OF keeps_audit_event] TrueI)

lemma keeps_handleManagedProfile: "keeps I (handleManagedProfile s r) anything"
  unfolding handleManagedProfile_def Let_def
  by (intro keeps_if keeps_return keeps_bind [OF keeps_GetManagedProfileByHandle] TrueI)

lemma keeps_handle: "keeps I (handle s ev) anything"
  by (cases ev)
    (simp_all add: keeps_handleAuthorize keeps_handleCallback keeps_handleConsentGet keeps_handleConsentPost
      keeps_handleToken keeps_handleAuthorizationCodeProfile keeps_handleIntrospect keeps_handleRevoke
      keeps_handleSetup keeps_handleManagedProfileUpdate keeps_handleManagedProfile outside.keeps_outside keeps_bind [OF keeps_Cleanup] keeps_bind [OF keeps_now] keeps_return)

lemma step_invariant: "step s w ev rsp w' \<Longrightarrow> I w \<Longrightarrow> I w'"
  using keepsD [OF keeps_handle, of w ev] by (auto elim!: stepE)

lemma reachable_invariant: "reachable s w w' \<Longrightarrow> I w \<Longrightarrow> I w'"
  by (induction rule: reachable.induct) (auto intro: step_invariant)

end

section \<open>Invariants of the tables\<close>

text \<open>
  For an invariant of the tables, with the condition of the draws, the contract of the server needs
  backends that satisfy theirs and the closure of the record conditions under what the handlers
  make of them.
\<close>

locale flow = table_contract J E tok okA okC okK okT
  for J E tok okA okC okK okT +
  fixes s :: "('w store_world_scheme) Server"
  assumes login_backends: "(n, b) \<in> set (backends s) \<Longrightarrow> login_backend b"
    and flow_login: "request_checked s q \<Longrightarrow> wf_state bs \<Longrightarrow>
      okA (auth_request_of i profile (bind_state st binding bs) q t ttl)"
    and flow_setup: "wf_state bs \<Longrightarrow> okA (setup_request_of i name bs t ttl)"
    and flow_consent: "okA ar \<Longrightarrow> \<not> bool_value (ar_BackendState ar) backendStateSetup \<Longrightarrow>
      okC (consent_of_request ar i c pj subj t ttl)"
    and flow_code: "okA ar \<Longrightarrow> \<not> bool_value (ar_BackendState ar) backendStateSetup \<Longrightarrow>
      okK (code_of_request (request_of_auth ar pj subj) t ttl)"
    and flow_approved: "okC cr \<Longrightarrow> okK (code_of_request (request_of_consent cr) t ttl)"
    and flow_token: "okK rec \<Longrightarrow> okT (token_of_code rec t ttl)"
begin

lemma draws_later: "n \<le> m \<Longrightarrow> E en n \<Longrightarrow> E en m"
  by (induction m rule: dec_induct) (auto intro: draw)

lemma blind_inv: "inv J E w \<Longrightarrow> db w' = db w \<Longrightarrow> entropy w' = entropy w \<Longrightarrow> draws w \<le> draws w' \<Longrightarrow>
    faults w' = faults w \<Longrightarrow> inv J E w'"
  by (auto simp: inv_def intro: draws_later)

end

sublocale flow \<subseteq> machine: server_contract "inv J E" tok okA okC okK okT s wf_state
proof
  show "inv J E (w\<lparr>lookups := Suc (lookups w)\<rparr>)" "inv J E (w\<lparr>exchanges := Suc (exchanges w)\<rparr>)"
    "inv J E (w\<lparr>dialled := dialled w @ [ip]\<rparr>)" if "inv J E w" for w :: "'w store_world_scheme" and ip
    using that by (simp_all add: inv_def)
  show "keeps (inv J E) (BeginAuth b r) (on_ok (\<lambda>(u, bs). wf_state bs))"
    "keeps (inv J E) (CompleteAuth b cb bs) anything" if "(n, b) \<in> set (backends s)" for n b r cb bs
    using login_backend.keeps_BeginAuth [OF login_backends [OF that], of "inv J E"] blind_inv
      login_backend.keeps_CompleteAuth [OF login_backends [OF that], of "inv J E"] by blast+
qed (fact flow_login flow_setup flow_consent flow_code flow_approved flow_token)+

text \<open>The closure under runs, steps and the parts of an exchange, as facts of the locale.\<close>

context flow
begin

lemmas step_inv = machine.step_invariant
lemmas reachable_inv = machine.reachable_invariant
lemmas issue_inv = machine.keeps_issue_token
lemmas event_inv = machine.keeps_audit_event

end

end
