(* ===== verification/Concurrent.thy ===== *)
theory Concurrent
  imports Processes Flow
begin

text \<open>
  The handlers as processes: between two steps, the goroutines of other requests and of the cleanup may
  run.  A step is one call of the store (the database has a single connection, so a statement or a
  transaction runs without interruption), one draw of random bytes, one reading of the clock, one audit event,
  or one conversation with a login backend or with another server, neither of which touches the
  tables.  Run alone, every process is the handler it comes from.
\<close>

section \<open>Codes and tokens\<close>

definition issueCode_process ::
  "('a store_world_scheme) Server \<Rightarrow> headers \<Rightarrow> codeIssueRequest \<Rightarrow> ('a store_world_scheme, http_response result) process" where
  "issueCode_process s hs req = call RandomToken (\<lambda>c.
     case c of
       Inl e \<Rightarrow> Finish (Inl e)
     | Inr code \<Rightarrow> call now (\<lambda>t.
         call (CreateAuthorizationCode code (code_of_request req t (CodeTTL (Security (cfg s))))) (\<lambda>r.
           case r of
             Inl e \<Rightarrow> Finish (Inl ''store'')
           | Inr _ \<Rightarrow> call (audit ''authorization_code_issued'' (ci_Subject req) (ci_Me req) (ci_ClientID req)) (\<lambda>_.
               Finish (map_result (\<lambda>location. Redirect hs location 302)
                 (redirect_with (tables s) (ci_RedirectURI req) (\<lambda>values.
                   let values = values_Set ''code'' code values;
                       values = (if ci_ClientState req \<noteq> [] then values_Set ''state'' (ci_ClientState req) values else values)
                   in values_Set ''iss'' (Issuer (Server (cfg s))) values)))))))"

definition reject_process ::
  "string \<Rightarrow> string \<Rightarrow> string \<Rightarrow> string \<Rightarrow> string \<Rightarrow> ('a store_world_scheme, http_response) process" where
  "reject_process event me clientID code description =
     call (audit event [] me clientID) (\<lambda>_. Finish (writeOAuthError no_store 400 code description))"

definition issue_token_process ::
  "('a store_world_scheme) Server \<Rightarrow> AuthorizationCode \<Rightarrow> ('a store_world_scheme, http_response) process" where
  "issue_token_process s rec = call RandomToken (\<lambda>k.
     case k of
       Inl e \<Rightarrow> Finish (writeOAuthError no_store 500 ''server_error'' ''token creation failed'')
     | Inr token \<Rightarrow> call now (\<lambda>t.
         call (CreateAccessToken token (token_of_code rec t (AccessTokenTTL (Security (cfg s))))) (\<lambda>r.
           case r of
             Inl e \<Rightarrow> Finish (writeOAuthError no_store 500 ''server_error'' ''token storage failed'')
           | Inr _ \<Rightarrow> call (audit ''access_token_issued'' [] (ac_Me rec) (ac_ClientID rec)) (\<lambda>_.
               Finish (token_response rec token)))))"

definition handleToken_process ::
  "('a store_world_scheme) Server \<Rightarrow> http_request \<Rightarrow> ('a store_world_scheme, http_response) process" where
  "handleToken_process s r =
     (case ParseForm defaultMaxMemory r of
        Inl e \<Rightarrow> Finish (writeOAuthError no_store 400 ''invalid_request'' ''invalid form body'')
      | Inr form \<Rightarrow>
          let clientID = values_Get form ''client_id''; code = values_Get form ''code'';
              rejected = reject_process ''token_exchange_rejected'' in
          if values_Get form ''grant_type'' \<noteq> ''authorization_code''
          then rejected [] clientID ''unsupported_grant_type'' ''grant_type must be authorization_code''
          else if code = [] then rejected [] clientID ''invalid_request'' ''code is required''
          else call now (\<lambda>t. call (ConsumeAuthorizationCode code t) (\<lambda>c.
            case c of
              Inl e \<Rightarrow> rejected [] clientID ''invalid_grant'' ''authorization code is invalid''
            | Inr rec \<Rightarrow>
                if ac_ClientID rec \<noteq> clientID \<or> ac_RedirectURI rec \<noteq> values_Get form ''redirect_uri''
                then rejected (ac_Me rec) clientID ''invalid_grant'' ''client_id or redirect_uri mismatch''
                else if RequirePKCE (Security (cfg s)) \<and> ac_CodeChallenge rec = []
                then rejected (ac_Me rec) (ac_ClientID rec) ''invalid_grant'' ''PKCE verification failed''
                else if ac_CodeChallenge rec \<noteq> [] \<and> \<not> VerifyPKCES256 (values_Get form ''code_verifier'') (ac_CodeChallenge rec)
                then rejected (ac_Me rec) (ac_ClientID rec) ''invalid_grant'' ''PKCE verification failed''
                else issue_token_process s rec)))"

definition handleAuthorizationCodeProfile_process :: "http_request \<Rightarrow> ('a store_world_scheme, http_response) process" where
  "handleAuthorizationCodeProfile_process r =
     (case ParseForm defaultMaxMemory r of
        Inl e \<Rightarrow> Finish (writeOAuthError no_store 400 ''invalid_request'' ''invalid form body'')
      | Inr form \<Rightarrow>
          let clientID = values_Get form ''client_id''; code = values_Get form ''code'';
              rejected = reject_process ''authorization_code_profile_rejected'' in
          if code = [] then rejected [] clientID ''invalid_request'' ''code is required''
          else call now (\<lambda>t. call (ConsumeAuthorizationCode code t) (\<lambda>c.
            case c of
              Inl e \<Rightarrow> rejected [] clientID ''invalid_grant'' ''authorization code is invalid''
            | Inr rec \<Rightarrow>
                if ac_ClientID rec \<noteq> clientID \<or> ac_RedirectURI rec \<noteq> values_Get form ''redirect_uri''
                then rejected (ac_Me rec) clientID ''invalid_grant'' ''client_id or redirect_uri mismatch''
                else if ac_CodeChallenge rec \<noteq> [] \<and> \<not> VerifyPKCES256 (values_Get form ''code_verifier'') (ac_CodeChallenge rec)
                then rejected (ac_Me rec) (ac_ClientID rec) ''invalid_grant'' ''PKCE verification failed''
                else call (audit ''authorization_code_profile_returned'' [] (ac_Me rec) (ac_ClientID rec)) (\<lambda>_.
                  Finish (profile_response rec)))))"

definition handleIntrospect_process :: "http_request \<Rightarrow> ('a store_world_scheme, http_response) process" where
  "handleIntrospect_process r =
     (case ParseForm defaultMaxMemory r of
        Inl e \<Rightarrow> Finish (writeOAuthError no_store 400 ''invalid_request'' ''invalid form body'')
      | Inr form \<Rightarrow>
          if values_Get form ''token'' = []
          then Finish (writeOAuthError no_store 400 ''invalid_request'' ''token is required'')
          else call now (\<lambda>t. call (GetAccessToken (values_Get form ''token'') t) (\<lambda>x.
            Finish (case x of Inl e \<Rightarrow> inactive_response | Inr rec \<Rightarrow> active_response rec))))"

definition handleRevoke_process :: "http_request \<Rightarrow> ('a store_world_scheme, http_response) process" where
  "handleRevoke_process r =
     (case ParseForm defaultMaxMemory r of
        Inl e \<Rightarrow> Finish (writeOAuthError no_store 400 ''invalid_request'' ''invalid form body'')
      | Inr form \<Rightarrow>
          if values_Get form ''token'' = []
          then Finish (writeOAuthError no_store 400 ''invalid_request'' ''token is required'')
          else call now (\<lambda>t. call (GetAccessToken (values_Get form ''token'') t) (\<lambda>x.
            andThen (case x of
                Inl e \<Rightarrow> Finish ()
              | Inr rec \<Rightarrow> call (audit ''access_token_revoked'' [] (at_Me rec) (at_ClientID rec)) Finish) (\<lambda>_.
              call now (\<lambda>t2. call (RevokeAccessToken (values_Get form ''token'') t2) (\<lambda>d.
                Finish (reply no_store 200 NoBody)))))))"

lemma alone_codes [simp]:
  "alone (issueCode_process s hs req) = issueCodeAndRedirect s hs req"
  "alone (reject_process event me clientID code description) = reject event me clientID code description"
  "alone (issue_token_process s rec) = issue_token s rec"
  by (simp_all add: issueCode_process_def issueCodeAndRedirect_def reject_process_def reject_def
      issue_token_process_def issue_token_def cong: sum.case_cong)

lemma alone_token_endpoints [simp]:
  "alone (handleToken_process s r) = handleToken s r"
  "alone (handleAuthorizationCodeProfile_process r) = handleAuthorizationCodeProfile r"
  "alone (handleIntrospect_process r) = handleIntrospect r"
  "alone (handleRevoke_process r) = handleRevoke r"
  by (simp_all add: handleToken_process_def handleToken_def handleAuthorizationCodeProfile_process_def
      handleAuthorizationCodeProfile_def handleIntrospect_process_def handleIntrospect_def handleRevoke_process_def
      handleRevoke_def Let_def cong: sum.case_cong if_cong)

section \<open>Consent\<close>

definition handleConsentGet_process ::
  "('a store_world_scheme) Server \<Rightarrow> http_request \<Rightarrow> ('a store_world_scheme, http_response) process" where
  "handleConsentGet_process s r = call now (\<lambda>t.
     call (GetConsentRequest (values_Get (request_query r) ''id'') t) (\<lambda>c.
       case c of
         Inl e \<Rightarrow> Finish (http_Error [] ''invalid or expired consent request'' 400)
       | Inr cr \<Rightarrow> call RandomToken (\<lambda>n.
           Finish (case n of
             Inl e \<Rightarrow> http_Error [] ''consent page creation failed'' 500
           | Inr scriptNonce \<Rightarrow>
               page (set_header ''Content-Security-Policy'' (consentContentSecurityPolicy scriptNonce) no_store) 200 ''consent'' [
                 (''ID'', JStr (cr_ID cr)), (''CSRFToken'', JStr (cr_CSRFToken cr)), (''Me'', JStr (cr_Me cr)),
                 (''ClientID'', JStr (cr_ClientID cr)), (''RedirectURI'', JStr (cr_RedirectURI cr)),
                 (''Scope'', JStr (displayScope (cr_Scope cr))), (''ScriptNonce'', JStr scriptNonce),
                 (''FormAction'', JStr (PublicURL (Server (cfg s)) @ ''/consent?id='' @ QueryEscape (cr_ID cr)))]))))"

definition decide_consent_process ::
  "('a store_world_scheme) Server \<Rightarrow> url_values \<Rightarrow> ConsentRequest \<Rightarrow> ('a store_world_scheme, http_response) process" where
  "decide_consent_process s form cr =
     (if values_Get form ''decision'' \<noteq> ''approve''
      then call (audit ''consent_denied'' (cr_Subject cr) (cr_Me cr) (cr_ClientID cr)) (\<lambda>_.
        Finish (redirectWithError (tables s) no_store (cr_RedirectURI cr) (cr_ClientState cr) ''access_denied''))
      else andThen (issueCode_process s no_store (request_of_consent cr)) (\<lambda>i.
        Finish (case i of Inl e \<Rightarrow> http_Error no_store ''code creation failed'' 500 | Inr rsp \<Rightarrow> rsp)))"

definition handleConsentPost_process ::
  "('a store_world_scheme) Server \<Rightarrow> http_request \<Rightarrow> ('a store_world_scheme, http_response) process" where
  "handleConsentPost_process s r =
     (case ParseForm defaultMaxMemory r of
        Inl e \<Rightarrow> Finish (http_Error no_store ''invalid form body'' 400)
      | Inr form \<Rightarrow>
          let consentID = (if values_Get form ''id'' = [] then values_Get (request_query r) ''id'' else values_Get form ''id'') in
          call now (\<lambda>t. call (GetConsentRequest consentID t) (\<lambda>c.
            case c of
              Inl e \<Rightarrow> Finish (http_Error no_store ''invalid or expired consent request'' 400)
            | Inr cr \<Rightarrow>
                if \<not> ConstantTimeEqual (values_Get form ''csrf'') (cr_CSRFToken cr)
                then call (audit ''consent_rejected'' (cr_Subject cr) (cr_Me cr) (cr_ClientID cr)) (\<lambda>_.
                  Finish (http_Error no_store ''invalid consent token'' 400))
                else andThen (decide_consent_process s form cr) (\<lambda>rsp.
                  call (DeleteConsentRequest (cr_ID cr)) (\<lambda>d. Finish rsp)))))"

lemma alone_consent [simp]:
  "alone (handleConsentGet_process s r) = handleConsentGet s r"
  "alone (decide_consent_process s form cr) = decide_consent s form cr"
  "alone (handleConsentPost_process s r) = handleConsentPost s r"
  by (simp_all add: handleConsentGet_process_def handleConsentGet_def decide_consent_process_def decide_consent_def
      handleConsentPost_process_def handleConsentPost_def Let_def cong: sum.case_cong if_cong)

section \<open>Managed profiles\<close>

definition refresh_profile_process ::
  "Identity \<Rightarrow> ManagedProfile \<Rightarrow> ('a store_world_scheme, ManagedProfile stored) process" where
  "refresh_profile_process identity existing0 =
     (let displayName = display_name identity (mp_Handle existing0);
          existing = (if mp_Accent existing0 = [] then existing0\<lparr>mp_Accent := ''teal''\<rparr> else existing0)
      in if \<not> mp_Customized existing \<and> displayName \<noteq> mp_DisplayName existing
         then call now (\<lambda>t. call (UpdateManagedProfile (existing\<lparr>mp_DisplayName := displayName, mp_UpdatedAt := t\<rparr>)) (\<lambda>r.
           Finish (case r of
             Inl e \<Rightarrow> Inl e
           | Inr _ \<Rightarrow> Inr (existing\<lparr>mp_DisplayName := displayName, mp_UpdatedAt := t\<rparr>))))
         else Finish (Inr existing))"

definition create_profile_process ::
  "unicode_tables \<Rightarrow> Identity \<Rightarrow> string \<Rightarrow> ('a store_world_scheme, ManagedProfile stored) process" where
  "create_profile_process U identity issuer =
     (let handle = desiredManagedHandle U identity issuer in
      call now (\<lambda>t.
        let profile = new_profile handle issuer (id_Subject identity) (display_name identity handle) t in
        call (CreateManagedProfile U profile) (\<lambda>r.
          case r of
            Inr _ \<Rightarrow> Finish (Inr profile)
          | Inl e \<Rightarrow>
              if e \<noteq> ErrConflict then Finish (Inl e)
              else call (GetManagedProfileByIdentity issuer (id_Subject identity)) (\<lambda>x.
                case x of
                  Inr existing \<Rightarrow> Finish (Inr existing)
                | Inl _ \<Rightarrow>
                    let profile2 = profile\<lparr>mp_Handle :=
                      fallback_handle handle (managedHandleSuffix issuer (id_Subject identity))\<rparr> in
                    call (CreateManagedProfile U profile2) (\<lambda>r2.
                      Finish (case r2 of Inl e2 \<Rightarrow> Inl e2 | Inr _ \<Rightarrow> Inr profile2))))))"

definition ensureManagedProfile_process ::
  "('a store_world_scheme) Server \<Rightarrow> Identity \<Rightarrow> string \<Rightarrow> ('a store_world_scheme, ManagedProfile stored) process" where
  "ensureManagedProfile_process s identity issuer =
     (if \<not> mpc_Enabled (ManagedProfiles (cfg s)) then Finish (Inl ErrNotFound)
      else if TrimSpace (id_Subject identity) = [] then Finish (Inl (DbError ''identity subject is required''))
      else call (GetManagedProfileByIdentity issuer (id_Subject identity)) (\<lambda>x.
        case x of
          Inr existing \<Rightarrow> refresh_profile_process identity existing
        | Inl e \<Rightarrow> if e \<noteq> ErrNotFound then Finish (Inl e) else create_profile_process (tables s) identity issuer))"

definition renderSetupIdentity_process ::
  "('a store_world_scheme) Server \<Rightarrow> Identity \<Rightarrow> string \<Rightarrow> ('a store_world_scheme, http_response) process" where
  "renderSetupIdentity_process s identity issuer = call (sealSetupIdentity s issuer (id_Subject identity)) (\<lambda>t.
     case t of
       Inl e \<Rightarrow> Finish (http_Error [] ''setup page creation failed'' 500)
     | Inr identityToken \<Rightarrow>
         if \<not> mpc_Enabled (ManagedProfiles (cfg s))
         then Finish (setup_page (cfg s) issuer (id_Subject identity) identityToken None)
         else andThen (ensureManagedProfile_process s identity issuer) (\<lambda>p.
           Finish (case p of
             Inl e \<Rightarrow> http_Error [] ''managed profile provisioning failed'' 500
           | Inr profile \<Rightarrow> setup_page (cfg s) issuer (id_Subject identity) identityToken (Some profile))))"

lemma alone_profiles [simp]:
  "alone (refresh_profile_process identity p) = refresh_profile identity p"
  "alone (create_profile_process U identity issuer) = create_profile U identity issuer"
  "alone (ensureManagedProfile_process s identity issuer) = ensureManagedProfile s identity issuer"
  "alone (renderSetupIdentity_process s identity issuer) = renderSetupIdentity s identity issuer"
  by (simp_all add: refresh_profile_process_def refresh_profile_def create_profile_process_def create_profile_def
      ensureManagedProfile_process_def ensureManagedProfile_def renderSetupIdentity_process_def
      renderSetupIdentity_def Let_def cong: sum.case_cong if_cong)

section \<open>Authorization, setup and callback\<close>

definition managedProfileForMe_process ::
  "('a store_world_scheme) Server \<Rightarrow> string \<Rightarrow> ('a store_world_scheme, managed_me) process" where
  "managedProfileForMe_process s me =
     (if \<not> mpc_Enabled (ManagedProfiles (cfg s)) \<or> managed_handle_of s me = [] then Finish NotManaged
      else call (GetManagedProfileByHandle (managed_handle_of s me)) (\<lambda>x.
        Finish (case x of
          Inl e \<Rightarrow> NoSuchProfile
        | Inr profile \<Rightarrow> if me \<noteq> managedProfileURL (cfg s) (mp_Handle profile) then NoSuchProfile else Managed profile)))"

definition authorize_profile_process ::
  "('a store_world_scheme) Server \<Rightarrow> string \<Rightarrow> ProfileConfig option \<Rightarrow> managed_me \<Rightarrow> string \<Rightarrow>
   ('a store_world_scheme, (ProfileConfig \<times> ProfileIdentityBinding option) result) process" where
  "authorize_profile_process s me static managed clientID =
     (case managed of
        Managed p \<Rightarrow> Finish (Inr (no_profile\<lparr>Me := me, DisplayName := mp_DisplayName p,
            prof_Backend := mpc_Backend (ManagedProfiles (cfg s))\<rparr>,
          Some \<lparr>pib_Me = me, pib_Issuer = mp_Issuer p, pib_Subject = mp_Subject p\<rparr>))
      | _ \<Rightarrow>
          (case static of
             Some p \<Rightarrow> Finish (Inr (p, None))
           | None \<Rightarrow>
               let be = dp_Backend (DynamicProfiles (cfg s)) in
               call (DiscoverProfileIdentity (tables s) me (allow_http (cfg s)) (MetadataName (DynamicProfiles (cfg s)))
                   (PublicURL (Server (cfg s))) (be_Issuer (backend_config (cfg s) be))) (\<lambda>b.
                 case b of
                   Inl e \<Rightarrow> call (audit ''profile_metadata_rejected'' [] me clientID) (\<lambda>_. Finish (Inl e))
                 | Inr binding \<Rightarrow> Finish (Inr (no_profile\<lparr>Me := pib_Me binding, prof_Backend := be\<rparr>, Some binding)))))"

definition begin_login_process ::
  "('a store_world_scheme) Server \<Rightarrow> url_values \<Rightarrow> bool \<Rightarrow> ProfileConfig \<Rightarrow> ProfileIdentityBinding option \<Rightarrow>
   ('a store_world_scheme, http_response) process" where
  "begin_login_process s q staticProfile profile binding =
     (case map_of (backends s) (prof_Backend profile) of
        None \<Rightarrow> Finish (http_Error [] ''profile backend is not available'' 500)
      | Some backend \<Rightarrow> call RandomToken (\<lambda>i.
          case i of
            Inl e \<Rightarrow> Finish (http_Error [] ''request creation failed'' 500)
          | Inr requestID \<Rightarrow>
              call (BeginAuth backend \<lparr>RequestID = requestID, breq_Me = Me profile,
                  Scopes = Fields (values_Get q ''scope'')\<rparr>) (\<lambda>b.
                case b of
                  Inl e \<Rightarrow> Finish (http_Error [] ''backend authorization failed'' 502)
                | Inr (redirectURL, backendState) \<Rightarrow> call now (\<lambda>t.
                    call (CreateAuthRequest (auth_request_of requestID profile
                        (bind_state staticProfile binding backendState) q t (AuthRequestTTL (Security (cfg s))))) (\<lambda>r.
                      case r of
                        Inl e \<Rightarrow> Finish (http_Error [] ''request creation failed'' 500)
                      | Inr _ \<Rightarrow> call (audit ''auth_request_created'' [] (Me profile) (values_Get q ''client_id'')) (\<lambda>_.
                          Finish (Redirect [] redirectURL 302)))))))"

definition handleAuthorize_process ::
  "('a store_world_scheme) Server \<Rightarrow> http_request \<Rightarrow> ('a store_world_scheme, http_response) process" where
  "handleAuthorize_process s r =
     (let q = request_query r in
      case authorize_me s q of
        Inl e \<Rightarrow> Finish (http_Error [] e 400)
      | Inr me \<Rightarrow>
          let static = ProfileByMe (tables s) (cfg s) me in
          andThen (managedProfileForMe_process s me) (\<lambda>managed.
            if managed = NoSuchProfile then Finish (http_Error [] ''unknown managed profile'' 400)
            else if static = None \<and> managed = NotManaged \<and> \<not> dp_Enabled (DynamicProfiles (cfg s))
            then Finish (http_Error [] ''unknown me URL'' 400)
            else if \<not> is_ok (ValidateHTTPSURL (tables s) (values_Get q ''client_id'') (allow_http (cfg s)))
            then Finish (http_Error [] ''invalid client_id'' 400)
            else call (ValidateClientRedirect (tables s) (values_Get q ''client_id'') (values_Get q ''redirect_uri'')
                (allow_http (cfg s)) (ClientMetadataDiscoveryEnabled (Security (cfg s)))) (\<lambda>v.
              if \<not> is_ok v then call (audit ''auth_request_rejected'' [] me (values_Get q ''client_id'')) (\<lambda>_.
                Finish (http_Error [] ''invalid redirect_uri'' 400))
              else (case authorize_challenge s q of
                  Inl e \<Rightarrow> Finish (http_Error [] e 400)
                | Inr _ \<Rightarrow> andThen (authorize_profile_process s me static managed (values_Get q ''client_id'')) (\<lambda>p.
                    case p of
                      Inl e \<Rightarrow> Finish (http_Error [] ''profile identity metadata could not be verified'' 400)
                    | Inr (profile, binding) \<Rightarrow> begin_login_process s q (static \<noteq> None) profile binding)))))"

definition handleSetup_process :: "('a store_world_scheme) Server \<Rightarrow> ('a store_world_scheme, http_response) process" where
  "handleSetup_process s =
     (let dyn = DynamicProfiles (cfg s); man = ManagedProfiles (cfg s) in
      if \<not> dp_Enabled dyn \<and> \<not> mpc_Enabled man then Finish (NotFound [])
      else
        let backendName = (if mpc_Enabled man then mpc_Backend man else dp_Backend dyn) in
        (case map_of (backends s) backendName of
           None \<Rightarrow> Finish (http_Error [] ''profile backend is not available'' 500)
         | Some backend \<Rightarrow> call RandomToken (\<lambda>i.
             case i of
               Inl e \<Rightarrow> Finish (http_Error [] ''setup request creation failed'' 500)
             | Inr requestID \<Rightarrow> call (BeginAuth backend \<lparr>RequestID = requestID, breq_Me = [], Scopes = []\<rparr>) (\<lambda>b.
                 case b of
                   Inl e \<Rightarrow> Finish (http_Error [] ''backend authorization failed'' 502)
                 | Inr (redirectURL, backendState) \<Rightarrow> call now (\<lambda>t.
                     call (CreateAuthRequest \<lparr>ar_ID = requestID, ar_Backend = backendName,
                       ar_BackendState = set_value backendStateSetup (JBool True) backendState, ar_Me = [],
                       ar_ClientID = [], ar_RedirectURI = [], ar_Scope = [], ar_ClientState = [],
                       ar_CodeChallenge = [], ar_CodeChallengeMethod = [], ar_ProfileJSON = [],
                       ar_ExpiresAt = t + AuthRequestTTL (Security (cfg s)), ar_CreatedAt = t\<rparr>) (\<lambda>r.
                     Finish (case r of
                       Inl e \<Rightarrow> http_Error [] ''setup request creation failed'' 500
                     | Inr _ \<Rightarrow> Redirect [] redirectURL 302)))))))"

lemma alone_authorize [simp]:
  "alone (managedProfileForMe_process s me) = managedProfileForMe s me"
  "alone (authorize_profile_process s me static managed c) = authorize_profile s me static managed c"
  "alone (begin_login_process s q st profile binding) = begin_login s q st profile binding"
  "alone (handleSetup_process s) = handleSetup s"
proof -
  show "alone (authorize_profile_process s me static managed c) = authorize_profile s me static managed c"
    by (cases managed; cases static)
      (simp_all add: authorize_profile_process_def authorize_profile_def Let_def cong: sum.case_cong if_cong)
qed (simp_all add: managedProfileForMe_process_def managedProfileForMe_def begin_login_process_def begin_login_def
      handleSetup_process_def handleSetup_def Let_def case_prod_beta cong: sum.case_cong option.case_cong if_cong)

lemma alone_handleAuthorize [simp]: "alone (handleAuthorize_process s r) = handleAuthorize s r"
  by (simp add: handleAuthorize_process_def handleAuthorize_def Let_def case_prod_beta
      cong: sum.case_cong option.case_cong if_cong)

text \<open>The lookup of the request, the login, and the end of a callback.\<close>

fun find_in_backends_process ::
  "unicode_tables \<Rightarrow> (string \<times> ('a store_world_scheme) Backend) list \<Rightarrow> string \<Rightarrow>
   ('a store_world_scheme, (AuthRequest \<times> ('a store_world_scheme) Backend) stored) process" where
  "find_in_backends_process U [] st = Finish (Inl ErrNotFound)"
| "find_in_backends_process U ((name, backend) # bs) st = call (GetAuthRequestByBackendState U name st) (\<lambda>r.
     case r of
       Inr ar \<Rightarrow> Finish (Inr (ar, backend))
     | Inl e \<Rightarrow> if e \<noteq> ErrNotFound \<and> e \<noteq> ErrExpired then Finish (Inl e) else find_in_backends_process U bs st)"

definition findAuthRequest_process ::
  "('a store_world_scheme) Server \<Rightarrow> string \<Rightarrow> string \<Rightarrow>
   ('a store_world_scheme, (AuthRequest \<times> ('a store_world_scheme) Backend) stored) process" where
  "findAuthRequest_process s requestedBackend st =
     (if requestedBackend \<noteq> [] then
        (case map_of (backends s) requestedBackend of
           None \<Rightarrow> Finish (Inl ErrNotFound)
         | Some backend \<Rightarrow> call (GetAuthRequestByBackendState (tables s) requestedBackend st) (\<lambda>r.
             Finish (map_result (\<lambda>ar. (ar, backend)) r)))
      else find_in_backends_process (tables s) (backends s) st)"

definition ask_consent_process ::
  "('a store_world_scheme) Server \<Rightarrow> AuthRequest \<Rightarrow> string \<Rightarrow> string \<Rightarrow> ('a store_world_scheme, http_response) process" where
  "ask_consent_process s ar profileJSON subject = call RandomToken (\<lambda>i.
     case i of
       Inl e \<Rightarrow> Finish (http_Error [] ''consent creation failed'' 500)
     | Inr consentID \<Rightarrow> call RandomToken (\<lambda>c.
         case c of
           Inl e \<Rightarrow> Finish (http_Error [] ''consent creation failed'' 500)
         | Inr csrfToken \<Rightarrow> call now (\<lambda>t.
             call (CreateConsentRequest (consent_of_request ar consentID csrfToken profileJSON subject t
                 (CodeTTL (Security (cfg s))))) (\<lambda>r.
               case r of
                 Inl e \<Rightarrow> Finish (http_Error [] ''consent creation failed'' 500)
               | Inr _ \<Rightarrow> call (audit ''consent_required'' subject (ar_Me ar) (ar_ClientID ar)) (\<lambda>_.
                   Finish (Redirect [] (PublicURL (Server (cfg s)) @ ''/consent?id='' @ QueryEscape consentID) 302))))))"

definition complete_login_process ::
  "('a store_world_scheme) Server \<Rightarrow> url_values \<Rightarrow> AuthRequest \<Rightarrow> ('a store_world_scheme) Backend \<Rightarrow>
   ('a store_world_scheme, http_response) process" where
  "complete_login_process s query ar backend = call (CompleteAuth backend query (ar_BackendState ar)) (\<lambda>x.
     case x of
       Inl e \<Rightarrow> call (audit ''backend_login_rejected'' [] (ar_Me ar) (ar_ClientID ar)) (\<lambda>_.
         Finish (http_Error [] ''authentication failed'' 401))
     | Inr identity \<Rightarrow>
         if bool_value (ar_BackendState ar) backendStateSetup
         then renderSetupIdentity_process s identity (be_Issuer (backend_config (cfg s) (ar_Backend ar)))
         else (case identity_decision s ar identity of
             None \<Rightarrow> call (audit ''identity_claim_rejected'' (id_Subject identity) (ar_Me ar) (ar_ClientID ar)) (\<lambda>_.
               Finish (http_Error [] ''identity is not allowed for requested profile'' 403))
           | Some profileJSON \<Rightarrow>
               if ConsentRequired (Security (cfg s)) then ask_consent_process s ar profileJSON (id_Subject identity)
               else andThen (issueCode_process s [] (request_of_auth ar profileJSON (id_Subject identity))) (\<lambda>i.
                 Finish (case i of Inl e \<Rightarrow> http_Error [] ''code creation failed'' 500 | Inr rsp \<Rightarrow> rsp))))"

definition handleCallback_process ::
  "('a store_world_scheme) Server \<Rightarrow> string \<Rightarrow> http_request \<Rightarrow> ('a store_world_scheme, http_response) process" where
  "handleCallback_process s backendName r =
     (let st = values_Get (request_query r) ''state'' in
      if st = [] then Finish (http_Error [] ''state is required'' 400)
      else andThen (findAuthRequest_process s backendName st) (\<lambda>f.
        case f of
          Inl e \<Rightarrow> Finish (http_Error [] ''invalid or expired state'' 400)
        | Inr (ar, backend) \<Rightarrow> andThen (complete_login_process s (request_query r) ar backend) (\<lambda>rsp.
            call (DeleteAuthRequest (ar_ID ar)) (\<lambda>d. Finish rsp))))"

lemma alone_find_in_backends [simp]: "alone (find_in_backends_process U bs st) = find_in_backends U bs st"
  by (induction bs) (auto cong: sum.case_cong if_cong)

lemma alone_callback [simp]:
  "alone (findAuthRequest_process s n st) = findAuthRequest s n st"
  "alone (ask_consent_process s ar pj subj) = ask_consent s ar pj subj"
  "alone (complete_login_process s q ar b) = complete_login s q ar b"
  "alone (handleCallback_process s n r) = handleCallback s n r"
  by (simp_all add: findAuthRequest_process_def findAuthRequest_def ask_consent_process_def ask_consent_def
      complete_login_process_def complete_login_def handleCallback_process_def handleCallback_def Let_def case_prod_beta
      cong: sum.case_cong option.case_cong if_cong)

section \<open>The profiles of their owners\<close>

definition handleManagedProfileUpdate_process ::
  "('a store_world_scheme) Server \<Rightarrow> http_request \<Rightarrow> ('a store_world_scheme, http_response) process" where
  "handleManagedProfileUpdate_process s r =
     (if \<not> mpc_Enabled (ManagedProfiles (cfg s)) then Finish (NotFound [])
      else (case ParseForm setupBodyLimit r of
          Inl e \<Rightarrow> Finish (http_Error no_store ''invalid profile form'' 400)
        | Inr form \<Rightarrow> call (openSetupIdentity s (values_Get form ''identity_token'')) (\<lambda>i.
            case i of
              Inl e \<Rightarrow> Finish (http_Error no_store e 401)
            | Inr identity \<Rightarrow> call (GetManagedProfileByIdentity (sis_Issuer identity) (sis_Subject identity)) (\<lambda>p.
                case p of
                  Inl e \<Rightarrow> Finish (if e = ErrNotFound then http_Error no_store ''managed profile not found; sign in again'' 404
                    else http_Error no_store ''profile lookup failed'' 500)
                | Inr profile \<Rightarrow>
                    (case profile_form (tables s) form of
                       Inl e \<Rightarrow> Finish (http_Error no_store e 400)
                     | Inr (displayName, bio, websiteURL, accent) \<Rightarrow> call now (\<lambda>t.
                         call (UpdateManagedProfile (profile\<lparr>mp_DisplayName := displayName, mp_Bio := bio,
                           mp_WebsiteURL := websiteURL, mp_Accent := accent, mp_Customized := True, mp_UpdatedAt := t\<rparr>)) (\<lambda>u.
                         case u of
                           Inl e \<Rightarrow> Finish (http_Error no_store ''profile update failed'' 500)
                         | Inr _ \<Rightarrow>
                             let me = managedProfileURL (cfg s) (mp_Handle profile) in
                             call (audit ''managed_profile_updated'' (sis_Subject identity) me []) (\<lambda>_.
                               Finish (Redirect no_store me 303)))))))))"

definition handleManagedProfile_process ::
  "('a store_world_scheme) Server \<Rightarrow> http_request \<Rightarrow> ('a store_world_scheme, http_response) process" where
  "handleManagedProfile_process s r =
     (let path = req_Path r; requested = TrimPrefix path ''/@''; handle = normalizeManagedHandle (tables s) requested in
      if \<not> mpc_Enabled (ManagedProfiles (cfg s)) \<or> \<not> HasPrefix path ''/@'' \<or> contains_byte (CHR ''/'') requested
      then Finish (NotFound [])
      else if handle = [] then Finish (NotFound [])
      else if requested \<noteq> handle then Finish (Redirect [] (managedProfileURL (cfg s) handle) 301)
      else call (GetManagedProfileByHandle handle) (\<lambda>p.
        Finish (case p of
          Inl e \<Rightarrow> if e = ErrNotFound then NotFound [] else http_Error [] ''profile lookup failed'' 500
        | Inr profile \<Rightarrow> profile_page_response s profile)))"

lemma alone_managed [simp]:
  "alone (handleManagedProfileUpdate_process s r) = handleManagedProfileUpdate s r"
  "alone (handleManagedProfile_process s r) = handleManagedProfile s r"
  by (simp_all add: handleManagedProfileUpdate_process_def handleManagedProfileUpdate_def
      handleManagedProfile_process_def handleManagedProfile_def Let_def case_prod_beta cong: sum.case_cong if_cong)

section \<open>Every request\<close>

text \<open>The statements of a cleanup, one after the other.\<close>

fun exec_process :: "(database \<Rightarrow> database) list \<Rightarrow> ('a store_world_scheme, unit stored) process" where
  "exec_process [] = Finish (Inr ())"
| "exec_process (f # fs) = call (sql_exec f) (\<lambda>r. case r of Inl e \<Rightarrow> Finish (Inl e) | Inr _ \<Rightarrow> exec_process fs)"

text \<open>
  The setup check, the start of a test login and its callback do not use the store at all: whenever they
  run, they see and leave the same tables, so each of them is one step.
\<close>

fun process_of :: "('a store_world_scheme) Server \<Rightarrow> event \<Rightarrow> ('a store_world_scheme, http_response) process" where
  "process_of s (Authorize r) = handleAuthorize_process s r"
| "process_of s (Callback b r) = handleCallback_process s b r"
| "process_of s (ConsentGet r) = handleConsentGet_process s r"
| "process_of s (ConsentPost r) = handleConsentPost_process s r"
| "process_of s (Token r) = handleToken_process s r"
| "process_of s (CodeProfile r) = handleAuthorizationCodeProfile_process r"
| "process_of s (Introspect r) = handleIntrospect_process r"
| "process_of s (Revoke r) = handleRevoke_process r"
| "process_of s Setup = handleSetup_process s"
| "process_of s (SetupCheck r) = call (handleSetupCheck s r) Finish"
| "process_of s (ProfileUpdate r) = handleManagedProfileUpdate_process s r"
| "process_of s (ProfilePage r) = handleManagedProfile_process s r"
| "process_of s (TestStart r) = call (handleTestStart s r) Finish"
| "process_of s (TestCallback r) = call (handleTestCallback s r) Finish"
| "process_of s (CleanupTick t) = andThen (exec_process (cleanup_statements (Unix t))) (\<lambda>c. Finish (reply [] 0 NoBody))"
| "process_of s ClockRead = call now (\<lambda>t. Finish (reply [] 0 NoBody))"

lemma alone_exec_process [simp]: "alone (exec_process fs) = exec_all fs"
  by (induction fs) (simp_all cong: sum.case_cong)

lemma alone_process_of: "alone (process_of s ev) = handle s ev"
  by (cases ev) (simp_all add: Cleanup_def)

text \<open>The server whose requests are handled at the same time.\<close>

abbreviation concurrently :: "('a store_world_scheme) Server \<Rightarrow>
    ('a store_world_scheme, event, http_response) pool \<times> 'a store_world_scheme \<Rightarrow>
    ('a store_world_scheme, event, http_response) pool \<times> 'a store_world_scheme \<Rightarrow> bool" where
  "concurrently s \<equiv> interleaved (process_of s)"

text \<open>Requests one after the other are a special case.\<close>

lemma step_concurrently: "step s w ev rsp w' \<Longrightarrow> concurrently s (ts, w) (ts @ [(ev, Finish rsp)], w')"
  using serve_to_end [of "process_of s" ts w ev] by (simp add: alone_process_of step_iff)

lemma reachable_concurrently:
  assumes "reachable s w0 w" shows "\<exists>ts. concurrently s ([], w0) (ts, w)"
  using assms
proof induction
  case (next_step w ev rsp w')
  then show ?case using step_concurrently by (blast intro: interleaved_trans)
qed (blast intro: stays)

end
