(* ===== verification/ConcurrentLaws.thy ===== *)
theory ConcurrentLaws
  imports Concurrent
begin

text \<open>
  What every process of the server respects, whatever the others do between its steps: the contract of
  the sequential server, for an invariant that may also count tickets.  A draw of random bytes can give
  tickets (the right to store the token that was drawn), storing a code uses them up, and consuming a code
  gives them to the process that has consumed it.
\<close>

section \<open>Calls that leave the tickets alone\<close>

locale quiet_calls = outside_calls I
  for I :: "'w store_world_scheme \<Rightarrow> bool" +
  fixes okA :: "AuthRequest \<Rightarrow> bool" and okC :: "ConsentRequest \<Rightarrow> bool" and okT :: "AccessToken \<Rightarrow> bool"
    and s :: "('w store_world_scheme) Server" and okB :: "BackendState \<Rightarrow> bool"
  assumes calm_CreateAuthRequest: "okA ar \<Longrightarrow> keeps I (CreateAuthRequest ar) anything"
    and calm_GetAuthRequest: "keeps I (GetAuthRequestByBackendState U b st) (on_ok okA)"
    and calm_DeleteAuthRequest: "keeps I (DeleteAuthRequest i) anything"
    and calm_GetAccessToken: "keeps I (GetAccessToken token t) (on_ok okT)"
    and calm_RevokeAccessToken: "keeps I (RevokeAccessToken token t) anything"
    and calm_CreateConsentRequest: "okC cr \<Longrightarrow> keeps I (CreateConsentRequest cr) anything"
    and calm_GetConsentRequest: "keeps I (GetConsentRequest i t) (on_ok okC)"
    and calm_DeleteConsentRequest: "keeps I (DeleteConsentRequest i) anything"
    and calm_CreateAuditEvent: "keeps I (CreateAuditEvent ev) anything"
    and calm_CreateManagedProfile: "keeps I (CreateManagedProfile U mp) anything"
    and calm_GetManagedProfileByHandle: "keeps I (GetManagedProfileByHandle h) anything"
    and calm_GetManagedProfileByIdentity: "keeps I (GetManagedProfileByIdentity iss sub) anything"
    and calm_UpdateManagedProfile: "keeps I (UpdateManagedProfile mp) anything"
    and calm_cleanup: "f \<in> set (cleanup_statements u) \<Longrightarrow> keeps I (sql_exec f) anything"
    and calm_begin: "(n, be) \<in> set (backends s) \<Longrightarrow> keeps I (BeginAuth be breq) (on_ok (\<lambda>(u, bs). okB bs))"
    and calm_complete: "(n, be) \<in> set (backends s) \<Longrightarrow> keeps I (CompleteAuth be cb bs) anything"
begin

lemma calm_audit: "keeps I (audit e su me c) anything"
  unfolding audit_def
  by (intro keeps_bind [where P = anything] keeps_now calm_CreateAuditEvent keeps_return TrueI)

end

context server_contract
begin

text \<open>The sequential contract gives it, when the single statements of a cleanup keep the invariant too.\<close>

lemma quiet:
  assumes "\<And>f u. f \<in> set (cleanup_statements u) \<Longrightarrow> keeps I (sql_exec f) anything"
  shows "quiet_calls I okA okC okT s okB"
  by unfold_locales
    (fact keeps_CreateAuthRequest keeps_GetAuthRequest keeps_DeleteAuthRequest keeps_GetAccessToken
      keeps_RevokeAccessToken keeps_CreateConsentRequest keeps_GetConsentRequest keeps_DeleteConsentRequest
      keeps_CreateAuditEvent keeps_CreateManagedProfile keeps_GetManagedProfileByHandle
      keeps_GetManagedProfileByIdentity keeps_UpdateManagedProfile assms begin_auth complete_auth)+

end

section \<open>The contract of the processes\<close>

abbreviation anything2 :: "'a \<Rightarrow> nat \<Rightarrow> bool" where
  "anything2 \<equiv> \<lambda>_ _. True"

locale concurrent_contract =
  fixes I :: "nat \<Rightarrow> 'w store_world_scheme \<Rightarrow> bool" and tok :: "nat \<Rightarrow> string \<Rightarrow> bool" and won :: "string \<Rightarrow> nat \<Rightarrow> bool"
    and okA okC okK okT and s :: "('w store_world_scheme) Server" and okB :: "BackendState \<Rightarrow> bool"
  assumes calls: "quiet_calls (I n) okA okC okT s okB"
    and draw: "carries I 0 RandomToken (on_ok2 (\<lambda>t b. tok b t))"
    and store_code: "tok b code \<Longrightarrow> okK rec \<Longrightarrow> carries I b (CreateAuthorizationCode code rec) anything2"
    and take_code: "carries I 0 (ConsumeAuthorizationCode code t) (on_ok2 (\<lambda>rec b. okK rec \<and> won code b))"
    and won_more: "won code b \<Longrightarrow> won code (b' + b)"
    and store_token: "tok b token \<Longrightarrow> okT trec \<Longrightarrow> carries I b (CreateAccessToken token trec) anything2"
    and accept_login: "request_checked s q \<Longrightarrow> okB bs \<Longrightarrow>
      okA (auth_request_of i profile (bind_state st binding bs) q t ttl)"
    and accept_setup: "okB bs \<Longrightarrow> okA (setup_request_of i name bs t ttl)"
    and consent_of_auth: "okA ar \<Longrightarrow> \<not> bool_value (ar_BackendState ar) backendStateSetup \<Longrightarrow>
      okC (consent_of_request ar i c pj subj t ttl)"
    and code_of_auth: "okA ar \<Longrightarrow> \<not> bool_value (ar_BackendState ar) backendStateSetup \<Longrightarrow>
      okK (code_of_request (request_of_auth ar pj subj) t ttl)"
    and code_of_consent: "okC cr \<Longrightarrow> okK (code_of_request (request_of_consent cr) t ttl)"
    and token_of_rec: "okK rec \<Longrightarrow> okT (token_of_code rec t ttl)"
begin

text \<open>The calls as rules about the process that makes them.\<close>

lemma covers_quiet:
  assumes "\<And>n. keeps (I n) m P" "\<And>x. P x \<Longrightarrow> covers I Q (k x) b"
  shows "covers I Q (call m k) b"
  by (rule covers_call [OF carries_keeps [OF assms(1)]]) (use assms(2) in blast)

lemma carries_frame: "carries I b m P \<Longrightarrow> carries I (b + d) m (\<lambda>x b'. \<exists>b1. b' = b1 + d \<and> P x b1)"
  unfolding carries_def by (metis add.assoc)

lemma covers_framed:
  assumes "carries I b m P" "\<And>x b'. P x b' \<Longrightarrow> covers I Q (k x) (b' + d)"
  shows "covers I Q (call m k) (b + d)"
  by (rule covers_call [OF carries_frame [OF assms(1)]]) (use assms(2) in auto)

lemma covers_draw:
  "(\<And>x b'. on_ok2 (\<lambda>t b. tok b t) x b' \<Longrightarrow> covers I Q (k x) (b' + b)) \<Longrightarrow> covers I Q (call RandomToken k) b"
  using covers_framed [OF draw, where Q = Q and k = k and d = b] by simp

lemma covers_take:
  "(\<And>x b'. on_ok2 (\<lambda>rec b. okK rec \<and> won code b) x b' \<Longrightarrow> covers I Q (k x) (b' + b)) \<Longrightarrow>
   covers I Q (call (ConsumeAuthorizationCode code t) k) b"
  using covers_framed [OF take_code, where Q = Q and k = k and d = b] by simp

lemma covers_store_token:
  "tok b token \<Longrightarrow> okT trec \<Longrightarrow> (\<And>x b'. covers I Q (k x) (b' + d)) \<Longrightarrow>
   covers I Q (call (CreateAccessToken token trec) k) (b + d)"
  by (rule covers_framed [OF store_token]) simp_all

lemma covers_store_code:
  "tok b code \<Longrightarrow> okK rec \<Longrightarrow> (\<And>x b'. covers I Q (k x) (b' + d)) \<Longrightarrow>
   covers I Q (call (CreateAuthorizationCode code rec) k) (b + d)"
  by (rule covers_framed [OF store_code]) simp_all

lemmas quiet_invariant = quiet_calls.axioms(1) [OF calls]
lemmas now_quiet = store_invariant.keeps_now [OF outside_calls.axioms(1) [OF quiet_invariant]]
lemmas audit_quiet = quiet_calls.calm_audit [OF calls]

lemmas covers_now = covers_quiet [OF now_quiet]
lemmas covers_audit = covers_quiet [OF audit_quiet]
lemmas covers_id_draw = covers_quiet [OF outside_calls.any_draw [OF quiet_invariant]]

lemma backend_listed: "map_of (backends s) n = Some b \<Longrightarrow> (n, b) \<in> set (backends s)"
  by (rule map_of_SomeD)

section \<open>Codes and tokens\<close>

lemma covers_issueCode:
  assumes "\<And>t ttl. okK (code_of_request req t ttl)" "\<And>x b'. Q x b'"
  shows "covers I Q (issueCode_process s hs req) b"
  unfolding issueCode_process_def
  by (intro covers_draw covers_case_sum covers_now covers_store_code covers_audit covers_Finish)
    (use assms in auto)

lemma covers_reject: "(\<And>x. rsp_Status x = 400 \<Longrightarrow> Q x b) \<Longrightarrow> covers I Q (reject_process e me c code d) b"
  unfolding reject_process_def by (intro covers_audit covers_Finish) simp

lemma covers_issue_token:
  assumes "okK rec" "\<And>x b'. Q x (b' + b)"
  shows "covers I Q (issue_token_process s rec) b"
  unfolding issue_token_process_def
  by (intro covers_draw covers_case_sum covers_now covers_store_token covers_audit covers_Finish)
    (use assms(2) token_of_rec [OF assms(1)] in auto)

text \<open>A successful exchange holds the tickets of the code it has consumed.\<close>

definition paid :: "http_request \<Rightarrow> http_response \<Rightarrow> nat \<Rightarrow> bool" where
  "paid r rsp b \<longleftrightarrow> (rsp_Status rsp = 200 \<longrightarrow>
     (\<forall>form. ParseForm defaultMaxMemory r = Inr form \<longrightarrow> won (values_Get form ''code'') b))"

lemma won_with_more: "won code b \<Longrightarrow> won code (b + b')"
  using won_more [of code b b'] by (simp add: add.commute)

lemma paid_refused [simp]: "rsp_Status rsp = 400 \<Longrightarrow> paid r rsp b"
  by (simp add: paid_def)

lemma covers_handleToken: "covers I (paid r) (handleToken_process s r) b"
proof (cases "ParseForm defaultMaxMemory r")
  case (Inl e)
  then show ?thesis by (simp add: handleToken_process_def)
next
  case (Inr form)
  have "covers I (paid r) (issue_token_process s rec) b'" if "okK rec" "won (values_Get form ''code'') b'" for rec b'
    by (rule covers_issue_token [OF that(1)]) (use that(2) Inr won_more in \<open>simp add: paid_def\<close>)
  then show ?thesis
    unfolding handleToken_process_def Inr sum.case Let_def
    by (intro covers_if covers_reject covers_now covers_take covers_case_sum) (auto intro: won_with_more)
qed

lemma covers_handleAuthorizationCodeProfile: "covers I (paid r) (handleAuthorizationCodeProfile_process r) b"
proof (cases "ParseForm defaultMaxMemory r")
  case (Inl e)
  then show ?thesis by (simp add: handleAuthorizationCodeProfile_process_def)
next
  case (Inr form)
  then show ?thesis
    unfolding handleAuthorizationCodeProfile_process_def Inr sum.case Let_def
    by (intro covers_if covers_reject covers_now covers_take covers_case_sum covers_audit covers_Finish)
      (auto simp: paid_def Inr intro: won_with_more)
qed

lemma covers_handleIntrospect: "covers I anything2 (handleIntrospect_process r) b"
  unfolding handleIntrospect_process_def
  by (intro covers_case_sum covers_if covers_Finish covers_now covers_quiet [OF quiet_calls.calm_GetAccessToken [OF calls]] TrueI)

lemma covers_handleRevoke: "covers I anything2 (handleRevoke_process r) b"
  unfolding handleRevoke_process_def
  by (intro covers_case_sum covers_if covers_Finish covers_now covers_quiet [OF quiet_calls.calm_GetAccessToken [OF calls]]
      covers_andThen [where P = anything2] covers_audit covers_quiet [OF quiet_calls.calm_RevokeAccessToken [OF calls]] TrueI)

section \<open>Consent\<close>

lemma covers_handleConsentGet: "covers I anything2 (handleConsentGet_process s r) b"
  unfolding handleConsentGet_process_def
  by (intro covers_case_sum covers_Finish covers_now covers_quiet [OF quiet_calls.calm_GetConsentRequest [OF calls]]
      covers_id_draw TrueI)

lemma covers_decide_consent: "okC cr \<Longrightarrow> covers I anything2 (decide_consent_process s form cr) b"
  unfolding decide_consent_process_def
  by (intro covers_if covers_Finish covers_audit covers_andThen [OF covers_issueCode] code_of_consent TrueI)

lemma covers_handleConsentPost: "covers I anything2 (handleConsentPost_process s r) b"
  unfolding handleConsentPost_process_def Let_def
  by (intro covers_case_sum covers_if covers_Finish covers_now covers_audit
      covers_quiet [OF quiet_calls.calm_GetConsentRequest [OF calls]] covers_andThen [OF covers_decide_consent]
      covers_quiet [OF quiet_calls.calm_DeleteConsentRequest [OF calls]] TrueI) simp

section \<open>Managed profiles\<close>

lemmas covers_profile_calls = covers_quiet [OF quiet_calls.calm_UpdateManagedProfile [OF calls]]
  covers_quiet [OF quiet_calls.calm_CreateManagedProfile [OF calls]]
  covers_quiet [OF quiet_calls.calm_GetManagedProfileByIdentity [OF calls]]
  covers_quiet [OF quiet_calls.calm_GetManagedProfileByHandle [OF calls]]

lemma covers_ensureManagedProfile: "covers I anything2 (ensureManagedProfile_process s i iss) b"
  unfolding ensureManagedProfile_process_def refresh_profile_process_def create_profile_process_def Let_def
  by (intro covers_case_sum covers_if covers_Finish covers_now covers_profile_calls TrueI)

lemma covers_renderSetupIdentity: "covers I anything2 (renderSetupIdentity_process s i iss) b"
  unfolding renderSetupIdentity_process_def
  by (intro covers_quiet [OF outside_calls.keeps_sealSetupIdentity [OF quiet_invariant]] covers_case_sum covers_if
      covers_Finish covers_andThen [OF covers_ensureManagedProfile] TrueI)

lemma covers_managedProfileForMe: "covers I anything2 (managedProfileForMe_process s me) b"
  unfolding managedProfileForMe_process_def by (intro covers_if covers_Finish covers_profile_calls TrueI)

lemma covers_handleManagedProfileUpdate: "covers I anything2 (handleManagedProfileUpdate_process s r) b"
  unfolding handleManagedProfileUpdate_process_def Let_def
  by (intro covers_case_sum covers_case_prod covers_if covers_Finish covers_now covers_audit covers_profile_calls
      covers_quiet [OF outside_calls.keeps_openSetupIdentity [OF quiet_invariant]] TrueI)

lemma covers_handleManagedProfile: "covers I anything2 (handleManagedProfile_process s r) b"
  unfolding handleManagedProfile_process_def Let_def
  by (intro covers_if covers_Finish covers_profile_calls TrueI)

section \<open>Authorization, setup and callback\<close>

lemmas network_quiet = outside_calls.axioms(2) [OF quiet_invariant]

lemma covers_authorize_profile: "covers I anything2 (authorize_profile_process s me st man c) b"
  unfolding authorize_profile_process_def Let_def
  by (cases man; cases st)
    (auto intro!: covers_case_sum covers_audit covers_quiet [OF network_invariant.keeps_DiscoverProfileIdentity [OF network_quiet]])

lemmas covers_begin = covers_quiet [OF quiet_calls.calm_begin [OF calls backend_listed]]

lemma covers_begin_login:
  assumes "request_checked s q" shows "covers I anything2 (begin_login_process s q st profile binding) b"
  unfolding begin_login_process_def
  by (intro covers_case_option covers_case_sum covers_case_prod covers_Finish covers_id_draw covers_begin covers_now
      covers_quiet [OF quiet_calls.calm_CreateAuthRequest [OF calls]] covers_audit accept_login assms TrueI) auto

lemma covers_handleSetup: "covers I anything2 (handleSetup_process s) b"
  unfolding handleSetup_process_def Let_def setup_request_of_def [symmetric]
  by (intro covers_case_option covers_case_sum covers_case_prod covers_if covers_Finish covers_id_draw covers_begin
      covers_now covers_quiet [OF quiet_calls.calm_CreateAuthRequest [OF calls]] accept_setup TrueI) auto

lemma redirect_check_quiet:
  "keeps (I n) (ValidateClientRedirect U c r allow disc) (on_ok (\<lambda>_. redirect_accepted U c r allow disc))"
proof (rule keepsI)
  fix w
  assume w: "I n w"
  let ?m = "ValidateClientRedirect U c r allow disc :: ('w store_world_scheme, unit result) state"
  have "keeps (I n) ?m anything" by (rule network_invariant.keeps_ValidateClientRedirect [OF network_quiet]) simp
  with w have "I n (world_of ?m w)" by (simp add: keeps_def)
  moreover have "on_ok (\<lambda>_. redirect_accepted U c r allow disc) (val_of ?m w)"
    using ValidateClientRedirect_accepted [of U c r allow disc w] by (auto simp: on_ok_def split: sum.splits)
  ultimately show "I n (world_of ?m w) \<and> on_ok (\<lambda>_. redirect_accepted U c r allow disc) (val_of ?m w)" by simp
qed

lemma covers_handleAuthorize: "covers I anything2 (handleAuthorize_process s r) b"
  unfolding handleAuthorize_process_def Let_def
  by (intro covers_case_sum covers_if covers_case_prod covers_Finish covers_andThen [OF covers_managedProfileForMe]
      covers_quiet [OF redirect_check_quiet] covers_audit covers_andThen [OF covers_authorize_profile]
      covers_begin_login TrueI)
    (auto simp: request_checked_def on_ok_def split: sum.splits)

definition found :: "(AuthRequest \<times> ('w store_world_scheme) Backend) stored \<Rightarrow> bool" where
  "found = on_ok (\<lambda>(ar, b). okA ar \<and> (\<exists>n. (n, b) \<in> set (backends s)))"

lemmas covers_GetAuthRequest = covers_quiet [OF quiet_calls.calm_GetAuthRequest [OF calls]]

lemma covers_find_in_backends:
  "set bs \<subseteq> set (backends s) \<Longrightarrow> covers I (\<lambda>x b'. found x) (find_in_backends_process U bs st) b"
proof (induction bs)
  case (Cons nb bs)
  obtain n be where nb: "nb = (n, be)" by (cases nb)
  with Cons show ?case
    by (auto simp: found_def intro!: covers_GetAuthRequest covers_case_sum)
qed (simp add: found_def)

lemma covers_findAuthRequest: "covers I (\<lambda>x b'. found x) (findAuthRequest_process s n st) b"
  unfolding findAuthRequest_process_def
  by (intro covers_if covers_case_option covers_Finish covers_GetAuthRequest covers_find_in_backends)
    (auto simp: found_def on_ok_def dest: backend_listed split: sum.splits)

lemma covers_ask_consent:
  assumes "okA ar" "\<not> bool_value (ar_BackendState ar) backendStateSetup"
  shows "covers I anything2 (ask_consent_process s ar pj subj) b"
  unfolding ask_consent_process_def
  by (intro covers_case_sum covers_Finish covers_id_draw covers_now covers_audit
      covers_quiet [OF quiet_calls.calm_CreateConsentRequest [OF calls]] consent_of_auth assms TrueI)

lemma covers_complete_login:
  assumes "okA ar" "(n, be) \<in> set (backends s)"
  shows "covers I anything2 (complete_login_process s q ar be) b"
  unfolding complete_login_process_def
  by (intro covers_quiet [OF quiet_calls.calm_complete [OF calls assms(2)]] covers_audit covers_case_sum covers_if
      covers_case_option covers_Finish covers_renderSetupIdentity covers_ask_consent covers_andThen [OF covers_issueCode]
      code_of_auth assms(1) TrueI)

lemma covers_handleCallback: "covers I anything2 (handleCallback_process s n r) b"
proof -
  have "covers I anything2 (andThen (complete_login_process s q ar be)
      (\<lambda>rsp. call (DeleteAuthRequest (ar_ID ar)) (\<lambda>d. Finish rsp))) b'"
    if "found (Inr (ar, be))" for q ar be b'
    using that by (auto simp: found_def intro!: covers_andThen [OF covers_complete_login]
        covers_quiet [OF quiet_calls.calm_DeleteAuthRequest [OF calls]])
  then show ?thesis
    unfolding handleCallback_process_def Let_def
    by (intro covers_if covers_Finish covers_andThen [OF covers_findAuthRequest] covers_case_sum covers_case_prod TrueI) simp
qed

section \<open>Every request\<close>

lemma covers_exec_process: "set fs \<subseteq> set (cleanup_statements u) \<Longrightarrow> covers I anything2 (exec_process fs) b"
  by (induction fs arbitrary: b)
    (auto intro!: covers_quiet [OF quiet_calls.calm_cleanup [OF calls, of _ u]] covers_case_sum)

lemmas covers_outside = outside_calls.keeps_outside [OF quiet_invariant, THEN covers_quiet]

definition settled :: "event \<Rightarrow> http_response \<Rightarrow> nat \<Rightarrow> bool" where
  "settled ev rsp b \<longleftrightarrow> (\<forall>r. exchange_of ev r \<longrightarrow> paid r rsp b)"

lemma settled_other: "(\<And>r. \<not> exchange_of ev r) \<Longrightarrow> settled ev = anything2"
  by (intro ext) (simp add: settled_def)

lemma covers_process_of: "covers I (settled ev) (process_of s ev) b"
proof (cases ev)
  case (Token r)
  then show ?thesis by (auto intro: covers_weaken [OF covers_handleToken] simp: settled_def exchange_of_def)
next
  case (CodeProfile r)
  then show ?thesis
    by (auto intro: covers_weaken [OF covers_handleAuthorizationCodeProfile] simp: settled_def exchange_of_def)
next
  case (CleanupTick t)
  then show ?thesis
    by (auto simp: settled_other exchange_of_def intro: covers_andThen [OF covers_exec_process [OF subset_refl]])
qed (auto simp: settled_other exchange_of_def intro!: covers_handleAuthorize covers_handleCallback covers_handleConsentGet
    covers_handleConsentPost covers_handleIntrospect covers_handleRevoke covers_handleSetup
    covers_handleManagedProfileUpdate covers_handleManagedProfile covers_outside covers_now)

lemma concurrently_balanced:
  assumes "concurrently s c d" "balanced I (\<lambda>_. settled) bs c" shows "\<exists>bs'. balanced I (\<lambda>_. settled) bs' d"
  by (rule balanced_interleaved [OF assms]) (rule covers_process_of)

end

section \<open>Invariants without tickets\<close>

lemma concurrent_of_sequential:
  assumes S: "\<And>n. server_contract (I n) tok okA okC okK okT s okB"
    and C: "\<And>n f u. f \<in> set (cleanup_statements u) \<Longrightarrow> keeps (I n) (sql_exec f) anything"
  shows "concurrent_contract I (\<lambda>_. tok) (\<lambda>_ _. True) okA okC okK okT s okB"
proof (intro concurrent_contract.intro server_contract.quiet [OF S C])
  note store = server_contract.axioms(1) [OF S]
  show "carries I 0 RandomToken (on_ok2 (\<lambda>t b. tok t))"
    by (rule carries_weaken [OF carries_keeps [OF store_contract.keeps_RandomToken [OF store]]]) simp
  show "carries I b (CreateAuthorizationCode code rec) anything2" if "tok code" "okK rec" for b code rec
    by (rule carries_weaken [OF carries_keeps [OF store_contract.keeps_CreateAuthorizationCode [OF store that]]]) simp
  show "carries I 0 (ConsumeAuthorizationCode code t) (on_ok2 (\<lambda>rec b. okK rec \<and> True))" for code t
    by (rule carries_weaken [OF carries_keeps [OF store_contract.keeps_Consume [OF store]]]) simp
  show "carries I b (CreateAccessToken token trec) anything2" if "tok token" "okT trec" for b token trec
    by (rule carries_weaken [OF carries_keeps [OF store_contract.keeps_CreateAccessToken [OF store that]]]) simp
qed (fact server_contract.accept_login [OF S] server_contract.accept_setup [OF S] server_contract.consent_of_auth [OF S]
    server_contract.code_of_auth [OF S] server_contract.code_of_consent [OF S] server_contract.token_of_rec [OF S] | simp)+

end
