(* ===== verification/FlowInvariants.thy ===== *)
theory FlowInvariants
  imports Flow
begin

text \<open>
  The invariants of the server: keys stay unique; what is stored for a client has passed the checks
  of the authorization endpoint; a code that has been used and a token that has been revoked stay
  that way.  Each is an instance of \<open>flow\<close>.
\<close>

section \<open>Servers whose backends satisfy their contract\<close>

definition server_ok :: "('w store_world_scheme) Server \<Rightarrow> bool" where
  "server_ok s \<longleftrightarrow> (\<forall>(n, b) \<in> set (backends s). login_backend b)"

lemma server_ok_backend: "server_ok s \<Longrightarrow> (n, b) \<in> set (backends s) \<Longrightarrow> login_backend b"
  by (auto simp: server_ok_def)

lemmas server_ok_parts = login_backend.blind_begin [OF server_ok_backend]
  login_backend.begin_state [OF server_ok_backend] login_backend.blind_complete [OF server_ok_backend]

text \<open>The server of a configuration, with a library that gives fixed answers.\<close>

definition answering_server ::
  "provider result \<Rightarrow> oauth_token result \<Rightarrow> id_token result \<Rightarrow> string result \<Rightarrow> Config \<Rightarrow> unicode_tables \<Rightarrow>
   ('a oidc_world_scheme) Server" where
  "answering_server p k v u c U = \<lparr>cfg = c,
     backends = (case buildBackends (answering p k v u) c of Inl e \<Rightarrow> [] | Inr bs \<Rightarrow> bs), tables = U\<rparr>"

lemma answering_server_ok: "server_ok (answering_server p k v u c U)"
  by (auto simp: server_ok_def answering_server_def buildBackends_def
      dest: built_login_backends [OF answering_blind] sym split: sum.splits)

section \<open>Unique keys\<close>

lemma keys_flow:
  assumes "server_ok s"
  shows "flow unique_keys (\<lambda>_ _. True) anything anything anything anything anything s"
  by unfold_locales (use assms in \<open>auto intro: server_ok_parts\<close>)

interpretation keys_flow: flow unique_keys "\<lambda>_ _. True" anything anything anything anything anything
    "answering_server p k v u c U" for p k v u c U
  by (rule keys_flow) (rule answering_server_ok)

section \<open>Checked grants\<close>

text \<open>What the authorization endpoint has checked of the request a grant comes from.\<close>

definition grant_checked :: "('w store_world_scheme) Server \<Rightarrow> string \<Rightarrow> string \<Rightarrow> string \<Rightarrow> string \<Rightarrow> string \<Rightarrow> bool" where
  "grant_checked s clientID redirectURI scope challenge challengeMethod \<longleftrightarrow>
     ScopeAllowed scope \<and>
     redirect_accepted (tables s) clientID redirectURI (allow_http (cfg s)) (ClientMetadataDiscoveryEnabled (Security (cfg s))) \<and>
     (challenge \<noteq> [] \<longrightarrow> challengeMethod = ''S256'') \<and>
     (RequirePKCE (Security (cfg s)) \<longrightarrow> challenge = [] \<or> ValidateCodeChallenge challenge challengeMethod = Inr ())"

definition setup_state :: "BackendState \<Rightarrow> bool" where
  "setup_state bs \<longleftrightarrow> wf_state bs \<and> bool_value bs backendStateSetup"

definition request_ok :: "('w store_world_scheme) Server \<Rightarrow> AuthRequest \<Rightarrow> bool" where
  "request_ok s ar \<longleftrightarrow> setup_state (ar_BackendState ar) \<or>
     grant_checked s (ar_ClientID ar) (ar_RedirectURI ar) (ar_Scope ar) (ar_CodeChallenge ar) (ar_CodeChallengeMethod ar)"

definition consent_ok :: "('w store_world_scheme) Server \<Rightarrow> ConsentRequest \<Rightarrow> bool" where
  "consent_ok s cr \<longleftrightarrow>
     grant_checked s (cr_ClientID cr) (cr_RedirectURI cr) (cr_Scope cr) (cr_CodeChallenge cr) (cr_CodeChallengeMethod cr)"

definition code_ok :: "('w store_world_scheme) Server \<Rightarrow> AuthorizationCode \<Rightarrow> bool" where
  "code_ok s rec \<longleftrightarrow>
     grant_checked s (ac_ClientID rec) (ac_RedirectURI rec) (ac_Scope rec) (ac_CodeChallenge rec) (ac_CodeChallengeMethod rec)"

definition token_ok :: "AccessToken \<Rightarrow> bool" where
  "token_ok rec \<longleftrightarrow> ScopeAllowed (at_Scope rec)"

definition grants_checked :: "('w store_world_scheme) Server \<Rightarrow> database \<Rightarrow> bool" where
  "grants_checked s d \<longleftrightarrow>
     (\<forall>q \<in> set (auth_requests d).
        (\<exists>bs. setup_state bs \<and> q_backend_state q = marshal_state bs) \<or>
        grant_checked s (q_client_id q) (q_redirect_uri q) (q_scope q) (q_code_challenge q) (q_code_challenge_method q)) \<and>
     (\<forall>r \<in> set (consent_requests d).
        grant_checked s (r_client_id r) (r_redirect_uri r) (r_scope r) (r_code_challenge r) (r_code_challenge_method r)) \<and>
     (\<forall>c \<in> set (authorization_codes d).
        grant_checked s (c_client_id c) (c_redirect_uri c) (c_scope c) (c_code_challenge c) (c_code_challenge_method c)) \<and>
     (\<forall>t \<in> set (access_tokens d). ScopeAllowed (t_scope t))"

lemma grants_checked_empty [simp]: "grants_checked s empty_database"
  by (simp add: grants_checked_def empty_database_def)

lemma checked_request_grant:
  assumes "request_checked s q"
  shows "grant_checked s (values_Get q ''client_id'') (values_Get q ''redirect_uri'') (values_Get q ''scope'')
    (values_Get q ''code_challenge'') (values_Get q ''code_challenge_method'')"
proof -
  have scope: "ScopeAllowed (values_Get q ''scope'')"
    using assms by (auto simp: request_checked_def authorize_me_def split: if_splits)
  have legacy: "legacyIndieAuthSignIn q \<Longrightarrow> values_Get q ''code_challenge'' = []"
    by (simp add: legacyIndieAuthSignIn_def)
  have s256_only: "ValidateCodeChallenge c m = Inr () \<Longrightarrow> m = ''S256''" for c m
    by (simp add: ValidateCodeChallenge_def split: if_splits)
  show ?thesis
    using assms scope legacy s256_only
    by (auto simp: request_checked_def grant_checked_def authorize_challenge_def Let_def split: if_splits)
qed

lemma setup_state_set: "wf_state bs \<Longrightarrow> setup_state (set_value backendStateSetup (JBool True) bs)"
proof -
  assume "wf_state bs"
  moreover have "valid_utf8 backendStateSetup"
    by (rule ascii_valid_utf8) (simp add: backendStateSetup_def ascii_char_def)
  ultimately show ?thesis by (simp add: setup_state_def wf_state_set_value bool_value_def)
qed

lemma wf_bind_state: "wf_state bs \<Longrightarrow> setup_state bs' \<Longrightarrow> unmarshal_state U (marshal_state bs') = Inr bs'"
  by (simp add: setup_state_def unmarshal_marshal_state)

lemma grants_flow:
  assumes "server_ok s"
  shows "flow (grants_checked s) (\<lambda>_ _. True) anything (request_ok s) (consent_ok s) (code_ok s) token_ok s"
proof
  show "grants_checked s (auth_requests_update (\<lambda>qs. qs @ [auth_row_of ar]) d)"
    if "grants_checked s d" "request_ok s ar" for d ar
    using that by (auto simp: grants_checked_def request_ok_def auth_row_of_def)
  show "request_ok s (scanAuthRequest bs q)"
    if "grants_checked s d" "q \<in> set (auth_requests d)" "unmarshal_state U (q_backend_state q) = Inr bs" for d q bs U
    using that by (auto simp: grants_checked_def request_ok_def scanAuthRequest_def setup_state_def
        unmarshal_marshal_state dest!: bspec)
qed (use assms in \<open>auto simp: grants_checked_def request_ok_def consent_ok_def code_ok_def token_ok_def
      code_row_of_def token_row_of_def consent_row_of_def mark_used_def revoke_row_def insert_profile_def
      scanAuthorizationCode_def scanAccessToken_def scanConsentRequest_def auth_request_of_def
      setup_request_of_def consent_of_request_def code_of_request_def request_of_auth_def request_of_consent_def
      token_of_code_def grant_checked_def [where s = s and scope = "ac_Scope rec" for rec] setup_state_def
      intro: server_ok_parts checked_request_grant setup_state_set [unfolded setup_state_def, THEN conjunct1]
        setup_state_set [unfolded setup_state_def, THEN conjunct2] split: if_splits\<close>)

interpretation grants_flow: flow "grants_checked (answering_server p k v u c U :: 'a oidc_world_scheme Server)"
    "\<lambda>_ _. True" anything "request_ok (answering_server p k v u c U :: 'a oidc_world_scheme Server)"
    "consent_ok (answering_server p k v u c U :: 'a oidc_world_scheme Server)"
    "code_ok (answering_server p k v u c U :: 'a oidc_world_scheme Server)" token_ok
    "answering_server p k v u c U :: 'a oidc_world_scheme Server" for p k v u c U
  by (rule grants_flow) (rule answering_server_ok)

section \<open>Used codes and revoked tokens\<close>

text \<open>No row offers the code, or the token, with this hash.\<close>

definition spent :: "string \<Rightarrow> database \<Rightarrow> bool" where
  "spent h d \<longleftrightarrow> (\<forall>c \<in> set (authorization_codes d). c_code_hash c = h \<longrightarrow> c_used_at c \<noteq> None)"

definition revoked :: "string \<Rightarrow> database \<Rightarrow> bool" where
  "revoked h d \<longleftrightarrow> (\<forall>t \<in> set (access_tokens d). t_token_hash t = h \<longrightarrow> t_revoked_at t \<noteq> None)"

text \<open>No draw still to come gives a token with this hash.\<close>

definition undrawn :: "string \<Rightarrow> (nat \<Rightarrow> (nat \<Rightarrow> char) option) \<Rightarrow> nat \<Rightarrow> bool" where
  "undrawn h en n \<longleftrightarrow> (\<forall>m \<ge> n. \<forall>f. en m = Some f \<longrightarrow> HashToken (RawURLEncode (List.map f [0..<tokenBytes])) \<noteq> h)"

lemma undrawn_Suc: "undrawn h en n \<Longrightarrow> undrawn h en (Suc n)"
  unfolding undrawn_def using Suc_leD by blast

lemma undrawn_token: "undrawn h en n \<Longrightarrow> en n = Some f \<Longrightarrow> HashToken (RawURLEncode (List.map f [0..<tokenBytes])) \<noteq> h"
  unfolding undrawn_def by blast

lemma spent_flow:
  assumes "server_ok s"
  shows "flow (spent h) (undrawn h) (\<lambda>t. HashToken t \<noteq> h) anything anything anything anything s"
  by unfold_locales
    (use assms in \<open>auto simp: spent_def code_row_of_def mark_used_def insert_profile_def unused_def
      intro: server_ok_parts undrawn_Suc dest: undrawn_token split: if_splits\<close>)

lemma revoked_flow:
  assumes "server_ok s"
  shows "flow (revoked h) (undrawn h) (\<lambda>t. HashToken t \<noteq> h) anything anything anything anything s"
  by unfold_locales
    (use assms in \<open>auto simp: revoked_def token_row_of_def revoke_row_def insert_profile_def
      intro: server_ok_parts undrawn_Suc dest: undrawn_token split: if_splits\<close>)

interpretation spent_flow: flow "spent h" "undrawn h" "\<lambda>t. HashToken t \<noteq> h" anything anything anything anything
    "answering_server p k v u c U" for h p k v u c U
  by (rule spent_flow) (rule answering_server_ok)

interpretation revoked_flow: flow "revoked h" "undrawn h" "\<lambda>t. HashToken t \<noteq> h" anything anything anything anything
    "answering_server p k v u c U" for h p k v u c U
  by (rule revoked_flow) (rule answering_server_ok)

lemma mark_used_used: "c_code_hash (mark_used h u c) = h \<Longrightarrow> \<exists>x. c_used_at (mark_used h u c) = Some x"
  by (simp add: mark_used_def unused_def split: if_splits)

lemma use_db_spent: "spent h (use_db h t d)"
  unfolding spent_def use_db_def by (simp add: mark_used_used)

lemma spent_no_code: "spent h d \<Longrightarrow> List.find (\<lambda>c. c_code_hash c = h) (authorization_codes d) = Some c \<Longrightarrow> c_used_at c \<noteq> None"
  by (auto simp: spent_def dest!: find_Some_in)

lemma revoked_no_token: "revoked h d \<Longrightarrow> List.find (\<lambda>t. t_token_hash t = h) (access_tokens d) = Some t \<Longrightarrow> t_revoked_at t \<noteq> None"
  by (auto simp: revoked_def dest!: find_Some_in)

lemma spent_not_consumed:
  assumes "spent (HashToken code) (db w)" shows "val_of (ConsumeAuthorizationCode code t) w \<noteq> Inr rec"
proof
  assume "val_of (ConsumeAuthorizationCode code t) w = Inr rec"
  then show False by (rule ConsumeAuthorizationCode_ok) (use spent_no_code [OF assms] in auto)
qed

lemma GetAccessToken_ok:
  assumes "val_of (GetAccessToken token t) w = Inr rec"
  obtains r where "List.find (\<lambda>r. t_token_hash r = HashToken token) (access_tokens (db w)) = Some r"
    and "t_revoked_at r = None" and "t < time_Unix (t_expires_at r)" and "rec = scanAccessToken r"
  using assms
  by (auto simp: GetAccessToken_def run_sql_query split: option.splits if_splits)

text \<open>Consuming a code leaves the random source, the clock and the faults of the database alone.\<close>

lemma consume_world [simp]:
  "entropy (world_of (ConsumeAuthorizationCode code t) w) = entropy w"
  "draws (world_of (ConsumeAuthorizationCode code t) w) = draws w"
  "ticks (world_of (ConsumeAuthorizationCode code t) w) = ticks w"
  "clock (world_of (ConsumeAuthorizationCode code t) w) = clock w"
  "faults (world_of (ConsumeAuthorizationCode code t) w) = faults w"
  by (auto simp: ConsumeAuthorizationCode_def consume_body_def use_code_def transaction_def run_statements
      split: option.splits)

lemma consume_spends:
  assumes "val_of (ConsumeAuthorizationCode code t) w = Inr rec" "undrawn (HashToken code) (entropy w) (draws w)"
  shows "inv (spent (HashToken code)) (undrawn (HashToken code)) (world_of (ConsumeAuthorizationCode code t) w)"
  using assms(1) by (rule ConsumeAuthorizationCode_ok) (use assms(2) in \<open>simp add: inv_def use_db_spent\<close>)

section \<open>The faults of the database\<close>

text \<open>No handler changes which statements fail, so a healthy database stays healthy.\<close>

lemma faults_store_contract:
  "store_contract (\<lambda>w. faults w = F) anything anything anything anything anything"
proof
  show "keeps (\<lambda>w. faults w = F) (ConsumeAuthorizationCode code t) (on_ok anything)" for code t
    by (simp add: keeps_def on_ok_def split: sum.splits)
  have "keeps (\<lambda>w. faults w = F) (exec_all fs) anything" for fs
    by (induction fs) (auto simp: keeps_def run_statements case_prod_beta split: option.splits sum.splits)
  then show "keeps (\<lambda>w. faults w = F) (Cleanup t) anything" for t
    unfolding Cleanup_def by blast
qed (auto simp: keeps_def on_ok_def run_statements RandomToken_def Seal_def CreateAuthRequest_def
    GetAuthRequestByBackendState_def DeleteAuthRequest_def CreateAuthorizationCode_def CreateAccessToken_def
    GetAccessToken_def RevokeAccessToken_def CreateConsentRequest_def GetConsentRequest_def DeleteConsentRequest_def
    CreateManagedProfile_def GetManagedProfileByHandle_def GetManagedProfileByIdentity_def
    UpdateManagedProfile_def CreateAuditEvent_def case_prod_beta split: option.splits sum.splits)

lemma faults_contract:
  fixes s :: "('w store_world_scheme) Server"
  assumes "server_ok s"
  shows "server_contract (\<lambda>w. faults w = F) anything anything anything anything anything s wf_state"
proof -
  have b: "keeps (\<lambda>w. faults w = F) (BeginAuth b r) (on_ok (\<lambda>(u, bs). wf_state bs))"
    "keeps (\<lambda>w. faults w = F) (CompleteAuth b q st) anything" if "(n, b) \<in> set (backends s)" for n b r q st
    using login_backend.keeps_BeginAuth [OF server_ok_backend [OF assms that], of "\<lambda>w. faults w = F"]
      login_backend.keeps_CompleteAuth [OF server_ok_backend [OF assms that], of "\<lambda>w. faults w = F"] by auto
  show ?thesis
    by (intro server_contract.intro faults_store_contract network_invariant.intro server_contract_axioms.intro)
      (auto intro: b)
qed

interpretation faults_flow: server_contract "\<lambda>w. faults w = F" anything anything anything anything anything
    "answering_server p k v u c U" wf_state for F p k v u c U
  by (rule faults_contract) (rule answering_server_ok)

lemma step_faults: "server_ok s \<Longrightarrow> step s w ev rsp w' \<Longrightarrow> faults w' = faults w"
  by (rule server_contract.step_invariant [OF faults_contract]) simp_all

lemma reachable_faults: "server_ok s \<Longrightarrow> reachable s w w' \<Longrightarrow> faults w' = faults w"
  by (rule server_contract.reachable_invariant [OF faults_contract]) simp_all

lemma reachable_healthy: "server_ok s \<Longrightarrow> reachable s w w' \<Longrightarrow> healthy w \<Longrightarrow> healthy w'"
  using reachable_faults [of s w w'] by (simp add: healthy_def)

section \<open>What a successful exchange has checked\<close>

lemma reject_status [simp]: "rsp_Status (val_of (reject e me c code d) w) = 400"
  by (simp add: reject_def case_prod_beta)

text \<open>The form of a request, as the handlers of the token endpoint read it.\<close>

definition request_form :: "http_request \<Rightarrow> url_values option" where
  "request_form r = (case ParseForm defaultMaxMemory r of Inl e \<Rightarrow> None | Inr form \<Rightarrow> Some form)"

lemma handleToken_ok:
  assumes "run (handleToken s r) w = (rsp, w')" "rsp_Status rsp = 200"
  obtains form rec t w1 where "request_form r = Some form"
    and "values_Get form ''grant_type'' = ''authorization_code''" and "values_Get form ''code'' \<noteq> []"
    and "run now w = (t, w1)"
    and "val_of (ConsumeAuthorizationCode (values_Get form ''code'') t) w1 = Inr rec"
    and "ac_ClientID rec = values_Get form ''client_id''" and "ac_RedirectURI rec = values_Get form ''redirect_uri''"
    and "RequirePKCE (Security (cfg s)) \<Longrightarrow> ac_CodeChallenge rec \<noteq> []"
    and "ac_CodeChallenge rec \<noteq> [] \<Longrightarrow> VerifyPKCES256 (values_Get form ''code_verifier'') (ac_CodeChallenge rec)"
    and "run (issue_token s rec) (world_of (ConsumeAuthorizationCode (values_Get form ''code'') t) w1) = (rsp, w')"
proof -
  have rej: "rsp_Status x = 400" if "run (reject e me c code d) v = (x, v')" for x e me c code d v v'
    using reject_status [of e me c code d v] that by simp
  show ?thesis
  proof (cases "ParseForm defaultMaxMemory r")
    case (Inl e)
    with assms show ?thesis by (auto simp: handleToken_def)
  next
    case (Inr form)
    let ?code = "values_Get form ''code''"
    let ?w1 = "w\<lparr>ticks := Suc (ticks w)\<rparr>"
    let ?t = "clock w (ticks w)"
    obtain c w2 where c: "run (ConsumeAuthorizationCode ?code ?t) ?w1 = (c, w2)" by fastforce
    note h = assms(1) [unfolded handleToken_def Inr sum.case Let_def]
    have g: "values_Get form ''grant_type'' = ''authorization_code''" "?code \<noteq> []"
      using h assms(2) by (auto split: if_splits dest: rej)
    from c h g assms(2) obtain rec where rec: "c = Inr rec" by (cases c) (auto dest: rej)
    from c h g rec assms(2) show ?thesis
      by (intro that [of form ?t ?w1 rec]) (auto simp: Inr request_form_def split: if_splits dest: rej)
  qed
qed

lemma reject_400: "run (reject e me c code d) v = (x, v') \<Longrightarrow> rsp_Status x = 400"
  using reject_status [of e me c code d v] by simp

lemma handleAuthorizationCodeProfile_ok:
  assumes "run (handleAuthorizationCodeProfile r) w = (rsp, w')" "rsp_Status rsp = 200"
  obtains form rec t w1 where "request_form r = Some form" and "values_Get form ''code'' \<noteq> []"
    and "run now w = (t, w1)"
    and "val_of (ConsumeAuthorizationCode (values_Get form ''code'') t) w1 = Inr rec"
    and "ac_ClientID rec = values_Get form ''client_id''" and "ac_RedirectURI rec = values_Get form ''redirect_uri''"
    and "ac_CodeChallenge rec \<noteq> [] \<Longrightarrow> VerifyPKCES256 (values_Get form ''code_verifier'') (ac_CodeChallenge rec)"
    and "w' = world_of (audit ''authorization_code_profile_returned'' [] (ac_Me rec) (ac_ClientID rec))
      (world_of (ConsumeAuthorizationCode (values_Get form ''code'') t) w1)"
    and "rsp = profile_response rec"
proof (cases "ParseForm defaultMaxMemory r")
  case (Inl e)
  with assms show ?thesis by (auto simp: handleAuthorizationCodeProfile_def)
next
  case (Inr form)
  let ?code = "values_Get form ''code''"
  let ?w1 = "w\<lparr>ticks := Suc (ticks w)\<rparr>"
  let ?t = "clock w (ticks w)"
  obtain c w2 where c: "run (ConsumeAuthorizationCode ?code ?t) ?w1 = (c, w2)" by fastforce
  note h = assms(1) [unfolded handleAuthorizationCodeProfile_def Inr sum.case Let_def]
  have g: "?code \<noteq> []"
    using h assms(2) by (auto split: if_splits dest: reject_400)
  from c h g assms(2) obtain rec where rec: "c = Inr rec" by (cases c) (auto dest: reject_400)
  from c h g rec assms(2) show ?thesis
    by (intro that [of form ?t ?w1 rec])
      (auto simp: Inr request_form_def case_prod_beta split: if_splits dest: reject_400)
qed

section \<open>A code is spent by the exchange that succeeds\<close>

lemma successful_exchange_spends:
  assumes s: "server_ok s" and st: "step s w ev rsp w'" "exchange_of ev r" "rsp_Status rsp = 200"
    and form: "request_form r = Some form"
    and E: "undrawn (HashToken (values_Get form ''code'')) (entropy w) (draws w)"
  shows "inv (spent (HashToken (values_Get form ''code''))) (undrawn (HashToken (values_Get form ''code''))) w'"
proof -
  let ?h = "HashToken (values_Get form ''code'')"
  note keeps = flow.issue_inv [OF spent_flow [OF s, of ?h]]
    flow.event_inv [OF spent_flow [OF s, of ?h]]
  have consumed: "inv (spent ?h) (undrawn ?h) (world_of (ConsumeAuthorizationCode (values_Get form ''code'') t) w1)"
    if "run now w = (t, w1)" "val_of (ConsumeAuthorizationCode (values_Get form ''code'') t) w1 = Inr rec" for t w1 rec
    using consume_spends [OF that(2)] E that(1) by auto
  from st(2) consider "ev = Token r" | "ev = CodeProfile r" by (auto simp: exchange_of_def)
  then show ?thesis
  proof cases
    case 1
    with st have "run (handleToken s r) w = (rsp, w')" by (simp add: step_iff)
    then show ?thesis
    proof (rule handleToken_ok [OF _ st(3)])
      fix f rec t w1
      assume f: "request_form r = Some f" "run now w = (t, w1)"
        "val_of (ConsumeAuthorizationCode (values_Get f ''code'') t) w1 = Inr rec"
        and i: "run (issue_token s rec) (world_of (ConsumeAuthorizationCode (values_Get f ''code'') t) w1) = (rsp, w')"
      from f(1) form have "f = form" by simp
      with f have "inv (spent ?h) (undrawn ?h) (world_of (ConsumeAuthorizationCode (values_Get f ''code'') t) w1)"
        using consumed [of t w1 rec] by blast
      moreover have "w' = world_of (issue_token s rec) (world_of (ConsumeAuthorizationCode (values_Get f ''code'') t) w1)"
        unfolding i by simp
      ultimately show ?thesis using keepsD [OF keeps(1) [OF TrueI]] by blast
    qed
  next
    case 2
    with st have "run (handleAuthorizationCodeProfile r) w = (rsp, w')" by (simp add: step_iff)
    then show ?thesis
    proof (rule handleAuthorizationCodeProfile_ok [OF _ st(3)])
      fix f rec t w1
      assume f: "request_form r = Some f" "run now w = (t, w1)"
        "val_of (ConsumeAuthorizationCode (values_Get f ''code'') t) w1 = Inr rec"
        and w': "w' = world_of (audit ''authorization_code_profile_returned'' [] (ac_Me rec) (ac_ClientID rec))
          (world_of (ConsumeAuthorizationCode (values_Get f ''code'') t) w1)"
      from f(1) form have "f = form" by simp
      with f have "inv (spent ?h) (undrawn ?h) (world_of (ConsumeAuthorizationCode (values_Get f ''code'') t) w1)"
        using consumed [of t w1 rec] by blast
      then show ?thesis unfolding w' using keepsD [OF keeps(2)] by blast
    qed
  qed
qed

lemma exchange_of_spent:
  assumes "spent (HashToken (values_Get form ''code'')) (db w)" "step s w ev rsp w'" "exchange_of ev r"
    and "request_form r = Some form"
  shows "rsp_Status rsp = 400"
proof -
  have f: "ParseForm defaultMaxMemory r = Inr form"
    using assms(4) by (auto simp: request_form_def split: sum.splits)
  have c: "\<exists>e w2. run (ConsumeAuthorizationCode (values_Get form ''code'') t) v = (Inl e, w2)" if "db v = db w" for t v
  proof (cases "run (ConsumeAuthorizationCode (values_Get form ''code'') t) v")
    case (Pair x w2)
    with spent_not_consumed [of "values_Get form ''code''" v t] assms(1) that show ?thesis
      by (cases x) auto
  qed
  have "run (handle s ev) w = (rsp, w')" using assms(2) by (simp add: step_iff)
  then show ?thesis
    using assms(3) c [of "w\<lparr>ticks := Suc (ticks w)\<rparr>" "clock w (ticks w)"]
    by (auto simp: exchange_of_def handleToken_def handleAuthorizationCodeProfile_def Let_def f split: if_splits
        dest: reject_400)
qed

end
