(* ===== verification/Exchange.thy ===== *)
theory Exchange
  imports FlowInvariants
begin

text \<open>
  What an exchange of a code checks and does, in both directions: the row a successful exchange has
  found, and the response to a request for a row that is redeemable.
\<close>

text \<open>What makes a code redeemable for the form of a request at a time.\<close>

definition redeemable :: "url_values \<Rightarrow> time \<Rightarrow> database \<Rightarrow> code_row \<Rightarrow> bool" where
  "redeemable form t d c \<longleftrightarrow> values_Get form ''code'' \<noteq> [] \<and>
     List.find (\<lambda>c. c_code_hash c = HashToken (values_Get form ''code'')) (authorization_codes d) = Some c \<and>
     c_used_at c = None \<and> Unix t < c_expires_at c \<and>
     c_client_id c = values_Get form ''client_id'' \<and> c_redirect_uri c = values_Get form ''redirect_uri'' \<and>
     (c_code_challenge c \<noteq> [] \<longrightarrow> VerifyPKCES256 (values_Get form ''code_verifier'') (c_code_challenge c))"

lemma scan_code_simps [simp]:
  "ac_ClientID (scanAuthorizationCode c) = c_client_id c" "ac_RedirectURI (scanAuthorizationCode c) = c_redirect_uri c"
  "ac_CodeChallenge (scanAuthorizationCode c) = c_code_challenge c" "ac_Me (scanAuthorizationCode c) = c_me c"
  "ac_Scope (scanAuthorizationCode c) = c_scope c" "ac_ProfileJSON (scanAuthorizationCode c) = c_profile_json c"
  by (simp_all add: scanAuthorizationCode_def)

lemma consume_redeemable:
  assumes "redeemable form t (db w) c" "healthy w" "unique_keys (db w)"
  shows "val_of (ConsumeAuthorizationCode (values_Get form ''code'') t) w = Inr (scanAuthorizationCode c)"
  using assms unique_code_one [OF assms(3)] less_time_Unix_iff
  by (auto simp: redeemable_def ConsumeAuthorizationCode_healthy)

lemma request_form_parse: "request_form r = Some form \<longleftrightarrow> ParseForm defaultMaxMemory r = Inr form"
  by (auto simp: request_form_def split: sum.splits)

lemma profile_exchange:
  assumes "request_form r = Some form" "redeemable form (clock w (ticks w)) (db w) c" "healthy w" "unique_keys (db w)"
  shows "val_of (handleAuthorizationCodeProfile r) w = profile_response (scanAuthorizationCode c)"
proof -
  let ?w1 = "w\<lparr>ticks := Suc (ticks w)\<rparr>"
  have "val_of (ConsumeAuthorizationCode (values_Get form ''code'') (clock w (ticks w))) ?w1 = Inr (scanAuthorizationCode c)"
    by (rule consume_redeemable) (use assms in \<open>simp_all add: healthy_def\<close>)
  then obtain w2 where "run (ConsumeAuthorizationCode (values_Get form ''code'') (clock w (ticks w))) ?w1 = (Inr (scanAuthorizationCode c), w2)"
    by (metis prod.collapse)
  with assms show ?thesis
    by (auto simp: handleAuthorizationCodeProfile_def request_form_parse Let_def redeemable_def case_prod_beta)
qed

lemma audit_tables [simp]:
  "access_tokens (db (world_of (audit e su me c) w)) = access_tokens (db w)"
  "authorization_codes (db (world_of (audit e su me c) w)) = authorization_codes (db w)"
  "consent_requests (db (world_of (audit e su me c) w)) = consent_requests (db w)"
  "auth_requests (db (world_of (audit e su me c) w)) = auth_requests (db w)"
  "managed_profiles (db (world_of (audit e su me c) w)) = managed_profiles (db w)"
  by (auto simp: audit_def CreateAuditEvent_def run_statements case_prod_beta split: option.splits)

lemma token_issue:
  assumes "healthy w" "entropy w (draws w) = Some f"
    and tok: "token = RawURLEncode (List.map f [0..<tokenBytes])"
    and "\<forall>x \<in> set (access_tokens (db w)). t_token_hash x \<noteq> HashToken token"
  shows "val_of (issue_token s rec) w = token_response rec token \<and>
    access_tokens (db (world_of (issue_token s rec) w)) =
      access_tokens (db w) @ [token_row_of token (token_of_code rec (clock w (ticks w)) (AccessTokenTTL (Security (cfg s))))] \<and>
    authorization_codes (db (world_of (issue_token s rec) w)) = authorization_codes (db w)"
proof -
  have r: "run RandomToken w = (Inr token, w\<lparr>draws := Suc (draws w)\<rparr>)"
    using assms(2) tok by (simp add: RandomToken_def)
  show ?thesis
    using assms(1,4) 
    by (auto simp: issue_token_def r CreateAccessToken_def run_sql_insert healthy_def case_prod_beta simp del: run_rand_Read)
qed

lemma token_exchange:
  assumes "request_form r = Some form" "values_Get form ''grant_type'' = ''authorization_code''"
    and "redeemable form (clock w (ticks w)) (db w) c" "healthy w" "unique_keys (db w)"
    and "RequirePKCE (Security (cfg s)) \<Longrightarrow> c_code_challenge c \<noteq> []"
  shows "run (handleToken s r) w = run (issue_token s (scanAuthorizationCode c))
    (world_of (ConsumeAuthorizationCode (values_Get form ''code'') (clock w (ticks w))) (w\<lparr>ticks := Suc (ticks w)\<rparr>))"
proof -
  let ?w1 = "w\<lparr>ticks := Suc (ticks w)\<rparr>"
  have "val_of (ConsumeAuthorizationCode (values_Get form ''code'') (clock w (ticks w))) ?w1 = Inr (scanAuthorizationCode c)"
    by (rule consume_redeemable) (use assms in \<open>simp_all add: healthy_def\<close>)
  then obtain w2 where "run (ConsumeAuthorizationCode (values_Get form ''code'') (clock w (ticks w))) ?w1 = (Inr (scanAuthorizationCode c), w2)"
    by (metis prod.collapse)
  with assms show ?thesis
    by (auto simp: handleToken_def request_form_parse Let_def redeemable_def case_prod_beta)
qed

lemma issue_token_ok:
  assumes "run (issue_token s rec) w = (rsp, w')" "rsp_Status rsp = 200"
  shows "\<exists>token. rsp = token_response rec token \<and>
    access_tokens (db w') = access_tokens (db w) @
      [token_row_of token (token_of_code rec (clock w (ticks w)) (AccessTokenTTL (Security (cfg s))))] \<and>
    authorization_codes (db w') = authorization_codes (db w)"
  using assms
  by (auto simp: issue_token_def RandomToken_def CreateAccessToken_def run_sql_insert case_prod_beta
      split: option.splits sum.splits if_splits)

lemma token_exchange_response:
  assumes "request_form r = Some form" "values_Get form ''grant_type'' = ''authorization_code''"
    and "redeemable form (clock w (ticks w)) (db w) c" "healthy w" "unique_keys (db w)"
    and "RequirePKCE (Security (cfg s)) \<longrightarrow> c_code_challenge c \<noteq> []"
    and "entropy w (draws w) = Some f" "token = RawURLEncode (List.map f [0..<tokenBytes])"
    and "\<forall>x \<in> set (access_tokens (db w)). t_token_hash x \<noteq> HashToken token"
  shows "val_of (handle s (Token r)) w = token_response (scanAuthorizationCode c) token"
proof -
  let ?w = "world_of (ConsumeAuthorizationCode (values_Get form ''code'') (clock w (ticks w))) (w\<lparr>ticks := Suc (ticks w)\<rparr>)"
  have "access_tokens (db ?w) = access_tokens (db w)"
    by (auto simp: ConsumeAuthorizationCode_def consume_body_def use_code_def transaction_def run_statements
      split: option.splits)
  with assms(4,7-9) have "val_of (issue_token s (scanAuthorizationCode c)) ?w = token_response (scanAuthorizationCode c) token"
    by (intro token_issue [THEN conjunct1]) (simp_all add: healthy_def)
  with assms(6) show ?thesis
    by (simp add: token_exchange [OF assms(1-5)])
qed

lemma response_status [simp]:
  "rsp_Status (token_response rec token) = 200" "rsp_Status (profile_response rec) = 200"
  by (simp_all add: token_response_def profile_response_def)

end
