(* ===== verification/CodeTickets.thy ===== *)
theory CodeTickets
  imports ConcurrentLaws Exchange
begin

text \<open>
  The two instances of the contract of the processes: every invariant of the tables is one, without tickets;
  and the account of a code.  In that account a ticket is the right to store or to have redeemed the
  code, and the tickets, the unused rows of the code and the draws still to come that give it are never more
  than they were at the start.
\<close>

section \<open>Invariants of the tables\<close>

context flow
begin

lemma cleanup_statement: "f \<in> set (cleanup_statements u) \<Longrightarrow> keeps (inv J E) (sql_exec f) anything"
  by (rule tables.keeps_sql_exec)
    (auto simp: cleanup_statements_def inv_def filter_auth filter_consent filter_code filter_token)

lemmas flow_contract = machine.server_contract_axioms

end

sublocale flow \<subseteq> concurrent: concurrent_contract "\<lambda>_. inv J E" "\<lambda>_. tok" "\<lambda>_ _. True" okA okC okK okT s wf_state
  by (rule concurrent_of_sequential [OF flow_contract cleanup_statement])

context flow
begin

text \<open>An invariant of the tables holds under every interleaving.\<close>

lemma concurrent_inv:
  assumes "concurrently s ([], w0) (ts, w)" "inv J E w0" shows "inv J E w"
  using assms by (rule pool_invariant [where I = "inv J E"]) (rule concurrent.covers_process_of)

end

section \<open>The account of a code\<close>

text \<open>The draws from the \<open>n\<close>-th on that give a token with this hash, and the unused rows with this hash.\<close>

definition code_draws :: "string \<Rightarrow> (nat \<Rightarrow> (nat \<Rightarrow> char) option) \<Rightarrow> nat \<Rightarrow> nat set" where
  "code_draws h en n = {m. n \<le> m \<and> (\<exists>f. en m = Some f \<and> HashToken (RawURLEncode (List.map f [0..<tokenBytes])) = h)}"

definition unspent :: "string \<Rightarrow> database \<Rightarrow> nat" where
  "unspent h d = length (filter (unused h) (authorization_codes d))"

definition account :: "string \<Rightarrow> nat \<Rightarrow> nat \<Rightarrow> 'w store_world_scheme \<Rightarrow> bool" where
  "account h N n w \<longleftrightarrow> finite (code_draws h (entropy w) (draws w)) \<and>
     unspent h (db w) + card (code_draws h (entropy w) (draws w)) + n \<le> N"

lemma code_draws_antimono: "n \<le> m \<Longrightarrow> code_draws h en m \<subseteq> code_draws h en n"
  by (auto simp: code_draws_def)

lemma code_draws_Suc:
  "code_draws h en n = (if \<exists>f. en n = Some f \<and> HashToken (RawURLEncode (List.map f [0..<tokenBytes])) = h
     then insert n (code_draws h en (Suc n)) else code_draws h en (Suc n))"
  by (auto simp: code_draws_def Suc_le_eq dest: le_imp_less_or_eq)

lemma account_mono:
  assumes "account h N n w" "entropy w' = entropy w" "draws w \<le> draws w'" "unspent h (db w') \<le> unspent h (db w)"
  shows "account h N n w'"
proof -
  have "code_draws h (entropy w') (draws w') \<subseteq> code_draws h (entropy w) (draws w)"
    using assms(2,3) by (simp add: code_draws_antimono)
  with assms(1) have "finite (code_draws h (entropy w') (draws w'))"
    "card (code_draws h (entropy w') (draws w')) \<le> card (code_draws h (entropy w) (draws w))"
    by (auto simp: account_def intro: finite_subset card_mono)
  with assms(1,4) show ?thesis by (auto simp: account_def)
qed

lemma account_same:
  "account h N n w \<Longrightarrow> entropy w' = entropy w \<Longrightarrow> draws w \<le> draws w' \<Longrightarrow>
   authorization_codes (db w') = authorization_codes (db w) \<Longrightarrow> account h N n w'"
  by (erule account_mono) (simp_all add: unspent_def)

lemma keeps_account:
  assumes "\<And>w. entropy (world_of m w) = entropy w \<and> draws w \<le> draws (world_of m w) \<and>
      unspent h (db (world_of m w)) \<le> unspent h (db w)"
  shows "keeps (account h N n) m anything"
  using assms by (auto simp: keeps_def intro: account_mono)

lemma unspent_filter: "unspent h (authorization_codes_update (filter P) d) \<le> unspent h d"
proof -
  have "length (filter (unused h) (filter P cs)) \<le> length (filter (unused h) cs)" for cs
    by (induction cs) auto
  then show ?thesis by (simp add: unspent_def)
qed

lemma account_cleanup: "f \<in> set (cleanup_statements u) \<Longrightarrow> unspent h (f d) \<le> unspent h d"
  by (auto simp: cleanup_statements_def intro: unspent_filter) (simp_all add: unspent_def)

lemma on_ok_anything [simp]: "on_ok anything = anything"
  by (auto simp: on_ok_def split: sum.splits)

lemma keeps_account_same:
  assumes "\<And>w. entropy (world_of m w) = entropy w \<and> draws w \<le> draws (world_of m w) \<and>
    authorization_codes (db (world_of m w)) = authorization_codes (db w)"
  shows "keeps (account h N n) m anything"
  by (rule keeps_account) (use assms in \<open>auto simp: unspent_def\<close>)

lemma account_calls:
  assumes "server_ok s"
  shows "quiet_calls (account h N n) anything anything anything s wf_state"
proof
  show "account h N n (w\<lparr>ticks := Suc (ticks w)\<rparr>)" "account h N n (w\<lparr>db_ops := Suc (db_ops w)\<rparr>)"
    "account h N n (w\<lparr>lookups := Suc (lookups w)\<rparr>)" "account h N n (w\<lparr>exchanges := Suc (exchanges w)\<rparr>)"
    "account h N n (w\<lparr>dialled := dialled w @ [ip]\<rparr>)" if "account h N n w" for w :: "'a store_world_scheme" and ip
    by (rule account_same [OF that]; simp)+
  show "keeps (account h N n) (sql_exec f) anything" if "f \<in> set (cleanup_statements u)" for f u
    by (rule keeps_account) (auto simp: run_sql_exec account_cleanup [OF that] split: option.splits)
  show "keeps (account h N n) (BeginAuth be r) (on_ok (\<lambda>(u, bs). wf_state bs))"
    "keeps (account h N n) (CompleteAuth be q bs) anything" if "(m, be) \<in> set (backends s)" for m be r q bs
    by (rule login_backend.keeps_BeginAuth [OF server_ok_backend [OF assms that]]
        login_backend.keeps_CompleteAuth [OF server_ok_backend [OF assms that]]; erule account_same; simp)+
qed (auto intro!: keeps_account_same simp: on_ok_def run_statements RandomToken_def Seal_def CreateAuthRequest_def
    GetAuthRequestByBackendState_def DeleteAuthRequest_def GetAccessToken_def RevokeAccessToken_def
    CreateConsentRequest_def GetConsentRequest_def DeleteConsentRequest_def CreateManagedProfile_def insert_profile_def
    GetManagedProfileByHandle_def GetManagedProfileByIdentity_def UpdateManagedProfile_def CreateAuditEvent_def
    case_prod_beta split: option.splits sum.splits if_splits)

text \<open>A token that is the code can be stored, and a code redeemed, by who holds a ticket.\<close>

definition may_store :: "string \<Rightarrow> nat \<Rightarrow> string \<Rightarrow> bool" where
  "may_store h b token \<longleftrightarrow> (HashToken token = h \<longrightarrow> 0 < b)"

definition redeemed :: "string \<Rightarrow> string \<Rightarrow> nat \<Rightarrow> bool" where
  "redeemed h code b \<longleftrightarrow> (HashToken code = h \<longrightarrow> 0 < b)"

lemma account_draw: "carries (account h N) 0 RandomToken (on_ok2 (\<lambda>t b. may_store h b t))"
  unfolding carries_def
proof (intro allI impI)
  fix c and w :: "'a store_world_scheme"
  let ?w = "w\<lparr>draws := Suc (draws w)\<rparr>" and ?D = "code_draws h (entropy w)"
  assume "account h N (0 + c) w"
  then have acc: "account h N c w" by simp
  then have same: "account h N c ?w" by (rule account_same) simp_all
  show "\<exists>b'. account h N (b' + c) (world_of RandomToken w) \<and> on_ok (\<lambda>t. may_store h b' t) (val_of RandomToken w)"
  proof (cases "entropy w (draws w)")
    case None
    with same show ?thesis by (intro exI [of _ 0]) (simp add: RandomToken_def)
  next
    case (Some f)
    show ?thesis
    proof (cases "HashToken (RawURLEncode (List.map f [0..<tokenBytes])) = h")
      case True
      with Some have "?D (draws w) = insert (draws w) (?D (Suc (draws w)))" by (subst code_draws_Suc) simp
      moreover have "draws w \<notin> ?D (Suc (draws w))" by (simp add: code_draws_def)
      ultimately have "account h N (1 + c) ?w" using acc by (auto simp: account_def)
      with Some show ?thesis by (intro exI [of _ 1]) (simp add: RandomToken_def may_store_def)
    next
      case False
      with Some same show ?thesis by (intro exI [of _ 0]) (simp add: RandomToken_def may_store_def)
    qed
  qed
qed

lemma account_store:
  assumes "may_store h b code"
  shows "carries (account h N) b (CreateAuthorizationCode code rec) anything2"
  unfolding carries_def
proof (intro allI impI)
  fix c and w :: "'a store_world_scheme"
  let ?w = "world_of (CreateAuthorizationCode code rec) w"
  assume acc: "account h N (b + c) w"
  have w: "entropy ?w = entropy w" "draws ?w = draws w"
    "unspent h (db ?w) \<le> unspent h (db w) + (if HashToken code = h then 1 else 0)"
    by (auto simp: CreateAuthorizationCode_def run_sql_insert unspent_def unused_def code_row_of_def split: option.splits)
  with acc assms have "account h N ((if HashToken code = h then b - 1 else b) + c) ?w"
    by (auto simp: account_def may_store_def)
  then show "\<exists>b'. account h N (b' + c) ?w \<and> True" by blast
qed

lemma unspent_use:
  "unspent h (use_db h t d) = 0" "h' \<noteq> h \<Longrightarrow> unspent h (use_db h' t d) = unspent h d"
proof -
  show "unspent h (use_db h t d) = 0"
    using use_db_spent [of h t d] by (auto simp: spent_def unspent_def unused_def filter_None_not_in)
  assume "h' \<noteq> h"
  then have "unused h (mark_used h' u c) = unused h c" for u c by (auto simp: mark_used_def unused_def)
  then show "unspent h (use_db h' t d) = unspent h d"
    by (simp add: unspent_def use_db_def filter_map comp_def)
qed

lemma account_take: "carries (account h N) 0 (ConsumeAuthorizationCode code t) (on_ok2 (\<lambda>rec b. True \<and> redeemed h code b))"
  unfolding carries_def
proof (intro allI impI)
  fix c and w :: "'a store_world_scheme"
  let ?w = "world_of (ConsumeAuthorizationCode code t) w" and ?r = "val_of (ConsumeAuthorizationCode code t) w"
  assume "account h N (0 + c) w"
  then have acc: "account h N c w" by simp
  show "\<exists>b'. account h N (b' + c) ?w \<and> on_ok (\<lambda>rec. True \<and> redeemed h code b') ?r"
  proof (cases ?r)
    case (Inl e)
    then have "account h N c ?w" using acc by (intro account_same [OF acc]) (simp_all add: ConsumeAuthorizationCode_failed)
    with Inl show ?thesis by (intro exI [of _ 0]) simp
  next
    case (Inr rec)
    then have d: "db ?w = use_db (HashToken code) t (db w)" and one: "unspent (HashToken code) (db w) = 1"
      by (auto elim: ConsumeAuthorizationCode_ok simp: unspent_def)
    show ?thesis
    proof (cases "HashToken code = h")
      case True
      with d one acc have "account h N (1 + c) ?w" by (simp add: account_def unspent_use)
      with Inr show ?thesis by (intro exI [of _ 1]) (simp add: redeemed_def)
    next
      case False
      with d have "account h N c ?w" by (intro account_mono [OF acc]) (simp_all add: unspent_use)
      with Inr False show ?thesis by (intro exI [of _ 0]) (simp add: redeemed_def)
    qed
  qed
qed

lemma code_account:
  assumes "server_ok s"
  shows "concurrent_contract (account h N) (may_store h) (redeemed h) anything anything anything anything s wf_state"
proof (intro concurrent_contract.intro account_calls [OF assms] account_draw account_store)
  show "carries (account h N) 0 (ConsumeAuthorizationCode code t) (on_ok2 (\<lambda>rec b. True \<and> redeemed h code b))" for code t
    by (rule account_take)
  show "carries (account h N) b (CreateAccessToken token trec) anything2" for b token trec
    by (rule carries_weaken [OF carries_keeps [OF keeps_account_same]])
      (auto simp: CreateAccessToken_def run_sql_insert split: option.splits)
qed (simp_all add: redeemed_def)

interpretation code_account: concurrent_contract "account h N" "may_store h" "redeemed h" anything anything anything anything
    "answering_server p k v u c U" wf_state for h N p k v u c U
  by (rule code_account) (rule answering_server_ok)

text \<open>Every successful exchange of the code accounts for one ticket.\<close>

definition exchanged_code :: "event \<Rightarrow> string option" where
  "exchanged_code ev = (case ev of
       Token r \<Rightarrow> map_option (\<lambda>form. values_Get form ''code'') (request_form r)
     | CodeProfile r \<Rightarrow> map_option (\<lambda>form. values_Get form ''code'') (request_form r)
     | _ \<Rightarrow> None)"

definition redeems :: "string \<Rightarrow> event \<times> ('w, http_response) process \<Rightarrow> bool" where
  "redeems code t \<longleftrightarrow> (case t of
       (ev, Finish rsp) \<Rightarrow> exchanged_code ev = Some code \<and> rsp_Status rsp = 200
     | _ \<Rightarrow> False)"

definition redemptions :: "string \<Rightarrow> ('w, event, http_response) pool \<Rightarrow> nat" where
  "redemptions code ts = length (filter (redeems code) ts)"

lemma redeems_paid:
  assumes "server_ok s" "redeems code (ev, p)"
    and "covers I (concurrent_contract.settled (redeemed (HashToken code)) ev) p b"
  shows "0 < b"
  using assms(2,3)
  by (cases p; cases ev)
    (auto simp: redeems_def exchanged_code_def concurrent_contract.settled_def [OF code_account [OF assms(1)]]
      concurrent_contract.paid_def [OF code_account [OF assms(1)]] redeemed_def request_form_parse exchange_of_def)

lemma redemptions_paid:
  assumes "server_ok s"
    and "list_all2 (\<lambda>(e, p) b. covers I (concurrent_contract.settled (redeemed (HashToken code)) e) p b) ts bs"
  shows "redemptions code ts \<le> sum_list bs"
  using assms(2)
proof (induction ts bs rule: list_all2_induct)
  case (Cons t ts b bs)
  obtain e p where "t = (e, p)" by (cases t)
  with Cons redeems_paid [OF assms(1), of code e p I b] show ?case by (auto simp: redemptions_def)
qed (simp add: redemptions_def)

lemma redemptions_bounded:
  assumes "server_ok s" "concurrently s ([], w0) (ts, w)" "account (HashToken code) N 0 w0"
  shows "redemptions code ts \<le> N"
proof -
  let ?h = "HashToken code"
  obtain bs where "balanced (account ?h N) (\<lambda>_. concurrent_contract.settled (redeemed ?h)) bs (ts, w)"
    using concurrent_contract.concurrently_balanced [OF code_account [OF assms(1), where h = ?h and N = N] assms(2), of "[]"]
      assms(3) by (auto simp: balanced_start)
  moreover from this have "redemptions code ts \<le> sum_list bs"
    by (intro redemptions_paid [OF assms(1)]) (auto simp: balanced_def list_all2_conv_all_nth case_prod_beta)
  ultimately show ?thesis by (simp add: balanced_def account_def)
qed

end
