(* ===== verification/TokenStatus.thy ===== *)
theory TokenStatus
  imports Exchange
begin

text \<open>
  The status of an access token as the introspection endpoint reports it, and the effect of the
  revocation endpoint on it.
\<close>

definition token_answer :: "string \<Rightarrow> time \<Rightarrow> database \<Rightarrow> http_response" where
  "token_answer token t d =
     (case List.find (\<lambda>r. t_token_hash r = HashToken token) (access_tokens d) of
        None \<Rightarrow> inactive_response
      | Some row \<Rightarrow> if t_revoked_at row = None \<and> Unix t < t_expires_at row
          then active_response (scanAccessToken row) else inactive_response)"

lemma introspect_answer:
  assumes "request_form r = Some form" "values_Get form ''token'' \<noteq> []" "healthy w"
  shows "val_of (handleIntrospect r) w = token_answer (values_Get form ''token'') (clock w (ticks w)) (db w)"
  using assms
  by (auto simp: handleIntrospect_def request_form_parse GetAccessToken_def run_sql_query token_answer_def less_time_Unix_iff
      split: option.splits)

lemma introspect_revoked:
  assumes "request_form r = Some form" "values_Get form ''token'' \<noteq> []" "revoked (HashToken (values_Get form ''token'')) (db w)"
  shows "val_of (handleIntrospect r) w = inactive_response"
  using assms revoked_no_token [OF assms(3)]
  by (auto simp: handleIntrospect_def request_form_parse GetAccessToken_def run_sql_query case_prod_beta
      split: option.splits sum.splits)

lemma revoke_form:
  assumes "run (handleRevoke r) w = (rsp, w')" "rsp_Status rsp = 200"
  obtains form where "request_form r = Some form" "values_Get form ''token'' \<noteq> []"
  using assms by (cases "ParseForm defaultMaxMemory r") (auto simp: handleRevoke_def request_form_parse split: if_splits)

text \<open>The world in which the handler runs the update that revokes.\<close>

definition before_revocation :: "string \<Rightarrow> ('a store_world_scheme, unit) state" where
  "before_revocation token = do {
     t \<leftarrow> now;
     x \<leftarrow> GetAccessToken token t;
     (case x of
        Inl e \<Rightarrow> return ()
      | Inr rec \<Rightarrow> audit ''access_token_revoked'' [] (at_Me rec) (at_ClientID rec))
   }"

lemma handleRevoke_split:
  assumes "request_form r = Some form" "values_Get form ''token'' \<noteq> []"
  shows "run (handleRevoke r) w = (reply no_store 200 NoBody,
    world_of (do { t2 \<leftarrow> now; RevokeAccessToken (values_Get form ''token'') t2 })
      (world_of (before_revocation (values_Get form ''token'')) w))"
  using assms by (simp add: handleRevoke_def request_form_parse before_revocation_def case_prod_beta)

lemma before_revocation_world [simp]:
  "access_tokens (db (world_of (before_revocation token) w)) = access_tokens (db w)"
  "faults (world_of (before_revocation token) w) = faults w"
  "entropy (world_of (before_revocation token) w) = entropy w"
  "draws (world_of (before_revocation token) w) = draws w"
  by (auto simp: before_revocation_def GetAccessToken_def run_sql_query audit_def CreateAuditEvent_def run_sql_exec
      case_prod_beta split: option.splits sum.splits)

lemma handleRevoke_revokes:
  assumes "run (handleRevoke r) w = (rsp, w')" "rsp_Status rsp = 200" "request_form r = Some form" "healthy w"
    and "undrawn h (entropy w) (draws w)" "h = HashToken (values_Get form ''token'')"
  shows "inv (revoked h) (undrawn h) w'"
proof -
  obtain f where "request_form r = Some f" "values_Get f ''token'' \<noteq> []" using assms(1,2) by (rule revoke_form)
  with assms(3) have ne: "values_Get form ''token'' \<noteq> []" by simp
  show ?thesis
    using assms handleRevoke_split [OF assms(3) ne, of w]
    by (auto simp: RevokeAccessToken_def run_sql_exec healthy_def inv_def revoked_def revoke_row_def)
qed

end
