(* ===== verification/ConcurrentRevocation.thy ===== *)
theory ConcurrentRevocation
  imports CodeTickets TokenStatus
begin

text \<open>
  The account of a revoked token.  A ticket is the knowledge that the token has been revoked: a revocation
  that has ended holds one, and every introspection that starts afterwards is given one.
\<close>

section \<open>Conjunctions of contracts\<close>

lemma keeps_both: "keeps I m P \<Longrightarrow> keeps J m anything \<Longrightarrow> keeps (\<lambda>w. I w \<and> J w) m P"
  by (simp add: keeps_def)

lemma store_both:
  assumes "store_contract I tok okA okC okK okT" "store_contract J anything anything anything anything anything"
  shows "store_contract (\<lambda>w. I w \<and> J w) tok okA okC okK okT"
  using assms unfolding store_contract_def store_contract_axioms_def store_invariant_def
  by (simp add: keeps_both) 

lemma server_both:
  assumes I: "server_contract I tok okA okC okK okT s okB"
    and J: "server_contract J anything anything anything anything anything s okB"
  shows "server_contract (\<lambda>w. I w \<and> J w) tok okA okC okK okT s okB"
proof (intro server_contract.intro store_both server_contract.axioms(1) [OF I] server_contract.axioms(1) [OF J])
  show "network_invariant (\<lambda>w. I w \<and> J w) anything"
    using server_contract.axioms(2) [OF I] server_contract.axioms(2) [OF J] by (simp add: network_invariant_def)
  have "keeps (\<lambda>w. I w \<and> J w) (BeginAuth be breq) (on_ok (\<lambda>(u, bs). okB bs))" if "(n, be) \<in> set (backends s)" for n be breq
    by (rule keeps_both [OF server_contract.begin_auth [OF I that] keeps_any [OF server_contract.begin_auth [OF J that]]])
  then show "server_contract_axioms (\<lambda>w. I w \<and> J w) okA okC okK okT s okB"
    using server_contract.axioms(3) [OF I] server_contract.axioms(3) [OF J]
    unfolding server_contract_axioms_def by (simp add: keeps_both)
qed

section \<open>The account\<close>

definition revocation :: "string \<Rightarrow> nat \<Rightarrow> 'w store_world_scheme \<Rightarrow> bool" where
  "revocation h n w \<longleftrightarrow> inv (\<lambda>d. 0 < n \<longrightarrow> revoked h d) (undrawn h) w \<and> faults w = (\<lambda>_. None)"

lemma known_flow:
  assumes "server_ok s"
  shows "flow (\<lambda>d. k \<longrightarrow> revoked h d) (undrawn h) (\<lambda>t. HashToken t \<noteq> h) anything anything anything anything s"
  by unfold_locales
    (use assms in \<open>auto simp: revoked_def token_row_of_def revoke_row_def insert_profile_def
      intro: server_ok_parts undrawn_Suc dest: undrawn_token split: if_splits\<close>)

lemma revocation_split:
  "revocation h n = (\<lambda>w. inv (\<lambda>d. 0 < n \<longrightarrow> revoked h d) (undrawn h) w \<and> faults w = (\<lambda>_. None))"
  by (simp add: revocation_def [abs_def])

lemma known_contract:
  assumes "server_ok s"
  shows "concurrent_contract (revocation h) (\<lambda>_ t. HashToken t \<noteq> h) (\<lambda>_ _. True) anything anything anything anything s wf_state"
proof (rule concurrent_of_sequential)
  show "server_contract (revocation h n) (\<lambda>t. HashToken t \<noteq> h) anything anything anything anything s wf_state" for n
    unfolding revocation_split
    by (rule server_both [OF flow.flow_contract [OF known_flow [OF assms]] faults_contract [OF assms]])
  show "keeps (revocation h n) (sql_exec f) anything" if "f \<in> set (cleanup_statements u)" for n f u
    unfolding revocation_split
    by (rule keeps_both [OF flow.cleanup_statement [OF known_flow [OF assms] that]])
      (auto simp: keeps_def run_sql_exec split: option.splits)
qed

section \<open>Revocations and introspections\<close>

text \<open>A revocation of the token that has ended holds a ticket.\<close>

definition told :: "string \<Rightarrow> event \<Rightarrow> http_response \<Rightarrow> nat \<Rightarrow> bool" where
  "told token ev rsp b \<longleftrightarrow> (\<forall>r form. ev = Revoke r \<and> request_form r = Some form \<and> values_Get form ''token'' = token \<and>
     rsp_Status rsp = 200 \<longrightarrow> token \<noteq> [] \<and> 0 < b)"

lemma RevokeAccessToken_known:
  "carries (revocation (HashToken token)) b (RevokeAccessToken token t) (\<lambda>_ b'. 0 < b')"
  unfolding carries_def
  by (intro allI impI exI [of _ 1])
    (auto simp: RevokeAccessToken_def run_sql_exec revocation_def inv_def revoked_def revoke_row_def)

lemma covers_revoke_known:
  assumes "server_ok s"
  shows "covers (revocation (HashToken token)) (told token (Revoke r)) (process_of s (Revoke r)) b"
proof (cases "\<exists>form. ParseForm defaultMaxMemory r = Inr form \<and> values_Get form ''token'' = token")
  case True
  then obtain form where form: "ParseForm defaultMaxMemory r = Inr form" "values_Get form ''token'' = token" by blast
  note contract = known_contract [OF assms, of "HashToken token"]
  show ?thesis
  proof (cases "token = []")
    case True
    then show ?thesis by (simp add: handleRevoke_process_def form told_def)
  next
    case False
    show ?thesis
      unfolding process_of.simps handleRevoke_process_def form sum.case if_not_P [OF False]
      by (rule concurrent_contract.covers_now [OF contract]
          concurrent_contract.covers_quiet [OF contract quiet_calls.calm_GetAccessToken [OF concurrent_contract.calls [OF contract]]]
          covers_andThen [where P = anything2] covers_case_sum concurrent_contract.covers_audit [OF contract] covers_Finish
          covers_call [OF RevokeAccessToken_known] TrueI)+
        (use False in \<open>simp add: told_def\<close>)
  qed
next
  case False
  then have "told token (Revoke r) rsp b'" for rsp b' by (auto simp: told_def request_form_parse)
  then show ?thesis
    by (intro covers_weaken [OF concurrent_contract.covers_process_of [OF known_contract [OF assms]]])
qed

lemma covers_known:
  assumes "server_ok s"
  shows "covers (revocation (HashToken token)) (told token ev) (process_of s ev) b"
proof (cases "\<exists>r. ev = Revoke r")
  case True
  then show ?thesis using covers_revoke_known [OF assms] by blast
next
  case False
  then have "told token ev rsp b'" for rsp b' by (auto simp: told_def)
  then show ?thesis
    by (intro covers_weaken [OF concurrent_contract.covers_process_of [OF known_contract [OF assms]]])
qed

text \<open>Once the token is known to be revoked, every process keeps it so, and introspection finds it inactive.\<close>

definition inactive_now :: "string \<Rightarrow> nat \<Rightarrow> 'w store_world_scheme \<Rightarrow> bool" where
  "inactive_now h n w \<longleftrightarrow> revocation h 1 w"

lemma revocation_positive: "0 < n \<Longrightarrow> revocation h n w \<longleftrightarrow> revocation h 1 w"
  by (simp add: revocation_def)

lemma covers_inactive:
  fixes p :: "('a store_world_scheme, 'b) process"
  shows "covers (revocation h) Q p b \<Longrightarrow> covers (inactive_now h) anything2 p 0"
proof (induction p arbitrary: b rule: process_induct)
  case (Act f)
  have "\<exists>b'. inactive_now h (b' + c) (snd (f w)) \<and> covers (inactive_now h) anything2 (fst (f w)) b'"
    if "inactive_now h (0 + c) w" for c w
  proof -
    from that have "revocation h (b + 1) w" by (subst revocation_positive) (simp_all add: inactive_now_def)
    with Act.prems obtain b' where "revocation h (b' + 1) (snd (f w))" "covers (revocation h) Q (fst (f w)) b'"
      unfolding covers_Act by blast
    moreover from this revocation_positive [of "b' + 1" h "snd (f w)"] have "inactive_now h (0 + c) (snd (f w))"
      by (simp add: inactive_now_def)
    ultimately show ?thesis using Act.IH by blast
  qed
  then show ?case unfolding covers_Act by blast
qed simp

lemma covers_introspect_inactive:
  fixes s :: "('a store_world_scheme) Server"
  assumes "server_ok s" "request_form r = Some form" "values_Get form ''token'' \<noteq> []"
  shows "covers (inactive_now (HashToken (values_Get form ''token''))) (\<lambda>rsp b'. rsp = inactive_response)
    (process_of s (Introspect r)) b"
proof -
  let ?h = "HashToken (values_Get form ''token'')"
  have now: "carries (inactive_now ?h) b now anything2" for b
    by (auto simp: carries_def inactive_now_def revocation_def inv_def)
  have get: "carries (inactive_now ?h) b
      (GetAccessToken (values_Get form ''token'') t :: ('a store_world_scheme, AccessToken stored) state) (\<lambda>x b'. isl x)" for b t
    unfolding carries_def
  proof (intro allI impI exI [of _ b] conjI)
    fix c and w :: "'a store_world_scheme"
    assume R: "inactive_now ?h (b + c) w"
    then show "inactive_now ?h (b + c) (world_of (GetAccessToken (values_Get form ''token'') t) w)"
      by (auto simp: GetAccessToken_def run_sql_query inactive_now_def revocation_def inv_def split: option.splits)
    have "\<exists>e. val_of (GetAccessToken (values_Get form ''token'') t) w = Inl e"
      using R revoked_no_token [of ?h "db w"]
      by (auto simp: GetAccessToken_def run_sql_query inactive_now_def revocation_def inv_def split: option.splits)
    then show "isl (val_of (GetAccessToken (values_Get form ''token'') t) w)" by auto
  qed
  show ?thesis
    using assms(2,3)
    by (auto simp: handleIntrospect_process_def request_form_parse split: sum.splits
        intro!: covers_call [OF now] covers_call [OF get])
qed

lemma revocation_final:
  assumes ok: "server_ok s" and start: "revocation (HashToken token) 0 w0"
    and run: "concurrently s ([], w0) (ts1, w1)"
    and ended: "i < length ts1" "ts1 ! i = (Revoke r, Finish rsp)" "rsp_Status rsp = 200"
      "request_form r = Some form" "values_Get form ''token'' = token"
    and later: "concurrently s (ts1 @ [(Introspect r2, process_of s (Introspect r2))], w1) (ts2, w2)"
    and answer: "ts2 ! length ts1 = (Introspect r2, Finish rsp2)"
      "request_form r2 = Some form2" "values_Get form2 ''token'' = token"
  shows "rsp2 = inactive_response"
proof -
  let ?I = "revocation (HashToken token)" and ?J = "inactive_now (HashToken token)"
  let ?R = "\<lambda>i ev rsp b. i = length ts1 \<and> ev = Introspect r2 \<longrightarrow> rsp = inactive_response"
  note known = covers_known [OF ok, of token]
  obtain bs where bs: "balanced ?I (\<lambda>_. told token) bs (ts1, w1)"
    using balanced_interleaved [OF run, of ?I "\<lambda>_. told token" "[]"] start known by (auto simp: balanced_start)
  have "told token (Revoke r) rsp (bs ! i)" by (rule balanced_finished [OF bs ended(1,2)])
  with ended have tok: "token \<noteq> []" "0 < bs ! i" by (auto simp: told_def)
  moreover have len: "length bs = length ts1" using bs by (simp add: balanced_def)
  ultimately have "0 < sum_list bs" using ended(1) elem_le_sum_list [of i bs] by simp
  with bs have J: "?J 0 w1" using revocation_positive [of "sum_list bs" _ w1] by (simp add: balanced_def inactive_now_def)
  have served: "covers ?J (?R i ev) (process_of s ev) 0" for i ev
  proof (cases "i = length ts1 \<and> ev = Introspect r2")
    case True
    with covers_introspect_inactive [OF ok answer(2)] answer(3) tok(1) show ?thesis by (auto elim: covers_weaken)
  next
    case False
    then show ?thesis by (intro covers_weaken [OF covers_inactive [OF known]]) blast
  qed
  have "balanced ?J ?R (replicate (length ts1) 0) (ts1, w1)"
    using bs len J by (auto simp: balanced_def sum_list_replicate intro!: covers_weaken [OF covers_inactive])
  then have "balanced ?J ?R (replicate (length ts1) 0 @ [0]) (ts1 @ [(Introspect r2, process_of s (Introspect r2))], w1)"
    by (rule balanced_arrival, intro served) (use J in \<open>simp add: sum_list_replicate\<close>)
  with later served obtain bs' where "balanced ?J ?R bs' (ts2, w2)" using balanced_interleaved by blast
  moreover have "length ts1 < length ts2" using interleaved_tasks [OF later] by simp
  ultimately show ?thesis using balanced_finished [OF _ _ answer(1)] by blast
qed

end
