(* ===== verification/Grants.thy ===== *)
theory Grants
  imports TokenStatus
begin

text \<open>
  What creates an authorization code or a consent request: the issue of a code, the decision on a
  consent request and the callback of a login.
\<close>

section \<open>Issuing a code\<close>

lemma RandomToken_world [simp]: "world_of RandomToken w = w\<lparr>draws := Suc (draws w)\<rparr>"
  by (auto simp: RandomToken_def split: option.splits)

lemma audit_faults [simp]: "faults (world_of (audit e su me c) w) = faults w"
  by (auto simp: audit_def CreateAuditEvent_def run_statements case_prod_beta split: option.splits)

lemma issueCode_faults [simp]: "faults (world_of (issueCodeAndRedirect s hs req) w) = faults w"
  by (auto simp: issueCodeAndRedirect_def CreateAuthorizationCode_def run_statements case_prod_beta
      split: sum.splits option.splits)

lemma issueCode_codes:
  "authorization_codes (db (world_of (issueCodeAndRedirect s hs req) w)) = authorization_codes (db w) \<or>
   (\<exists>code rsp. val_of RandomToken w = Inr code \<and>
     authorization_codes (db (world_of (issueCodeAndRedirect s hs req) w)) = authorization_codes (db w) @
       [code_row_of code (code_of_request req (clock w (ticks w)) (CodeTTL (Security (cfg s))))] \<and>
     (\<forall>c \<in> set (authorization_codes (db w)). c_code_hash c \<noteq> HashToken code))"
  by (auto simp: issueCodeAndRedirect_def case_prod_beta CreateAuthorizationCode_def run_sql_insert
      split: sum.splits option.splits if_splits)

section \<open>The decision on a consent request\<close>

text \<open>The identifier of the consent request a form names.\<close>

definition consent_id :: "url_values \<Rightarrow> http_request \<Rightarrow> string" where
  "consent_id form r = (if values_Get form ''id'' = [] then values_Get (request_query r) ''id'' else values_Get form ''id'')"

definition decidable :: "http_request \<Rightarrow> url_values \<Rightarrow> time \<Rightarrow> database \<Rightarrow> consent_row \<Rightarrow> bool" where
  "decidable r form t d row \<longleftrightarrow>
     List.find (\<lambda>x. r_id x = consent_id form r) (consent_requests d) = Some row \<and> Unix t < r_expires_at row"

lemma scan_consent_simps [simp]:
  "cr_ID (scanConsentRequest x) = r_id x" "cr_CSRFToken (scanConsentRequest x) = r_csrf_token x"
  by (simp_all add: scanConsentRequest_def)

lemma GetConsentRequest_ok:
  assumes "val_of (GetConsentRequest i t) w = Inr cr"
  obtains row where "List.find (\<lambda>x. r_id x = i) (consent_requests (db w)) = Some row"
    and "Unix t < r_expires_at row" and "cr = scanConsentRequest row"
  using assms
  by (auto simp: GetConsentRequest_def run_sql_query less_time_Unix_iff split: option.splits if_splits)

lemma GetConsentRequest_world [simp]:
  "world_of (GetConsentRequest i t) w = w\<lparr>db_ops := Suc (db_ops w)\<rparr>"
  by (auto simp: GetConsentRequest_def run_sql_query split: option.splits)

lemma handleConsentPost_split:
  assumes "run (handleConsentPost s r) w = (rsp, w')"
  shows "(\<exists>form row. request_form r = Some form \<and> decidable r form (clock w (ticks w)) (db w) row \<and>
      values_Get form ''csrf'' = r_csrf_token row \<and>
      run (do { rsp \<leftarrow> decide_consent s form (scanConsentRequest row); d \<leftarrow> DeleteConsentRequest (r_id row); return rsp })
        (w\<lparr>ticks := Suc (ticks w), db_ops := Suc (db_ops w)\<rparr>) = (rsp, w')) \<or>
    rsp_Status rsp = 400 \<and> consent_requests (db w') = consent_requests (db w) \<and>
      authorization_codes (db w') = authorization_codes (db w)"
proof (cases "ParseForm defaultMaxMemory r")
  case (Inl e)
  with assms show ?thesis by (auto simp: handleConsentPost_def)
next
  case (Inr form)
  let ?w1 = "w\<lparr>ticks := Suc (ticks w)\<rparr>" and ?t = "clock w (ticks w)"
  note h = assms [unfolded handleConsentPost_def Inr sum.case Let_def consent_id_def [symmetric]]
  show ?thesis
  proof (cases "val_of (GetConsentRequest (consent_id form r) ?t) ?w1")
    case (Inl e)
    with h show ?thesis by (auto simp: case_prod_beta)
  next
    case cr: (Inr cr)
    from cr obtain row where row: "decidable r form ?t (db w) row" "cr = scanConsentRequest row"
      by (rule GetConsentRequest_ok) (auto simp: decidable_def)
    show ?thesis
    proof (cases "values_Get form ''csrf'' = r_csrf_token row")
      case True
      with h cr row show ?thesis
        by (intro disjI1 exI [of _ form] exI [of _ row])
          (simp add: case_prod_beta request_form_parse Inr)
    next
      case False
      with h cr row show ?thesis
        by (auto simp add: case_prod_beta)
    qed
  qed
qed

lemma decide_codes:
  assumes "authorization_codes (db (world_of (decide_consent s form cr) w)) \<noteq> authorization_codes (db w)"
  shows "values_Get form ''decision'' = ''approve'' \<and> (\<exists>code. val_of RandomToken w = Inr code \<and>
     authorization_codes (db (world_of (decide_consent s form cr) w)) = authorization_codes (db w) @
       [code_row_of code (code_of_request (request_of_consent cr) (clock w (ticks w)) (CodeTTL (Security (cfg s))))])"
  using assms issueCode_codes [of s no_store "request_of_consent cr" w]
  by (auto simp: decide_consent_def case_prod_beta split: if_splits)

lemma DeleteConsent_tables [simp]:
  "authorization_codes (db (world_of (DeleteConsentRequest i) w)) = authorization_codes (db w)"
  "auth_requests (db (world_of (DeleteConsentRequest i) w)) = auth_requests (db w)"
  "access_tokens (db (world_of (DeleteConsentRequest i) w)) = access_tokens (db w)"
  by (auto simp: DeleteConsentRequest_def run_sql_exec split: option.splits)

lemma decide_faults [simp]: "faults (world_of (decide_consent s form cr) w) = faults w"
  by (simp add: decide_consent_def case_prod_beta)

lemma DeleteConsent_rows:
  "healthy w \<Longrightarrow> consent_requests (db (world_of (DeleteConsentRequest i) w)) = filter (\<lambda>r. r_id r \<noteq> i) (consent_requests (db w))"
  by (simp add: DeleteConsentRequest_def run_sql_exec)

section \<open>What leaves the grants alone\<close>

text \<open>The grants that are waiting: codes and consent requests.\<close>

definition grants :: "'a store_world_scheme \<Rightarrow> code_row list \<times> consent_row list" where
  "grants w = (authorization_codes (db w), consent_requests (db w))"

lemma grants_simps [simp]:
  "grants (w\<lparr>ticks := n\<rparr>) = grants w" "grants (w\<lparr>draws := n\<rparr>) = grants w" "grants (w\<lparr>db_ops := n\<rparr>) = grants w"
  by (simp_all add: grants_def)

lemma keeps_grants:
  "keeps (\<lambda>w. grants w = G) now anything"
  "keeps (\<lambda>w. grants w = G) (audit e su me c) anything"
  "keeps (\<lambda>w. grants w = G) (Seal k p) anything"
  "keeps (\<lambda>w. grants w = G) (GetManagedProfileByIdentity iss sub) anything"
  "keeps (\<lambda>w. grants w = G) (UpdateManagedProfile mp) anything"
  "keeps (\<lambda>w. grants w = G) (CreateManagedProfile U mp) anything"
  "keeps (\<lambda>w. grants w = G) (DeleteAuthRequest i) anything"
  "keeps (\<lambda>w. grants w = G) (GetAuthRequestByBackendState U b st) anything"
  by (auto simp: keeps_def grants_def Seal_def GetManagedProfileByIdentity_def UpdateManagedProfile_def
      CreateManagedProfile_def insert_profile_def DeleteAuthRequest_def GetAuthRequestByBackendState_def run_statements
      case_prod_beta split: option.splits sum.splits if_splits)

lemma keeps_grants_setup: "keeps (\<lambda>w. grants w = G) (renderSetupIdentity s i iss) anything"
proof -
  have ensure: "keeps (\<lambda>w. grants w = G) (ensureManagedProfile s i iss) anything"
    unfolding ensureManagedProfile_def refresh_profile_def create_profile_def Let_def
    by (intro keeps_case_sum keeps_if keeps_return keeps_bind [where P = anything] keeps_grants TrueI)
  show ?thesis
    unfolding renderSetupIdentity_def sealSetupIdentity_def
    by (intro keeps_case_sum keeps_if keeps_return keeps_bind [where P = anything] keeps_grants ensure TrueI)
qed

lemma keeps_grants_find: "keeps (\<lambda>w. grants w = G) (find_in_backends U bs st) anything"
  by (induction bs) (auto intro!: keeps_case_sum keeps_if keeps_return keeps_bind [where P = anything] keeps_grants)

lemma keeps_grants_findAuthRequest: "keeps (\<lambda>w. grants w = G) (findAuthRequest s n st) anything"
  unfolding findAuthRequest_def
  by (intro keeps_case_option keeps_if keeps_return keeps_bind [where P = anything] keeps_grants keeps_grants_find TrueI)

lemma same_grants_of: "(\<And>G. keeps (\<lambda>w. grants w = G) m anything) \<Longrightarrow> grants (world_of m w) = grants w"
  using keepsD [of "\<lambda>v. grants v = grants w" m anything w] by blast

lemmas grants_same [simp] = keeps_grants [THEN same_grants_of] keeps_grants_setup [THEN same_grants_of]
  keeps_grants_findAuthRequest [THEN same_grants_of]

text \<open>The stored request that a state names.\<close>

lemma GetAuthRequest_ok:
  assumes "val_of (GetAuthRequestByBackendState U n st) w = Inr ar"
  shows "\<exists>q bs. q \<in> set (auth_requests (db w)) \<and> q_backend q = n \<and> q_backend_state_value q = st \<and>
    unmarshal_state U (q_backend_state q) = Inr bs \<and> ar = scanAuthRequest bs q \<and> \<not> time_Unix (q_expires_at q) < clock w (ticks w)"
  using assms
  by (auto simp: GetAuthRequestByBackendState_def run_sql_query case_prod_beta split: option.splits sum.splits if_splits dest!: find_Some_in)

lemma GetAuthRequest_world [simp]:
  "db (world_of (GetAuthRequestByBackendState U n st) w) = db w"
  by (auto simp: GetAuthRequestByBackendState_def run_sql_query case_prod_beta split: option.splits sum.splits if_splits)

lemma find_in_backends_ok:
  "val_of (find_in_backends U bs st) w = Inr (ar, b) \<Longrightarrow>
   \<exists>n q st'. (n, b) \<in> set bs \<and> q \<in> set (auth_requests (db w)) \<and> q_backend q = n \<and> q_backend_state_value q = st \<and>
     unmarshal_state U (q_backend_state q) = Inr st' \<and> ar = scanAuthRequest st' q"
proof (induction bs arbitrary: w)
  case (Cons nb bs)
  obtain n b' where nb: "nb = (n, b')" by (cases nb)
  let ?g = "GetAuthRequestByBackendState U n st"
  show ?case
  proof (cases "val_of ?g w")
    case (Inl e)
    with Cons.prems nb have "val_of (find_in_backends U bs st) (world_of ?g w) = Inr (ar, b)"
      by (auto simp: case_prod_beta split: if_splits)
    from Cons.IH [OF this] show ?thesis by auto
  next
    case (Inr ar')
    with Cons.prems nb have "ar' = ar" "b' = b" by (auto simp: case_prod_beta)
    with GetAuthRequest_ok [OF Inr] nb show ?thesis by auto
  qed
qed simp

lemma findAuthRequest_ok:
  assumes "val_of (findAuthRequest s n st) w = Inr (ar, b)"
  shows "\<exists>m q bs. (m, b) \<in> set (backends s) \<and> q \<in> set (auth_requests (db w)) \<and> q_backend q = m \<and>
    q_backend_state_value q = st \<and> unmarshal_state (tables s) (q_backend_state q) = Inr bs \<and> ar = scanAuthRequest bs q"
proof (cases "n = []")
  case True
  with assms find_in_backends_ok [of "tables s" "backends s" st w ar b] show ?thesis by (auto simp: findAuthRequest_def)
next
  case False
  with assms GetAuthRequest_ok [of "tables s" n st w ar] show ?thesis
    by (auto simp: findAuthRequest_def case_prod_beta map_result_ok dest: map_of_SomeD split: option.splits)
qed

section \<open>The callback of a login\<close>

lemma keeps_grants_blind: "store_blind m \<Longrightarrow> grants (world_of m w) = grants w"
  by (simp add: store_blind_def grants_def)

lemma ask_consent_codes:
  "authorization_codes (db (world_of (ask_consent s ar pj subj) w)) = authorization_codes (db w)"
  by (auto simp: ask_consent_def CreateConsentRequest_def run_sql_insert case_prod_beta split: sum.splits option.splits)

text \<open>What a completed login may add to the grants.\<close>

lemma complete_login_grants:
  assumes "store_blind (CompleteAuth b q (ar_BackendState ar))"
    and "grants (world_of (complete_login s q ar b) w) \<noteq> grants w"
  shows "\<exists>identity pj. val_of (CompleteAuth b q (ar_BackendState ar)) w = Inr identity \<and>
    \<not> bool_value (ar_BackendState ar) backendStateSetup \<and> identity_decision s ar identity = Some pj \<and>
    (if ConsentRequired (Security (cfg s))
     then authorization_codes (db (world_of (complete_login s q ar b) w)) = authorization_codes (db w)
     else \<exists>code t. authorization_codes (db (world_of (complete_login s q ar b) w)) = authorization_codes (db w) @
       [code_row_of code (code_of_request (request_of_auth ar pj (id_Subject identity)) t (CodeTTL (Security (cfg s))))])"
proof -
  obtain x w1 where x: "run (CompleteAuth b q (ar_BackendState ar)) w = (x, w1)" by fastforce
  have g: "grants w1 = grants w" using keeps_grants_blind [OF assms(1), of w] x by simp
  show ?thesis
  proof (cases x)
    case (Inl e)
    with x g assms(2) show ?thesis by (simp add: complete_login_def case_prod_beta)
  next
    case (Inr identity)
    with x g assms(2) have nosetup: "\<not> bool_value (ar_BackendState ar) backendStateSetup"
      by (auto simp: complete_login_def)
    with Inr x g assms(2) obtain pj where pj: "identity_decision s ar identity = Some pj"
      by (cases "identity_decision s ar identity") (auto simp: complete_login_def case_prod_beta)
    from g have c: "authorization_codes (db w1) = authorization_codes (db w)" by (simp add: grants_def)
    show ?thesis
    proof (cases "ConsentRequired (Security (cfg s))")
      case True
      with Inr x nosetup pj c show ?thesis by (simp add: complete_login_def ask_consent_codes)
    next
      case False
      have "world_of (complete_login s q ar b) w =
          world_of (issueCodeAndRedirect s [] (request_of_auth ar pj (id_Subject identity))) w1"
        using Inr x nosetup pj False by (simp add: complete_login_def case_prod_beta)
      moreover have "consent_requests (db (world_of (issueCodeAndRedirect s [] req) w1)) = consent_requests (db w1)" for req
        by (auto simp: issueCodeAndRedirect_def CreateAuthorizationCode_def run_sql_insert case_prod_beta
            split: sum.splits option.splits)
      ultimately show ?thesis
        using issueCode_codes [of s "[]" "request_of_auth ar pj (id_Subject identity)" w1] assms(2) g c Inr x nosetup pj False
        by (auto simp: grants_def)
    qed
  qed
qed

lemma DeleteAuth_rows:
  "healthy w \<Longrightarrow> auth_requests (db (world_of (DeleteAuthRequest i) w)) = filter (\<lambda>q. q_id q \<noteq> i) (auth_requests (db w))"
  by (simp add: DeleteAuthRequest_def run_sql_exec)

end
