(* ===== verification/SecurityProperties.thy ===== *)
theory SecurityProperties
  imports Security
begin

text \<open>
  The properties of \<open>internal/security\<close>: PKCE, sealed values, and redirect URIs of a client's own
  origin, with concrete instances.
\<close>

section \<open>Evaluation on concrete text\<close>

lemmas eval_parse = Cut_def cut_last_def has_ctl_def getScheme_def is_letter_def GoURL.is_digit_def
  ToLower_lower_case ascii_char_def split_query_def HasSuffix_def HasPrefix_def parse_hier_def parseAuthority_def
  parseHost_def validOptionalPort_def contains_byte_def empty_URL_def setPath_def setFragment_def escape_def
  escape_char_def shouldEscape_def unreserved_alnum_def Parse_def parse_no_fragment_def eq_char_of_iff

lemmas eval_host = Hostname_def Port_def url_splitHostPort_def cut_last_def validOptionalPort_def
  GoURL.is_digit_def strip_brackets_def ContainsAny_def normalizedHostPort_def JoinHostPort_def contains_byte_def
  ToLower_lower_case ascii_char_def empty_URL_def eq_char_of_iff

definition app_URL :: URL where
  "app_URL = empty_URL\<lparr>url_Scheme := ''https'', url_Host := ''app.example'', url_Path := ''/''\<rparr>"

lemma Parse_app: "Parse ascii_tables ''https://app.example/'' = Inr app_URL"
  by (simp add: eval_parse app_URL_def)

lemma Parse_app_callback:
  "Parse ascii_tables ''https://app.example/cb?x=1'' = Inr (app_URL\<lparr>url_Path := ''/cb'', url_RawQuery := ''x=1''\<rparr>)"
  by (simp add: eval_parse app_URL_def)

lemma hostPort_app:
  "normalizedHostPort U (app_URL\<lparr>url_Path := p, url_RawQuery := q\<rparr>) = ''app.example:443''"
  "normalizedHostPort U app_URL = ''app.example:443''"
  by (simp_all add: eval_host app_URL_def)

lemma Validate_app:
  "ValidateHTTPSURL ascii_tables ''https://app.example/'' False = Inr app_URL"
  "ValidateHTTPSURL ascii_tables ''https://app.example/cb?x=1'' False =
     Inr (app_URL\<lparr>url_Path := ''/cb'', url_RawQuery := ''x=1''\<rparr>)"
  unfolding ValidateHTTPSURL_ok Parse_app Parse_app_callback by (simp_all add: eval_host app_URL_def)

lemma redirect_app: "ValidateRedirectURI ascii_tables ''https://app.example/'' ''https://app.example/cb?x=1'' False = Inr ()"
  unfolding ValidateRedirectURI_ok Validate_app SameOrigin_def
  by (simp add: hostPort_app) (simp add: app_URL_def empty_URL_def)

section \<open>Properties\<close>

text \<open>C14: PKCE verification succeeds exactly for a non-empty verifier whose SHA-256 hash, in unpadded
  base64url, is the challenge; the comparison that accumulates the differing bits decides equality.\<close>

theorem pkce_accepts_exactly:
  "VerifyPKCES256 verifier challenge \<longleftrightarrow> verifier \<noteq> [] \<and> challenge = RawURLEncode (Sum256 verifier)"
  unfolding VerifyPKCES256_iff HashToken_def ..

text \<open>The challenge of any verifier passes the validation of the authorization endpoint, and the
  verifier then passes the verification of the token endpoint: the two agree on the encoding.\<close>

lemma pkce_challenge_round_trip:
  assumes "verifier \<noteq> []"
  shows "ValidateCodeChallenge (RawURLEncode (Sum256 verifier)) ''S256'' = Inr () \<and>
    VerifyPKCES256 verifier (RawURLEncode (Sum256 verifier))"
  using assms HashToken_challenge [of verifier] by (simp add: VerifyPKCES256_iff HashToken_def)

lemma pkce_challenge_round_trip_witness:
  "ValidateCodeChallenge (RawURLEncode (Sum256 ''verifier'')) ''S256'' = Inr () \<and>
    VerifyPKCES256 ''verifier'' (RawURLEncode (Sum256 ''verifier''))"
  by (rule pkce_challenge_round_trip) simp

text \<open>C15: sealing a value with a working random source gives a text that opens, under the same secret,
  to the value.\<close>

theorem sealed_value_opens:
  assumes "entropy w (draws w) = Some f"
  shows "\<exists>value. val_of (Seal secret plaintext) w = Inr value \<and> Open secret value = Inr plaintext"
  using assms Open_sealed [of "List.map f [0..<NonceSize]" secret plaintext]
  by (simp add: Seal_def del: map_map)

theorem sealed_value_opens_witness:
  "\<exists>value. val_of (Seal ''secret'' ''value'')
     \<lparr>entropy = (\<lambda>_. Some (\<lambda>_. CHR ''n'')), draws = 0, clock = (\<lambda>_. 0), ticks = 0\<rparr> = Inr value \<and>
   Open ''secret'' value = Inr ''value''"
  by (rule sealed_value_opens [where f = "\<lambda>_. CHR ''n''"]) simp

text \<open>C16: a text that opens is the encoding of a nonce and of the authenticated encryption of the value
  under that nonce and the key of the secret, tag included: nothing else opens.\<close>

theorem only_sealed_values_open:
  assumes "Open secret value = Inr plaintext"
  shows "\<exists>nonce. length nonce = NonceSize \<and> RawURLDecode value = Some (nonce @ List.map word_byte
    (gcm_Seal (cipher_key secret) (List.map byte_word nonce) (List.map byte_word plaintext)))"
  using assms by (rule Open_ok) blast

theorem only_sealed_values_open_witness:
  "\<exists>nonce. length nonce = NonceSize \<and>
     RawURLDecode (RawURLEncode (replicate NonceSize (CHR ''n'') @ List.map word_byte
       (gcm_Seal (cipher_key ''secret'') (List.map byte_word (replicate NonceSize (CHR ''n''))) (List.map byte_word ''value'')))) =
     Some (nonce @ List.map word_byte (gcm_Seal (cipher_key ''secret'') (List.map byte_word nonce) (List.map byte_word ''value'')))"
  by (rule only_sealed_values_open, rule Open_sealed) simp

text \<open>C17: a redirect URI accepted for a client without discovery parses, like the client's URL, has the
  same scheme (https, or http where that is allowed) and the same host and port with defaults filled
  in, and carries neither user information nor a fragment.\<close>

theorem accepted_redirect_uri:
  assumes "ValidateRedirectURI U clientID redirectURI allowHTTP = Inr ()"
  shows "\<exists>client redirect. Parse U clientID = Inr client \<and> Parse U redirectURI = Inr redirect \<and>
    url_Scheme redirect = url_Scheme client \<and>
    (url_Scheme redirect = ''https'' \<or> (url_Scheme redirect = ''http'' \<and> allowHTTP)) \<and>
    EqualFold U (normalizedHostPort U client) (normalizedHostPort U redirect) \<and>
    Hostname redirect \<noteq> [] \<and> url_User redirect = None \<and> url_User client = None \<and> url_Fragment redirect = []"
proof -
  from assms obtain client redirect where v: "ValidateHTTPSURL U clientID allowHTTP = Inr client"
    "ValidateHTTPSURL U redirectURI allowHTTP = Inr redirect" "url_Fragment redirect = []" "SameOrigin U client redirect"
    by (auto simp: ValidateRedirectURI_ok)
  moreover have "url_Scheme client = url_Scheme redirect"
    by (rule SameOrigin_schemes [OF v(4)]) (use v in \<open>auto simp: ValidateHTTPSURL_ok\<close>)
  ultimately show ?thesis by (auto simp: ValidateHTTPSURL_ok SameOrigin_def)
qed

theorem accepted_redirect_uri_witness:
  "\<exists>client redirect. Parse ascii_tables ''https://app.example/'' = Inr client \<and>
    Parse ascii_tables ''https://app.example/cb?x=1'' = Inr redirect \<and>
    url_Scheme redirect = url_Scheme client \<and>
    (url_Scheme redirect = ''https'' \<or> (url_Scheme redirect = ''http'' \<and> False)) \<and>
    EqualFold ascii_tables (normalizedHostPort ascii_tables client) (normalizedHostPort ascii_tables redirect) \<and>
    Hostname redirect \<noteq> [] \<and> url_User redirect = None \<and> url_User client = None \<and> url_Fragment redirect = []"
  by (rule accepted_redirect_uri) (rule redirect_app)

end
