(* ===== verification/Examples.thy ===== *)
theory Examples
  imports Grants SecurityProperties
begin

text \<open>
  Concrete worlds, servers and requests on which the hypotheses of the properties hold.  Hashes stay
  symbolic: a stored row carries \<open>HashToken\<close> of a text, which is not computed.
\<close>

section \<open>A server and a world\<close>

definition sample_config :: Config where
  "sample_config = Default\<lparr>Server := \<lparr>Listen = '':8080'', PublicURL = ''https://id.example'', Issuer = ''https://id.example'',
     srv_TrustedProxies = []\<rparr>\<rparr>"

definition sample_server :: "(unit oidc_world_scheme) Server" where
  "sample_server = answering_server (Inl ''down'') (Inl ''down'') (Inl ''down'') (Inl ''down'') sample_config ascii_tables"

text \<open>One draw succeeds, nothing fails in the database, the clock stands still.\<close>

definition sample_world :: "unit oidc_world_scheme" where
  "sample_world = \<lparr>entropy = (\<lambda>n. if n = 0 then Some (\<lambda>_. CHR ''a'') else None), draws = 0,
     clock = (\<lambda>_. 0), ticks = 0,
     resolver = (\<lambda>_ _. Inl ''no such host''), lookups = 0, accepts = (\<lambda>_ _. False), dialled = [],
     replies = (\<lambda>_ _. Inl ''no reply''), exchanges = 0,
     db = empty_database, faults = (\<lambda>_. None), db_ops = 0, providers = (\<lambda>_. None)\<rparr>"

lemma sample_world_fields [simp]:
  "db sample_world = empty_database" "clock sample_world n = 0" "ticks sample_world = 0" "draws sample_world = 0"
  "faults sample_world n = None" "db_ops sample_world = 0" "dialled sample_world = []"
  "entropy sample_world n = (if n = 0 then Some (\<lambda>_. CHR ''a'') else None)"
  by (simp_all add: sample_world_def)

lemma sample_server_ok [simp]: "server_ok sample_server"
  by (simp add: sample_server_def answering_server_ok)

lemma sample_server_fields [simp]: "cfg sample_server = sample_config" "tables sample_server = ascii_tables"
  by (simp_all add: sample_server_def answering_server_def)

text \<open>The step an event makes.\<close>

lemma handled: "step s w ev (val_of (handle s ev) w) (world_of (handle s ev) w)"
  by (rule step.intros) simp

lemma handled_reachable: "reachable s w (world_of (handle s ev) w)"
  by (rule next_step [OF start handled])

section \<open>A code and its exchange\<close>

definition sample_code :: code_row where
  "sample_code = \<lparr>c_code_hash = HashToken ''abc'', c_me = ''m'', c_client_id = ''c'', c_redirect_uri = ''r'',
     c_scope = ''profile'', c_code_challenge = HashToken ''v'', c_code_challenge_method = ''S256'',
     c_profile_json = [], c_expires_at = 300, c_created_at = 0, c_used_at = None\<rparr>"

definition code_world :: "unit oidc_world_scheme" where
  "code_world = sample_world\<lparr>db := empty_database\<lparr>authorization_codes := [sample_code]\<rparr>\<rparr>"

definition post :: "string \<Rightarrow> http_request" where
  "post body = \<lparr>req_Method = ''POST'', req_Path = [], req_RawQuery = [], req_Body = FormBody body,
     req_RemoteAddr = [], req_ForwardedFor = [], req_Cookies = []\<rparr>"

lemmas eval_form = ParseForm_def parsePostForm_def post_def ParseQuery_def copyValues_def query_item_def
  values_Add_def defaultMaxMemory_def Cut_def contains_byte_def

definition exchange_request :: http_request where
  "exchange_request = post ''grant_type=authorization_code&code=abc&client_id=c&redirect_uri=r&code_verifier=v''"

definition exchange_values :: url_values where
  "exchange_values = [(''grant_type'', [''authorization_code'']), (''code'', [''abc'']),
     (''client_id'', [''c'']), (''redirect_uri'', [''r'']), (''code_verifier'', [''v''])]"

lemma exchange_form: "request_form exchange_request = Some exchange_values"
  by (simp add: request_form_def exchange_request_def exchange_values_def eval_form)

lemma exchange_values_simps [simp]:
  "values_Get exchange_values ''grant_type'' = ''authorization_code''" "values_Get exchange_values ''code'' = ''abc''"
  by (simp_all add: exchange_values_def values_Get_def)

lemma code_world_fields [simp]:
  "clock code_world n = 0" "ticks code_world = 0" "draws code_world = 0" "faults code_world n = None" "db_ops code_world = 0"
  "entropy code_world n = (if n = 0 then Some (\<lambda>_. CHR ''a'') else None)"
  "authorization_codes (db code_world) = [sample_code]" "access_tokens (db code_world) = []"
  by (simp_all add: code_world_def empty_database_def)

lemma code_world_healthy [simp]: "healthy code_world"
  by (simp add: healthy_def)

lemma code_world_keys [simp]: "unique_keys (db code_world)"
  by (simp add: code_world_def unique_keys_def empty_database_def)

lemma sample_redeemable [simp]: "redeemable exchange_values 0 (db code_world) sample_code"
  by (simp add: redeemable_def exchange_values_def values_Get_def sample_code_def Unix_def second_def VerifyPKCES256_iff)

lemma sample_code_challenge [simp]: "c_code_challenge sample_code \<noteq> []"
  using HashToken_challenge [of "''v''"] by (auto simp: sample_code_def ValidateCodeChallenge_def)

text \<open>The same world with a random source that fails.\<close>

definition quiet_world :: "unit oidc_world_scheme" where
  "quiet_world = code_world\<lparr>entropy := \<lambda>_. None\<rparr>"

lemma quiet_world_fields [simp]: "db quiet_world = db code_world" "entropy quiet_world n = None"
  "clock quiet_world n = 0" "healthy quiet_world"
  by (simp_all add: quiet_world_def healthy_def)

lemma quiet_exchange: "rsp_Status (val_of (handle sample_server (CodeProfile exchange_request)) quiet_world) = 200"
  using profile_exchange [OF exchange_form, of quiet_world sample_code] by simp

lemma sample_exchange: "rsp_Status (val_of (handle sample_server (Token exchange_request)) code_world) = 200"
  using token_exchange_response [OF exchange_form, of code_world sample_code sample_server] by simp

section \<open>A token and its revocation\<close>

definition sample_token :: token_row where
  "sample_token = \<lparr>t_token_hash = HashToken ''tok'', t_me = ''m'', t_client_id = ''c'', t_scope = ''profile'',
     t_profile_json = [], t_expires_at = 300, t_created_at = 0, t_revoked_at = None\<rparr>"

definition token_world :: "unit oidc_world_scheme" where
  "token_world = quiet_world\<lparr>db := empty_database\<lparr>access_tokens := [sample_token]\<rparr>\<rparr>"

lemma token_world_fields [simp]:
  "healthy token_world" "entropy token_world n = None" "clock token_world n = 0" "access_tokens (db token_world) = [sample_token]"
  by (simp_all add: token_world_def quiet_world_def healthy_def)

definition token_request :: http_request where
  "token_request = post ''token=tok''"

lemma token_form: "request_form token_request = Some [(''token'', [''tok''])]"
  by (simp add: request_form_def token_request_def eval_form)

section \<open>A consent request and its decision\<close>

definition sample_consent :: consent_row where
  "sample_consent = \<lparr>r_id = ''i'', r_csrf_token = ''x'', r_me = ''m'', r_client_id = ''c'',
     r_redirect_uri = ''https://app.example/cb?x=1'', r_scope = ''profile'', r_client_state = ''s'',
     r_code_challenge = HashToken ''v'', r_code_challenge_method = ''S256'', r_profile_json = [], r_subject = ''u'',
     r_expires_at = 300, r_created_at = 0\<rparr>"

definition consent_world :: "unit oidc_world_scheme" where
  "consent_world = sample_world\<lparr>db := empty_database\<lparr>consent_requests := [sample_consent]\<rparr>\<rparr>"

lemma consent_world_fields [simp]:
  "healthy consent_world" "entropy consent_world n = (if n = 0 then Some (\<lambda>_. CHR ''a'') else None)"
  "clock consent_world n = 0" "ticks consent_world = 0" "draws consent_world = 0" "db_ops consent_world = 0"
  "consent_requests (db consent_world) = [sample_consent]" "authorization_codes (db consent_world) = []"
  "faults consent_world n = None"
  by (simp_all add: consent_world_def healthy_def empty_database_def)

definition approval :: http_request where
  "approval = post ''id=i&csrf=x&decision=approve''"

lemma approval_form: "request_form approval = Some [(''id'', [''i'']), (''csrf'', [''x'']), (''decision'', [''approve''])]"
  by (simp add: request_form_def approval_def eval_form)

definition forged_approval :: http_request where
  "forged_approval = post ''id=i&csrf=y&decision=approve''"

lemma forged_form: "request_form forged_approval = Some [(''id'', [''i'']), (''csrf'', [''y'']), (''decision'', [''approve''])]"
  by (simp add: request_form_def forged_approval_def eval_form)

text \<open>The approval issues a code.\<close>

lemma approval_issues: "length (authorization_codes (db (world_of (handle sample_server (ConsentPost approval)) consent_world))) = 1"
  using approval_form
  by (simp add: handleConsentPost_def request_form_parse values_Get_def GetConsentRequest_def run_statements
      sample_consent_def scanConsentRequest_def time_Unix_def second_def decide_consent_def issueCodeAndRedirect_def
      RandomToken_def CreateAuthorizationCode_def case_prod_beta)

lemma approval_status: "rsp_Status (val_of (handle sample_server (ConsentPost approval)) consent_world) \<noteq> 400"
  using approval_form
  by (simp add: handleConsentPost_def request_form_parse values_Get_def GetConsentRequest_def run_statements
      sample_consent_def scanConsentRequest_def time_Unix_def second_def decide_consent_def issueCodeAndRedirect_def
      RandomToken_def CreateAuthorizationCode_def case_prod_beta)
    (auto simp: map_result_ok split: sum.splits)

section \<open>A login at a backend that accepts everybody\<close>

definition sample_identity :: Identity where
  "sample_identity = \<lparr>id_Subject = ''u'', id_Username = [], id_Email = [], id_EmailVerified = False, id_Name = [],
     id_PreferredUsername = [], id_Groups = [], id_RawClaims = []\<rparr>"

definition sample_backend :: "(unit oidc_world_scheme) Backend" where
  "sample_backend = \<lparr>be_Name = ''b'', BeginAuth = (\<lambda>r. return (Inl ''down'')),
     CompleteAuth = (\<lambda>q st. return (Inr sample_identity))\<rparr>"

definition login_server :: "(unit oidc_world_scheme) Server" where
  "login_server = \<lparr>cfg = sample_config, backends = [(''b'', sample_backend)], tables = ascii_tables\<rparr>"

lemma login_server_fields [simp]: "backends login_server = [(''b'', sample_backend)]" "tables login_server = ascii_tables"
  "cfg login_server = sample_config"
  by (simp_all add: login_server_def)

lemma login_server_ok [simp]: "server_ok login_server"
  by (auto simp: server_ok_def login_backend_def sample_backend_def)

definition login_state :: BackendState where
  "login_state = bind_state False (Some \<lparr>pib_Me = ''m'', pib_Issuer = [], pib_Subject = ''u''\<rparr>) empty_BackendState"

definition login_row :: auth_request_row where
  "login_row = \<lparr>q_id = ''q'', q_backend = ''b'', q_backend_state = marshal_state login_state, q_backend_state_value = ''s'',
     q_me = ''m'', q_client_id = ''c'', q_redirect_uri = ''r'', q_scope = [], q_client_state = ''t'',
     q_code_challenge = HashToken ''v'', q_code_challenge_method = ''S256'', q_profile_json = [],
     q_expires_at = 300, q_created_at = 0\<rparr>"

definition login_world :: "unit oidc_world_scheme" where
  "login_world = sample_world\<lparr>entropy := \<lambda>_. Some (\<lambda>_. CHR ''a''), db := empty_database\<lparr>auth_requests := [login_row]\<rparr>\<rparr>"

lemma login_world_fields [simp]:
  "healthy login_world" "faults login_world n = None" "entropy login_world n = Some (\<lambda>_. CHR ''a'')"
  "clock login_world n = 0" "auth_requests (db login_world) = [login_row]" "consent_requests (db login_world) = []"
  "db_ops login_world = 0"
  by (simp_all add: login_world_def healthy_def empty_database_def)

definition login_callback :: http_request where
  "login_callback = \<lparr>req_Method = ''GET'', req_Path = [], req_RawQuery = ''state=s'', req_Body = OtherBody,
     req_RemoteAddr = [], req_ForwardedFor = [], req_Cookies = []\<rparr>"

lemma login_query [simp]: "request_query login_callback = [(''state'', [''s''])]"
  by (simp add: request_query_def login_callback_def eval_form)

lemma login_state_read [simp]: "unmarshal_state U (marshal_state login_state) = Inr login_state"
proof (rule unmarshal_marshal_state)
  have "valid_utf8 []" "valid_utf8 ''u''" "valid_utf8 backendStateDynamicProfile" "valid_utf8 backendStateProfileIssuer"
      "valid_utf8 backendStateProfileSubject"
    by (rule ascii_valid_utf8, simp add: ascii_char_def backendStateDynamicProfile_def backendStateProfileIssuer_def
        backendStateProfileSubject_def)+
  moreover have "wf_state empty_BackendState" by (simp add: wf_state_def empty_BackendState_def ascii_valid_utf8)
  ultimately show "wf_state login_state"
    unfolding login_state_def bind_state_def by (simp add: wf_state_set_value)
qed

lemma login_found: "run (findAuthRequest login_server ''b'' ''s'') login_world =
    (Inr (scanAuthRequest login_state login_row, sample_backend), login_world\<lparr>db_ops := 1, ticks := Suc (ticks login_world)\<rparr>)"
  by (simp add: findAuthRequest_def GetAuthRequestByBackendState_def run_sql_query login_row_def time_Unix_def second_def)

lemma login_decision: "identity_decision login_server (scanAuthRequest login_state login_row) sample_identity =
    Some (DynamicProfileJSON ''m'' sample_identity) \<and> \<not> bool_value login_state backendStateSetup"
  by (simp add: identity_decision_def scanAuthRequest_def login_row_def login_state_def bind_state_def bool_value_def
      value_of_def string_value_def set_value_def empty_BackendState_def backendStateDynamicProfile_def
      backendStateProfileIssuer_def backendStateProfileSubject_def backendStateSetup_def sample_identity_def
      sample_config_def Default_def backend_config_def no_backend_def)

lemma login_grants: "length (snd (grants (world_of (handle login_server (Callback ''b'' login_callback)) login_world))) = 1"
proof -
  have i: "id_Subject sample_identity = ''u''" "ConsentRequired (Security sample_config)"
    "CompleteAuth sample_backend q st = return (Inr sample_identity)" for q st
    by (simp_all add: sample_identity_def sample_config_def Default_def sample_backend_def)
  have b: "ar_BackendState (scanAuthRequest login_state login_row) = login_state" by (simp add: scanAuthRequest_def)
  show ?thesis
    using login_decision
    by (simp add: handleCallback_def login_found values_Get_def complete_login_def ask_consent_def i b RandomToken_def Let_def
        CreateConsentRequest_def DeleteAuthRequest_def run_statements case_prod_beta grants_def)
qed

end
