(* ===== verification/ConcurrentProperties.thy ===== *)
theory ConcurrentProperties
  imports ConcurrentRevocation Examples
begin

text \<open>
  What holds, and what does not, when requests are served at the same time: every property is about the
  runs of \<open>concurrently\<close>, in which the steps of any number of handlers follow each other in any order.
\<close>

section \<open>Handlers that are not interrupted\<close>


section \<open>Invariants of all runs\<close>




text \<open>C10: whatever requests are served at the same time, the keys of the tables stay unique: the
  identifiers of requests and consents, the hashes of codes and tokens, the handles of profiles up to
  case, and their identities.\<close>

theorem concurrent_keys_stay_unique:
  assumes "server_ok s" "concurrently s ([], w0) (ts, w)" "unique_keys (db w0)"
  shows "unique_keys (db w)"
  using flow.concurrent_inv [OF keys_flow [OF assms(1)] assms(2)] assms(3) by (simp add: inv_def)

text \<open>The same code presented twice at the same time.\<close>

definition two_exchanges :: "event choice list" where
  "two_exchanges = [Arrive (Token exchange_request), Arrive (CodeProfile exchange_request), Step 0, Step 1, Step 1, Step 0,
     Step 0, Step 1, Arrive (CleanupTick 0), Step 0, Step 2, Step 2, Step 0, Step 0]"

theorem concurrent_keys_stay_unique_witness:
  "unique_keys (db (snd (scheduled (process_of sample_server) two_exchanges ([], code_world))))"
  by (rule concurrent_keys_stay_unique [OF sample_server_ok,
        of code_world "fst (scheduled (process_of sample_server) two_exchanges ([], code_world))"])
    (simp_all only: prod.collapse scheduled_interleaved code_world_keys)

section \<open>Codes\<close>

text \<open>C1: of all the requests that present a code, at either endpoint, at the same time or not, at most as
  many succeed as the code had unused rows at the start and is drawn again by the random source: in
  any interleaving of their steps, a code that is in the table once and is not drawn again is exchanged
  at most once.\<close>

theorem code_redeemed_once_concurrently:
  assumes "server_ok s" "concurrently s ([], w0) (ts, w)"
    and "finite (code_draws (HashToken code) (entropy w0) (draws w0))"
  shows "redemptions code ts \<le> unspent (HashToken code) (db w0) + card (code_draws (HashToken code) (entropy w0) (draws w0))"
  using assms(3) by (intro redemptions_bounded [OF assms(1,2)]) (simp add: account_def)

theorem code_redeemed_once_concurrently_witness:
  "redemptions ''abc'' (fst (scheduled (process_of sample_server) two_exchanges ([], quiet_world))) \<le> 1"
  using code_redeemed_once_concurrently [OF sample_server_ok, of quiet_world
      "fst (scheduled (process_of sample_server) two_exchanges ([], quiet_world))"
      "snd (scheduled (process_of sample_server) two_exchanges ([], quiet_world))" "''abc''"]
  by (simp add: scheduled_interleaved code_draws_def unspent_def unused_def sample_code_def)

section \<open>Tokens\<close>

text \<open>C6: with a database that does not fail, once a revocation of a token has been answered 200, every
  introspection of the token that arrives afterwards reports it inactive, whatever else is being served,
  unless the random source draws the token again.\<close>

theorem revocation_holds_concurrently:
  assumes "server_ok s" "healthy w0" "undrawn (HashToken token) (entropy w0) (draws w0)"
    and "concurrently s ([], w0) (ts1, w1)"
    and "i < length ts1" "ts1 ! i = (Revoke r, Finish rsp)" "rsp_Status rsp = 200"
    and "request_form r = Some form" "values_Get form ''token'' = token"
    and "concurrently s (ts1 @ [(Introspect r2, process_of s (Introspect r2))], w1) (ts2, w2)"
    and "ts2 ! length ts1 = (Introspect r2, Finish rsp2)"
    and "request_form r2 = Some form2" "values_Get form2 ''token'' = token"
  shows "rsp2 = inactive_response"
  using assms(2,3)
  by (intro revocation_final [OF assms(1) _ assms(4-13)]) (auto simp: revocation_def inv_def healthy_def)

theorem revocation_holds_concurrently_witness:
  "val_of (handle sample_server (Introspect token_request))
     (world_of (handle sample_server (Revoke token_request)) token_world) = inactive_response"
proof (rule revocation_holds_concurrently [where ?ts1.0 = "[(Revoke token_request, Finish (val_of (handle sample_server (Revoke token_request)) token_world))]" and i = 0])
  let ?ts = "[(Revoke token_request, Finish (val_of (handle sample_server (Revoke token_request)) token_world))]"
  let ?w = "world_of (handle sample_server (Revoke token_request)) token_world"
  show "concurrently sample_server ([], token_world) (?ts, ?w)"
    using serve_to_end [of "process_of sample_server" "[]"] by (simp add: alone_process_of del: handle.simps)
  show "concurrently sample_server (?ts @ [(Introspect token_request, process_of sample_server (Introspect token_request))], ?w)
      (?ts @ [(Introspect token_request, Finish (val_of (handle sample_server (Introspect token_request)) ?w))],
       world_of (handle sample_server (Introspect token_request)) ?w)"
    using run_to_end [of "process_of sample_server" ?ts _ "process_of sample_server (Introspect token_request)" "[]"]
    by (simp add: alone_process_of del: handle.simps process_of.simps)
  show "request_form token_request = Some [(''token'', [''tok''])]" "request_form token_request = Some [(''token'', [''tok''])]"
    by (rule token_form)+
  show "rsp_Status (val_of (handle sample_server (Revoke token_request)) token_world) = 200"
    using handleRevoke_split [OF token_form, of token_world] by (simp add: values_Get_def)
qed (simp_all add: undrawn_def values_Get_def nth_append del: handle.simps)

section \<open>Decisions on one consent request\<close>

lemma decidable_found:
  assumes "decidable r form t (db w) row" "healthy w"
  shows "val_of (GetConsentRequest (consent_id form r) t) w = Inr (scanConsentRequest row)"
  using assms by (auto simp: decidable_def GetConsentRequest_def run_sql_query less_time_Unix_iff)

text \<open>Two steps take a decision past its checks.\<close>

lemma consent_checks:
  assumes "request_form r = Some form" "decidable r form (clock w (ticks w)) (db w) row" "healthy w"
    and "values_Get form ''csrf'' = r_csrf_token row"
  shows "concurrently s (ts @ (ConsentPost r, process_of s (ConsentPost r)) # us, w)
    (ts @ (ConsentPost r, andThen (decide_consent_process s form (scanConsentRequest row))
       (\<lambda>rsp. call (DeleteConsentRequest (r_id row)) (\<lambda>d. Finish rsp))) # us,
     w\<lparr>ticks := Suc (ticks w), db_ops := Suc (db_ops w)\<rparr>)"
proof -
  let ?w = "w\<lparr>ticks := Suc (ticks w)\<rparr>" and ?t = "clock w (ticks w)"
  let ?k = "\<lambda>c :: ConsentRequest stored. case c of
      Inl e \<Rightarrow> Finish (http_Error no_store ''invalid or expired consent request'' 400)
    | Inr cr \<Rightarrow> if \<not> ConstantTimeEqual (values_Get form ''csrf'') (cr_CSRFToken cr)
        then call (audit ''consent_rejected'' (cr_Subject cr) (cr_Me cr) (cr_ClientID cr)) (\<lambda>_.
          Finish (http_Error no_store ''invalid consent token'' 400))
        else andThen (decide_consent_process s form cr) (\<lambda>rsp. call (DeleteConsentRequest (cr_ID cr)) (\<lambda>d. Finish rsp))"
  have p: "process_of s (ConsentPost r) = call now (\<lambda>t. call (GetConsentRequest (consent_id form r) t) ?k)"
    by (simp only: process_of.simps handleConsentPost_process_def assms(1) [unfolded request_form_parse] sum.case Let_def
        consent_id_def)
  have found: "val_of (GetConsentRequest (consent_id form r) ?t) ?w = Inr (scanConsentRequest row)"
    by (rule decidable_found) (use assms in \<open>simp_all add: healthy_def\<close>)
  have "concurrently s (ts @ (ConsentPost r, process_of s (ConsentPost r)) # us, w)
      (ts @ (ConsentPost r, call (GetConsentRequest (consent_id form r) ?t) ?k) # us, ?w)"
    unfolding p by (rule call_acts) simp_all
  also have "concurrently s \<dots> (ts @ (ConsentPost r, ?k (Inr (scanConsentRequest row))) # us, w\<lparr>ticks := Suc (ticks w), db_ops := Suc (db_ops w)\<rparr>)"
    by (rule call_acts [where k = ?k and x = "Inr (scanConsentRequest row)"]) (use found in simp_all)
  finally show ?thesis using assms(4) by simp
qed

text \<open>A working random source and database store the code of an approval.\<close>

lemma approval_stores:
  assumes "healthy w" "entropy w (draws w) = Some f" "code = RawURLEncode (List.map f [0..<tokenBytes])"
    and "\<forall>c \<in> set (authorization_codes (db w)). c_code_hash c \<noteq> HashToken code"
    and "values_Get form ''decision'' = ''approve''"
  shows "authorization_codes (db (world_of (decide_consent s form cr) w)) = authorization_codes (db w) @
    [code_row_of code (code_of_request (request_of_consent cr) (clock w (ticks w)) (CodeTTL (Security (cfg s))))]"
proof -
  have "run RandomToken w = (Inr code, w\<lparr>draws := Suc (draws w)\<rparr>)" using assms(2,3) by (simp add: RandomToken_def)
  then show ?thesis
    using assms(1,4,5)
    by (auto simp: decide_consent_def issueCodeAndRedirect_def CreateAuthorizationCode_def run_sql_insert case_prod_beta)
qed

text \<open>C12: two decisions on one consent request are not kept apart: when both find the request before either
  deletes it, which the interleaving of their steps allows, an approval and a refusal that arrive at the
  same time are both carried out.  The refusal redirects the client with \<open>access_denied\<close>, and the code
  of the approval is stored.\<close>

theorem concurrent_decisions_both_count:
  assumes "request_form r1 = Some form1" "values_Get form1 ''csrf'' = r_csrf_token row"
    and "values_Get form1 ''decision'' = ''approve''"
    and "request_form r2 = Some form2" "values_Get form2 ''csrf'' = r_csrf_token row"
    and "values_Get form2 ''decision'' \<noteq> ''approve''"
    and "decidable r1 form1 (clock w (ticks w)) (db w) row"
    and "decidable r2 form2 (clock w (Suc (ticks w))) (db w) row"
    and "healthy w" "entropy w (draws w) = Some f" "code = RawURLEncode (List.map f [0..<tokenBytes])"
    and "\<forall>c \<in> set (authorization_codes (db w)). c_code_hash c \<noteq> HashToken code"
  shows "\<exists>rsp w'. concurrently s ([], w) ([(ConsentPost r1, Finish rsp), (ConsentPost r2, Finish
      (redirectWithError (tables s) no_store (r_redirect_uri row) (r_client_state row) ''access_denied''))], w') \<and>
    authorization_codes (db w') = authorization_codes (db w) @ [code_row_of code
      (code_of_request (request_of_consent (scanConsentRequest row)) (clock w (Suc (Suc (ticks w)))) (CodeTTL (Security (cfg s))))]"
proof -
  let ?e1 = "ConsentPost r1" and ?e2 = "ConsentPost r2" and ?cr = "scanConsentRequest row"
  let ?then = "\<lambda>rsp. call (DeleteConsentRequest (r_id row)) (\<lambda>d. Finish rsp)"
  let ?p = "\<lambda>form. andThen (decide_consent_process s form ?cr) ?then"
  let ?w1 = "w\<lparr>ticks := Suc (ticks w), db_ops := Suc (db_ops w)\<rparr>"
  let ?w2 = "?w1\<lparr>ticks := Suc (ticks ?w1), db_ops := Suc (db_ops ?w1)\<rparr>"
  let ?w3 = "world_of (alone (?p form1)) ?w2" and ?rsp = "val_of (alone (?p form1)) ?w2"
  have "concurrently s ([], w) ([(?e1, process_of s ?e1), (?e2, process_of s ?e2)], w)"
    using then_moves [OF then_moves [OF stays arrives] arrives, of "process_of s" "[]" w ?e1 ?e2]
    by (simp del: process_of.simps)
  also have "concurrently s \<dots> ([(?e1, ?p form1), (?e2, process_of s ?e2)], ?w1)"
    using consent_checks [OF assms(1,7,9,2), of s "[]" "[(?e2, process_of s ?e2)]"] by (simp del: process_of.simps)
  also have "concurrently s \<dots> ([(?e1, ?p form1), (?e2, ?p form2)], ?w2)"
    using consent_checks [OF assms(4) _ _ assms(5), of ?w1 s "[(?e1, ?p form1)]" "[]"] assms(8,9)
    by (simp add: healthy_def del: process_of.simps)
  also have "concurrently s \<dots> ([(?e1, Finish ?rsp), (?e2, ?p form2)], ?w3)"
    using run_to_end [of "process_of s" "[]" ?e1 "?p form1" "[(?e2, ?p form2)]" ?w2] by simp
  also have "concurrently s \<dots> ([(?e1, Finish ?rsp), (?e2, Finish (val_of (alone (?p form2)) ?w3))], world_of (alone (?p form2)) ?w3)"
    using run_to_end [of "process_of s" "[(?e1, Finish ?rsp)]" ?e2 "?p form2" "[]" ?w3] by simp
  finally have run: "concurrently s ([], w)
      ([(?e1, Finish ?rsp), (?e2, Finish (val_of (alone (?p form2)) ?w3))], world_of (alone (?p form2)) ?w3)" .
  have "authorization_codes (db ?w3) = authorization_codes (db w) @ [code_row_of code
      (code_of_request (request_of_consent ?cr) (clock w (Suc (Suc (ticks w)))) (CodeTTL (Security (cfg s))))]"
    using approval_stores [of ?w2 f code form1 s ?cr] assms(3,9-12) by (simp add: healthy_def case_prod_beta)
  moreover have "authorization_codes (db (world_of (alone (?p form2)) ?w3)) = authorization_codes (db ?w3)"
    "val_of (alone (?p form2)) ?w3 = redirectWithError (tables s) no_store (r_redirect_uri row) (r_client_state row) ''access_denied''"
    using assms(6) by (simp_all add: decide_consent_def case_prod_beta scanConsentRequest_def)
  ultimately show ?thesis using run by auto
qed

definition denial :: http_request where
  "denial = post ''id=i&csrf=x&decision=deny''"

lemma denial_form: "request_form denial = Some [(''id'', [''i'']), (''csrf'', [''x'']), (''decision'', [''deny''])]"
  by (simp add: request_form_def denial_def eval_form)

theorem concurrent_decisions_both_count_witness:
  "\<exists>rsp w'. concurrently sample_server ([], consent_world) ([(ConsentPost approval, Finish rsp), (ConsentPost denial, Finish
      (redirectWithError (tables sample_server) no_store (r_redirect_uri sample_consent) (r_client_state sample_consent)
        ''access_denied''))], w') \<and>
    authorization_codes (db w') = authorization_codes (db consent_world) @ [code_row_of
      (RawURLEncode (List.map (\<lambda>_. CHR ''a'') [0..<tokenBytes])) (code_of_request
        (request_of_consent (scanConsentRequest sample_consent)) (clock consent_world (Suc (Suc (ticks consent_world))))
        (CodeTTL (Security (cfg sample_server))))]"
  by (rule concurrent_decisions_both_count [OF approval_form _ _ denial_form])
    (simp_all add: decidable_def consent_id_def values_Get_def sample_consent_def Unix_def second_def)

section \<open>Customized profiles\<close>

text \<open>A login that has read a hosted profile before it is customized, and refreshes its display name afterwards,
  writes back everything it has read: the customization is lost.\<close>

lemma refresh_overwrites_customization:
  assumes "mpc_Enabled (ManagedProfiles (cfg s))" "TrimSpace (id_Subject identity) \<noteq> []" "healthy w"
    and "managed_profiles (db w) = [row]" "p_issuer row = issuer" "p_subject row = id_Subject identity"
    and "\<not> p_customized row" "p_accent row \<noteq> []" "display_name identity (p_handle row) \<noteq> p_display_name row"
    and "mp_Issuer new = issuer" "mp_Subject new = id_Subject identity"
  shows "\<exists>x w'. interleaved serve
      ([(login, ensureManagedProfile_process s identity issuer), (customize, call (UpdateManagedProfile new) (\<lambda>r. Finish y))], w)
      ([(login, Finish x), (customize, Finish y)], w') \<and>
    managed_profiles (db w') = [row\<lparr>p_display_name := display_name identity (p_handle row), p_updated_at := Unix (clock w (ticks w))\<rparr>]"
proof -
  let ?mp = "\<lparr>mp_Handle = p_handle row, mp_Issuer = p_issuer row, mp_Subject = p_subject row,
      mp_DisplayName = p_display_name row, mp_Bio = p_bio row, mp_WebsiteURL = p_website_url row, mp_Accent = p_accent row,
      mp_Customized = p_customized row, mp_CreatedAt = time_Unix (p_created_at row), mp_UpdatedAt = time_Unix (p_updated_at row)\<rparr>"
  let ?k = "\<lambda>x. case x of
      Inr existing \<Rightarrow> refresh_profile_process identity existing
    | Inl e \<Rightarrow> if e \<noteq> ErrNotFound then Finish (Inl e) else create_profile_process (tables s) identity issuer"
  let ?u = "call (UpdateManagedProfile new) (\<lambda>r. Finish y)"
  let ?r = "refresh_profile_process identity ?mp :: ('a store_world_scheme, ManagedProfile stored) process"
  let ?w1 = "w\<lparr>db_ops := Suc (db_ops w)\<rparr>"
  let ?w2 = "world_of (UpdateManagedProfile new) ?w1"
  have p: "ensureManagedProfile_process s identity issuer = call (GetManagedProfileByIdentity issuer (id_Subject identity)) ?k"
    using assms(1,2) by (simp only: ensureManagedProfile_process_def if_False simp_thms)
  have get: "val_of (GetManagedProfileByIdentity issuer (id_Subject identity)) w = Inr ?mp"
    "world_of (GetManagedProfileByIdentity issuer (id_Subject identity)) w = ?w1"
    using assms(3-6) by (auto simp: GetManagedProfileByIdentity_def run_sql_query scanManagedProfile_def)
  have "interleaved serve ([(login, ensureManagedProfile_process s identity issuer), (customize, ?u)], w)
      ([(login, ?r), (customize, ?u)], ?w1)"
    unfolding p using call_acts [OF get, where k = ?k and ts = "[]" and us = "[(customize, ?u)]" and e = login and serve = serve]
    by simp
  also have "interleaved serve \<dots> ([(login, ?r), (customize, Finish y)], ?w2)"
    using call_acts [OF refl refl, where ts = "[(login, ?r)]" and us = "[]"] by simp
  also have "interleaved serve \<dots> ([(login, Finish (val_of (alone ?r) ?w2)), (customize, Finish y)], world_of (alone ?r) ?w2)"
    using run_to_end [where ts = "[]" and p = ?r] by simp
  finally have run: "interleaved serve ([(login, ensureManagedProfile_process s identity issuer), (customize, ?u)], w)
      ([(login, Finish (val_of (alone ?r) ?w2)), (customize, Finish y)], world_of (alone ?r) ?w2)" .
  have "managed_profiles (db (world_of (alone ?r) ?w2)) =
      [row\<lparr>p_display_name := display_name identity (p_handle row), p_updated_at := Unix (clock w (ticks w))\<rparr>]"
    using assms(3-11)
    by (simp add: refresh_profile_def UpdateManagedProfile_def run_statements update_profile_def case_prod_beta Let_def)
  with run show ?thesis by blast
qed

end
