(* ===== verification/FlowProperties.thy ===== *)
theory FlowProperties
  imports Examples
begin

text \<open>
  The properties of whole runs of the server, and of the token, introspection, revocation and consent
  endpoints and the callback, with concrete instances.
\<close>

text \<open>A code is exchanged at most once.  When an exchange, at either endpoint, has
  succeeded and no later random draw repeats the code, every exchange of the same code in any run
  that follows, with any parameters, answers 400.\<close>

theorem code_exchanged_once:
  assumes "server_ok s"
    and "step s w ev rsp w1" "exchange_of ev r" "rsp_Status rsp = 200" "request_form r = Some form"
    and "undrawn (HashToken (values_Get form ''code'')) (entropy w) (draws w)"
    and "reachable s w1 w2"
    and "step s w2 ev2 rsp2 w3" "exchange_of ev2 r2" "request_form r2 = Some form2"
    and "values_Get form2 ''code'' = values_Get form ''code''"
  shows "rsp_Status rsp2 = 400"
proof -
  let ?h = "HashToken (values_Get form ''code'')"
  have "inv (spent ?h) (undrawn ?h) w1"
    using assms(1-6) by (rule successful_exchange_spends)
  then have "inv (spent ?h) (undrawn ?h) w2"
    by (rule flow.reachable_inv [OF spent_flow [OF assms(1)] assms(7)])
  then show ?thesis
    using assms(8-11) by (intro exchange_of_spent [of form2 w2 s ev2 rsp2 w3 r2]) (simp_all add: inv_def)
qed

theorem code_exchanged_once_witness:
  "rsp_Status (val_of (handle sample_server (CodeProfile exchange_request))
     (world_of (handle sample_server (CodeProfile exchange_request)) quiet_world)) = 400"
proof (rule code_exchanged_once)
  show "step sample_server quiet_world (CodeProfile exchange_request)
      (val_of (handle sample_server (CodeProfile exchange_request)) quiet_world)
      (world_of (handle sample_server (CodeProfile exchange_request)) quiet_world)"
    by (rule handled)
  show "step sample_server w (CodeProfile exchange_request)
      (val_of (handle sample_server (CodeProfile exchange_request)) w)
      (world_of (handle sample_server (CodeProfile exchange_request)) w)" for w
    by (rule handled)
  show "request_form exchange_request = Some exchange_values" "request_form exchange_request = Some exchange_values"
    by (rule exchange_form)+
qed (simp_all add: exchange_of_def exchange_form quiet_exchange undrawn_def reachable.start del: handle.simps)

text \<open>C2: a successful answer of the token endpoint is only given for an unused, unexpired
  code of the same client and redirect URI whose challenge the verifier meets (and that has a
  challenge, where PKCE is required); it carries a new token that is stored, by its hash, with the
  data of the code, and the code is marked used.\<close>

theorem token_exchange_sound:
  assumes "step s w (Token r) rsp w'" "rsp_Status rsp = 200"
  shows "\<exists>form c token. request_form r = Some form \<and> values_Get form ''grant_type'' = ''authorization_code'' \<and>
    redeemable form (clock w (ticks w)) (db w) c \<and>
    \<not> (RequirePKCE (Security (cfg s)) \<and> c_code_challenge c = []) \<and>
    rsp = token_response (scanAuthorizationCode c) token \<and>
    access_tokens (db w') = access_tokens (db w) @ [token_row_of token (token_of_code (scanAuthorizationCode c)
      (clock w (Suc (ticks w))) (AccessTokenTTL (Security (cfg s))))] \<and>
    authorization_codes (db w') = List.map (mark_used (c_code_hash c) (Unix (clock w (ticks w)))) (authorization_codes (db w))"
proof -
  from assms(1) have "run (handleToken s r) w = (rsp, w')" by (simp add: step_iff)
  then show ?thesis
  proof (rule handleToken_ok [OF _ assms(2)])
    fix form rec t w1
    let ?code = "values_Get form ''code''"
    assume f: "request_form r = Some form" "values_Get form ''grant_type'' = ''authorization_code''" "?code \<noteq> []"
      "run now w = (t, w1)" "val_of (ConsumeAuthorizationCode ?code t) w1 = Inr rec"
      "ac_ClientID rec = values_Get form ''client_id''" "ac_RedirectURI rec = values_Get form ''redirect_uri''"
      "RequirePKCE (Security (cfg s)) \<Longrightarrow> ac_CodeChallenge rec \<noteq> []"
      "ac_CodeChallenge rec \<noteq> [] \<Longrightarrow> VerifyPKCES256 (values_Get form ''code_verifier'') (ac_CodeChallenge rec)"
      and i: "run (issue_token s rec) (world_of (ConsumeAuthorizationCode ?code t) w1) = (rsp, w')"
    from f(4) have w1: "w1 = w\<lparr>ticks := Suc (ticks w)\<rparr>" and t: "t = clock w (ticks w)" by simp_all
    from f(5) show ?thesis
    proof (rule ConsumeAuthorizationCode_ok)
      fix c
      assume c: "List.find (\<lambda>c. c_code_hash c = HashToken ?code) (authorization_codes (db w1)) = Some c"
        "c_used_at c = None" "t < time_Unix (c_expires_at c)" "rec = scanAuthorizationCode c"
        and used: "db (world_of (ConsumeAuthorizationCode ?code t) w1) = use_db (HashToken ?code) t (db w1)"
      have "redeemable form (clock w (ticks w)) (db w) c" "c_code_hash c = HashToken ?code"
        using f c by (auto simp: redeemable_def w1 t less_time_Unix_iff dest: find_Some_in)
      moreover obtain token where "rsp = token_response rec token"
        "access_tokens (db w') = access_tokens (db w) @ [token_row_of token (token_of_code rec
          (clock w (Suc (ticks w))) (AccessTokenTTL (Security (cfg s))))]"
        "authorization_codes (db w') = List.map (mark_used (HashToken ?code) (Unix t)) (authorization_codes (db w))"
        using issue_token_ok [OF i assms(2)] unfolding used by (auto simp: use_db_def w1)
      ultimately show ?thesis
        using f(1,2,8) c(4) t by (intro exI [of _ form] exI [of _ c] exI [of _ token]) simp
    qed
  qed
qed

theorem token_exchange_sound_witness:
  "\<exists>form c token. request_form exchange_request = Some form \<and> values_Get form ''grant_type'' = ''authorization_code'' \<and>
    redeemable form (clock code_world (ticks code_world)) (db code_world) c \<and>
    \<not> (RequirePKCE (Security (cfg sample_server)) \<and> c_code_challenge c = []) \<and>
    val_of (handle sample_server (Token exchange_request)) code_world = token_response (scanAuthorizationCode c) token \<and>
    access_tokens (db (world_of (handle sample_server (Token exchange_request)) code_world)) =
      access_tokens (db code_world) @ [token_row_of token (token_of_code (scanAuthorizationCode c)
        (clock code_world (Suc (ticks code_world))) (AccessTokenTTL (Security (cfg sample_server))))] \<and>
    authorization_codes (db (world_of (handle sample_server (Token exchange_request)) code_world)) =
      List.map (mark_used (c_code_hash c) (Unix (clock code_world (ticks code_world)))) (authorization_codes (db code_world))"
  by (rule token_exchange_sound) (simp_all add: step_iff sample_exchange [simplified])

text \<open>C9: conversely, with a database that does not fail, a working random source and a token
  that is not already stored, a redeemable code is exchanged for a token with exactly the response
  of the code's data.\<close>

theorem token_exchange_complete:
  assumes "request_form r = Some form" "values_Get form ''grant_type'' = ''authorization_code''"
    and "redeemable form (clock w (ticks w)) (db w) c" "healthy w" "unique_keys (db w)"
    and "RequirePKCE (Security (cfg s)) \<longrightarrow> c_code_challenge c \<noteq> []"
    and "entropy w (draws w) = Some f" "token = RawURLEncode (List.map f [0..<tokenBytes])"
    and "\<forall>x \<in> set (access_tokens (db w)). t_token_hash x \<noteq> HashToken token"
  shows "val_of (handle s (Token r)) w = token_response (scanAuthorizationCode c) token"
  using assms by (rule token_exchange_response)

theorem token_exchange_complete_witness:
  "val_of (handle sample_server (Token exchange_request)) code_world =
     token_response (scanAuthorizationCode sample_code) (RawURLEncode (List.map (\<lambda>_. CHR ''a'') [0..<tokenBytes]))"
  by (rule token_exchange_complete [OF exchange_form])
    (simp_all)

text \<open>Once a token has been revoked with a database that does not fail, and no later
  draw repeats it, introspection reports it inactive in every run that follows, whatever statements
  fail later.\<close>

theorem revoked_token_stays_inactive:
  assumes "server_ok s"
    and "step s w (Revoke r) rsp w1" "rsp_Status rsp = 200" "request_form r = Some form" "healthy w"
    and "undrawn (HashToken (values_Get form ''token'')) (entropy w) (draws w)"
    and "reachable s w1 w2"
    and "step s w2 (Introspect r2) rsp2 w3" "request_form r2 = Some form2"
    and "values_Get form2 ''token'' = values_Get form ''token''"
  shows "rsp2 = inactive_response"
proof -
  let ?h = "HashToken (values_Get form ''token'')"
  have run: "run (handleRevoke r) w = (rsp, w1)" using assms(2) by (simp add: step_iff)
  obtain f where "request_form r = Some f" "values_Get f ''token'' \<noteq> []" using run assms(3) by (rule revoke_form)
  with assms(4) have ne: "values_Get form ''token'' \<noteq> []" by simp
  from run assms(3-6) refl have "inv (revoked ?h) (undrawn ?h) w1" by (rule handleRevoke_revokes)
  then have "inv (revoked ?h) (undrawn ?h) w2"
    by (rule flow.reachable_inv [OF revoked_flow [OF assms(1)] assms(7)])
  with assms(8-10) ne introspect_revoked [of r2 form2 w2] show ?thesis
    by (simp add: inv_def step_iff)
qed

theorem revoked_token_stays_inactive_witness:
  "val_of (handle sample_server (Introspect token_request))
     (world_of (handle sample_server (Revoke token_request)) token_world) = inactive_response"
proof (rule revoked_token_stays_inactive)
  show "step sample_server token_world (Revoke token_request)
      (val_of (handle sample_server (Revoke token_request)) token_world)
      (world_of (handle sample_server (Revoke token_request)) token_world)"
    by (rule handled)
  show "step sample_server w (Introspect token_request)
      (val_of (handle sample_server (Introspect token_request)) w)
      (world_of (handle sample_server (Introspect token_request)) w)" for w
    by (rule handled)
  show "request_form token_request = Some [(''token'', [''tok''])]" "request_form token_request = Some [(''token'', [''tok''])]"
    by (rule token_form)+
  show "rsp_Status (val_of (handle sample_server (Revoke token_request)) token_world) = 200"
    using handleRevoke_split [OF token_form, of token_world] by (simp add: values_Get_def)
qed (simp_all add: undrawn_def reachable.start)

text \<open>C13: when the statements of the database fail, revocation still answers 200, and the
  token stays as it was.\<close>

theorem failed_revocation_is_hidden:
  assumes "request_form r = Some form" "values_Get form ''token'' \<noteq> []" "\<forall>n. faults w n = Some e"
  shows "rsp_Status (val_of (handle s (Revoke r)) w) = 200 \<and>
    access_tokens (db (world_of (handle s (Revoke r)) w)) = access_tokens (db w)"
  using assms handleRevoke_split [OF assms(1,2), of w]
  by (simp add: RevokeAccessToken_def run_sql_exec)

theorem failed_revocation_is_hidden_witness:
  "rsp_Status (val_of (handle sample_server (Revoke token_request)) (token_world\<lparr>faults := \<lambda>_. Some ''disk I/O error''\<rparr>)) = 200 \<and>
   access_tokens (db (world_of (handle sample_server (Revoke token_request))
     (token_world\<lparr>faults := \<lambda>_. Some ''disk I/O error''\<rparr>))) = access_tokens (db (token_world\<lparr>faults := \<lambda>_. Some ''disk I/O error''\<rparr>))"
  by (rule failed_revocation_is_hidden [OF token_form]) (simp_all add: values_Get_def)

text \<open>In every run the keys of the tables stay unique: the identifiers of requests and
  consents, the hashes of codes and tokens, the handles of profiles up to case, and their
  identities.\<close>

theorem keys_stay_unique:
  assumes "server_ok s" "reachable s w0 w" "unique_keys (db w0)"
  shows "unique_keys (db w)"
  using flow.reachable_inv [OF keys_flow [OF assms(1)] assms(2)] assms(3) by (simp add: inv_def)

theorem keys_stay_unique_witness:
  "unique_keys (db (world_of (handle sample_server (Token exchange_request)) code_world))"
  by (rule keys_stay_unique [OF sample_server_ok handled_reachable]) simp_all

text \<open>In every run from empty tables, every stored code and consent request has a supported
  scope, a redirect URI accepted for its client, and no challenge other than an S256 one, which is
  valid where PKCE is required; every stored token has a supported scope.\<close>

theorem stored_grants_are_checked:
  assumes "server_ok s" "reachable s w0 w" "db w0 = empty_database"
  shows "list_all (\<lambda>c. grant_checked s (c_client_id c) (c_redirect_uri c) (c_scope c) (c_code_challenge c)
      (c_code_challenge_method c)) (authorization_codes (db w)) \<and>
    list_all (\<lambda>r. grant_checked s (r_client_id r) (r_redirect_uri r) (r_scope r) (r_code_challenge r)
      (r_code_challenge_method r)) (consent_requests (db w)) \<and>
    list_all (\<lambda>t. ScopeAllowed (t_scope t)) (access_tokens (db w))"
proof -
  have "grants_checked s (db w)"
    using flow.reachable_inv [OF grants_flow [OF assms(1)] assms(2)] assms(3) by (simp add: inv_def)
  then show ?thesis by (simp add: grants_checked_def list_all_iff)
qed

theorem stored_grants_are_checked_witness:
  "list_all (\<lambda>c. grant_checked login_server (c_client_id c) (c_redirect_uri c) (c_scope c) (c_code_challenge c)
      (c_code_challenge_method c)) (authorization_codes (db (world_of (handle login_server (Authorize login_callback)) sample_world))) \<and>
    list_all (\<lambda>r. grant_checked login_server (r_client_id r) (r_redirect_uri r) (r_scope r) (r_code_challenge r)
      (r_code_challenge_method r)) (consent_requests (db (world_of (handle login_server (Authorize login_callback)) sample_world))) \<and>
    list_all (\<lambda>t. ScopeAllowed (t_scope t)) (access_tokens (db (world_of (handle login_server (Authorize login_callback)) sample_world)))"
  by (rule stored_grants_are_checked [OF login_server_ok handled_reachable]) simp_all

text \<open>C5: a decision on a consent request issues a code only when the request exists and has
  not expired, the form carries its CSRF token and the decision is \<open>approve\<close>; then it issues exactly
  one, with the data of the consent request.\<close>

theorem consent_code_needs_approval:
  assumes "step s w (ConsentPost r) rsp w'" "authorization_codes (db w') \<noteq> authorization_codes (db w)"
  shows "\<exists>form row code. request_form r = Some form \<and> decidable r form (clock w (ticks w)) (db w) row \<and>
    values_Get form ''csrf'' = r_csrf_token row \<and> values_Get form ''decision'' = ''approve'' \<and>
    authorization_codes (db w') = authorization_codes (db w) @ [code_row_of code
      (code_of_request (request_of_consent (scanConsentRequest row)) (clock w (Suc (ticks w))) (CodeTTL (Security (cfg s))))]"
proof -
  let ?w1 = "w\<lparr>ticks := Suc (ticks w), db_ops := Suc (db_ops w)\<rparr>"
  have "run (handleConsentPost s r) w = (rsp, w')" using assms(1) by (simp add: step_iff)
  from handleConsentPost_split [OF this] assms(2) obtain form row where
    f: "request_form r = Some form" "decidable r form (clock w (ticks w)) (db w) row"
      "values_Get form ''csrf'' = r_csrf_token row"
    and h: "run (do { rsp \<leftarrow> decide_consent s form (scanConsentRequest row); d \<leftarrow> DeleteConsentRequest (r_id row); return rsp }) ?w1 = (rsp, w')"
    by blast
  from h have w': "w' = world_of (DeleteConsentRequest (r_id row)) (world_of (decide_consent s form (scanConsentRequest row)) ?w1)"
    by (auto simp: case_prod_beta)
  have "authorization_codes (db (world_of (decide_consent s form (scanConsentRequest row)) ?w1)) \<noteq> authorization_codes (db ?w1)"
    using assms(2) by (simp add: w')
  from decide_codes [OF this] f show ?thesis by (auto simp: w')
qed

theorem consent_code_needs_approval_witness:
  "\<exists>form row code. request_form approval = Some form \<and>
    decidable approval form (clock consent_world (ticks consent_world)) (db consent_world) row \<and>
    values_Get form ''csrf'' = r_csrf_token row \<and> values_Get form ''decision'' = ''approve'' \<and>
    authorization_codes (db (world_of (handle sample_server (ConsentPost approval)) consent_world)) =
      authorization_codes (db consent_world) @ [code_row_of code (code_of_request (request_of_consent (scanConsentRequest row))
        (clock consent_world (Suc (ticks consent_world))) (CodeTTL (Security (cfg sample_server))))]"
proof (rule consent_code_needs_approval)
  show "step sample_server consent_world (ConsentPost approval)
      (val_of (handle sample_server (ConsentPost approval)) consent_world)
      (world_of (handle sample_server (ConsentPost approval)) consent_world)"
    by (rule handled)
  show "authorization_codes (db (world_of (handle sample_server (ConsentPost approval)) consent_world)) \<noteq>
      authorization_codes (db consent_world)"
    using approval_issues by auto
qed

text \<open>A decision with another CSRF token is answered 400, and leaves the consent requests
  and the codes as they were.\<close>

theorem wrong_csrf_token_changes_nothing:
  assumes "request_form r = Some form" "decidable r form (clock w (ticks w)) (db w) row"
    and "values_Get form ''csrf'' \<noteq> r_csrf_token row"
  shows "rsp_Status (val_of (handle s (ConsentPost r)) w) = 400 \<and>
    consent_requests (db (world_of (handle s (ConsentPost r)) w)) = consent_requests (db w) \<and>
    authorization_codes (db (world_of (handle s (ConsentPost r)) w)) = authorization_codes (db w)"
  using handleConsentPost_split [of s r w, OF prod.collapse [symmetric]] assms
  by (auto simp: decidable_def)

theorem wrong_csrf_token_changes_nothing_witness:
  "rsp_Status (val_of (handle sample_server (ConsentPost forged_approval)) consent_world) = 400 \<and>
    consent_requests (db (world_of (handle sample_server (ConsentPost forged_approval)) consent_world)) =
      consent_requests (db consent_world) \<and>
    authorization_codes (db (world_of (handle sample_server (ConsentPost forged_approval)) consent_world)) =
      authorization_codes (db consent_world)"
  by (rule wrong_csrf_token_changes_nothing [OF forged_form, of _ sample_consent])
    (simp_all add: decidable_def consent_id_def values_Get_def sample_consent_def Unix_def second_def)

text \<open>C11: with a database that does not fail, every decision that is not rejected uses up the
  consent request.\<close>

theorem decided_consent_is_gone:
  assumes "step s w (ConsentPost r) rsp w'" "healthy w" "rsp_Status rsp \<noteq> 400"
  shows "\<exists>form. request_form r = Some form \<and> consent_id form r \<notin> r_id ` set (consent_requests (db w'))"
proof -
  have "run (handleConsentPost s r) w = (rsp, w')" using assms(1) by (simp add: step_iff)
  from handleConsentPost_split [OF this] assms(3) obtain form row where
    f: "request_form r = Some form" "decidable r form (clock w (ticks w)) (db w) row"
    and h: "run (do { rsp \<leftarrow> decide_consent s form (scanConsentRequest row); d \<leftarrow> DeleteConsentRequest (r_id row); return rsp })
      (w\<lparr>ticks := Suc (ticks w), db_ops := Suc (db_ops w)\<rparr>) = (rsp, w')"
    by blast
  have i: "r_id row = consent_id form r" using f(2) by (auto simp: decidable_def dest: find_Some_in)
  from h have w': "w' = world_of (DeleteConsentRequest (r_id row)) (world_of (decide_consent s form (scanConsentRequest row))
      (w\<lparr>ticks := Suc (ticks w), db_ops := Suc (db_ops w)\<rparr>))"
    by (auto simp: case_prod_beta)
  have "consent_requests (db w') = filter (\<lambda>x. r_id x \<noteq> r_id row) (consent_requests (db (world_of
      (decide_consent s form (scanConsentRequest row)) (w\<lparr>ticks := Suc (ticks w), db_ops := Suc (db_ops w)\<rparr>))))"
    unfolding w' by (rule DeleteConsent_rows) (use assms(2) in \<open>simp add: healthy_def\<close>)
  with f(1) i show ?thesis by auto
qed

theorem decided_consent_is_gone_witness:
  "\<exists>form. request_form approval = Some form \<and>
     consent_id form approval \<notin> r_id ` set (consent_requests (db (world_of (handle sample_server (ConsentPost approval)) consent_world)))"
  by (rule decided_consent_is_gone [OF handled]) (simp_all del: handle.simps add: approval_status)

text \<open>C3: the callback of a login adds a code or a consent request only when its state names a
  stored request that is not a setup request, the backend has completed the login with an identity,
  and that identity may act for the requested profile; it adds a code only where consent is not
  required, and then one with the data of the request.\<close>

theorem callback_grants_need_the_identity:
  assumes "server_ok s" "step s w (Callback n r) rsp w'" "grants w' \<noteq> grants w"
  shows "\<exists>b q bs w1 identity pj. (q_backend q, b) \<in> set (backends s) \<and> q \<in> set (auth_requests (db w)) \<and>
    q_backend_state_value q = values_Get (request_query r) ''state'' \<and>
    unmarshal_state (tables s) (q_backend_state q) = Inr bs \<and>
    val_of (CompleteAuth b (request_query r) bs) w1 = Inr identity \<and> \<not> bool_value bs backendStateSetup \<and>
    identity_decision s (scanAuthRequest bs q) identity = Some pj \<and>
    (if ConsentRequired (Security (cfg s)) then authorization_codes (db w') = authorization_codes (db w)
     else \<exists>code t. authorization_codes (db w') = authorization_codes (db w) @ [code_row_of code (code_of_request
       (request_of_auth (scanAuthRequest bs q) pj (id_Subject identity)) t (CodeTTL (Security (cfg s))))])"
proof -
  let ?st = "values_Get (request_query r) ''state''"
  let ?w1 = "world_of (findAuthRequest s n ?st) w"
  have run: "run (handleCallback s n r) w = (rsp, w')" using assms(2) by (simp add: step_iff)
  have g1: "grants ?w1 = grants w" by simp
  from run assms(3) have st: "?st \<noteq> []" by (auto simp: handleCallback_def)
  obtain ar b where f: "val_of (findAuthRequest s n ?st) w = Inr (ar, b)"
    using run assms(3) g1 st by (cases "val_of (findAuthRequest s n ?st) w") (auto simp: handleCallback_def case_prod_beta)
  let ?w2 = "world_of (complete_login s (request_query r) ar b) ?w1"
  have w': "w' = world_of (DeleteAuthRequest (ar_ID ar)) ?w2"
    using run f st by (auto simp: handleCallback_def case_prod_beta)
  obtain m q bs where q: "(m, b) \<in> set (backends s)" "q \<in> set (auth_requests (db w))" "q_backend q = m"
    "q_backend_state_value q = ?st" "unmarshal_state (tables s) (q_backend_state q) = Inr bs" "ar = scanAuthRequest bs q"
    using findAuthRequest_ok [OF f] by auto
  have bs: "ar_BackendState ar = bs" by (simp add: q(6) scanAuthRequest_def)
  have blind: "store_blind (CompleteAuth b (request_query r) (ar_BackendState ar))"
    by (rule server_ok_parts(3) [OF assms(1) q(1)])
  have gw: "grants w' = grants ?w2" by (simp add: w')
  with assms(3) g1 have "grants ?w2 \<noteq> grants ?w1" by simp
  from complete_login_grants [OF blind this] obtain identity pj where
    i: "val_of (CompleteAuth b (request_query r) bs) ?w1 = Inr identity" "\<not> bool_value bs backendStateSetup"
      "identity_decision s ar identity = Some pj"
    and codes: "if ConsentRequired (Security (cfg s)) then authorization_codes (db ?w2) = authorization_codes (db ?w1)
     else \<exists>code t. authorization_codes (db ?w2) = authorization_codes (db ?w1) @ [code_row_of code (code_of_request
       (request_of_auth ar pj (id_Subject identity)) t (CodeTTL (Security (cfg s))))]"
    unfolding bs by blast
  have e: "authorization_codes (db w') = authorization_codes (db ?w2)" "authorization_codes (db ?w1) = authorization_codes (db w)"
    using gw g1 by (simp_all add: grants_def)
  have "if ConsentRequired (Security (cfg s)) then authorization_codes (db w') = authorization_codes (db w)
     else \<exists>code t. authorization_codes (db w') = authorization_codes (db w) @ [code_row_of code (code_of_request
       (request_of_auth (scanAuthRequest bs q) pj (id_Subject identity)) t (CodeTTL (Security (cfg s))))]"
    using codes unfolding e(1) [symmetric] e(2) unfolding q(6) .
  with q i show ?thesis
    by (intro exI [of _ b] exI [of _ q] exI [of _ bs] exI [of _ ?w1] exI [of _ identity] exI [of _ pj]) simp
qed

theorem callback_grants_need_the_identity_witness:
  "\<exists>b q bs w1 identity pj. (q_backend q, b) \<in> set (backends login_server) \<and> q \<in> set (auth_requests (db login_world)) \<and>
    q_backend_state_value q = values_Get (request_query login_callback) ''state'' \<and>
    unmarshal_state (tables login_server) (q_backend_state q) = Inr bs \<and>
    val_of (CompleteAuth b (request_query login_callback) bs) w1 = Inr identity \<and> \<not> bool_value bs backendStateSetup \<and>
    identity_decision login_server (scanAuthRequest bs q) identity = Some pj \<and>
    (if ConsentRequired (Security (cfg login_server))
     then authorization_codes (db (world_of (handle login_server (Callback ''b'' login_callback)) login_world)) =
       authorization_codes (db login_world)
     else \<exists>code t. authorization_codes (db (world_of (handle login_server (Callback ''b'' login_callback)) login_world)) =
       authorization_codes (db login_world) @ [code_row_of code (code_of_request
         (request_of_auth (scanAuthRequest bs q) pj (id_Subject identity)) t (CodeTTL (Security (cfg login_server))))])"
proof (rule callback_grants_need_the_identity [OF login_server_ok])
  show "step login_server login_world (Callback ''b'' login_callback)
      (val_of (handle login_server (Callback ''b'' login_callback)) login_world)
      (world_of (handle login_server (Callback ''b'' login_callback)) login_world)"
    by (rule handled)
  show "grants (world_of (handle login_server (Callback ''b'' login_callback)) login_world) \<noteq> grants login_world"
    using login_grants by (auto simp: grants_def)
qed

text \<open>With a database that does not fail, a callback that finds its request uses it up,
  whether the login succeeds or not.\<close>

theorem callback_uses_the_request_up:
  assumes "server_ok s" "step s w (Callback n r) rsp w'" "healthy w"
    and "values_Get (request_query r) ''state'' \<noteq> []"
    and "val_of (findAuthRequest s n (values_Get (request_query r) ''state'')) w = Inr (ar, b)"
  shows "ar_ID ar \<notin> q_id ` set (auth_requests (db w'))"
proof -
  let ?f = "findAuthRequest s n (values_Get (request_query r) ''state'')"
  let ?w2 = "world_of (complete_login s (request_query r) ar b) (world_of ?f w)"
  from findAuthRequest_ok [OF assms(5)] obtain m where b: "(m, b) \<in> set (backends s)" by blast
  note faults = server_contract.keeps_complete_login [OF faults_contract [OF assms(1)] TrueI b, THEN keepsD]
    server_contract.keeps_findAuthRequest [OF faults_contract [OF assms(1)], THEN keepsD]
  have "healthy ?w2" using assms(3) faults by (auto simp: healthy_def)
  moreover have "w' = world_of (DeleteAuthRequest (ar_ID ar)) ?w2"
    using assms(2,4,5) by (auto simp: step_iff handleCallback_def case_prod_beta)
  ultimately show ?thesis by (auto simp: DeleteAuth_rows)
qed

theorem callback_uses_the_request_up_witness:
  "ar_ID (scanAuthRequest login_state login_row) \<notin>
     q_id ` set (auth_requests (db (world_of (handle login_server (Callback ''b'' login_callback)) login_world)))"
  by (rule callback_uses_the_request_up [OF login_server_ok handled, where b = sample_backend])
    (use login_found in \<open>auto simp: values_Get_def\<close>)

section \<open>Logins at an OpenID provider\<close>











end
