(* ===== verification/StoreSpec.thy ===== *)
theory StoreSpec
  imports TokenStatus
begin

text \<open>
  What the store promises of codes and of the cleanup, stated abstractly: a code is offered, spent or
  unknown, and consuming it spends it; the cleanup leaves exactly what is live.
\<close>

section \<open>The codes as an abstract map\<close>

text \<open>What the store says of a code, by its hash.\<close>

datatype code_state = NoCode | Offered AuthorizationCode | Spent AuthorizationCode

definition code_state_of :: "database \<Rightarrow> string \<Rightarrow> code_state" where
  "code_state_of d h = (case List.find (\<lambda>c. c_code_hash c = h) (authorization_codes d) of
     None \<Rightarrow> NoCode
   | Some c \<Rightarrow> if c_used_at c = None then Offered (scanAuthorizationCode c) else Spent (scanAuthorizationCode c))"

text \<open>The abstract operation: an offered code that has not expired is spent.\<close>

fun spend :: "time \<Rightarrow> code_state \<Rightarrow> AuthorizationCode stored \<times> code_state" where
  "spend t NoCode = (Inl ErrNotFound, NoCode)"
| "spend t (Spent rec) = (Inl ErrUsed, Spent rec)"
| "spend t (Offered rec) = (if t < ac_ExpiresAt rec then (Inr rec, Spent rec) else (Inl ErrExpired, Offered rec))"

lemma scan_mark_used [simp]: "scanAuthorizationCode (mark_used h u c) = scanAuthorizationCode c"
  by (simp add: scanAuthorizationCode_def mark_used_def)

lemma find_mark_used:
  "List.find (\<lambda>c. c_code_hash c = h') (List.map (mark_used h u) cs) =
     map_option (mark_used h u) (List.find (\<lambda>c. c_code_hash c = h') cs)"
  by (rule find_map_same_key) (simp add: mark_used_def)

lemma code_state_of_use:
  assumes "code_state_of d h = Offered rec"
  shows "code_state_of (use_db h t d) = (code_state_of d)(h := Spent rec)"
proof
  fix h'
  obtain c where c: "List.find (\<lambda>c. c_code_hash c = h) (authorization_codes d) = Some c" "c_used_at c = None"
      "rec = scanAuthorizationCode c"
    using assms by (auto simp: code_state_of_def split: option.splits if_splits)
  then have "c_code_hash c = h" by (auto dest: find_Some_in)
  with c have same: "code_state_of (use_db h t d) h = Spent rec"
    by (simp add: code_state_of_def use_db_def find_mark_used) (simp add: mark_used_def unused_def)
  have other: "code_state_of (use_db h t d) h' = code_state_of d h'" if "h' \<noteq> h"
  proof -
    have "mark_used h (Unix t) x = x" if "List.find (\<lambda>c. c_code_hash c = h') (authorization_codes d) = Some x" for x
      using find_Some_in [OF that] \<open>h' \<noteq> h\<close> by (auto simp: mark_used_def unused_def)
    then show ?thesis
      by (auto simp: code_state_of_def use_db_def find_mark_used split: option.splits)
  qed
  show "code_state_of (use_db h t d) h' = ((code_state_of d)(h := Spent rec)) h'"
    using same other by (cases "h' = h") simp_all
qed

text \<open>A record as the store gives it back: with the hash, and its times cut to seconds.\<close>

definition stored_code :: "string \<Rightarrow> AuthorizationCode \<Rightarrow> AuthorizationCode" where
  "stored_code code rec = rec\<lparr>ac_CodeHash := HashToken code, ac_ExpiresAt := time_Unix (Unix (ac_ExpiresAt rec)),
     ac_CreatedAt := time_Unix (Unix (ac_CreatedAt rec))\<rparr>"

lemma scan_code_row: "scanAuthorizationCode (code_row_of code rec) = stored_code code rec"
  by (simp add: scanAuthorizationCode_def code_row_of_def stored_code_def)

section \<open>The cleanup\<close>

definition live_code :: "int \<Rightarrow> code_row \<Rightarrow> bool" where
  "live_code u c \<longleftrightarrow> u < c_expires_at c \<and> c_used_at c = None"

definition live_rows :: "int \<Rightarrow> database \<Rightarrow> auth_request_row list \<times> consent_row list \<times> code_row list \<times> token_row list" where
  "live_rows u d = (filter (\<lambda>q. u < q_expires_at q) (auth_requests d), filter (\<lambda>r. u < r_expires_at r) (consent_requests d),
     filter (live_code u) (authorization_codes d), filter (\<lambda>t. u < t_expires_at t) (access_tokens d))"

definition all_rows :: "database \<Rightarrow> auth_request_row list \<times> consent_row list \<times> code_row list \<times> token_row list" where
  "all_rows d = (auth_requests d, consent_requests d, authorization_codes d, access_tokens d)"

lemma live_code_both: "live_code u = (\<lambda>c. c_used_at c = None \<and> u < c_expires_at c)"
  by (auto simp: live_code_def fun_eq_iff)

lemma exec_all_fold: "healthy w \<Longrightarrow> db (world_of (exec_all fs) w) = fold (\<lambda>f. f) fs (db w)"
proof (induction fs arbitrary: w)
  case (Cons f fs)
  then show ?case by (simp add: run_sql_exec) (subst Cons.IH, simp_all add: healthy_def)
qed simp

lemma cleanup_live: "f \<in> set (cleanup_statements u) \<Longrightarrow> live_rows u (f d) = live_rows u d"
  by (auto simp: cleanup_statements_def live_rows_def live_code_both not_le conj_ac cong: conj_cong)

lemma exec_all_live:
  assumes "\<And>f d. f \<in> set fs \<Longrightarrow> live_rows u (f d) = live_rows u d"
  shows "live_rows u (db (world_of (exec_all fs) w)) = live_rows u (db w)"
  using assms
proof (induction fs arbitrary: w)
  case (Cons f fs)
  then show ?case by (auto simp: run_sql_exec split: option.splits)
qed simp

end
