(* ===== verification/StoreProperties.thy ===== *)
theory StoreProperties
  imports StoreSpec Examples
begin

text \<open>
  The properties of the store: the refinement of its codes to an abstract map, what it gives back of
  what it is given, atomicity, the cleanup, and the answers about tokens.
\<close>

text \<open>C18: with unique keys and a database that does not fail, the transaction that consumes a
  code implements the abstract operation: its answer is that of spending the code's abstract state,
  and the abstract map changes at that code alone.\<close>

theorem consumption_refines_spending:
  assumes "healthy w" "unique_keys (db w)"
  shows "val_of (ConsumeAuthorizationCode code t) w = fst (spend t (code_state_of (db w) (HashToken code))) \<and>
    code_state_of (db (world_of (ConsumeAuthorizationCode code t) w)) =
      (code_state_of (db w))(HashToken code := snd (spend t (code_state_of (db w) (HashToken code))))"
proof -
  let ?h = "HashToken code"
  let ?c = "List.find (\<lambda>c. c_code_hash c = ?h) (authorization_codes (db w))"
  have e: "ac_ExpiresAt (scanAuthorizationCode c) = time_Unix (c_expires_at c)" for c
    by (simp add: scanAuthorizationCode_def)
  have v: "val_of (ConsumeAuthorizationCode code t) w = fst (spend t (code_state_of (db w) ?h))"
    using unique_code_one [OF assms(2)]
    by (auto simp: ConsumeAuthorizationCode_healthy [OF assms(1)] code_state_of_def e split: option.splits)
  show ?thesis
  proof (cases "val_of (ConsumeAuthorizationCode code t) w")
    case (Inl x)
    then have "snd (spend t (code_state_of (db w) ?h)) = code_state_of (db w) ?h"
      using v by (cases "code_state_of (db w) ?h") (auto split: if_splits)
    with v ConsumeAuthorizationCode_failed [OF Inl] show ?thesis by simp
  next
    case (Inr rec)
    then have o: "code_state_of (db w) ?h = Offered rec" "snd (spend t (code_state_of (db w) ?h)) = Spent rec"
      using v by (cases "code_state_of (db w) ?h"; auto split: if_splits)+
    from Inr have "db (world_of (ConsumeAuthorizationCode code t) w) = use_db ?h t (db w)"
      by (rule ConsumeAuthorizationCode_ok)
    with v o code_state_of_use [OF o(1)] show ?thesis by simp
  qed
qed

theorem consumption_refines_spending_witness:
  "val_of (ConsumeAuthorizationCode ''abc'' 0) code_world = fst (spend 0 (code_state_of (db code_world) (HashToken ''abc''))) \<and>
   code_state_of (db (world_of (ConsumeAuthorizationCode ''abc'' 0) code_world)) =
     (code_state_of (db code_world))(HashToken ''abc'' := snd (spend 0 (code_state_of (db code_world) (HashToken ''abc''))))"
  by (rule consumption_refines_spending) simp_all

text \<open>With a database that does not fail, a code that is stored while its hash is not, and
  consumed before the second of its expiry, gives the record back with the hash filled in and its
  times cut to seconds.\<close>

lemma stored_code_is_consumed:
  assumes "healthy w" "code_state_of (db w) (HashToken code) = NoCode" "Unix t < Unix (ac_ExpiresAt rec)"
  shows "val_of (do { r \<leftarrow> CreateAuthorizationCode code rec; ConsumeAuthorizationCode code t }) w = Inr (stored_code code rec)"
proof -
  have n: "List.find (\<lambda>c. c_code_hash c = HashToken code) (authorization_codes (db w)) = None"
    using assms(2) by (auto simp: code_state_of_def split: option.splits if_splits)
  then have fresh: "\<forall>c \<in> set (authorization_codes (db w)). c_code_hash c \<noteq> HashToken code"
    by (simp add: find_None_iff)
  have h: "c_code_hash (code_row_of code rec) = HashToken code" "c_used_at (code_row_of code rec) = None"
    "c_expires_at (code_row_of code rec) = Unix (ac_ExpiresAt rec)"
    by (simp_all add: code_row_of_def)
  have one: "length (filter (unused (HashToken code)) (authorization_codes (db w) @ [code_row_of code rec])) = 1"
    using fresh h by (auto simp: unused_def filter_empty_conv)
  let ?w1 = "w\<lparr>db_ops := Suc (db_ops w), db := authorization_codes_update (\<lambda>rows. rows @ [code_row_of code rec]) (db w)\<rparr>"
  have r: "run (CreateAuthorizationCode code rec) w = (Inr (), ?w1)"
    using assms(1) fresh by (auto simp: CreateAuthorizationCode_def run_sql_insert)
  have "healthy ?w1" using assms(1) by (simp add: healthy_def)
  then have "val_of (ConsumeAuthorizationCode code t) ?w1 = Inr (stored_code code rec)"
    using n h one assms(3) less_time_Unix_iff scan_code_row
    by (simp add: ConsumeAuthorizationCode_healthy find_None_append)
  then show ?thesis by (simp add: r)
qed

lemma stored_code_is_consumed_witness:
  "val_of (do { r \<leftarrow> CreateAuthorizationCode ''xyz'' (scanAuthorizationCode sample_code); ConsumeAuthorizationCode ''xyz'' 0 })
     sample_world = Inr (stored_code ''xyz'' (scanAuthorizationCode sample_code))"
  by (rule stored_code_is_consumed)
    (simp_all add: healthy_def code_state_of_def empty_database_def scanAuthorizationCode_def sample_code_def Unix_def time_Unix_def second_def)

text \<open>A consumption that does not succeed, for whatever reason, leaves the whole database as
  it was: the transaction is rolled back.\<close>

lemma failed_consumption_changes_nothing:
  assumes "val_of (ConsumeAuthorizationCode code t) w = Inl e"
  shows "db (world_of (ConsumeAuthorizationCode code t) w) = db w"
  using assms by (rule ConsumeAuthorizationCode_failed)

lemma failed_consumption_changes_nothing_witness:
  "db (world_of (ConsumeAuthorizationCode ''abc'' 0) (code_world\<lparr>faults := (\<lambda>n. if n = 3 then Some ''commit failed'' else None)\<rparr>)) =
   db (code_world\<lparr>faults := (\<lambda>n. if n = 3 then Some ''commit failed'' else None)\<rparr>)"
  by (rule failed_consumption_changes_nothing [where e = "DbError ''commit failed''"])
    (simp add: ConsumeAuthorizationCode_def consume_body_def transaction_def use_code_def unused_def run_statements
      sample_code_def time_Unix_def second_def)

text \<open>The cleanup, on the rows that have not expired and on all rows.\<close>

lemma cleanup_keeps_what_is_live:
  "live_rows (Unix t) (db (world_of (Cleanup t) w)) = live_rows (Unix t) (db w)"
  unfolding Cleanup_def by (rule exec_all_live) (rule cleanup_live)

lemma cleanup_leaves_only_what_is_live:
  assumes "healthy w" shows "all_rows (db (world_of (Cleanup t) w)) = live_rows (Unix t) (db w)"
  unfolding Cleanup_def exec_all_fold [OF assms]
  by (auto simp: cleanup_statements_def live_rows_def all_rows_def live_code_both not_le conj_ac)

text \<open>C19: the periodic cleanup, whichever of its statements fail, removes no request, consent
  request or token that has not expired, and no unused code that has not; with a database that does not
  fail, exactly those rows are left after it.\<close>

theorem cleanup_keeps_exactly_the_live:
  "live_rows (Unix t) (db (world_of (Cleanup t) w)) = live_rows (Unix t) (db w) \<and>
   (healthy w \<longrightarrow> all_rows (db (world_of (Cleanup t) w)) = live_rows (Unix t) (db w))"
  by (simp add: cleanup_keeps_what_is_live cleanup_leaves_only_what_is_live)

theorem cleanup_keeps_exactly_the_live_witness:
  "all_rows (db (world_of (Cleanup 0) code_world)) = live_rows (Unix 0) (db code_world)"
  using cleanup_keeps_exactly_the_live [of 0 code_world] by simp

text \<open>With a database that does not fail, introspection reports a token active, with the
  data of its row, exactly when it is stored, not revoked and not expired; everything else is the
  same inactive answer.\<close>

lemma introspection_reports_the_token:
  assumes "request_form r = Some form" "values_Get form ''token'' \<noteq> []" "healthy w"
  shows "val_of (handle s (Introspect r)) w = token_answer (values_Get form ''token'') (clock w (ticks w)) (db w)"
  using introspect_answer [OF assms] by simp

lemma introspection_reports_the_token_witness:
  "val_of (handle sample_server (Introspect token_request)) token_world =
     token_answer (values_Get [(''token'', [''tok''])] ''token'') (clock token_world (ticks token_world)) (db token_world)"
  by (rule introspection_reports_the_token [OF token_form]) (simp_all add: values_Get_def)

end
