(* ===== verification/Discovery.thy ===== *)
theory Discovery
  imports Examples
begin

text \<open>
  The pages that the discoveries of \<open>internal/indieauth\<close> fetch: which addresses are dialled, how many
  requests are made, what is known of a page when a discovery succeeds, and concrete replies.
\<close>

section \<open>What is dialled\<close>

text \<open>Only addresses outside the private, local and reserved ranges are dialled on top of earlier ones.\<close>

definition dials_safely :: "('a network_scheme, 'b) state \<Rightarrow> 'a network_scheme \<Rightarrow> bool" where
  "dials_safely m w \<longleftrightarrow> set (dialled (world_of m w)) \<subseteq> set (dialled w) \<union> {ip. \<not> isUnsafeMetadataIP ip}"

lemma dials_safelyI:
  assumes "\<And>P. (\<And>ip. \<not> isUnsafeMetadataIP ip \<Longrightarrow> P ip) \<Longrightarrow> keeps (dials_only P) m anything"
  shows "dials_safely m w"
proof -
  let ?P = "\<lambda>ip. ip \<in> set (dialled w) \<or> \<not> isUnsafeMetadataIP ip"
  have "dials_only ?P w" by (simp add: dials_only_def list_all_iff)
  with keepsD [OF assms [of ?P], of w] have "dials_only ?P (world_of m w)" by simp
  then show ?thesis by (auto simp: dials_safely_def dials_only_def list_all_iff)
qed

lemma discovery_dials_safely:
  "dials_safely (DiscoverProfileIdentity U me False name pub iss) w"
  "dials_safely (DiscoverAuthorizationServer U me False) w"
  by (rule dials_safelyI, rule dials.keeps_DiscoverProfileIdentity, simp)
    (rule dials_safelyI, rule dials.keeps_DiscoverAuthorizationServer, simp)

section \<open>How many requests\<close>

lemma client_Do_exchanges:
  assumes "\<And>n u w. exchanges (world_of (check_redirect c n u) w) = exchanges w"
  shows "exchanges (world_of (client_Do U c via r) w) \<le> exchanges w + max 1 (max_via c - via)"
  using assms
proof (induction U c via r arbitrary: w rule: client_Do.induct)
  case (1 U c via r)
  have dial: "exchanges (world_of (dial ok h) v) = exchanges v" for ok h and v :: "'a network_scheme"
  proof -
    have "exchanges (world_of (dial_addresses ok ips) v) = exchanges v" for ips and v :: "'a network_scheme"
      by (induction ips arbitrary: v) auto
    then show ?thesis by (simp add: dial_def split: sum.splits)
  qed
  obtain d w1 where d: "run (dial (dial_ok c) (Hostname (wr_URL r))) w = (d, w1)" by fastforce
  have w1: "exchanges w1 = exchanges w" using dial [of "dial_ok c" "Hostname (wr_URL r)" w] d by simp
  let ?w2 = "w1\<lparr>exchanges := Suc (exchanges w1)\<rparr>"
  show ?case
  proof (cases "\<exists>resp loc. d = Inr () \<and> url_Scheme (wr_URL r) \<in> {''http'', ''https''} \<and> url_Host (wr_URL r) \<noteq> [] \<and>
      replies w1 (exchanges w1) r = Inr resp \<and> is_redirect (wp_Status resp) \<and> wp_Location resp \<noteq> [] \<and>
      Parse U (wp_Location resp) = Inr loc")
    case False
    then show ?thesis
      using d w1 by (subst client_Do.simps) (auto split: sum.splits)
  next
    case True
    then obtain resp loc where t: "d = Inr ()" "url_Scheme (wr_URL r) \<in> {''http'', ''https''}" "url_Host (wr_URL r) \<noteq> []"
      "replies w1 (exchanges w1) r = Inr resp" "is_redirect (wp_Status resp)" "wp_Location resp \<noteq> []"
      "Parse U (wp_Location resp) = Inr loc" by blast
    let ?u = "ResolveReference (wr_URL r) loc"
    obtain k w3 where k: "run (check_redirect c (Suc via) ?u) ?w2 = (k, w3)" by fastforce
    have w3: "exchanges w3 = Suc (exchanges w)" using "1.prems" [of "Suc via" ?u ?w2] k w1 by simp
    show ?thesis
    proof (cases "\<exists>x. k = Inr x \<and> \<not> max_via c \<le> Suc via")
      case False
      with d t k w3 show ?thesis by (subst client_Do.simps) (auto simp: Let_def split: sum.splits)
    next
      case True
      then obtain x where x: "k = Inr x" "\<not> max_via c \<le> Suc via" by blast
      have "run (client_Do U c via r) w = run (client_Do U c (Suc via) (redirected (wp_Status resp) ?u r)) w3"
        using d t k x by (subst client_Do.simps) (auto simp: Let_def)
      moreover have "exchanges (world_of (client_Do U c (Suc via) (redirected (wp_Status resp) ?u r)) w3) \<le>
          exchanges w3 + max 1 (max_via c - Suc via)"
        using "1.IH" t x "1.prems" by fastforce
      ultimately show ?thesis using x w3 by simp
    qed
  qed
qed

lemma target_exchanges [simp]: "exchanges (world_of (validateMetadataFetchTarget u allow) w) = exchanges w"
  by (simp add: validateMetadataFetchTarget_def case_prod_beta)

text \<open>Computations that make at most so many requests.\<close>

definition at_most :: "nat \<Rightarrow> ('a network_scheme, 'b) state \<Rightarrow> bool" where
  "at_most n m \<longleftrightarrow> (\<forall>w. exchanges (world_of m w) \<le> exchanges w + n)"

lemma at_mostD: "at_most n m \<Longrightarrow> exchanges (world_of m w) \<le> exchanges w + n"
  by (simp add: at_most_def)

lemma at_most_return: "at_most n (return x)"
  by (simp add: at_most_def)

lemma at_most_bind:
  assumes "at_most n m" "\<And>w. at_most k (f (val_of m w))" "n + k \<le> l"
  shows "at_most l (m \<bind> f)"
  unfolding at_most_def
proof
  fix w
  have "exchanges (world_of (f (val_of m w)) (world_of m w)) \<le> exchanges (world_of m w) + k"
    using assms(2) by (simp add: at_most_def)
  also have "\<dots> \<le> exchanges w + n + k" using assms(1) by (simp add: at_most_def)
  finally show "exchanges (world_of (m \<bind> f) w) \<le> exchanges w + l" using assms(3) by (simp add: case_prod_beta)
qed

lemma at_most_case_sum:
  "(\<And>e. r = Inl e \<Longrightarrow> at_most n (f e)) \<Longrightarrow> (\<And>x. r = Inr x \<Longrightarrow> at_most n (g x)) \<Longrightarrow>
   at_most n (case r of Inl e \<Rightarrow> f e | Inr x \<Rightarrow> g x)"
  by (cases r) auto

lemma at_most_if: "at_most n m \<Longrightarrow> at_most n m' \<Longrightarrow> at_most n (if b then m else m')"
  by simp

lemma at_most_target: "at_most 0 (validateMetadataFetchTarget u allow)"
  by (simp add: at_most_def)

lemma at_most_guarded: "at_most 5 (client_Do U (clientWithRedirectGuard allow) 0 r :: ('a network_scheme, web_response result) state)"
proof -
  let ?c = "clientWithRedirectGuard allow :: 'a network_scheme http_client"
  have "exchanges (world_of (check_redirect ?c n u) w) = exchanges w" for n u and w :: "'a network_scheme"
    by (simp add: clientWithRedirectGuard_def)
  then have "exchanges (world_of (client_Do U ?c 0 r) w) \<le> exchanges w + max 1 (max_via ?c - 0)" for w
    by (rule client_Do_exchanges)
  then show ?thesis by (simp add: at_most_def clientWithRedirectGuard_def)
qed

lemma at_most_SafeHTTPClient: "at_most 0 (SafeHTTPClient U u allow redirects)"
  by (simp add: at_most_def SafeHTTPClient_def case_prod_beta)

lemma at_most_safe_Do:
  assumes "val_of (SafeHTTPClient U u allow redirects) w = Inr c" shows "at_most 3 (client_Do U c 0 r)"
proof -
  have c: "max_via c = 3" "exchanges (world_of (check_redirect c n v) w') = exchanges w'" for n v w'
    using assms by (auto simp: SafeHTTPClient_def case_prod_beta split: sum.splits)
  show ?thesis using client_Do_exchanges [of c U 0 r] c by (simp add: at_most_def)
qed

lemma at_most_fetchLimited:
  assumes "val_of (SafeHTTPClient U u allow redirects) w = Inr c" shows "at_most 3 (fetchLimited U c raw accept limit)"
  unfolding fetchLimited_def
  by (intro at_most_case_sum at_most_return at_most_bind [OF at_most_safe_Do [OF assms]]) simp_all

lemma at_most_read_metadata: "at_most 3 (read_metadata U allow server)"
  unfolding read_metadata_def
  by (intro at_most_if at_most_case_sum at_most_return at_most_bind [OF at_most_SafeHTTPClient, where k = 3]
      at_most_bind [OF at_most_fetchLimited, where k = 0]) simp_all

lemma at_most_endpoint: "at_most 0 (validateDiscoveredEndpoint U raw allow)"
  unfolding validateDiscoveredEndpoint_def by (intro at_most_case_sum at_most_if at_most_return at_most_target)

lemma at_most_client_metadata: "at_most 5 (DiscoverClientRedirectURIs U clientID allow)"
  unfolding DiscoverClientRedirectURIs_def
  by (intro at_most_case_sum at_most_return at_most_bind [OF at_most_target, where k = 5]
      at_most_bind [OF at_most_guarded, where k = 0]) simp_all

lemma at_most_profile_identity: "at_most 3 (DiscoverProfileIdentity U me allow name pub iss)"
  unfolding DiscoverProfileIdentity_def Let_def
  by (intro at_most_case_sum at_most_return at_most_bind [OF at_most_SafeHTTPClient, where k = 3]
      at_most_bind [OF at_most_safe_Do, where k = 0]) simp_all

lemma at_most_authorization_server: "at_most 6 (DiscoverAuthorizationServer U me allow)"
  unfolding DiscoverAuthorizationServer_def Let_def
  by (intro at_most_case_sum at_most_if at_most_return at_most_bind [OF at_most_SafeHTTPClient, where k = 6]
      at_most_bind [OF at_most_fetchLimited, where k = 3] at_most_bind [OF at_most_read_metadata, where k = 0]
      at_most_bind [where n = 0 and k = 0] at_most_endpoint) simp_all

section \<open>What a page says\<close>

text \<open>A page that binds a profile: it delegates to this bridge, and its metadata name the identity.\<close>

definition page_binds :: "unicode_tables \<Rightarrow> string \<Rightarrow> bool \<Rightarrow> string \<Rightarrow> string \<Rightarrow> URL \<Rightarrow> ProfileIdentityBinding \<Rightarrow> string \<Rightarrow> bool" where
  "page_binds U me allow name pub u b body \<longleftrightarrow> ValidateHTTPSURL U me allow = Inr u \<and>
     length body \<le> profileMetadataLimit \<and> pageDelegatesToBridge U body (profile_page u) pub \<and>
     identityMetadataFromHTML U body name allow = Inr (pib_Issuer b, pib_Subject b) \<and>
     CanonicalURL U (URL_String (profile_page u)) = Inr (pib_Me b)"

lemma profile_page_binding_ok:
  assumes "profile_page_binding U p resp name allow pub iss = Inr b"
  shows "\<exists>body. length body \<le> profileMetadataLimit \<and> pageDelegatesToBridge U body p pub \<and>
    identityMetadataFromHTML U body name allow = Inr (pib_Issuer b, pib_Subject b) \<and>
    CanonicalURL U (URL_String p) = Inr (pib_Me b) \<and> pib_Issuer b = iss"
proof (cases "read_limited resp (profileMetadataLimit + 1)")
  case (Inr body)
  with assms show ?thesis
    by (intro exI [of _ body]) (auto simp: profile_page_binding_def bind_result_ok map_result_ok split: if_splits)
qed (use assms in \<open>simp add: profile_page_binding_def split: if_splits\<close>)

text \<open>A redirect URI is declared when the client's document, as JSON or else as HTML, lists it.\<close>

definition declares :: "unicode_tables \<Rightarrow> URL \<Rightarrow> string \<Rightarrow> string list" where
  "declares U client body = resolveRedirectURIs U client
     (if redirectURIsFromJSON U body \<noteq> [] then redirectURIsFromJSON U body else redirectURIsFromHTML U body)"

lemma discovered_redirects:
  assumes "val_of (DiscoverClientRedirectURIs U clientID allow) w = Inr uris"
  shows "\<exists>client body. ValidateHTTPSURL U clientID allow = Inr client \<and> uris = declares U client body"
  using assms unfolding declares_def
  by (auto simp: DiscoverClientRedirectURIs_def case_prod_beta bind_result_ok split: sum.splits if_splits)

lemma endpoint_ok:
  assumes "val_of (validateDiscoveredEndpoint U raw allow) w = Inr x"
  shows "\<exists>u. ValidateHTTPSURL U raw allow = Inr u \<and> url_Fragment u = []"
  using assms by (auto simp: validateDiscoveredEndpoint_def split: sum.splits if_splits)

section \<open>A page\<close>

text \<open>A page without character references is its own text.\<close>

lemma UnescapeString_plain: "CHR ''&'' \<notin> set s \<Longrightarrow> UnescapeString U s = s"
proof -
  have "CHR ''&'' \<notin> set s \<Longrightarrow> unescape_html U n s = s" for n
    by (induction U n s rule: unescape_html.induct) auto
  then show "CHR ''&'' \<notin> set s \<Longrightarrow> UnescapeString U s = s" by (simp add: UnescapeString_def)
qed

definition quoted :: "string \<Rightarrow> string" where
  "quoted s = map (\<lambda>c. if c = CHR ''['' then single_quote else c) s"

definition link_tag :: string where
  "link_tag = quoted ''<link rel=[authorization_endpoint[ href=[https://app.example/authorize[>''"

definition meta_tag :: string where
  "meta_tag = quoted ''<meta name=[id[ content=[https://app.example/ u[>''"

definition page_text :: string where
  "page_text = link_tag @ meta_tag"

lemma page_tags: "find_tags ''link'' page_text = [link_tag]" "find_tags ''meta'' page_text = [meta_tag]"
  by code_simp+

lemma page_attributes:
  "htmlAttributes ascii_tables link_tag = [(''href'', ''https://app.example/authorize''), (''rel'', ''authorization_endpoint'')]"
  "htmlAttributes ascii_tables meta_tag = [(''content'', ''https://app.example/ u''), (''name'', ''id'')]"
proof -
  have "find_all match_attr (length link_tag) link_tag = [(''rel'', ''authorization_endpoint''), (''href'', ''https://app.example/authorize'')]"
    "find_all match_attr (length meta_tag) meta_tag = [(''name'', ''id''), (''content'', ''https://app.example/ u'')]"
    by code_simp+
  then show
    "htmlAttributes ascii_tables link_tag = [(''href'', ''https://app.example/authorize''), (''rel'', ''authorization_endpoint'')]"
    "htmlAttributes ascii_tables meta_tag = [(''content'', ''https://app.example/ u''), (''name'', ''id'')]"
    by (simp_all add: htmlAttributes_def UnescapeString_plain ToLower_lower_case ascii_char_def map_of_entries_def)
qed

lemma Parse_authorize: "Parse ascii_tables ''https://app.example/authorize'' = Inr (app_URL\<lparr>url_Path := ''/authorize''\<rparr>)"
  by (simp add: eval_parse app_URL_def)

lemma app_URL_String: "URL_String app_URL = ''https://app.example/''"
  "URL_String (app_URL\<lparr>url_Path := ''/authorize''\<rparr>) = ''https://app.example/authorize''"
  by (simp_all add: URL_String_def app_URL_def empty_URL_def authority_String_def path_String_def query_String_def
     EscapedPath_def validEncoded_def escape_def escape_char_def shouldEscape_def unreserved_alnum_def host_delims_def)

text \<open>Evaluation of the text functions on ASCII.\<close>

lemmas eval_text = TrimSpace_def trim_chunks_def IsSpace_def Fields_def ascii_char_def

lemma app_Hostname: "Hostname app_URL = ''app.example''" "url_Scheme app_URL = ''https''"
  "url_Host app_URL = ''app.example''" "url_Fragment app_URL = []"
  by (simp_all add: eval_host app_URL_def)

lemma page_identity: "identityMetadataFromHTML ascii_tables page_text ''id'' False = Inr (''https://app.example/'', ''u'')"
  by (simp add: identityMetadataFromHTML_def page_tags page_attributes attr_def Let_def Validate_app eval_text app_URL_String)

lemma page_text_links: "page_links ascii_tables page_text app_URL = [(''authorization_endpoint'', ''https://app.example/authorize'')]"
  by (simp add: page_links_def page_tags page_attributes attr_def Let_def eval_text Parse_authorize app_URL_String
      IsAbs_def app_Hostname)

lemma page_delegates: "pageDelegatesToBridge ascii_tables page_text app_URL ''https://app.example''"
  by (simp add: pageDelegatesToBridge_def page_text_links relContains_def eval_text TrimRight_def)

lemma app_page: "profile_page app_URL = app_URL"
  by (simp add: profile_page_def app_URL_def empty_URL_def)

lemma app_Canonical: "CanonicalURL ascii_tables ''https://app.example/'' = Inr ''https://app.example/''"
proof -
  have "app_URL\<lparr>url_Scheme := ToLower ascii_tables (url_Scheme app_URL), url_Host := ToLower ascii_tables (url_Host app_URL),
      url_Fragment := [], url_Path := (if url_Path app_URL = [] then ''/'' else url_Path app_URL)\<rparr> = app_URL"
    by (simp add: app_URL_def empty_URL_def ToLower_lower_case ascii_char_def)
  then show ?thesis by (simp add: CanonicalURL_def Parse_app app_URL_String) (simp add: app_URL_def)
qed

text \<open>A world that resolves every name to a public address and answers every request with the page.\<close>

definition page_reply :: web_response where
  "page_reply = \<lparr>wp_Status = 200, wp_StatusText = ''200 OK'', wp_ContentType = ''text/html'', wp_Location = [],
     wp_Body = page_text, wp_Truncated = False\<rparr>"

definition page_world :: network where
  "page_world = \<lparr>entropy = (\<lambda>_. None), draws = 0, clock = (\<lambda>_. 0), ticks = 0,
     resolver = (\<lambda>_ _. Inr [[93, 184, 216, 34]]), lookups = 0, accepts = (\<lambda>_ _. True), dialled = [],
     replies = (\<lambda>_ _. Inr page_reply), exchanges = 0\<rparr>"

lemma page_world_fields [simp]:
  "resolver page_world n h = Inr [[93, 184, 216, 34]]" "accepts page_world n ip" "replies page_world n r = Inr page_reply"
  by (simp_all add: page_world_def)

lemma public_address [simp]: "\<not> isUnsafeMetadataIP [93, 184, 216, 34]"
proof -
  have "xs \<noteq> replicate 16 0" if "length xs = 4" for xs :: ip
    using that by auto
  then show ?thesis
    by (simp add: isUnsafeMetadataIP_def IsLoopback_def IsPrivate_def in_carrierGradeNAT_def IsLinkLocalUnicast_def
        IsLinkLocalMulticast_def IsMulticast_def IsUnspecified_def To4_def)
qed

text \<open>A resolver whose second answer is another one than the first.\<close>

definition rebinding_world :: network where
  "rebinding_world = \<lparr>entropy = (\<lambda>_. None), draws = 0, clock = (\<lambda>_. 0), ticks = 0,
     resolver = (\<lambda>n _. Inr [if n = 0 then [93, 184, 216, 34] else [127, 0, 0, 1]]), lookups = 0,
     accepts = (\<lambda>_ _. True), dialled = [], replies = (\<lambda>_ _. Inl ''no reply''), exchanges = 0\<rparr>"

lemma rebinding_world_fields [simp]:
  "resolver rebinding_world n h = Inr [if n = 0 then [93, 184, 216, 34] else [127, 0, 0, 1]]" "lookups rebinding_world = 0"
  "accepts rebinding_world n ip" "dialled rebinding_world = []" "replies rebinding_world n r = Inl ''no reply''"
  "exchanges rebinding_world = 0"
  by (simp_all add: rebinding_world_def)

lemma app_request: "NewRequest ascii_tables ''GET'' ''https://app.example/'' =
    Inr \<lparr>wr_Method = ''GET'', wr_URL = app_URL, wr_Accept = [], wr_ContentType = [], wr_Body = []\<rparr>"
  by (simp add: NewRequest_def Parse_app removeEmptyPort_def HasSuffix_def app_URL_def empty_URL_def)

lemma Validate_authorize: "ValidateHTTPSURL ascii_tables ''https://app.example/authorize'' False = Inr (app_URL\<lparr>url_Path := ''/authorize''\<rparr>)"
  unfolding ValidateHTTPSURL_ok Parse_authorize by (simp_all add: eval_host app_URL_def)

lemma page_short: "length page_text \<le> 200"
  by code_simp

lemma page_read [simp]: "200 \<le> n \<Longrightarrow> take n page_text = page_text" "200 \<le> n \<Longrightarrow> length page_text \<le> n"
  using page_short by simp_all

lemma page_target:
  "resolver w (lookups w) ''app.example'' = Inr [[93, 184, 216, 34]] \<Longrightarrow>
   run (validateMetadataFetchTarget (app_URL\<lparr>url_Path := p\<rparr>) False) w = (Inr (), w\<lparr>lookups := Suc (lookups w)\<rparr>)"
  "resolver w (lookups w) ''app.example'' = Inr [[93, 184, 216, 34]] \<Longrightarrow>
   run (validateMetadataFetchTarget app_URL False) w = (Inr (), w\<lparr>lookups := Suc (lookups w)\<rparr>)"
  by (simp_all add: validateMetadataFetchTarget_def) (simp_all add: eval_host app_URL_def)

lemma page_binding_found:
  "val_of (DiscoverProfileIdentity ascii_tables ''https://app.example/'' False ''id'' ''https://app.example'' ''https://app.example/'')
     page_world = Inr \<lparr>pib_Me = ''https://app.example/'', pib_Issuer = ''https://app.example/'', pib_Subject = ''u''\<rparr>"
  by (simp add: DiscoverProfileIdentity_def Validate_app app_page app_URL_String SafeHTTPClient_def page_target app_request
      client_Do.simps app_Hostname dial_def page_reply_def is_redirect_def profile_page_binding_def status_ok_def
      ToLower_lower_case ascii_char_def HasPrefix_def read_limited_def profileMetadataLimit_def page_delegates page_identity
      app_Canonical not_less)

lemma server_found:
  "val_of (DiscoverAuthorizationServer ascii_tables ''https://app.example/'' False) page_world =
     Inr \<lparr>as_Me = ''https://app.example/'', as_MetadataEndpoint = [], as_Issuer = [],
       as_AuthorizationEndpoint = ''https://app.example/authorize'', as_TokenEndpoint = [], as_LegacyVerification = True\<rparr>"
  by (simp add: DiscoverAuthorizationServer_def Validate_app app_page app_URL_String SafeHTTPClient_def page_target app_request
      client_Do.simps app_Hostname dial_def page_reply_def is_redirect_def fetchLimited_def status_ok_def
      ToLower_lower_case ascii_char_def read_limited_def profileMetadataLimit_def page_text_links linksFromHTML_def eval_text
      firstLink_def read_metadata_def check_issuer_def validateDiscoveredEndpoint_def app_Canonical Validate_authorize page_target app_Hostname not_less)

end
