(* ===== verification/DiscoveryProperties.thy ===== *)
theory DiscoveryProperties
  imports Discovery
begin

text \<open>
  The properties of the discoveries: where they connect to, how much they fetch, and what a
  successful discovery says of the pages.
\<close>

text \<open>C20: without \<open>allowHTTP\<close>, the discoveries of a profile's identity and of an authorization server
  connect to no loopback, private, carrier-grade NAT, link-local, multicast or unspecified address, whatever
  the resolver answers each time it is asked, whatever the replies are, and across redirects.\<close>

theorem profile_discovery_dials_safely:
  "dials_safely (DiscoverProfileIdentity U me False name pub iss) w \<and> dials_safely (DiscoverAuthorizationServer U me False) w"
  by (simp add: discovery_dials_safely)

text \<open>C21: the discovery of a client's redirect URIs checks the addresses of the client's host and then
  resolves the host again for the connection: a resolver whose second answer differs makes the bridge
  connect to 127.0.0.1.  In the same world the discovery of a profile's identity does not.\<close>

theorem client_metadata_fetch_can_be_rebound:
  "dialled rebinding_world = [] \<and>
   dialled (world_of (DiscoverClientRedirectURIs ascii_tables ''https://app.example/'' False) rebinding_world) = [[127, 0, 0, 1]] \<and>
   isUnsafeMetadataIP [127, 0, 0, 1] \<and>
   dials_safely (DiscoverProfileIdentity ascii_tables ''https://app.example/'' False name pub iss) rebinding_world"
proof (intro conjI)
  have target: "run (validateMetadataFetchTarget app_URL False) rebinding_world = (Inr (), rebinding_world\<lparr>lookups := 1\<rparr>)"
    using page_target(2) [of rebinding_world] by simp
  show "dialled (world_of (DiscoverClientRedirectURIs ascii_tables ''https://app.example/'' False) rebinding_world) = [[127, 0, 0, 1]]"
    by (simp add: DiscoverClientRedirectURIs_def Validate_app app_URL_String target app_request client_Do.simps
        app_Hostname dial_def clientWithRedirectGuard_def)
  show "isUnsafeMetadataIP [127, 0, 0, 1]" by (simp add: isUnsafeMetadataIP_def IsLoopback_def To4_def)
qed (simp_all add: discovery_dials_safely)






text \<open>Every server that is discovered has an authorization endpoint, and a token endpoint unless
  codes are verified the legacy way, that are HTTPS URLs (HTTP only where it is allowed) without fragment.\<close>

lemma discovered_server_endpoints:
  assumes "val_of (DiscoverAuthorizationServer U me allow) w = Inr server"
  shows "(\<exists>u. ValidateHTTPSURL U (as_AuthorizationEndpoint server) allow = Inr u \<and> url_Fragment u = []) \<and>
    (as_LegacyVerification server \<longleftrightarrow> as_TokenEndpoint server = []) \<and>
    (as_TokenEndpoint server = [] \<or> (\<exists>u. ValidateHTTPSURL U (as_TokenEndpoint server) allow = Inr u \<and> url_Fragment u = []))"
  using assms
  by (auto simp: DiscoverAuthorizationServer_def Let_def case_prod_beta is_ok_iff map_result_ok dest!: endpoint_ok split: sum.splits if_splits)

lemma discovered_server_endpoints_witness:
  "\<exists>u. ValidateHTTPSURL ascii_tables ''https://app.example/authorize'' False = Inr u \<and> url_Fragment u = []"
  using discovered_server_endpoints [OF server_found] by simp

end
