(* ===== verification/GoNet.thy ===== *)
theory GoNet
  imports Network GoJson Config
begin

text \<open>
  The parts of Go's \<open>net\<close> that the rate limiter uses on text: addresses and their textual form,
  networks, and \<open>host:port\<close> pairs.
\<close>

section \<open>Parsing addresses\<close>

definition v4InV6Prefix :: ip where
  "v4InV6Prefix = replicate 10 0 @ [255, 255]"

text \<open>A decimal octet without leading zero.\<close>

definition octet :: "string \<Rightarrow> u8 option" where
  "octet ds =
     (if ds = [] \<or> \<not> list_all is_digit ds \<or> (hd ds = CHR ''0'' \<and> tl ds \<noteq> []) \<or> digits_value ds > 255 then None
      else Some (of_int (digits_value ds)))"

definition parseIPv4Fields :: "string \<Rightarrow> ip option" where
  "parseIPv4Fields s =
     (case List.map octet (split_on (CHR ''.'') s) of
        [Some a, Some b, Some c, Some d] \<Rightarrow> Some [a, b, c, d]
      | _ \<Rightarrow> None)"

definition is_hex :: "char \<Rightarrow> bool" where
  "is_hex c \<longleftrightarrow> hex_val c \<noteq> None"

definition hex_group :: "string \<Rightarrow> nat" where
  "hex_group ds = foldl (\<lambda>n c. 16 * n + (case hex_val c of None \<Rightarrow> 0 | Some d \<Rightarrow> d)) 0 ds"

text \<open>The bytes read, with zeros at the ellipsis; an ellipsis stands for at least one group.\<close>

definition expand_ellipsis :: "ip \<Rightarrow> nat option \<Rightarrow> ip option" where
  "expand_ellipsis ip ell =
     (if length ip < 16 then map_option (\<lambda>e. take e ip @ replicate (16 - length ip) 0 @ drop e ip) ell
      else if ell = None then Some ip else None)"

text \<open>The groups of an IPv6 address, at most \<open>r\<close> more; the last two may be an IPv4 address.\<close>

fun parse_groups :: "nat \<Rightarrow> ip \<Rightarrow> nat option \<Rightarrow> string \<Rightarrow> ip option" where
  "parse_groups 0 ip ell s = (if s \<noteq> [] then None else expand_ellipsis ip ell)"
| "parse_groups (Suc r) ip ell s =
     (let ds = takeWhile is_hex s;
          rest = dropWhile is_hex s;
          ip' = ip @ [of_nat (hex_group ds div 256), of_nat (hex_group ds mod 256)]
      in if ds = [] \<or> length ds > 4 then None
         else (case rest of
             [] \<Rightarrow> expand_ellipsis ip' ell
           | c # t \<Rightarrow>
               if c = CHR ''.'' then
                 (if ell = None \<and> length ip \<noteq> 12 then None
                  else if length ip + 4 > 16 then None
                  else (case parseIPv4Fields s of None \<Rightarrow> None | Some f \<Rightarrow> expand_ellipsis (ip @ f) ell))
               else if c \<noteq> CHR '':'' then None
               else (case t of
                   [] \<Rightarrow> None
                 | d # t' \<Rightarrow>
                     if d \<noteq> CHR '':'' then parse_groups r ip' ell t
                     else if ell \<noteq> None then None
                     else if t' = [] then expand_ellipsis ip' (Some (length ip'))
                     else parse_groups r ip' (Some (length ip')) t')))"

definition parseIPv6 :: "string \<Rightarrow> ip option" where
  "parseIPv6 s =
     (if take 2 s = ''::'' then (if drop 2 s = [] then Some (replicate 16 0) else parse_groups 8 [] (Some 0) (drop 2 s))
      else parse_groups 8 [] None s)"

text \<open>
  \<open>netip.ParseAddr\<close> as its two callers here use it, which refuse an address with a zone: the number of
  bits and the 16-byte form.
\<close>

definition ParseAddr :: "string \<Rightarrow> (nat \<times> ip) option" where
  "ParseAddr s =
     (case dropWhile (\<lambda>c. c \<noteq> CHR ''.'' \<and> c \<noteq> CHR '':'' \<and> c \<noteq> CHR ''%'') s of
        [] \<Rightarrow> None
      | c # _ \<Rightarrow>
          if c = CHR ''.'' then map_option (\<lambda>f. (32, v4InV6Prefix @ f)) (parseIPv4Fields s)
          else if c = CHR ''%'' \<or> CHR ''%'' \<in> set s then None
          else map_option (\<lambda>a. (128, a)) (parseIPv6 s))"

definition ParseIP :: "string \<Rightarrow> ip option" where
  "ParseIP s = map_option snd (ParseAddr s)"

section \<open>Printing addresses\<close>

fun hex_digits :: "nat \<Rightarrow> string" where
  "hex_digits n = (if n < 16 then [hex_digit_lower n] else hex_digits (n div 16) @ [hex_digit_lower (n mod 16)])"

declare hex_digits.simps [simp del]

definition v6_groups :: "ip \<Rightarrow> nat list" where
  "v6_groups ip = List.map (\<lambda>i. 256 * unat (ip ! (2 * i)) + unat (ip ! (2 * i + 1))) [0..<8]"

text \<open>The first of the longest runs of at least two zero groups.\<close>

definition zero_run :: "nat list \<Rightarrow> (nat \<times> nat) option" where
  "zero_run gs = foldl (\<lambda>best i.
     let l = length (takeWhile (\<lambda>g. g = 0) (drop i gs))
     in if 2 \<le> l \<and> (case best of None \<Rightarrow> True | Some (s, e) \<Rightarrow> l > e - s) then Some (i, i + l) else best) None [0..<8]"

definition IP_String :: "ip \<Rightarrow> string" where
  "IP_String ip =
     (if ip = [] then ''<nil>''
      else (case To4 ip of
          Some a \<Rightarrow> join_with ''.'' (List.map (\<lambda>b. dec_digits (unat b)) a)
        | None \<Rightarrow>
            if length ip \<noteq> 16 then CHR ''?'' # concat (List.map (\<lambda>b. [hex_digit_lower (unat b div 16), hex_digit_lower (unat b mod 16)]) ip)
            else (case zero_run (v6_groups ip) of
                None \<Rightarrow> join_with '':'' (List.map hex_digits (v6_groups ip))
              | Some (s, e) \<Rightarrow> join_with '':'' (List.map hex_digits (take s (v6_groups ip))) @ ''::'' @
                  join_with '':'' (List.map hex_digits (drop e (v6_groups ip))))))"

lemma To4_mapped [simp]: "To4 (v4InV6Prefix @ [a, b, c, d]) = Some [a, b, c, d]"
  by (simp add: To4_def v4InV6Prefix_def numeral_eq_Suc)

section \<open>Networks\<close>

record IPNet =
  net_IP :: ip
  net_Mask :: "u8 list"

definition CIDRMask :: "nat \<Rightarrow> nat \<Rightarrow> u8 list" where
  "CIDRMask ones bits = List.map (\<lambda>i. if 8 \<le> ones - 8 * i then 255 else NOT (drop_bit (ones - 8 * i) 255)) [0..<bits div 8]"

definition Mask :: "ip \<Rightarrow> u8 list \<Rightarrow> ip" where
  "Mask ip mk =
     (let m = (if length mk = 16 \<and> length ip = 4 \<and> list_all (\<lambda>b. b = 255) (take 12 mk) then drop 12 mk else mk);
          a = (if length m = 4 \<and> length ip = 16 \<and> take 12 ip = v4InV6Prefix then drop 12 ip else ip)
      in if length a \<noteq> length m then [] else map2 (AND) a m)"

definition ParseCIDR :: "string \<Rightarrow> IPNet option" where
  "ParseCIDR s =
     (case Cut s (CHR ''/'') of
        (addr, mk, found) \<Rightarrow>
          if \<not> found then None
          else (case ParseAddr addr of
              None \<Rightarrow> None
            | Some (bits, ip) \<Rightarrow>
                if mk = [] \<or> \<not> list_all is_digit mk \<or> digits_value mk > int bits then None
                else (let m = CIDRMask (nat (digits_value mk)) bits in Some \<lparr>net_IP = Mask ip m, net_Mask = m\<rparr>)))"

definition networkNumberAndMask :: "IPNet \<Rightarrow> ip \<times> u8 list" where
  "networkNumberAndMask n =
     (let ip = (case To4 (net_IP n) of Some a \<Rightarrow> a | None \<Rightarrow> net_IP n); m = net_Mask n
      in if length ip \<noteq> 4 \<and> length ip \<noteq> 16 then ([], [])
         else if length m = 4 then (if length ip \<noteq> 4 then ([], []) else (ip, m))
         else if length m = 16 then (ip, if length ip = 4 then drop 12 m else m)
         else ([], []))"

definition net_Contains :: "IPNet \<Rightarrow> ip \<Rightarrow> bool" where
  "net_Contains n ip =
     (case networkNumberAndMask n of
        (nn, m) \<Rightarrow>
          let x = (case To4 ip of Some a \<Rightarrow> a | None \<Rightarrow> ip)
          in length x = length nn \<and> list_all (\<lambda>i. nn ! i AND m ! i = x ! i AND m ! i) [0..<length x])"

section \<open>Hosts and ports\<close>

text \<open>\<open>net.SplitHostPort\<close>: the host, when the text is well formed.\<close>

definition SplitHost :: "string \<Rightarrow> string option" where
  "SplitHost hostport =
     (case cut_last hostport (CHR '':'') of
        None \<Rightarrow> None
      | Some (front, port) \<Rightarrow>
          if take 1 hostport = ''['' then
            (case Cut front (CHR '']'') of
               (host, after, found) \<Rightarrow>
                 if \<not> found \<or> after \<noteq> [] \<or> CHR ''['' \<in> set (tl host) \<or> CHR ''['' \<in> set port \<or> CHR '']'' \<in> set port then None
                 else Some (tl host))
          else if CHR '':'' \<in> set front \<or> CHR ''['' \<in> set hostport \<or> CHR '']'' \<in> set hostport then None
          else Some front)"

end
