(* ===== verification/Float64.thy ===== *)
theory Float64
  imports Complex_Main "HOL-Library.Log_Nat"
begin

text \<open>
  The \<open>float64\<close> arithmetic of Go: a finite value is a rational, and every operation rounds its exact
  result to the nearest value with 53 significant bits, ties to even (the subnormal range has the fixed
  exponent of the smallest values).  Results of magnitude \<open>2\<^sup>1\<^sup>0\<^sup>2\<^sup>4\<close> and more, infinities and NaN are not
  represented: the rate limiter, the only part of the program that computes with such values, stays far
  below them, its operands being 64-bit integers and their quotients.
\<close>

section \<open>Rounding\<close>

definition pow2 :: "int \<Rightarrow> rat" where
  "pow2 k = (if 0 \<le> k then 2 ^ nat k else 1 / 2 ^ nat (- k))"

text \<open>The exponent of a positive number, from the lengths of its numerator and denominator.\<close>

definition binary_exponent :: "rat \<Rightarrow> int" where
  "binary_exponent q =
     (case quotient_of q of (n, d) \<Rightarrow>
        let k = bitlen n - bitlen d in if pow2 k \<le> q then k else k - 1)"

definition round_even :: "rat \<Rightarrow> int" where
  "round_even x =
     (let n = \<lfloor>x\<rfloor>; f = x - of_int n
      in if f < 1 / 2 then n else if f > 1 / 2 then n + 1 else if even n then n else n + 1)"

text \<open>The unit in the last place of a positive number.\<close>

definition ulp :: "rat \<Rightarrow> rat" where
  "ulp q = pow2 (max (binary_exponent q - 52) (- 1074))"

definition fl_pos :: "rat \<Rightarrow> rat" where
  "fl_pos q = of_int (round_even (q / ulp q)) * ulp q"

definition fl :: "rat \<Rightarrow> rat" where
  "fl q = (if q = 0 then 0 else if q < 0 then - fl_pos (- q) else fl_pos q)"

section \<open>Powers of two\<close>

lemma pow2_pos [simp]: "0 < pow2 k"
  by (simp add: pow2_def)

lemma pow2_nonzero [simp]: "pow2 k \<noteq> 0"
  using pow2_pos [of k] by linarith

lemma pow2_Suc: "pow2 (k + 1) = 2 * pow2 k"
proof (cases "0 \<le> k")
  case True
  then have "nat (k + 1) = Suc (nat k)" by simp
  with True show ?thesis by (simp add: pow2_def)
next
  case False
  then have "nat (- k) = Suc (nat (- (k + 1)))" by simp
  then show ?thesis using False by (simp add: pow2_def)
qed

lemma pow2_add_nat: "pow2 (k + int n) = 2 ^ n * pow2 k"
proof (induction n)
  case (Suc n)
  have "k + int (Suc n) = (k + int n) + 1" by simp
  then show ?case by (simp only: pow2_Suc Suc power_Suc mult.assoc)
qed simp

lemma pow2_0 [simp]: "pow2 0 = 1"
  by (simp add: pow2_def)

lemma pow2_add: "pow2 (j + k) = pow2 j * pow2 k"
proof -
  have *: "pow2 (j + int n) = pow2 j * pow2 (int n)" for j n
    using pow2_add_nat [of j n] pow2_add_nat [of 0 n] by simp
  have "pow2 (j + k) = pow2 j * pow2 k" if "0 \<le> k" for j k using * [of j "nat k"] that by simp
  moreover have "pow2 (j + k) * pow2 (- k) = pow2 j * (pow2 k * pow2 (- k))" if "\<not> 0 \<le> k"
    using * [of "j + k" "nat (- k)"] * [of k "nat (- k)"] that by simp
  ultimately show ?thesis by (cases "0 \<le> k") (auto simp: mult.assoc [symmetric])
qed

lemma pow2_mono: "j \<le> k \<Longrightarrow> pow2 j \<le> pow2 k"
proof -
  assume "j \<le> k"
  then have "pow2 k = 2 ^ nat (k - j) * pow2 j" using pow2_add_nat [of j "nat (k - j)"] by simp
  then show ?thesis using mult_right_mono [of 1 "2 ^ nat (k - j)" "pow2 j"] by simp
qed

lemma pow2_less_mono: "j < k \<Longrightarrow> pow2 (j + 1) \<le> pow2 k"
  by (rule pow2_mono) simp

section \<open>The exponent\<close>

lemma bitlen_rat: "0 < n \<Longrightarrow> pow2 (bitlen n - 1) \<le> of_int n \<and> of_int n < pow2 (bitlen n)"
proof -
  assume n: "0 < n"
  have b: "0 < bitlen n" using bitlen_bounds [OF n] n by (cases "bitlen n = 0") (auto simp: bitlen_nonneg order_less_le)
  have "2 ^ nat (bitlen n - 1) \<le> n" "n < 2 ^ nat (bitlen n)" using bitlen_bounds [OF n] by auto
  then have "of_int (2 ^ nat (bitlen n - 1)) \<le> (of_int n :: rat)" "of_int n < (of_int (2 ^ nat (bitlen n)) :: rat)"
    by (simp_all only: of_int_le_iff of_int_less_iff)
  with b show ?thesis by (simp add: pow2_def)
qed

lemma exponent_bounds:
  assumes "0 < q" shows "pow2 (binary_exponent q) \<le> q \<and> q < pow2 (binary_exponent q + 1)"
proof -
  obtain n d where nd: "quotient_of q = (n, d)" by fastforce
  have q: "q = of_int n / of_int d" and d: "0 < d" using nd quotient_of_div quotient_of_denom_pos by blast+
  have n: "0 < n" using assms q d by (simp add: zero_less_divide_iff)
  let ?k = "bitlen n - bitlen d"
  have bn: "pow2 (bitlen n - 1) \<le> of_int n" "of_int n < pow2 (bitlen n)" using bitlen_rat [OF n] by auto
  have bd: "pow2 (bitlen d - 1) \<le> of_int d" "of_int d < pow2 (bitlen d)" using bitlen_rat [OF d] by auto
  have d': "(0 :: rat) < of_int d" using d by simp
  have up: "q < pow2 (?k + 1)"
  proof -
    have "of_int n < pow2 (?k + 1) * pow2 (bitlen d - 1)"
      using bn(2) by (simp add: pow2_add [symmetric])
    also have "\<dots> \<le> pow2 (?k + 1) * of_int d" using bd(1) by (intro mult_left_mono) (auto simp: less_imp_le)
    finally show ?thesis using d' by (simp add: q divide_less_eq)
  qed
  have low: "pow2 (?k - 1) \<le> q"
  proof -
    have "pow2 (?k - 1) * of_int d \<le> pow2 (?k - 1) * pow2 (bitlen d)"
      using bd(2) by (intro mult_left_mono) (auto simp: less_imp_le)
    also have "\<dots> = pow2 (bitlen n - 1)" by (simp add: pow2_add [symmetric])
    finally show ?thesis using bn(1) d' by (simp add: q le_divide_eq)
  qed
  show ?thesis
    using up low by (auto simp: binary_exponent_def nd Let_def)
qed

lemma exponent_mono:
  assumes "0 < p" "p \<le> q" shows "binary_exponent p \<le> binary_exponent q"
proof (rule ccontr)
  assume "\<not> binary_exponent p \<le> binary_exponent q"
  then have "pow2 (binary_exponent q + 1) \<le> pow2 (binary_exponent p)" by (simp add: pow2_less_mono)
  with exponent_bounds [of p] exponent_bounds [of q] assms show False by linarith
qed

section \<open>Rounding is monotone and exact on small integers\<close>

lemma round_even_mono: "x \<le> y \<Longrightarrow> round_even x \<le> round_even y"
proof -
  assume xy: "x \<le> y"
  then have "\<lfloor>x\<rfloor> \<le> \<lfloor>y\<rfloor>" by (rule floor_mono)
  then consider "\<lfloor>x\<rfloor> = \<lfloor>y\<rfloor>" | "\<lfloor>x\<rfloor> + 1 \<le> \<lfloor>y\<rfloor>" by linarith
  then show ?thesis
    by cases (use xy in \<open>auto simp: round_even_def Let_def\<close>)
qed

lemma round_even_of_int [simp]: "round_even (of_int n) = n"
  by (simp add: round_even_def)

lemma ulp_pos [simp]: "0 < ulp q"
  by (simp add: ulp_def)

lemma fl_pos_nonneg: "0 \<le> q \<Longrightarrow> 0 \<le> fl_pos q"
proof -
  assume "0 \<le> q"
  then have "0 \<le> q / ulp q" by (simp add: divide_nonneg_pos)
  then have "0 \<le> round_even (q / ulp q)"
    using round_even_mono [of 0 "q / ulp q"] round_even_of_int [of 0] by simp
  then show ?thesis by (simp add: fl_pos_def zero_le_mult_iff less_imp_le)
qed

text \<open>A value that is a multiple of the unit in the last place stays as it is.\<close>

lemma fl_pos_exact: "q = of_int n * ulp q \<Longrightarrow> fl_pos q = q"
proof -
  assume q: "q = of_int n * ulp q"
  then have "q / ulp q = of_int n" by (metis nonzero_mult_div_cancel_right less_irrefl ulp_pos)
  then show ?thesis using q by (simp add: fl_pos_def)
qed

lemma mantissa_le:
  assumes "0 < p" shows "round_even (p / ulp p) \<le> 2 ^ 53"
proof -
  let ?e = "max (binary_exponent p - 52) (- 1074)"
  have "binary_exponent p + 1 \<le> ?e + 53" by linarith
  from pow2_mono [OF this] exponent_bounds [OF assms] have "p \<le> pow2 (?e + 53)" by linarith
  then have "p / ulp p \<le> of_int (2 ^ 53)"
    using pow2_add_nat [of "?e" 53] by (simp add: ulp_def divide_le_eq)
  then show ?thesis
    using round_even_mono [of "p / ulp p" "of_int (2 ^ 53)"] round_even_of_int [of "2 ^ 53"] by simp
qed

lemma fl_pos_mono:
  assumes "0 < p" "p \<le> q" shows "fl_pos p \<le> fl_pos q"
proof -
  let ?e = "\<lambda>x. max (binary_exponent x - 52) (- 1074)"
  have e: "?e p \<le> ?e q" using exponent_mono [OF assms] by simp
  show ?thesis
  proof (cases "?e p = ?e q")
    case True
    then have u: "ulp p = ulp q" by (simp add: ulp_def)
    have "p / ulp q \<le> q / ulp q" using assms by (simp add: divide_right_mono less_imp_le)
    then have "round_even (p / ulp q) \<le> round_even (q / ulp q)" by (rule round_even_mono)
    then show ?thesis by (simp add: fl_pos_def u mult_right_mono less_imp_le)
  next
    case False
    with e have less: "?e p < ?e q" by (simp only: order_less_le simp_thms)
    have eq: "?e q = binary_exponent q - 52" using less by linarith
    have q: "pow2 (binary_exponent q) \<le> q"
      using exponent_bounds [of q] assms by simp
    let ?b = "pow2 (?e q + 52)"
    have scale: "pow2 (j + 52) = of_int (2 ^ 52) * pow2 j" for j
      using pow2_add_nat [of j 52] by simp
    have "round_even (p / ulp p) \<le> 2 ^ 53" by (rule mantissa_le [OF assms(1)])
    then have "of_int (round_even (p / ulp p)) \<le> (of_int (2 ^ 53) :: rat)" by (simp only: of_int_le_iff)
    then have "fl_pos p \<le> 2 ^ 53 * ulp p"
      by (simp add: fl_pos_def mult_right_mono less_imp_le)
    also have "\<dots> = pow2 (?e p + 1 + 52)"
      using pow2_add_nat [of "?e p" 53] by (simp add: ulp_def add.commute)
    also have "\<dots> \<le> ?b" by (rule pow2_mono) (use less in linarith)
    also have "?b \<le> fl_pos q"
    proof -
      have "of_int (2 ^ 52) \<le> q / ulp q" using q scale [of "?e q"] by (simp add: ulp_def eq le_divide_eq)
      then have "2 ^ 52 \<le> round_even (q / ulp q)"
        using round_even_mono [of "of_int (2 ^ 52)" "q / ulp q"] round_even_of_int [of "2 ^ 52"] by simp
      then have "(of_int (2 ^ 52) :: rat) \<le> of_int (round_even (q / ulp q))" by (simp only: of_int_le_iff)
      then show ?thesis
        by (simp only: scale fl_pos_def ulp_def [of q] mult_right_mono less_imp_le pow2_pos)
    qed
    finally show ?thesis .
  qed
qed

lemma fl_0 [simp]: "fl 0 = 0"
  by (simp add: fl_def)

lemma fl_nonneg: "0 \<le> q \<Longrightarrow> 0 \<le> fl q"
  by (auto simp: fl_def fl_pos_nonneg)

lemma fl_mono: "p \<le> q \<Longrightarrow> fl p \<le> fl q"
proof -
  assume pq: "p \<le> q"
  consider "p < 0" "q < 0" | "p \<le> 0" "0 \<le> q" | "0 < p" "0 < q" using pq by linarith
  then show ?thesis
  proof cases
    case 1
    then show ?thesis using fl_pos_mono [of "- q" "- p"] pq by (simp add: fl_def)
  next
    case 2
    have "fl p \<le> 0" using 2 fl_pos_nonneg [of "- p"] by (auto simp: fl_def)
    also have "0 \<le> fl q" using 2(2) by (rule fl_nonneg)
    finally show ?thesis .
  next
    case 3
    then show ?thesis using fl_pos_mono [OF 3(1) pq] by (simp add: fl_def)
  qed
qed

text \<open>What has at most 53 significant bits stays as it is; so rounding is idempotent.\<close>

lemma fl_pos_represented:
  assumes m: "0 < m" "m \<le> 2 ^ 53" and k: "- 1074 \<le> k"
  shows "fl_pos (of_int m * pow2 k) = of_int m * pow2 k"
proof -
  have less: "fl_pos (of_int m * pow2 k) = of_int m * pow2 k" if m: "0 < m" "m < 2 ^ 53" and k: "- 1074 \<le> k" for m k
  proof -
    let ?q = "of_int m * pow2 k"
    let ?K = "max (binary_exponent ?q - 52) (- 1074)"
    have "(of_int m :: rat) < of_int (2 ^ 53)" using m(2) by (simp only: of_int_less_iff)
    then have "?q < of_int (2 ^ 53) * pow2 k" by (rule mult_strict_right_mono) simp
    then have "?q < pow2 (k + 53)" using pow2_add_nat [of k 53] by simp
    moreover have "pow2 (binary_exponent ?q) \<le> ?q" using exponent_bounds [of ?q] m by simp
    ultimately have "\<not> k + 53 \<le> binary_exponent ?q" using pow2_mono [of "k + 53" "binary_exponent ?q"] by linarith
    with k have K: "?K \<le> k" by simp
    then have "pow2 k = 2 ^ nat (k - ?K) * ulp ?q"
      using pow2_add_nat [of "?K" "nat (k - ?K)"] by (simp add: ulp_def)
    then have "?q = of_int (m * 2 ^ nat (k - ?K)) * ulp ?q" by simp
    then show ?thesis by (rule fl_pos_exact)
  qed
  show ?thesis
  proof (cases "m = 2 ^ 53")
    case True
    then have "of_int m * pow2 k = of_int (2 ^ 52) * pow2 (k + 1)" by (simp add: pow2_Suc)
    with less [of "2 ^ 52" "k + 1"] k show ?thesis by simp
  next
    case False
    with less m k show ?thesis by simp
  qed
qed

lemma fl_idem [simp]: "fl (fl q) = fl q"
proof -
  have pos: "fl_pos (fl_pos p) = fl_pos p" if "0 < p" "fl_pos p \<noteq> 0" for p
  proof -
    have "fl_pos p \<ge> 0" using that fl_pos_nonneg by simp
    with that ulp_pos [of p] have "0 < round_even (p / ulp p)"
      by (auto simp: fl_pos_def order_less_le zero_le_mult_iff)
    from fl_pos_represented [OF this mantissa_le [OF that(1)], of "max (binary_exponent p - 52) (- 1074)"]
    show ?thesis by (simp add: fl_pos_def [of p] ulp_def [of p])
  qed
  have nonneg: "0 \<le> fl_pos (- q)" if "q < 0" using that by (intro fl_pos_nonneg) simp
  have "fl_pos q \<ge> 0" if "0 < q" using that by (intro fl_pos_nonneg) simp
  with nonneg pos [of q] pos [of "- q"] show ?thesis
    by (auto simp: fl_def)
qed

lemma fl_of_int:
  assumes "\<bar>n\<bar> \<le> 2 ^ 53" shows "fl (of_int n) = of_int n"
proof -
  consider "n = 0" | "0 < n" | "n < 0" by linarith
  then show ?thesis
    using assms fl_pos_represented [of n 0] fl_pos_represented [of "- n" 0] by cases (auto simp: fl_def)
qed

lemma fl_1 [simp]: "fl 1 = 1"
  using fl_of_int [of 1] by simp

end
