(* ===== verification/RateLimit.thy ===== *)
theory RateLimit
  imports Http GoNet Float64
begin

text \<open>
  The rate limiter of \<open>internal/http/ratelimit.go\<close>: token buckets per key, and the key of a request, which
  is the address of the client.  The arithmetic is that of \<^theory_text>\<open>Float64\<close>, one rounding per operation.
  The mutex makes each call of \<open>allow\<close> atomic.
\<close>

section \<open>State\<close>

record bucket =
  b_tokens :: rat
  b_last :: time

record rateLimiter =
  l_clients :: "string \<Rightarrow> bucket option"
  l_rate :: rat
  l_burst :: rat
  l_trusted :: "IPNet list"
  l_lastTrim :: time

text \<open>A proxy is an address or a network; what is neither is skipped.\<close>

definition trusted_network :: "string \<Rightarrow> IPNet list" where
  "trusted_network raw =
     (let s = TrimSpace raw
      in if s = [] then []
         else (case ParseIP s of
             Some ip \<Rightarrow> let bits = (if To4 ip = None then 128 else 32) in [\<lparr>net_IP = ip, net_Mask = CIDRMask bits bits\<rparr>]
           | None \<Rightarrow> (case ParseCIDR s of None \<Rightarrow> [] | Some n \<Rightarrow> [n])))"

definition newRateLimiter :: "int \<Rightarrow> int \<Rightarrow> string list \<Rightarrow> rateLimiter" where
  "newRateLimiter requestsPerMinute burst trustedProxies =
     \<lparr>l_clients = (\<lambda>_. None),
      l_rate = fl (fl (of_int (if requestsPerMinute \<le> 0 then 60 else requestsPerMinute)) / 60),
      l_burst = fl (of_int (if burst \<le> 0 then 20 else burst)),
      l_trusted = concat (List.map trusted_network trustedProxies),
      l_lastTrim = zero_time\<rparr>"

section \<open>Buckets\<close>

definition minFloat :: "rat \<Rightarrow> rat \<Rightarrow> rat" where
  "minFloat a b = (if a < b then a else b)"

text \<open>\<open>Duration.Seconds\<close>; the division truncates toward zero.\<close>

definition Seconds :: "duration \<Rightarrow> rat" where
  "Seconds d =
     (let sec = sgn d * (\<bar>d\<bar> div second); nsec = sgn d * (\<bar>d\<bar> mod second)
      in fl (fl (of_int sec) + fl (fl (of_int nsec) / 1000000000)))"

definition trim_clients :: "time \<Rightarrow> (string \<Rightarrow> bucket option) \<Rightarrow> string \<Rightarrow> bucket option" where
  "trim_clients t m k =
     (case m k of None \<Rightarrow> None | Some b \<Rightarrow> if time_Sub t (b_last b) > 10 * minute then None else Some b)"

definition trim :: "time \<Rightarrow> rateLimiter \<Rightarrow> rateLimiter" where
  "trim t l =
     (if time_Sub t (l_lastTrim l) > 5 * minute
      then l\<lparr>l_clients := trim_clients t (l_clients l), l_lastTrim := t\<rparr> else l)"

definition refilled :: "rateLimiter \<Rightarrow> time \<Rightarrow> bucket \<Rightarrow> rat" where
  "refilled l t b = minFloat (l_burst l) (fl (b_tokens b + fl (Seconds (time_Sub t (b_last b)) * l_rate l)))"

definition allow :: "string \<Rightarrow> time \<Rightarrow> rateLimiter \<Rightarrow> bool \<times> rateLimiter" where
  "allow key t limiter =
     (let l = trim t limiter
      in case l_clients l key of
           None \<Rightarrow> (True, l\<lparr>l_clients := (l_clients l)(key \<mapsto> \<lparr>b_tokens = fl (l_burst l - 1), b_last = t\<rparr>)\<rparr>)
         | Some b \<Rightarrow>
             if refilled l t b < 1
             then (False, l\<lparr>l_clients := (l_clients l)(key \<mapsto> \<lparr>b_tokens = refilled l t b, b_last = t\<rparr>)\<rparr>)
             else (True, l\<lparr>l_clients := (l_clients l)(key \<mapsto> \<lparr>b_tokens = fl (refilled l t b - 1), b_last = t\<rparr>)\<rparr>))"

text \<open>Calls one after the other: their answers and the limiter at the end.\<close>

fun allow_calls :: "(string \<times> time) list \<Rightarrow> rateLimiter \<Rightarrow> bool list \<times> rateLimiter" where
  "allow_calls [] l = ([], l)"
| "allow_calls ((key, t) # calls) l =
     (case allow key t l of (a, l') \<Rightarrow> case allow_calls calls l' of (as, l'') \<Rightarrow> (a # as, l''))"

section \<open>Keys\<close>

definition proxyTrusted :: "rateLimiter \<Rightarrow> ip \<Rightarrow> bool" where
  "proxyTrusted l ip \<longleftrightarrow> list_ex (\<lambda>network. net_Contains network ip) (l_trusted l)"

definition forwarded_client :: "http_request \<Rightarrow> ip option" where
  "forwarded_client r =
     (if req_ForwardedFor r = [] then None
      else ParseIP (TrimSpace (hd (split_on (CHR '','') (req_ForwardedFor r)))))"

definition remote_host :: "http_request \<Rightarrow> string" where
  "remote_host r = (case SplitHost (req_RemoteAddr r) of None \<Rightarrow> req_RemoteAddr r | Some host \<Rightarrow> host)"

definition clientKey :: "rateLimiter \<Rightarrow> http_request \<Rightarrow> string" where
  "clientKey l r =
     (case ParseIP (remote_host r) of
        None \<Rightarrow> remote_host r
      | Some remote \<Rightarrow>
          (case (if proxyTrusted l remote then forwarded_client r else None) of
             Some ip \<Rightarrow> IP_String ip
           | None \<Rightarrow> IP_String remote))"

section \<open>Buckets stay in range\<close>

definition limiter_ok :: "time \<Rightarrow> rateLimiter \<Rightarrow> bool" where
  "limiter_ok t l \<longleftrightarrow> fl (1 / 60) \<le> l_rate l \<and> 1 \<le> l_burst l \<and> fl (l_burst l) = l_burst l \<and>
     (\<forall>k b. l_clients l k = Some b \<longrightarrow> 0 \<le> b_tokens b \<and> b_tokens b \<le> l_burst l \<and> b_last b \<le> t)"

lemma limiter_ok_bucket:
  "limiter_ok t l \<Longrightarrow> l_clients l k = Some b \<Longrightarrow> 0 \<le> b_tokens b \<and> b_tokens b \<le> l_burst l \<and> b_last b \<le> t"
  by (simp add: limiter_ok_def)

lemma limiter_ok_later: "limiter_ok t l \<Longrightarrow> t \<le> t' \<Longrightarrow> limiter_ok t' l"
  by (force simp: limiter_ok_def)

lemma limiter_ok_put:
  "limiter_ok t l \<Longrightarrow> 0 \<le> v \<Longrightarrow> v \<le> l_burst l \<Longrightarrow>
   limiter_ok t (l\<lparr>l_clients := (l_clients l)(key \<mapsto> \<lparr>b_tokens = v, b_last = t\<rparr>)\<rparr>)"
  by (simp add: limiter_ok_def)

lemma fl_at_least_1: "1 \<le> x \<Longrightarrow> 1 \<le> fl x"
  using fl_mono [of 1 x] by simp

lemma new_limiter_ok: "limiter_ok t (newRateLimiter rpm burst proxies)"
proof -
  let ?r = "if rpm \<le> 0 then 60 else rpm"
  have "(1 :: rat) \<le> of_int ?r" by simp
  then have "1 / 60 \<le> fl (of_int ?r) / 60" using fl_at_least_1 by (simp add: divide_right_mono)
  then have "fl (1 / 60) \<le> l_rate (newRateLimiter rpm burst proxies)"
    by (simp add: newRateLimiter_def fl_mono)
  moreover have "1 \<le> l_burst (newRateLimiter rpm burst proxies)"
    by (simp add: newRateLimiter_def fl_at_least_1)
  ultimately show ?thesis by (simp add: limiter_ok_def) (simp add: newRateLimiter_def)
qed

lemma trim_ok: "limiter_ok t l \<Longrightarrow> limiter_ok t (trim t' l)"
  by (auto simp: limiter_ok_def trim_def trim_clients_def split: option.splits if_splits)

lemma Seconds_nonneg: "0 \<le> d \<Longrightarrow> 0 \<le> Seconds d"
  unfolding Seconds_def Let_def
  by (intro fl_nonneg add_nonneg_nonneg divide_nonneg_nonneg) (simp_all add: sgn_if second_def)

lemma time_Sub_nonneg: "a \<le> b \<Longrightarrow> 0 \<le> time_Sub b a"
  by (simp add: time_Sub_def min_duration_def max_duration_def)

lemma limiter_rate_nonneg: "limiter_ok t l \<Longrightarrow> 0 \<le> l_rate l"
  using fl_nonneg [of "1 / 60"] by (simp add: limiter_ok_def)

lemma refilled_range:
  assumes "limiter_ok t l" "l_clients l key = Some b"
  shows "0 \<le> refilled l t b \<and> refilled l t b \<le> l_burst l"
proof -
  have "0 \<le> Seconds (time_Sub t (b_last b)) * l_rate l"
    using limiter_ok_bucket [OF assms] limiter_rate_nonneg [OF assms(1)] by (simp add: Seconds_nonneg time_Sub_nonneg)
  then have "0 \<le> fl (b_tokens b + fl (Seconds (time_Sub t (b_last b)) * l_rate l))"
    using limiter_ok_bucket [OF assms] by (intro fl_nonneg add_nonneg_nonneg) simp_all
  with assms(1) show ?thesis by (auto simp: refilled_def minFloat_def limiter_ok_def)
qed



lemma refilled_float: "limiter_ok t l \<Longrightarrow> fl (refilled l t b) = refilled l t b"
  by (simp add: refilled_def minFloat_def limiter_ok_def)

lemma fl_decrement: "0 \<le> x - 1 \<Longrightarrow> fl x = x \<Longrightarrow> x \<le> y \<Longrightarrow> 0 \<le> fl (x - 1) \<and> fl (x - 1) \<le> y"
  using fl_mono [of "x - 1" x] fl_nonneg [of "x - 1"] by auto

lemma allow_ok:
  assumes "limiter_ok t l" shows "limiter_ok t (snd (allow key t l))"
proof -
  let ?l = "trim t l"
  have ok: "limiter_ok t ?l" using assms by (rule trim_ok)
  show ?thesis
  proof (cases "l_clients ?l key")
    case None
    have "0 \<le> fl (l_burst ?l - 1) \<and> fl (l_burst ?l - 1) \<le> l_burst ?l"
      using ok by (intro fl_decrement) (auto simp: limiter_ok_def)
    with None limiter_ok_put [OF ok] show ?thesis by (simp add: allow_def Let_def)
  next
    case (Some b)
    have r: "0 \<le> refilled ?l t b" "refilled ?l t b \<le> l_burst ?l" using refilled_range [OF ok Some] by auto
    have "\<not> refilled ?l t b < 1 \<Longrightarrow> 0 \<le> fl (refilled ?l t b - 1) \<and> fl (refilled ?l t b - 1) \<le> l_burst ?l"
      using refilled_float [OF ok] r by (intro fl_decrement) auto
    with Some r limiter_ok_put [OF ok] show ?thesis by (simp add: allow_def Let_def)
  qed
qed

lemma allow_calls_ok:
  "limiter_ok t0 l \<Longrightarrow> sorted (t0 # List.map snd calls @ [t]) \<Longrightarrow> limiter_ok t (snd (allow_calls calls l))"
proof (induction calls arbitrary: t0 l)
  case (Cons c calls)
  obtain key t1 where c: "c = (key, t1)" by fastforce
  have "limiter_ok t1 (snd (allow key t1 l))"
    using Cons.prems c by (intro allow_ok limiter_ok_later [OF Cons.prems(1)]) simp
  from Cons.IH [OF this] Cons.prems(2) show ?case by (simp add: c case_prod_beta)
qed (auto intro: limiter_ok_later)

section \<open>Waiting\<close>

lemma rate_minute: "fl (60 * fl (1 / 60)) = 1"
  by code_simp

lemma Seconds_minute: "60 * second \<le> d \<Longrightarrow> 60 \<le> Seconds d"
proof -
  assume d: "60 * second \<le> d"
  let ?s = "\<bar>d\<bar> div second" and ?n = "\<bar>d\<bar> mod second"
  have sgn: "sgn d = 1" using d by (simp add: second_def sgn_if)
  have "60 \<le> ?s" using d by (simp add: second_def)
  then have "(of_int 60 :: rat) \<le> of_int ?s" by (simp only: of_int_le_iff)
  then have "60 \<le> fl (of_int ?s)" using fl_mono [of "of_int 60" "of_int ?s"] fl_of_int [of 60] by simp
  moreover have "0 \<le> fl (fl (of_int ?n) / 1000000000)"
    by (intro fl_nonneg divide_nonneg_nonneg) (simp_all add: second_def)
  ultimately have "60 \<le> fl (of_int ?s) + fl (fl (of_int ?n) / 1000000000)" by simp
  from fl_mono [OF this] fl_of_int [of 60] show ?thesis by (simp add: Seconds_def Let_def sgn)
qed

lemma waiting_admitted:
  assumes "limiter_ok t0 l" "t0 + 60 * second \<le> t" shows "fst (allow key t l)"
proof -
  let ?l = "trim t l"
  have ok: "limiter_ok t0 ?l" using assms(1) by (rule trim_ok)
  show ?thesis
  proof (cases "l_clients ?l key")
    case None
    then show ?thesis by (simp add: allow_def Let_def)
  next
    case (Some b)
    have b: "0 \<le> b_tokens b" "b_last b \<le> t0" using limiter_ok_bucket [OF ok Some] by auto
    have "60 \<le> Seconds (time_Sub t (b_last b))"
      using b assms(2) by (intro Seconds_minute) (simp add: time_Sub_def min_duration_def max_duration_def second_def)
    then have "60 * fl (1 / 60) \<le> Seconds (time_Sub t (b_last b)) * l_rate ?l"
      using ok fl_nonneg [of "1 / 60"] by (intro mult_mono) (auto simp: limiter_ok_def)
    from fl_mono [OF this] have "1 \<le> fl (Seconds (time_Sub t (b_last b)) * l_rate ?l)" by (simp add: rate_minute)
    then have "1 \<le> fl (b_tokens b + fl (Seconds (time_Sub t (b_last b)) * l_rate ?l))"
      using b by (intro fl_at_least_1) simp
    then have "\<not> refilled ?l t b < 1" using ok by (simp add: refilled_def minFloat_def limiter_ok_def)
    with Some show ?thesis by (simp add: allow_def Let_def)
  qed
qed

section \<open>A burst\<close>

lemma allow_same_time:
  assumes "l_clients l key = Some \<lparr>b_tokens = of_int n, b_last = t\<rparr>" "0 \<le> n" "n \<le> B" "l_burst l = of_int B" "B \<le> 2 ^ 53"
    "\<not> time_Sub t (l_lastTrim l) > 5 * minute"
  shows "allow key t l = (1 \<le> n, l\<lparr>l_clients := (l_clients l)(key \<mapsto>
    \<lparr>b_tokens = of_int (if 1 \<le> n then n - 1 else n), b_last = t\<rparr>)\<rparr>)"
proof -
  have z: "time_Sub t t = 0" by (simp add: time_Sub_def min_duration_def max_duration_def)
  have "trim t l = l" using assms(6) by (simp add: trim_def)
  moreover have "fl (of_int n) = of_int n" "fl (of_int (n - 1)) = of_int (n - 1)"
    using assms by (intro fl_of_int; simp)+
  moreover have "refilled l t \<lparr>b_tokens = of_int n, b_last = t\<rparr> = of_int n"
    using assms calculation by (simp add: refilled_def minFloat_def z Seconds_def)
  ultimately show ?thesis using assms by (auto simp: allow_def Let_def)
qed

lemma burst_rest:
  assumes "l_clients l key = Some \<lparr>b_tokens = of_int n, b_last = t\<rparr>" "0 \<le> n" "n \<le> B" "l_burst l = of_int B" "B \<le> 2 ^ 53"
    "\<not> time_Sub t (l_lastTrim l) > 5 * minute"
  shows "fst (allow_calls (replicate k (key, t)) l) = List.map (\<lambda>i. int i < n) [0..<k]"
  using assms
proof (induction k arbitrary: l n)
  case (Suc k)
  let ?n = "if 1 \<le> n then n - 1 else n"
  let ?l = "l\<lparr>l_clients := (l_clients l)(key \<mapsto> \<lparr>b_tokens = of_int ?n, b_last = t\<rparr>)\<rparr>"
  have "fst (allow_calls (replicate k (key, t)) ?l) = List.map (\<lambda>i. int i < ?n) [0..<k]"
    using Suc.prems by (intro Suc.IH) auto
  then show ?case
    using allow_same_time [OF Suc.prems] Suc.prems(2)
    by (auto simp: case_prod_beta map_upt_Suc simp del: upt_Suc)
qed simp

lemma trim_fresh: "\<not> time_Sub t (l_lastTrim (trim t l)) > 5 * minute"
proof -
  have "time_Sub t t = 0" by (simp add: time_Sub_def min_duration_def max_duration_def)
  then show ?thesis by (cases "time_Sub t (l_lastTrim l) > 5 * minute") (simp_all add: trim_def minute_def second_def)
qed

section \<open>Proxies given by address\<close>

text \<open>The form in which addresses are compared: four bytes where there is such a form.\<close>

definition short_form :: "ip \<Rightarrow> ip" where
  "short_form ip = (case To4 ip of Some a \<Rightarrow> a | None \<Rightarrow> ip)"

lemma short_form_inject: "length x = 16 \<Longrightarrow> length y = 16 \<Longrightarrow> short_form x = short_form y \<longleftrightarrow> x = y"
proof -
  have four: "length a = 4" if "To4 z = Some a" for z a using that by (auto simp: To4_def split: if_splits)
  have whole: "z = (replicate 10 0 @ [255, 255]) @ a" if "length z = 16" "To4 z = Some a" for z a
  proof -
    have z: "take 10 z = replicate 10 0" "z ! 10 = 255" "z ! 11 = 255" "a = drop 12 z"
      using that by (auto simp: To4_def split: if_splits)
    have "take 12 z = take 10 z @ [z ! 10, z ! 11]"
      using that(1) take_Suc_conv_app_nth [of 10 z] take_Suc_conv_app_nth [of 11 z] by simp
    with z show ?thesis by (metis append_take_drop_id)
  qed
  assume x: "length x = 16" and y: "length y = 16"
  show ?thesis
  proof (cases "To4 x")
    case None
    then have "short_form x = x" by (simp add: short_form_def)
    moreover have "short_form y = y \<or> length (short_form y) = 4" using four by (auto simp: short_form_def split: option.splits)
    ultimately show ?thesis using x None by (auto simp: short_form_def)
  next
    case (Some a)
    show ?thesis
    proof (cases "To4 y")
      case None
      with Some y four [OF Some] show ?thesis by (auto simp: short_form_def)
    next
      case (Some b)
      from whole [OF x \<open>To4 x = Some a\<close>] whole [OF y this] \<open>To4 x = Some a\<close> Some
      show ?thesis by (metis option.simps(5) same_append_eq short_form_def)
    qed
  qed
qed

lemma literal_mask: "bits = 8 * n \<Longrightarrow> CIDRMask bits bits = replicate n 255"
  by (intro nth_equalityI) (auto simp: CIDRMask_def)

lemma and_255 [simp]: "x AND 255 = (x :: u8)"
proof -
  have "(255 :: u8) = - 1" by simp
  then show ?thesis by (simp only: bit.conj_one_right)
qed

lemma contains_all_ones:
  assumes "length x = length nn"
  shows "list_all (\<lambda>i. nn ! i AND replicate (length nn) 255 ! i = x ! i AND replicate (length nn) 255 ! i) [0..<length x] \<longleftrightarrow>
    x = (nn :: ip)"
proof -
  have "list_all (\<lambda>i. nn ! i AND replicate (length nn) 255 ! i = x ! i AND replicate (length nn) 255 ! i) [0..<length x] \<longleftrightarrow>
      list_all (\<lambda>i. nn ! i = x ! i) [0..<length x]"
    using assms by (intro list.pred_cong) auto
  also have "\<dots> \<longleftrightarrow> x = nn" using assms by (auto simp: list_all_iff intro: nth_equalityI)
  finally show ?thesis .
qed

lemma literal_contains:
  assumes "length ip = 16" "bits = (if To4 ip = None then 128 else 32)"
  shows "net_Contains \<lparr>net_IP = ip, net_Mask = CIDRMask bits bits\<rparr> x \<longleftrightarrow> short_form x = short_form ip"
proof -
  have four: "length a = 4" if "To4 ip = Some a" for a using that by (auto simp: To4_def split: if_splits)
  have "networkNumberAndMask \<lparr>net_IP = ip, net_Mask = CIDRMask bits bits\<rparr> =
      (short_form ip, replicate (length (short_form ip)) 255)"
    using assms four by (auto simp: networkNumberAndMask_def literal_mask [of _ 16] literal_mask [of _ 4] short_form_def Let_def
        split: option.splits)
  then show ?thesis
    using contains_all_ones [of "short_form x" "short_form ip"]
    by (auto simp: net_Contains_def Let_def short_form_def [of x, symmetric])
qed


text \<open>The addresses that parse have 16 bytes.\<close>

lemma expand_ellipsis_length:
  "length ip \<le> 16 \<Longrightarrow> expand_ellipsis ip ell = Some a \<Longrightarrow> pred_option (\<lambda>e. e \<le> length ip) ell \<Longrightarrow> length a = 16"
  by (auto simp: expand_ellipsis_def split: if_splits)

lemma parseIPv4_length: "parseIPv4Fields s = Some f \<Longrightarrow> length f = 4"
  by (auto simp: parseIPv4Fields_def split: list.splits option.splits)

lemma parse_groups_length:
  "parse_groups r ip ell s = Some a \<Longrightarrow> length ip + 2 * r = 16 \<Longrightarrow> pred_option (\<lambda>e. e \<le> length ip) ell \<Longrightarrow> length a = 16"
proof (induction r ip ell s rule: parse_groups.induct)
  case (2 r ip ell s)
  let ?ds = "takeWhile is_hex s" and ?rest = "dropWhile is_hex s"
  let ?ip = "ip @ [of_nat (hex_group ?ds div 256), of_nat (hex_group ?ds mod 256)]"
  have ell: "pred_option (\<lambda>e. e \<le> length ?ip) ell" using "2.prems"(3) by (cases ell) auto
  from "2.prems"(1) have ds: "\<not> (?ds = [] \<or> length ?ds > 4)" by (auto simp: Let_def simp del: dropWhile_eq_Nil_conv takeWhile_eq_Nil_iff split: if_splits)
  show ?case
  proof (cases ?rest)
    case Nil
    with "2.prems" ds ell show ?thesis
      by (auto simp: Let_def simp del: dropWhile_eq_Nil_conv takeWhile_eq_Nil_iff intro!: expand_ellipsis_length [of ?ip ell a])
  next
    case (Cons c t)
    consider "c = CHR ''.''" | "c \<noteq> CHR ''.''" "c = CHR '':''" | "c \<noteq> CHR ''.''" "c \<noteq> CHR '':''" by blast
    then show ?thesis
    proof cases
      case 1
      with "2.prems"(1) ds Cons obtain f where f: "parseIPv4Fields s = Some f" "\<not> length ip + 4 > 16"
          "expand_ellipsis (ip @ f) ell = Some a"
        by (auto simp: Let_def simp del: dropWhile_eq_Nil_conv takeWhile_eq_Nil_iff split: if_splits option.splits)
      moreover have "pred_option (\<lambda>e. e \<le> length (ip @ f)) ell" using "2.prems"(3) by (cases ell) auto
      ultimately show ?thesis using expand_ellipsis_length [of "ip @ f" ell a] parseIPv4_length [OF f(1)] by simp
    next
      case 2
      note parts = ds Cons 2
      from "2.prems"(1) parts obtain d t' where t: "t = d # t'" by (cases t) (auto simp: Let_def simp del: dropWhile_eq_Nil_conv takeWhile_eq_Nil_iff)
      from "2.prems"(1) parts t consider "d \<noteq> CHR '':''" "parse_groups r ?ip ell t = Some a"
        | "d = CHR '':''" "ell = None" "t' = []" "expand_ellipsis ?ip (Some (length ?ip)) = Some a"
        | "d = CHR '':''" "ell = None" "t' \<noteq> []" "parse_groups r ?ip (Some (length ?ip)) t' = Some a"
        by (auto simp: Let_def simp del: dropWhile_eq_Nil_conv takeWhile_eq_Nil_iff split: if_splits)
      then show ?thesis
      proof cases
        case 1
        with "2.IH"(1) [OF refl refl refl ds Cons _ _ t] parts ell "2.prems"(2) show ?thesis by auto
      next
        case 2
        then show ?thesis using expand_ellipsis_length [of ?ip "Some (length ?ip)" a] "2.prems"(2) by auto
      next
        case 3
        with "2.IH"(2) [OF refl refl refl ds Cons _ _ t] parts "2.prems"(2) show ?thesis by auto
      qed
    next
      case 3
      with "2.prems"(1) ds Cons show ?thesis by (auto simp: Let_def simp del: dropWhile_eq_Nil_conv takeWhile_eq_Nil_iff)
    qed
  qed
next
  case (1 ip ell s)
  then show ?case using expand_ellipsis_length [of ip ell a] by (simp split: if_splits)
qed

lemma ParseIP_length: "ParseIP s = Some ip \<Longrightarrow> length ip = 16"
  by (auto simp: ParseIP_def ParseAddr_def parseIPv6_def v4InV6Prefix_def dest: parseIPv4_length parse_groups_length
      split: list.splits if_splits)

lemma literal_proxies:
  assumes "list_all (\<lambda>p. ParseIP (TrimSpace p) \<noteq> None) ps" "length ip = 16"
  shows "proxyTrusted (newRateLimiter rpm burst ps) ip \<longleftrightarrow> Some ip \<in> (\<lambda>p. ParseIP (TrimSpace p)) ` set ps"
proof -
  have "list_ex (\<lambda>n. net_Contains n ip) (trusted_network p) \<longleftrightarrow> ParseIP (TrimSpace p) = Some ip"
    if "ParseIP (TrimSpace p) \<noteq> None" for p
  proof -
    from that obtain a where a: "ParseIP (TrimSpace p) = Some a" by blast
    then have "TrimSpace p \<noteq> []" by (auto simp: ParseIP_def ParseAddr_def)
    with a show ?thesis
      using literal_contains [OF ParseIP_length [OF a] refl, of ip] short_form_inject [OF assms(2) ParseIP_length [OF a]]
      by (auto simp: trusted_network_def Let_def)
  qed
  with assms(1) show ?thesis
    by (force simp: proxyTrusted_def newRateLimiter_def list_ex_iff list_all_iff)
qed

end
