(* ===== verification/Serving.thy ===== *)
theory Serving
  imports RateLimit FlowInvariants
begin

text \<open>
  \<open>NewServer\<close>, \<open>Routes\<close> and the two wrappers of \<open>server.go\<close>: which handler a request reaches, the rate limit
  and the security headers.  A request comes with its escaped path, as \<open>ServeMux\<close> matches it; \<open>req_Path\<close> is
  the decoded one, which the rate limit and the handlers see.
\<close>

section \<open>Paths\<close>

text \<open>\<open>path.Clean\<close> of a rooted path, and \<open>cleanPath\<close>, which keeps a final slash.\<close>

definition clean_segments :: "string list \<Rightarrow> string list" where
  "clean_segments ss = foldl (\<lambda>out s. if s = [] \<or> s = ''.'' then out else if s = ''..'' then butlast out else out @ [s]) [] ss"

definition path_Clean :: "string \<Rightarrow> string" where
  "path_Clean p = CHR ''/'' # join_with ''/'' (clean_segments (split_on (CHR ''/'') (tl p)))"

definition cleanPath :: "string \<Rightarrow> string" where
  "cleanPath p =
     (if p = [] then ''/''
      else (let q = (if hd p = CHR ''/'' then p else CHR ''/'' # p); np = path_Clean q
            in if last q = CHR ''/'' \<and> np \<noteq> ''/'' then np @ ''/'' else np))"

section \<open>Patterns\<close>

datatype pattern_segment = Lit string | Wildcard | Multi

text \<open>The first segment of a path that is not empty, decoded, and the rest; a final slash is a segment.\<close>

definition pathUnescape :: "string \<Rightarrow> string" where
  "pathUnescape s = (case unescape encodePathSegment s of Inl e \<Rightarrow> s | Inr t \<Rightarrow> t)"

definition firstSegment :: "string \<Rightarrow> string \<times> string" where
  "firstSegment path =
     (if path = ''/'' then (''/'', [])
      else (pathUnescape (takeWhile (\<lambda>c. c \<noteq> CHR ''/'') (tl path)), dropWhile (\<lambda>c. c \<noteq> CHR ''/'') (tl path)))"

text \<open>The patterns left after a segment, each with its handler.\<close>

definition after_segment :: "pattern_segment \<Rightarrow> (pattern_segment list \<times> 'h) list \<Rightarrow> (pattern_segment list \<times> 'h) list" where
  "after_segment x ps = concat (List.map (\<lambda>(ss, h). case ss of [] \<Rightarrow> [] | s # rest \<Rightarrow> if s = x then [(rest, h)] else []) ps)"

definition leaf :: "(pattern_segment list \<times> 'h) list \<Rightarrow> 'h option" where
  "leaf ps = map_option snd (List.find (\<lambda>(ss, h). ss = []) ps)"

lemma firstSegment_shorter: "path \<noteq> [] \<Longrightarrow> (seg, rest) = firstSegment path \<Longrightarrow> length rest < length path"
  using length_dropWhile_le [of "\<lambda>c. c \<noteq> CHR ''/''" "tl path"]
  by (cases path) (auto simp: firstSegment_def split: if_splits)

text \<open>
  The search of the routing tree: a literal segment goes before a wildcard, and that before the rest of
  the path.
\<close>

function match_path :: "(pattern_segment list \<times> 'h) list \<Rightarrow> string \<Rightarrow> string list \<Rightarrow> ('h \<times> string list) option" where
  "match_path ps path ms =
     (if path = [] then map_option (\<lambda>h. (h, ms)) (leaf ps)
      else
        let (seg, rest) = firstSegment path in
        (case match_path (after_segment (Lit seg) ps) rest ms of
           Some r \<Rightarrow> Some r
         | None \<Rightarrow>
             (case (if seg \<noteq> ''/'' then match_path (after_segment Wildcard ps) rest (ms @ [seg]) else None) of
                Some r \<Rightarrow> Some r
              | None \<Rightarrow> map_option (\<lambda>h. (h, ms)) (leaf (after_segment Multi ps)))))"
  by pat_completeness auto

termination
  by (relation "measure (\<lambda>(ps, path, ms). length path)") (auto dest: firstSegment_shorter)

declare match_path.simps [simp del]

section \<open>The routes\<close>

datatype route = Index | ThemeScript | Health | Healthz | SetupPage | SetupCheckForm | ProfileForm | TestPage
  | TestStartForm | TestReturn | Metadata | AuthorizePage | CodeForm | LoginCallback | ConsentPage | ConsentForm
  | TokenForm | IntrospectForm | RevokeForm | ManagedProfilePage

definition Routes :: "(string \<times> pattern_segment list \<times> route) list" where
  "Routes =
     [(''GET'', [Multi], Index),
      (''GET'', [Lit ''theme.js''], ThemeScript),
      (''GET'', [Lit ''health''], Health),
      (''GET'', [Lit ''healthz''], Healthz),
      (''GET'', [Lit ''setup''], SetupPage),
      (''POST'', [Lit ''setup'', Lit ''check''], SetupCheckForm),
      (''POST'', [Lit ''setup'', Lit ''profile''], ProfileForm),
      (''GET'', [Lit ''test''], TestPage),
      (''POST'', [Lit ''test'', Lit ''start''], TestStartForm),
      (''GET'', [Lit ''test'', Lit ''callback''], TestReturn),
      (''GET'', [Lit ''.well-known'', Lit ''oauth-authorization-server''], Metadata),
      (''GET'', [Lit ''authorize''], AuthorizePage),
      (''POST'', [Lit ''authorize''], CodeForm),
      (''GET'', [Lit ''auth'', Lit ''callback''], LoginCallback),
      (''GET'', [Lit ''callback'', Wildcard], LoginCallback),
      (''GET'', [Lit ''consent''], ConsentPage),
      (''POST'', [Lit ''consent''], ConsentForm),
      (''POST'', [Lit ''token''], TokenForm),
      (''POST'', [Lit ''introspect''], IntrospectForm),
      (''POST'', [Lit ''revoke''], RevokeForm),
      (''GET'', [Wildcard], ManagedProfilePage)]"

definition routes_of :: "string \<Rightarrow> (pattern_segment list \<times> route) list" where
  "routes_of m = List.map snd (filter (\<lambda>(m', p). m' = m) Routes)"

text \<open>\<open>GET\<close> patterns also match \<open>HEAD\<close>.\<close>

definition match_route :: "string \<Rightarrow> string \<Rightarrow> (route \<times> string list) option" where
  "match_route m path =
     (case match_path (routes_of m) path [] of
        Some r \<Rightarrow> Some r
      | None \<Rightarrow> if m = ''HEAD'' then match_path (routes_of ''GET'') path [] else None)"

text \<open>The methods for which a path, or the path with a slash appended, has a handler, in order.\<close>

definition matching_methods :: "string \<Rightarrow> string list" where
  "matching_methods path =
     concat (List.map (\<lambda>m. if match_route m path \<noteq> None \<or> (\<not> HasSuffix path ''/'' \<and> match_route m (path @ ''/'') \<noteq> None)
       then [m] else []) [''GET'', ''HEAD'', ''POST''])"

section \<open>Handlers by route\<close>

definition handleThemeScript :: http_response where
  "handleThemeScript = reply (set_header ''Content-Type'' ''text/javascript; charset=utf-8''
     [(''Cache-Control'', ''public, max-age=300'')]) 200 (PageBody ''theme.js'' [])"

text \<open>The event of the state machine that a route is, or the fixed answer.\<close>

fun route_event :: "Config \<Rightarrow> route \<Rightarrow> string list \<Rightarrow> http_request \<Rightarrow> http_response + event" where
  "route_event c Index ms r = Inl (handleIndex c)"
| "route_event c ThemeScript ms r = Inl handleThemeScript"
| "route_event c Health ms r = Inl (handleHealth c)"
| "route_event c Healthz ms r = Inl handleHealthz"
| "route_event c SetupPage ms r = Inr Setup"
| "route_event c SetupCheckForm ms r = Inr (SetupCheck r)"
| "route_event c ProfileForm ms r = Inr (ProfileUpdate r)"
| "route_event c TestPage ms r = Inl (handleTestClient c r)"
| "route_event c TestStartForm ms r = Inr (TestStart r)"
| "route_event c TestReturn ms r = Inr (TestCallback r)"
| "route_event c Metadata ms r = Inl (handleMetadata c)"
| "route_event c AuthorizePage ms r = Inr (Authorize r)"
| "route_event c CodeForm ms r = Inr (CodeProfile r)"
| "route_event c LoginCallback ms r = Inr (Callback (case ms of [] \<Rightarrow> [] | b # _ \<Rightarrow> b) r)"
| "route_event c ConsentPage ms r = Inr (ConsentGet r)"
| "route_event c ConsentForm ms r = Inr (ConsentPost r)"
| "route_event c TokenForm ms r = Inr (Token r)"
| "route_event c IntrospectForm ms r = Inr (Introspect r)"
| "route_event c RevokeForm ms r = Inr (Revoke r)"
| "route_event c ManagedProfilePage ms r = Inr (ProfilePage r)"

definition MethodNotAllowed :: "string \<Rightarrow> http_response" where
  "MethodNotAllowed path = http_Error [(''Allow'', join_with '', '' (matching_methods path))] ''Method Not Allowed'' 405"

text \<open>\<open>ServeMux.ServeHTTP\<close>: a path that is not clean is redirected, except for \<open>CONNECT\<close>.\<close>

definition mux_answer :: "Config \<Rightarrow> string \<Rightarrow> http_request \<Rightarrow> http_response + event" where
  "mux_answer c escaped r =
     (let path = (if req_Method r = ''CONNECT'' then escaped else cleanPath escaped)
      in if path \<noteq> escaped
         then Inl (Redirect [] (URL_String (empty_URL\<lparr>url_Path := path, url_RawQuery := req_RawQuery r\<rparr>)) 301)
         else (case match_route (req_Method r) path of
             Some (rt, ms) \<Rightarrow> route_event c rt ms r
           | None \<Rightarrow> Inl (if matching_methods path \<noteq> [] then MethodNotAllowed path else NotFound [])))"

definition mux_serve :: "('a store_world_scheme) Server \<Rightarrow> string \<Rightarrow> http_request \<Rightarrow> ('a store_world_scheme, http_response) state" where
  "mux_serve s escaped r = (case mux_answer (cfg s) escaped r of Inl rsp \<Rightarrow> return rsp | Inr ev \<Rightarrow> handle s ev)"

section \<open>The wrappers\<close>

definition limited_paths :: "string list" where
  "limited_paths = [''/authorize'', ''/auth/callback'', ''/setup'', ''/setup/check'', ''/test/start'', ''/test/callback'',
     ''/consent'', ''/token'', ''/introspect'', ''/revoke'']"

definition limited :: "string \<Rightarrow> bool" where
  "limited path \<longleftrightarrow> path \<in> set limited_paths \<or> HasPrefix path ''/callback/''"

definition limit_key :: "rateLimiter \<Rightarrow> http_request \<Rightarrow> string" where
  "limit_key l r = req_Path r @ ''|'' @ clientKey l r"

definition rateLimit :: "Config \<Rightarrow> http_request \<Rightarrow> ('a environment_scheme, http_response) state \<Rightarrow> rateLimiter \<Rightarrow>
    ('a environment_scheme, http_response \<times> rateLimiter) state" where
  "rateLimit c r next_handler l =
     (if rl_Enabled (RateLimit c) \<and> limited (req_Path r) then do {
        t \<leftarrow> now;
        (let (ok, l') = allow (limit_key l r) t l in
         if \<not> ok then return (http_Error [(''Retry-After'', ''60'')] ''rate limit exceeded'' 429, l')
         else do { rsp \<leftarrow> next_handler; return (rsp, l') })
      }
      else do { rsp \<leftarrow> next_handler; return (rsp, l) })"

text \<open>Headers set before the handler runs, which may set them again.\<close>

definition default_csp :: string where
  "default_csp = ''default-src '' @ [chr 39] @ ''none'' @ [chr 39] @ ''; style-src '' @ [chr 39] @ ''unsafe-inline'' @ [chr 39] @
     ''; script-src '' @ [chr 39] @ ''self'' @ [chr 39] @ ''; base-uri '' @ [chr 39] @ ''none'' @ [chr 39] @
     ''; form-action '' @ [chr 39] @ ''self'' @ [chr 39] @ ''; frame-ancestors '' @ [chr 39] @ ''none'' @ [chr 39]"

definition security_headers :: headers where
  "security_headers = [(''X-Content-Type-Options'', ''nosniff''), (''Referrer-Policy'', ''no-referrer''),
     (''Content-Security-Policy'', default_csp), (''Cross-Origin-Opener-Policy'', ''same-origin'')]"

definition with_headers :: "headers \<Rightarrow> http_response \<Rightarrow> http_response" where
  "with_headers base rsp = rsp\<lparr>rsp_Header := foldl (\<lambda>hs (k, v). set_header k v hs) base (rsp_Header rsp)\<rparr>"

definition securityHeaders :: "('w, http_response \<times> rateLimiter) state \<Rightarrow> ('w, http_response \<times> rateLimiter) state" where
  "securityHeaders next_handler = do { (rsp, l) \<leftarrow> next_handler; return (with_headers security_headers rsp, l) }"

text \<open>The server with its limiter, and the handler it serves a request with.\<close>

definition NewServer :: "Config \<Rightarrow> (string \<times> 'w Backend) list \<Rightarrow> unicode_tables \<Rightarrow> 'w Server \<times> rateLimiter" where
  "NewServer c bs U = (\<lparr>cfg = c, backends = bs, tables = U\<rparr>,
     newRateLimiter (RequestsPerMinute (RateLimit c)) (Burst (RateLimit c))
       (rl_TrustedProxies (RateLimit c) @ srv_TrustedProxies (Server c)))"

definition serve :: "('a store_world_scheme) Server \<Rightarrow> string \<Rightarrow> http_request \<Rightarrow> rateLimiter \<Rightarrow>
    ('a store_world_scheme, http_response \<times> rateLimiter) state" where
  "serve s escaped r l = securityHeaders (rateLimit (cfg s) r (mux_serve s escaped r) l)"

text \<open>Requests one after the other.\<close>

fun serve_all :: "('a store_world_scheme) Server \<Rightarrow> (string \<times> http_request) list \<Rightarrow> rateLimiter \<Rightarrow>
    ('a store_world_scheme, http_response list \<times> rateLimiter) state" where
  "serve_all s [] l = return ([], l)"
| "serve_all s ((escaped, r) # rs) l = do {
     (rsp, l') \<leftarrow> serve s escaped r l;
     (rsps, l'') \<leftarrow> serve_all s rs l';
     return (rsp # rsps, l'')
   }"

section \<open>Serving is a run of the state machine\<close>

lemma handle_reachable: "reachable s w (world_of (handle s ev) w)"
  by (rule next_step [OF start, where ev = ev and rsp = "val_of (handle s ev) w"]) (simp add: step_iff)

lemma mux_serve_reachable: "reachable s w (world_of (mux_serve s escaped r) w)"
  by (cases "mux_answer (cfg s) escaped r") (simp_all add: mux_serve_def start handle_reachable)

lemma now_reachable: "reachable s w (world_of now w)"
  using handle_reachable [of s w ClockRead] by (simp add: case_prod_beta)

lemma rateLimit_reachable:
  assumes "\<And>v. reachable s v (world_of h v)"
  shows "reachable s w (world_of (rateLimit c r h l) w)"
proof -
  let ?w = "world_of now w"
  have "reachable s w ?w" by (rule now_reachable)
  moreover have "reachable s w (world_of h ?w)" using assms now_reachable by (rule reachable_trans)
  ultimately show ?thesis using assms [of w] by (simp add: rateLimit_def case_prod_beta Let_def)
qed

lemma serve_reachable: "reachable s w (world_of (serve s escaped r l) w)"
  using rateLimit_reachable [OF mux_serve_reachable, of s w "cfg s" r escaped r l]
  by (simp add: serve_def securityHeaders_def case_prod_beta)

lemma serve_all_reachable: "reachable s w (world_of (serve_all s rs l) w)"
proof (induction rs arbitrary: l w)
  case (Cons x rs)
  obtain escaped r where x: "x = (escaped, r)" by fastforce
  show ?case
    using reachable_trans [OF Cons.IH serve_reachable] by (simp add: x case_prod_beta)
qed (simp add: start)


section \<open>What a match says of the path\<close>

fun segments_match :: "pattern_segment list \<Rightarrow> string \<Rightarrow> bool" where
  "segments_match [] path \<longleftrightarrow> path = []"
| "segments_match (Lit s # ss) path \<longleftrightarrow> path \<noteq> [] \<and> fst (firstSegment path) = s \<and> segments_match ss (snd (firstSegment path))"
| "segments_match (Wildcard # ss) path \<longleftrightarrow> path \<noteq> [] \<and> fst (firstSegment path) \<noteq> ''/'' \<and> segments_match ss (snd (firstSegment path))"
| "segments_match (Multi # ss) path \<longleftrightarrow> path \<noteq> [] \<and> ss = []"

lemma after_segment_iff: "(ss, h) \<in> set (after_segment x ps) \<longleftrightarrow> (x # ss, h) \<in> set ps"
  by (fastforce simp: after_segment_def split: list.splits if_splits)

lemma leaf_in: "leaf ps = Some h \<Longrightarrow> ([], h) \<in> set ps"
  by (auto simp: leaf_def find_Some_iff in_set_conv_nth)

lemma match_path_sound:
  "match_path ps path ms = Some (h, ms') \<Longrightarrow> \<exists>ss. (ss, h) \<in> set ps \<and> segments_match ss path"
proof (induction ps path ms rule: match_path.induct)
  case (1 ps path ms)
  show ?case
  proof (cases "path = []")
    case True
    with "1.prems" leaf_in show ?thesis by (subst (asm) match_path.simps) fastforce
  next
    case False
    obtain seg rest where fs: "firstSegment path = (seg, rest)" by fastforce
    from "1.prems" False fs consider "match_path (after_segment (Lit seg) ps) rest ms = Some (h, ms')"
      | "match_path (after_segment (Lit seg) ps) rest ms = None" "seg \<noteq> ''/''"
          "match_path (after_segment Wildcard ps) rest (ms @ [seg]) = Some (h, ms')"
      | "leaf (after_segment Multi ps) = Some h"
      by (subst (asm) match_path.simps) (auto split: option.splits if_splits)
    then show ?thesis
    proof cases
      case 1
      with "1.IH"(1) [OF False refl fs [symmetric]] obtain ss where "(ss, h) \<in> set (after_segment (Lit seg) ps)" "segments_match ss rest" by auto
      with False fs show ?thesis by (intro exI [of _ "Lit seg # ss"]) (simp add: after_segment_iff)
    next
      case 2
      with "1.IH"(2) [OF False refl fs [symmetric]] obtain ss where "(ss, h) \<in> set (after_segment Wildcard ps)" "segments_match ss rest" by auto
      with False fs 2 show ?thesis by (intro exI [of _ "Wildcard # ss"]) (simp add: after_segment_iff)
    next
      case 3
      then have "([Multi], h) \<in> set ps" by (simp add: leaf_in after_segment_iff [symmetric])
      with False show ?thesis by (intro exI [of _ "[Multi]"]) simp
    qed
  qed
qed

text \<open>Decoding goes through a slash.\<close>

lemma unescape_slash:
  "unescape m (a @ CHR ''/'' # b) = Inr p \<Longrightarrow>
   \<exists>x y. unescape m a = Inr x \<and> unescape m (CHR ''/'' # b) = Inr y \<and> p = x @ y"
proof (induction m a arbitrary: p rule: unescape.induct)
  case (2 m c s)
  have no: "unescape_hex m' (CHR ''/'') d \<noteq> Inr v" "unescape_hex m' d (CHR ''/'') \<noteq> Inr v" for m' d v
    by (auto simp: unescape_hex_def unhex_def split: option.splits)
  show ?case
  proof (cases "c = CHR ''%''")
    case True
    from "2.prems" True no obtain d e s' where s: "s = d # e # s'"
      by (cases s; cases "tl s"; cases b) (auto simp: bind_result_ok)
    with "2.prems" True "2.IH"(1) [OF True s] show ?thesis by (fastforce simp: bind_result_ok map_result_ok)
  next
    case False
    with "2.prems" "2.IH"(2-3) show ?thesis
      by (auto simp: map_result_ok split: if_splits)
  qed
qed simp

lemma rest_slash: "path \<noteq> [] \<Longrightarrow> hd path = CHR ''/'' \<Longrightarrow> firstSegment path = (seg, rest) \<Longrightarrow> rest = [] \<or> hd rest = CHR ''/''"
  using hd_dropWhile [of "\<lambda>c. c \<noteq> CHR ''/''" "tl path"] by (auto simp: firstSegment_def split: if_splits)

lemma unescape_modes: "unescape encodePathSegment s = unescape encodePath s"
proof -
  have "unescape_hex encodePathSegment a b = unescape_hex encodePath a b" for a b
    by (simp add: unescape_hex_def Let_def split: option.splits)
  then show ?thesis by (induction encodePathSegment s rule: unescape.induct) (auto split: list.splits)
qed

text \<open>The decoded path, along a match.\<close>

lemma segments_decode:
  assumes "unescape encodePath path = Inr p" "path \<noteq> []" "hd path = CHR ''/''" "firstSegment path = (seg, rest)" "seg \<noteq> ''/''"
  shows "\<exists>q. unescape encodePath rest = Inr q \<and> p = CHR ''/'' # seg @ q"
proof -
  from assms(2,3) obtain s where s: "path = CHR ''/'' # s" by (cases path) auto
  from assms(4,5) have sr: "seg = pathUnescape (takeWhile (\<lambda>c. c \<noteq> CHR ''/'') s)" "rest = dropWhile (\<lambda>c. c \<noteq> CHR ''/'') s"
    by (auto simp: firstSegment_def s split: if_splits)
  let ?a = "takeWhile (\<lambda>c. c \<noteq> CHR ''/'') s"
  from assms(1) s obtain p' where p': "unescape encodePath s = Inr p'" "p = CHR ''/'' # p'"
    by (auto simp: map_result_ok)
  have "\<exists>q. unescape encodePath rest = Inr q \<and> p' = seg @ q"
  proof (cases rest)
    case Nil
    then have "s = ?a" using sr(2) takeWhile_dropWhile_id [of _ s] by (metis append_Nil2)
    then have "seg = p'" using sr(1) p'(1) by (simp add: pathUnescape_def unescape_modes)
    with Nil show ?thesis by simp
  next
    case (Cons c b)
    have "c = CHR ''/''" using rest_slash [OF assms(2-4)] Cons by simp
    then have "s = ?a @ CHR ''/'' # b" using sr(2) Cons takeWhile_dropWhile_id [of "\<lambda>c. c \<noteq> CHR ''/''" s] by simp
    with p'(1) unescape_slash obtain x y where "unescape encodePath ?a = Inr x" "unescape encodePath (CHR ''/'' # b) = Inr y" "p' = x @ y"
      by metis
    with sr Cons \<open>c = _\<close> show ?thesis by (simp add: pathUnescape_def unescape_modes)
  qed
  with p' show ?thesis by simp
qed


lemma segments_match_Lit:
  assumes "segments_match (Lit s # ss) path" "s \<noteq> ''/''" "unescape encodePath path = Inr p" "hd path = CHR ''/''"
  shows "\<exists>rest q. segments_match ss rest \<and> unescape encodePath rest = Inr q \<and> p = CHR ''/'' # s @ q \<and>
    (rest = [] \<or> hd rest = CHR ''/'')"
proof -
  obtain seg rest where fs: "firstSegment path = (seg, rest)" by fastforce
  with assms segments_decode [OF assms(3) _ assms(4) fs] rest_slash [OF _ assms(4) fs] show ?thesis by auto
qed

lemma segments_match_Wildcard:
  assumes "segments_match (Wildcard # ss) path" "unescape encodePath path = Inr p" "hd path = CHR ''/''"
  shows "\<exists>s rest q. segments_match ss rest \<and> unescape encodePath rest = Inr q \<and> p = CHR ''/'' # s @ q"
proof -
  obtain seg rest where fs: "firstSegment path = (seg, rest)" by fastforce
  with assms segments_decode [OF assms(2) _ assms(3) fs] show ?thesis by auto
qed

lemma match_route_sound:
  assumes "match_route m path = Some (rt, ms)"
  shows "\<exists>m' ss. (m', ss, rt) \<in> set Routes \<and> segments_match ss path"
proof -
  have "\<exists>ss. (m', ss, rt) \<in> set Routes \<and> segments_match ss path" if "match_path (routes_of m') path [] = Some (rt, ms)" for m'
    using match_path_sound [OF that] by (auto simp: routes_of_def)
  moreover have "\<exists>m'. match_path (routes_of m') path [] = Some (rt, ms)"
    using assms by (auto simp: match_route_def split: option.splits if_splits)
  ultimately show ?thesis by blast
qed

lemma cleanPath_rooted: "hd (cleanPath p) = CHR ''/''" "cleanPath p \<noteq> []"
  by (auto simp: cleanPath_def path_Clean_def Let_def)

definition unlimited_routes :: "route list" where
  "unlimited_routes = [Index, ThemeScript, Health, Healthz, ProfileForm, TestPage, Metadata, ManagedProfilePage]"

text \<open>Every other route has one of the limited paths, or is a callback.\<close>

fun limited_pattern :: "pattern_segment list \<Rightarrow> bool" where
  "limited_pattern [Lit s] \<longleftrightarrow> s \<noteq> ''/'' \<and> CHR ''/'' # s \<in> set limited_paths"
| "limited_pattern [Lit s, Lit t] \<longleftrightarrow> s \<noteq> ''/'' \<and> t \<noteq> ''/'' \<and> CHR ''/'' # s @ CHR ''/'' # t \<in> set limited_paths"
| "limited_pattern [Lit s, Wildcard] \<longleftrightarrow> s = ''callback''"
| "limited_pattern _ \<longleftrightarrow> False"

lemma limited_patterns: "list_all (\<lambda>(m, ss, rt). rt \<in> set unlimited_routes \<or> limited_pattern ss) Routes"
  by code_simp

lemma limited_route:
  assumes "(m, ss, rt) \<in> set Routes" "segments_match ss path" "rt \<notin> set unlimited_routes"
    "unescape encodePath path = Inr p" "hd path = CHR ''/''"
  shows "limited p"
proof -
  note lit = segments_match_Lit [OF _ _ assms(4,5)]
  have "limited_pattern ss" using limited_patterns assms(1,3) by (auto simp: list_all_iff)
  then consider s where "ss = [Lit s]" "s \<noteq> ''/''" "CHR ''/'' # s \<in> set limited_paths"
    | s t where "ss = [Lit s, Lit t]" "s \<noteq> ''/''" "t \<noteq> ''/''" "CHR ''/'' # s @ CHR ''/'' # t \<in> set limited_paths"
    | "ss = [Lit ''callback'', Wildcard]"
    by (elim limited_pattern.elims(2)) auto
  then show ?thesis
  proof cases
    case 1
    with lit [of s "[]"] assms(2) show ?thesis by (auto simp: limited_def)
  next
    case 2
    with lit [of s "[Lit t]"] assms(2) obtain rest q where q: "segments_match [Lit t] rest" "unescape encodePath rest = Inr q"
      "p = CHR ''/'' # s @ q" "hd rest = CHR ''/''" by auto
    with segments_match_Lit [OF q(1) 2(3) q(2,4)] 2 show ?thesis by (auto simp: limited_def)
  next
    case 3
    with lit [of "''callback''" "[Wildcard]"] assms(2) obtain rest q where q: "segments_match [Wildcard] rest"
      "unescape encodePath rest = Inr q" "p = CHR ''/'' # ''callback'' @ q" "hd rest = CHR ''/''" by auto
    with segments_match_Wildcard [OF q(1,2,4)] 3 show ?thesis by (auto simp: limited_def HasPrefix_def)
  qed
qed

end
