(* ===== verification/Rendering.thy ===== *)
theory Rendering
  imports Http GoHtml
begin

text \<open>
  The rendering of pages by \<open>html/template\<close>: templates as the library has parsed them, each action with the
  escaping that its context asks for.  A text, an element without markup and an attribute between double quotes
  are escaped alike; an attribute that is a URL is filtered and normalized first, and a value in its query
  part is percent-encoded.
\<close>

section \<open>Escaping\<close>

text \<open>\<open>htmlReplacementTable\<close>\<close>

definition html_escape_char :: "char \<Rightarrow> string" where
  "html_escape_char c =
     (if ord c = 0 then [chr 239, chr 191, chr 189]
      else if ord c = 34 then ''&#34;''
      else if c = CHR ''&'' then ''&amp;''
      else if ord c = 39 then ''&#39;''
      else if c = CHR ''+'' then ''&#43;''
      else if c = CHR ''<'' then ''&lt;''
      else if c = CHR ''>'' then ''&gt;''
      else [c])"

definition htmlEscaper :: "string \<Rightarrow> string" where
  "htmlEscaper s = concat (List.map html_escape_char s)"

text \<open>A protocol other than \<open>http\<close>, \<open>https\<close> and \<open>mailto\<close> is not let through.\<close>

definition isSafeURL :: "unicode_tables \<Rightarrow> string \<Rightarrow> bool" where
  "isSafeURL U s =
     (case Cut s (CHR '':'') of (protocol, _, ok) \<Rightarrow>
        \<not> (ok \<and> \<not> contains_byte (CHR ''/'') protocol \<and> \<not> EqualFold U protocol ''http'' \<and>
           \<not> EqualFold U protocol ''https'' \<and> \<not> EqualFold U protocol ''mailto''))"

definition urlFilter :: "unicode_tables \<Rightarrow> string \<Rightarrow> string" where
  "urlFilter U s = (if isSafeURL U s then s else ''#ZgotmplZ'')"

definition url_reserved :: "char \<Rightarrow> bool" where
  "url_reserved c \<longleftrightarrow> c \<in> set ''!#$&*+,/:;=?@[]''"

definition url_unreserved :: "char \<Rightarrow> bool" where
  "url_unreserved c \<longleftrightarrow> c \<in> set ''-._~'' \<or> (97 \<le> ord c \<and> ord c \<le> 122) \<or> (65 \<le> ord c \<and> ord c \<le> 90) \<or> (48 \<le> ord c \<and> ord c \<le> 57)"

definition hex_byte :: "char \<Rightarrow> bool" where
  "hex_byte c \<longleftrightarrow> (48 \<le> ord c \<and> ord c \<le> 57) \<or> (97 \<le> ord c \<and> ord c \<le> 102) \<or> (65 \<le> ord c \<and> ord c \<le> 70)"

definition valid_escape :: "string \<Rightarrow> bool" where
  "valid_escape rest = (case rest of a # b # _ \<Rightarrow> hex_byte a \<and> hex_byte b | _ \<Rightarrow> False)"

fun processURL :: "bool \<Rightarrow> string \<Rightarrow> string" where
  "processURL norm [] = []"
| "processURL norm (c # cs) =
     (if url_unreserved c \<or> (norm \<and> (url_reserved c \<or> (c = CHR ''%'' \<and> valid_escape cs))) then [c]
      else [CHR ''%'', hex_digit_lower (ord c div 16), hex_digit_lower (ord c mod 16)]) @ processURL norm cs"

section \<open>Templates\<close>

datatype template_part = Chunk string | Html string | Url string | Query string
  | Cond string "template_part list" "template_part list" | Selected string string "template_part list"

type_synonym template = "template_part list"

type_synonym page_data = "(string \<times> json) list"

definition field :: "page_data \<Rightarrow> string \<Rightarrow> string" where
  "field d k = (case map_of d k of Some (JStr s) \<Rightarrow> s | _ \<Rightarrow> [])"

text \<open>What \<open>if\<close> takes for true.\<close>

definition truth :: "page_data \<Rightarrow> string \<Rightarrow> bool" where
  "truth d k = (case map_of d k of Some (JStr s) \<Rightarrow> s \<noteq> [] | Some (JBool b) \<Rightarrow> b | _ \<Rightarrow> False)"

definition url_attribute :: "unicode_tables \<Rightarrow> string \<Rightarrow> string" where
  "url_attribute U s = htmlEscaper (processURL True (urlFilter U s))"

fun render :: "unicode_tables \<Rightarrow> page_data \<Rightarrow> template \<Rightarrow> string" where
  "render U d [] = []"
| "render U d (Chunk t # ps) = t @ render U d ps"
| "render U d (Html k # ps) = htmlEscaper (field d k) @ render U d ps"
| "render U d (Url k # ps) = url_attribute U (field d k) @ render U d ps"
| "render U d (Query k # ps) = htmlEscaper (processURL False (field d k)) @ render U d ps"
| "render U d (Cond k a b # ps) = (if truth d k then render U d a else render U d b) @ render U d ps"
| "render U d (Selected k v a # ps) = (if field d k = v then render U d a else []) @ render U d ps"

text \<open>Whether every value a template reads, in the branches the data choose, is a text.\<close>

definition is_text :: "page_data \<Rightarrow> string \<Rightarrow> bool" where
  "is_text d k = (case map_of d k of Some (JStr s) \<Rightarrow> True | _ \<Rightarrow> False)"

fun complete_data :: "page_data \<Rightarrow> template \<Rightarrow> bool" where
  "complete_data d [] \<longleftrightarrow> True"
| "complete_data d (Chunk t # ps) \<longleftrightarrow> complete_data d ps"
| "complete_data d (Html k # ps) \<longleftrightarrow> is_text d k \<and> complete_data d ps"
| "complete_data d (Url k # ps) \<longleftrightarrow> is_text d k \<and> complete_data d ps"
| "complete_data d (Query k # ps) \<longleftrightarrow> is_text d k \<and> complete_data d ps"
| "complete_data d (Cond k a b # ps) \<longleftrightarrow> (if truth d k then complete_data d a else complete_data d b) \<and> complete_data d ps"
| "complete_data d (Selected k v a # ps) \<longleftrightarrow> is_text d k \<and> complete_data d a \<and> complete_data d ps"

text \<open>The lines of a literal.\<close>

definition lines :: "string list \<Rightarrow> string" where
  "lines ls = join_with [chr 10] ls"

definition em_dash :: string where "em_dash = [chr 226, chr 128, chr 148]"
definition middle_dot :: string where "middle_dot = [chr 194, chr 183]"
definition back_quote :: char where "back_quote = chr 96"

section \<open>What escaping keeps\<close>

text \<open>The characters that delimit markup.\<close>

definition markup :: "char \<Rightarrow> bool" where
  "markup c \<longleftrightarrow> c = CHR ''<'' \<or> c = CHR ''>'' \<or> ord c = 34 \<or> ord c = 39"

lemma htmlEscaper_append [simp]: "htmlEscaper [] = []" "htmlEscaper (s @ t) = htmlEscaper s @ htmlEscaper t"
  "htmlEscaper (c # s) = html_escape_char c @ htmlEscaper s"
  by (simp_all add: htmlEscaper_def)

lemma html_escape_char_plain: "list_all (\<lambda>x. \<not> markup x) (html_escape_char c)"
  by (simp add: html_escape_char_def markup_def char_of_eq_iff)

lemma htmlEscaper_plain: "list_all (\<lambda>x. \<not> markup x) (htmlEscaper s)"
  using html_escape_char_plain by (induction s) (simp_all)

lemma htmlEscaper_filter [simp]: "filter markup (htmlEscaper s) = []"
  using htmlEscaper_plain [of s] by (simp add: filter_empty_conv list_all_iff)

text \<open>The text of a template in the branches that the data choose.\<close>

fun text_of :: "page_data \<Rightarrow> template \<Rightarrow> string" where
  "text_of d [] = []"
| "text_of d (Chunk t # ps) = t @ text_of d ps"
| "text_of d (Html k # ps) = text_of d ps"
| "text_of d (Url k # ps) = text_of d ps"
| "text_of d (Query k # ps) = text_of d ps"
| "text_of d (Cond k a b # ps) = (if truth d k then text_of d a else text_of d b) @ text_of d ps"
| "text_of d (Selected k v a # ps) = (if field d k = v then text_of d a else []) @ text_of d ps"

lemma render_markup: "filter markup (render U d ps) = filter markup (text_of d ps)"
  by (induction U d ps rule: render.induct) (simp_all add: url_attribute_def)

text \<open>Reading an escaped text back.\<close>

definition knows_entities :: "unicode_tables \<Rightarrow> bool" where
  "knows_entities U \<longleftrightarrow> ut_entity U ''amp;'' = Some ''&'' \<and> ut_entity U ''lt;'' = Some ''<'' \<and> ut_entity U ''gt;'' = Some ''>''"

lemma numeric_reference:
  "numeric_ref (''#34;'' @ r) = Some ([chr 34], r)" "numeric_ref (''#39;'' @ r) = Some ([chr 39], r)"
  "numeric_ref (''#43;'' @ r) = Some (''+'', r)"
  by (simp_all add: numeric_ref_def is_ref_digit_def ref_digit_def ref_value_def ref_rune_def encode_rune_def char_of_eq_iff)

lemma named_reference:
  assumes "knows_entities U"
  shows "named_ref U (''amp;'' @ r) = (''&'', r)" "named_ref U (''lt;'' @ r) = (''<'', r)" "named_ref U (''gt;'' @ r) = (''>'', r)"
  using assms by (simp_all add: named_ref_def entity_char_def knows_entities_def)

lemma unescape_step:
  assumes "knows_entities U" "c \<noteq> chr 0"
  shows "unescape_html U (Suc n) (html_escape_char c @ r) = c # unescape_html U n r"
  using numeric_reference [of r] named_reference [OF assms(1), of r] assms(2)
  by (auto simp: html_escape_char_def unescapeEntity_def char_of_eq_iff eq_char_of_iff)

lemma html_escape_char_not_empty: "1 \<le> length (html_escape_char c)"
  by (simp add: html_escape_char_def)

lemma unescape_escape:
  assumes "knows_entities U" "list_all (\<lambda>c. c \<noteq> chr 0) s"
  shows "length (htmlEscaper s) \<le> n \<Longrightarrow> unescape_html U n (htmlEscaper s) = s"
  using assms(2)
proof (induction s arbitrary: n)
  case Nil
  then show ?case by (cases n) simp_all
next
  case (Cons c s)
  then obtain m where "n = Suc m" using html_escape_char_not_empty [of c] by (cases n) auto
  with Cons html_escape_char_not_empty [of c] show ?case by (simp add: unescape_step [OF assms(1)])
qed

section \<open>URLs in attributes\<close>

text \<open>The values of the attributes that are URLs, as they are rendered.\<close>

fun url_values :: "unicode_tables \<Rightarrow> page_data \<Rightarrow> template \<Rightarrow> string list" where
  "url_values U d [] = []"
| "url_values U d (Chunk t # ps) = url_values U d ps"
| "url_values U d (Html k # ps) = url_values U d ps"
| "url_values U d (Url k # ps) = url_attribute U (field d k) # url_values U d ps"
| "url_values U d (Query k # ps) = url_values U d ps"
| "url_values U d (Cond k a b # ps) = (if truth d k then url_values U d a else url_values U d b) @ url_values U d ps"
| "url_values U d (Selected k v a # ps) = (if field d k = v then url_values U d a else []) @ url_values U d ps"

lemma url_values_attributes: "v \<in> set (url_values U d ps) \<Longrightarrow> \<exists>s. v = url_attribute U s"
  by (induction U d ps rule: url_values.induct) (auto split: if_splits)

lemma kept_not_zero: "url_unreserved c \<or> url_reserved c \<or> c = CHR ''%'' \<Longrightarrow> c \<noteq> chr 0"
  by (auto simp: url_unreserved_def url_reserved_def char_of_eq_iff)

lemma hex_digit_not_zero: "n < 16 \<Longrightarrow> hex_digit_lower n \<noteq> chr 0"
  by (auto simp: hex_digit_lower_def char_of_eq_iff take_bit_eq_mod)

lemma processURL_no_zero: "list_all (\<lambda>c. c \<noteq> chr 0) (processURL norm s)"
proof (induction norm s rule: processURL.induct)
  case (2 norm c cs)
  have "ord c div 16 < 16" by (simp add: less_mult_imp_div_less)
  with 2 hex_digit_not_zero kept_not_zero [of c] kept_not_zero [of "CHR ''%''"] show ?case by auto
qed simp

lemma scheme_kept:
  assumes "HasPrefix (processURL norm s) (scheme @ '':'')" "list_all url_unreserved scheme"
  shows "\<exists>r. s = scheme @ CHR '':'' # r"
  using assms
proof (induction scheme arbitrary: s)
  case Nil
  then show ?case by (cases s) (auto simp: HasPrefix_def split: if_splits)
next
  case (Cons a scheme)
  then obtain c cs where s: "s = c # cs" by (cases s) (auto simp: HasPrefix_def)
  have "a \<noteq> CHR ''%''" using Cons.prems(2) by (auto simp: url_unreserved_def)
  with Cons.prems(1) s have "c = a" "HasPrefix (processURL norm cs) (scheme @ '':'')"
    by (auto simp: HasPrefix_def split: if_splits)
  with Cons.IH [of cs] Cons.prems(2) s show ?case by simp
qed

lemma safe_scheme:
  assumes "isSafeURL U (scheme @ CHR '':'' # r)" "list_all url_unreserved scheme"
  shows "EqualFold U scheme ''http'' \<or> EqualFold U scheme ''https'' \<or> EqualFold U scheme ''mailto''"
proof -
  have "\<not> url_unreserved (CHR '':'')" "\<not> url_unreserved (CHR ''/'')" by (simp_all add: url_unreserved_def)
  then have "CHR '':'' \<notin> set scheme" "\<not> contains_byte (CHR ''/'') scheme"
    using assms(2) by (auto simp: list_all_iff contains_byte_def)
  with assms(1) show ?thesis by (auto simp: isSafeURL_def Cut_no_sep)
qed

text \<open>What a browser reads in an attribute.\<close>

lemma unescape_attribute:
  assumes "knows_entities U" shows "UnescapeString U (url_attribute U s) = processURL True (urlFilter U s)"
  unfolding UnescapeString_def url_attribute_def by (rule unescape_escape [OF assms processURL_no_zero]) simp

lemma attribute_scheme:
  assumes "knows_entities U" "list_all url_unreserved scheme"
    "HasPrefix (UnescapeString U (url_attribute U s)) (scheme @ '':'')"
  shows "EqualFold U scheme ''http'' \<or> EqualFold U scheme ''https'' \<or> EqualFold U scheme ''mailto''"
proof -
  obtain r where r: "urlFilter U s = scheme @ CHR '':'' # r"
    using assms scheme_kept by (metis unescape_attribute)
  have "isSafeURL U s"
  proof (rule ccontr)
    assume "\<not> isSafeURL U s"
    with r have "''#ZgotmplZ'' = scheme @ CHR '':'' # r" by (simp add: urlFilter_def)
    then have "CHR '':'' \<in> set ''#ZgotmplZ''" by (metis in_set_conv_decomp)
    then show False by simp
  qed
  with r assms(2) show ?thesis by (intro safe_scheme [of U scheme r]) (simp_all add: urlFilter_def)
qed

end
