(* ===== verification/Templates.thy ===== *)
theory Templates
  imports Rendering
begin

text \<open>
  The HTML templates of \<open>internal/http\<close> (\<open>server.go\<close>, \<open>tools.go\<close>, \<open>managed_profiles.go\<close>) and the script of
  \<open>theme.go\<close>, literal text line by line.
\<close>

section \<open>server.go\<close>

definition landing_head :: "string list" where
  "landing_head = [
     ''<!doctype html>'',
     ''<html lang=\"en\">'',
     ''<head>'',
     ''  <meta charset=\"utf-8\">'',
     ''  <meta name=\"viewport\" content=\"width=device-width, initial-scale=1\">'',
     ''  <title>IndieAuth Bridge</title>'',
     ''  <style>'',
     ''    :root {'',
     ''      color-scheme: light;'',
     ''      --bg: #f7f8f5;'',
     ''      --surface: #ffffff;'',
     ''      --ink: #1b1f23;'',
     ''      --muted: #5f6b76;'',
     ''      --line: #d9dfdf;'',
     ''      --accent: #0f766e;'',
     ''      --accent-ink: #063f3b;'',
     ''      --warn: #9a6700;'',
     ''    }'',
     ''    * { box-sizing: border-box; }'',
     ''    body {'',
     ''      margin: 0;'',
     ''      min-height: 100vh;'',
     ''      background: var(--bg);'',
     ''      color: var(--ink);'',
     ''      font-family: ui-sans-serif, system-ui, -apple-system, BlinkMacSystemFont, \"Segoe UI\", sans-serif;'',
     ''      line-height: 1.5;'',
     ''    }'',
     ''    main {'',
     ''      width: min(1040px, calc(100% - 32px));'',
     ''      margin: 0 auto;'',
     ''      padding: 56px 0 40px;'',
     ''    }'',
     ''    header {'',
     ''      display: grid;'',
     ''      gap: 18px;'',
     ''      padding: 0 0 34px;'',
     ''      border-bottom: 1px solid var(--line);'',
     ''    }'',
     ''    .eyebrow {'',
     ''      color: var(--accent-ink);'',
     ''      font-size: 13px;'',
     ''      font-weight: 700;'',
     ''      letter-spacing: .08em;'',
     ''      text-transform: uppercase;'',
     ''    }'',
     ''    h1 {'',
     ''      max-width: 820px;'',
     ''      margin: 0;'',
     ''      font-size: clamp(34px, 7vw, 68px);'',
     ''      line-height: .98;'',
     ''      letter-spacing: 0;'',
     ''    }'',
     ''    .lede {'',
     ''      max-width: 720px;'',
     ''      margin: 0;'',
     ''      color: var(--muted);'',
     ''      font-size: 18px;'',
     ''    }'',
     ''    .actions {'',
     ''      display: flex;'',
     ''      flex-wrap: wrap;'',
     ''      gap: 12px;'',
     ''      margin-top: 8px;'',
     ''    }'',
     ''    a.button {'',
     ''      display: inline-flex;'',
     ''      align-items: center;'',
     ''      min-height: 42px;'',
     ''      padding: 9px 14px;'',
     ''      border: 1px solid var(--accent);'',
     ''      border-radius: 7px;'',
     ''      color: #fff;'',
     ''      background: var(--accent);'',
     ''      text-decoration: none;'',
     ''      font-weight: 700;'',
     ''    }'',
     ''    a.button.secondary {'',
     ''      color: var(--accent-ink);'',
     ''      background: transparent;'',
     ''    }'',
     ''    .service-state {'',
     ''      display: inline-flex;'',
     ''      align-items: center;'',
     ''      gap: 8px;'',
     ''      color: var(--muted);'',
     ''      font-size: 14px;'',
     ''    }'',
     ''    .service-state::before {'',
     ''      width: 9px;'',
     ''      height: 9px;'',
     ''      border-radius: 999px;'',
     ''      background: #16a34a;'',
     ''      content: \"\";'',
     ''    }'',
     ''    section {'',
     ''      padding: 30px 0;'',
     ''      border-bottom: 1px solid var(--line);'',
     ''    }'',
     ''    h2 {'',
     ''      margin: 0 0 16px;'',
     ''      font-size: 20px;'',
     ''      letter-spacing: 0;'',
     ''    }'',
     ''    .details {'',
     ''      margin: 0;'',
     ''      border: 1px solid var(--line);'',
     ''      border-radius: 8px;'',
     ''      background: var(--surface);'',
     ''      overflow: hidden;'',
     ''    }'',
     ''    .details div {'',
     ''      display: grid;'',
     ''      grid-template-columns: 150px minmax(0, 1fr);'',
     ''      gap: 16px;'',
     ''      padding: 12px 16px;'',
     ''      border-bottom: 1px solid var(--line);'',
     ''    }'',
     ''    .details div:last-child { border-bottom: 0; }'',
     ''    .details dt {'',
     ''      color: var(--muted);'',
     ''      font-size: 13px;'',
     ''      font-weight: 700;'',
     ''      text-transform: uppercase;'',
     ''    }'',
     ''    .details dd { min-width: 0; margin: 0; }'',
     ''    .details a, .details code {'',
     ''      overflow-wrap: anywhere;'',
     ''      color: var(--accent-ink);'',
     ''      text-decoration-thickness: 1px;'',
     ''      text-underline-offset: 3px;'',
     ''    }'',
     ''    .note {'',
     ''      margin: 18px 0 0;'',
     ''      color: var(--warn);'',
     ''      font-size: 14px;'',
     ''    }'',
     ''    footer {'',
     ''      padding-top: 24px;'',
     ''      color: var(--muted);'',
     ''      font-size: 14px;'',
     ''    }'',
     ''    @media (max-width: 760px) {'',
     ''      main { width: min(100% - 24px, 1040px); padding-top: 34px; }'',
     ''      .details div { grid-template-columns: 1fr; gap: 4px; }'',
     ''      h1 { font-size: 40px; }'',
     ''    }'',
     ''  </style>'',
     ''  <script src=\"/theme.js\"></script>'',
     ''</head>'',
     ''<body>'']"

definition landingTemplate :: template where
  "landingTemplate = [
     Chunk (lines (landing_head @ [
       ''  <main>'',
       ''    <header>'',
       ''      <div class=\"eyebrow\">IndieAuth authorization server</div>'',
       ''      <h1>Use a hosted profile'' @ em_dash @ ''or your own website'' @ em_dash @ ''as your sign-in identity.</h1>'',
       ''      <p class=\"lede\">No personal website? Create a ready-to-use profile here. If you already have a website, you can connect that instead.</p>'',
       ''      <div class=\"actions\">'',
       ''        ''])),
     Cond ''SetupURL'' [
       Chunk ''<a class=\"button\" href=\"'',
       Url ''SetupURL'',
       Chunk ''\">Create a hosted profile</a>''] [],
     Chunk (lines [
       [],
       ''        '']),
     Cond ''SetupURL'' [
       Chunk ''<a class=\"button secondary\" href=\"'',
       Url ''SetupURL'',
       Chunk ''\">Connect your website</a>''] [],
     Chunk (lines [
       [],
       ''        <a class=\"button secondary\" href=\"'']),
     Url ''TestURL'',
     Chunk (lines [
       ''\">Test a login</a>'',
       ''      </div>'',
       ''      <a class=\"service-state\" href=\"'']),
     Url ''HealthPageURL'',
     Chunk (lines [
       ''\">Service is responding</a>'',
       ''    </header>'',
       [],
       ''    <section aria-labelledby=\"details-heading\">'',
       ''      <h2 id=\"details-heading\">Server details</h2>'',
       ''      <dl class=\"details\">'',
       ''        <div><dt>Issuer</dt><dd><code>'']),
     Html ''Issuer'',
     Chunk (lines [
       ''</code></dd></div>'',
       ''        <div><dt>Authorization</dt><dd><a href=\"'']),
     Url ''AuthorizeURL'',
     Chunk (lines [
       ''\">/authorize</a></dd></div>'',
       ''        <div><dt>Token</dt><dd><a href=\"'']),
     Url ''TokenURL'',
     Chunk (lines [
       ''\">/token</a></dd></div>'',
       ''        <div><dt>Metadata</dt><dd><a href=\"'']),
     Url ''MetadataURL'',
     Chunk (lines [
       ''\">/.well-known/oauth-authorization-server</a></dd></div>'',
       ''      </dl>'',
       ''      '']),
     Cond ''DevMode'' [
       Chunk ''<p class=\"note\">Development mode is enabled. Do not use this configuration for public traffic.</p>''] [],
     Chunk (lines [
       [],
       ''    </section>'',
       [],
       ''    <footer>'',
       ''      New here? Create a hosted profile and use it immediately. Connecting a personal website remains available as an optional, more customizable identity.'',
       ''    </footer>'',
       ''  </main>'',
       ''</body>'',
       ''</html>''])]"

definition healthTemplate :: template where
  "healthTemplate = [
     Chunk (lines [
       ''<!doctype html>'',
       ''<html lang=\"en\">'',
       ''<head>'',
       ''  <meta charset=\"utf-8\">'',
       ''  <meta name=\"viewport\" content=\"width=device-width, initial-scale=1\">'',
       ''  <title>IndieAuth Bridge Health</title>'',
       ''  <style>'',
       ''    :root { color-scheme: light; --bg: #f7f8f5; --surface: #fff; --ink: #1b1f23; --muted: #5f6b76; --line: #d9dfdf; --ok: #047857; }'',
       ''    * { box-sizing: border-box; }'',
       ''    body { margin: 0; min-height: 100vh; display: grid; place-items: center; background: var(--bg); color: var(--ink); font-family: ui-sans-serif, system-ui, -apple-system, BlinkMacSystemFont, \"Segoe UI\", sans-serif; line-height: 1.5; }'',
       ''    main { width: min(620px, calc(100% - 28px)); padding: 32px 0; }'',
       ''    .card { padding: 26px; border: 1px solid var(--line); border-radius: 10px; background: var(--surface); }'',
       ''    .status { display: flex; align-items: center; gap: 10px; color: var(--ok); font-size: 14px; font-weight: 800; letter-spacing: .04em; text-transform: uppercase; }'',
       ''    .status::before { width: 11px; height: 11px; border-radius: 999px; background: #16a34a; content: \"\"; }'',
       ''    h1 { margin: 12px 0 8px; font-size: 34px; }'',
       ''    p { margin: 0 0 18px; color: var(--muted); }'',
       ''    code { overflow-wrap: anywhere; }'',
       ''    a { color: var(--ok); font-weight: 700; }'',
       ''  </style>'',
       ''  <script src=\"/theme.js\"></script>'',
       ''</head>'',
       ''<body>'',
       ''  <main>'',
       ''    <div class=\"card\">'',
       ''      <div class=\"status\">Healthy</div>'',
       ''      <h1>IndieAuth bridge is responding</h1>'',
       ''      <p>The application handled this request successfully. Automated monitoring remains available at <code>/healthz</code>.</p>'',
       ''      <a href=\"'']),
     Url ''HomeURL'',
     Chunk (lines [
       ''\">Return to the bridge</a>'',
       ''    </div>'',
       ''  </main>'',
       ''</body>'',
       ''</html>''])]"

definition setupTemplate :: template where
  "setupTemplate = [
     Chunk (lines [
       ''<!doctype html>'',
       ''<html lang=\"en\">'',
       ''<head>'',
       ''  <meta charset=\"utf-8\">'',
       ''  <meta name=\"viewport\" content=\"width=device-width, initial-scale=1\">'',
       ''  <title>Your IndieAuth profile</title>'',
       ''  <style>'',
       ''    :root { color-scheme: light; --bg: #f7f8f5; --surface: #fff; --ink: #1b1f23; --muted: #5f6b76; --line: #d9dfdf; --accent: #0f766e; }'',
       ''    * { box-sizing: border-box; }'',
       ''    body { margin: 0; min-height: 100vh; display: grid; place-items: center; background: var(--bg); color: var(--ink); font-family: ui-sans-serif, system-ui, -apple-system, BlinkMacSystemFont, \"Segoe UI\", sans-serif; line-height: 1.5; }'',
       ''    main { width: min(820px, calc(100% - 28px)); padding: 32px 0; }'',
       ''    h1 { margin: 0 0 12px; font-size: 34px; line-height: 1.1; }'',
       ''    h2 { margin: 28px 0 8px; font-size: 21px; }'',
       ''    p, li { color: var(--muted); }'',
       ''    pre { overflow-x: auto; padding: 18px; border: 1px solid var(--line); border-radius: 8px; background: var(--surface); white-space: pre-wrap; word-break: break-all; }'',
       ''    .profile-card { padding: 22px; border: 1px solid var(--accent); border-radius: 10px; background: var(--surface); }'',
       ''    .profile-card h1 { margin-bottom: 10px; }'',
       ''    .profile-url { display: inline-block; margin: 6px 0 14px; overflow-wrap: anywhere; font-size: 18px; }'',
       ''    .profile-editor { display: grid; grid-template-columns: 1fr 1fr; gap: 16px; margin-top: 14px; padding: 22px; border: 1px solid var(--line); border-radius: 10px; background: var(--surface); }'',
       ''    .profile-editor .wide { grid-column: 1 / -1; }'',
       ''    label { display: block; margin-bottom: 6px; font-weight: 750; }'',
       ''    .hint { margin: 5px 0 0; font-size: 13px; }'',
       ''    input, textarea, select { width: 100%; min-width: 0; padding: 11px 12px; border: 1px solid var(--line); border-radius: 7px; background: var(--surface); color: var(--ink); font: inherit; }'',
       ''    textarea { min-height: 110px; resize: vertical; }'',
       ''    .check-form { display: flex; gap: 10px; margin-top: 12px; }'',
       ''    .check-form input[type=\"url\"] { flex: 1; }'',
       ''    button { padding: 11px 16px; border: 1px solid var(--accent); border-radius: 7px; background: var(--accent); color: #fff; font: inherit; font-weight: 700; cursor: pointer; }'',
       ''    a { color: var(--accent); font-weight: 700; }'',
       ''    @media (max-width: 620px) {'',
       ''      .profile-editor { grid-template-columns: 1fr; }'',
       ''      .profile-editor .wide { grid-column: auto; }'',
       ''      .check-form { flex-direction: column; }'',
       ''    }'',
       ''  </style>'',
       ''  <script src=\"/theme.js\"></script>'',
       ''</head>'',
       ''<body>'',
       ''  <main>'',
       ''    '']),
     Cond ''ManagedProfileURL'' [
       Chunk (lines [
         [],
         ''    <section class=\"profile-card\">'',
         ''      <h1>Your hosted profile is ready</h1>'',
         ''      <p>Use this URL whenever an IndieAuth application asks for your website or profile:</p>'',
         ''      <a class=\"profile-url\" href=\"'']),
       Url ''ManagedProfileURL'',
       Chunk ''\">'',
       Html ''ManagedProfileURL'',
       Chunk (lines [
         ''</a>'',
         ''      <p>It remains bound to your account even if your Authentik username later changes.</p>'',
         ''      <p><a href=\"'']),
       Url ''TestURL'',
       Chunk ''?me='',
       Query ''ManagedProfileURL'',
       Chunk (lines [
         ''\">Test this profile now</a></p>'',
         ''    </section>'',
         ''    <h2>Customize your hosted profile</h2>'',
         ''    <p>Your handle and sign-in URL stay fixed. These presentation details can be changed whenever you sign in here.</p>'',
         ''    <form class=\"profile-editor\" method=\"post\" action=\"'']),
       Url ''ProfileUpdateAction'',
       Chunk (lines [
         ''\">'',
         ''      <input type=\"hidden\" name=\"identity_token\" value=\"'']),
       Html ''IdentityToken'',
       Chunk (lines [
         ''\">'',
         ''      <div>'',
         ''        <label for=\"display-name\">Display name</label>'',
         ''        <input id=\"display-name\" name=\"display_name\" value=\"'']),
       Html ''ManagedDisplayName'',
       Chunk (lines [
         ''\" maxlength=\"80\" required>'',
         ''      </div>'',
         ''      <div>'',
         ''        <label for=\"accent\">Accent</label>'',
         ''        <select id=\"accent\" name=\"accent\">'',
         ''          <option value=\"teal\" '']),
       Selected ''ManagedAccent'' ''teal'' [Chunk ''selected''],
       Chunk (lines [
         ''>Teal</option>'',
         ''          <option value=\"blue\" '']),
       Selected ''ManagedAccent'' ''blue'' [Chunk ''selected''],
       Chunk (lines [
         ''>Blue</option>'',
         ''          <option value=\"violet\" '']),
       Selected ''ManagedAccent'' ''violet'' [Chunk ''selected''],
       Chunk (lines [
         ''>Violet</option>'',
         ''          <option value=\"rose\" '']),
       Selected ''ManagedAccent'' ''rose'' [Chunk ''selected''],
       Chunk (lines [
         ''>Rose</option>'',
         ''          <option value=\"amber\" '']),
       Selected ''ManagedAccent'' ''amber'' [Chunk ''selected''],
       Chunk (lines [
         ''>Amber</option>'',
         ''        </select>'',
         ''      </div>'',
         ''      <div class=\"wide\">'',
         ''        <label for=\"bio\">Bio</label>'',
         ''        <textarea id=\"bio\" name=\"bio\" maxlength=\"280\" placeholder=\"A short introduction\">'']),
       Html ''ManagedBio'',
       Chunk (lines [
         ''</textarea>'',
         ''        <p class=\"hint\">Up to 280 characters. Plain text only.</p>'',
         ''      </div>'',
         ''      <div class=\"wide\">'',
         ''        <label for=\"website-url\">Personal website</label>'',
         ''        <input id=\"website-url\" name=\"website_url\" type=\"url\" inputmode=\"url\" value=\"'']),
       Html ''ManagedWebsiteURL'',
       Chunk (lines [
         ''\" placeholder=\"https://example.com/\">'',
         ''        <p class=\"hint\">Optional. HTTPS links only.</p>'',
         ''      </div>'',
         ''      <div class=\"wide\"><button type=\"submit\">Save and view profile</button></div>'',
         ''    </form>'',
         ''    ''])] [
       Chunk (lines [
         [],
         ''    <h1>Connect your website</h1>'',
         ''    ''])],
     Chunk (lines [
       [],
       [],
       ''    '']),
     Cond ''ExternalProfiles'' [
       Chunk (lines [
         [],
         ''    <h2>Optional: use your own website</h2>'',
         ''    <p>Add both fragments below anywhere inside the profile page's <code>&lt;head&gt;</code>. They tell IndieAuth clients where to log in and tell this bridge which Authentik account owns the page.</p>'',
         ''    <h2>1. Advertise the IndieAuth endpoints</h2>'',
         ''    <pre><code>'']),
       Html ''DiscoveryFragment'',
       Chunk (lines [
         ''</code></pre>'',
         [],
         ''    <h2>2. Link the page to your Authentik identity</h2>'',
         ''    <pre><code>'']),
       Html ''IdentityFragment'',
       Chunk (lines [
         ''</code></pre>'',
         ''    <p>This identifier is public, not a password. You may use the same identity fragment on any number of profile pages. Removing it revokes that page's binding.</p>'',
         [],
         ''    <h2>3. Check the published page</h2>'',
         ''    <p>Deploy the page, then enter its full URL. The bridge will verify the endpoint links and confirm that the identity tag matches the account you just used.</p>'',
         ''    <form class=\"check-form\" method=\"post\" action=\"'']),
       Url ''CheckAction'',
       Chunk (lines [
         ''\">'',
         ''      <input type=\"hidden\" name=\"identity_token\" value=\"'']),
       Html ''IdentityToken'',
       Chunk (lines [
         ''\">'',
         ''      <input name=\"me\" type=\"url\" inputmode=\"url\" placeholder=\"https://example.com/\" required>'',
         ''      <button type=\"submit\">Check profile</button>'',
         ''    </form>'',
         [],
         ''    <h2>4. Exercise the complete login</h2>'',
         ''    <p>Use the <a href=\"'']),
       Url ''TestURL'',
       Chunk (lines [
         ''\">embedded IndieAuth tester</a> to run a real PKCE login and inspect the authorization and token responses.</p>'',
         ''    ''])] [],
     Chunk (lines [
       [],
       ''    <p><a href=\"'']),
     Url ''HomeURL'',
     Chunk (lines [
       ''\">Return to the bridge</a></p>'',
       ''  </main>'',
       ''</body>'',
       ''</html>''])]"

definition consentTemplate :: template where
  "consentTemplate = [
     Chunk (lines [
       ''<!doctype html>'',
       ''<html lang=\"en\">'',
       ''<head>'',
       ''  <meta charset=\"utf-8\">'',
       ''  <meta name=\"viewport\" content=\"width=device-width, initial-scale=1\">'',
       ''  <title>Approve Sign-in</title>'',
       ''  <style>'',
       ''    :root { color-scheme: light; --bg: #f7f8f5; --surface: #fff; --ink: #1b1f23; --muted: #5f6b76; --line: #d9dfdf; --accent: #0f766e; --danger: #9f1239; }'',
       ''    * { box-sizing: border-box; }'',
       ''    body { margin: 0; min-height: 100vh; display: grid; place-items: center; background: var(--bg); color: var(--ink); font-family: ui-sans-serif, system-ui, -apple-system, BlinkMacSystemFont, \"Segoe UI\", sans-serif; line-height: 1.5; }'',
       ''    main { width: min(620px, calc(100% - 28px)); padding: 28px 0; }'',
       ''    h1 { margin: 0 0 12px; font-size: 32px; letter-spacing: 0; line-height: 1.1; }'',
       ''    p { color: var(--muted); margin: 0 0 20px; }'',
       ''    dl { display: grid; gap: 12px; margin: 0 0 22px; padding: 18px; border: 1px solid var(--line); border-radius: 8px; background: var(--surface); }'',
       ''    dt { color: var(--muted); font-size: 13px; font-weight: 700; text-transform: uppercase; }'',
       ''    dd { margin: 3px 0 0; overflow-wrap: anywhere; font-weight: 700; }'',
       ''    form { display: flex; flex-wrap: wrap; gap: 10px; }'',
       ''    button { min-height: 42px; padding: 9px 14px; border-radius: 7px; border: 1px solid var(--accent); background: var(--accent); color: white; font: inherit; font-weight: 700; cursor: pointer; }'',
       ''    button.secondary { border-color: var(--danger); background: transparent; color: var(--danger); }'',
       ''    button:disabled { opacity: .68; cursor: wait; }'',
       ''  </style>'',
       ''  <script nonce=\"'']),
     Html ''ScriptNonce'',
     Chunk (lines [
       ''\">'',
       ''    addEventListener(\"DOMContentLoaded\", () => {'',
       ''      const form = document.querySelector(\"form\");'',
       ''      if (!form) return;'',
       ''      form.addEventListener(\"submit\", () => {'',
       ''        setTimeout(() => {'',
       ''          for (const button of form.querySelectorAll(\"button\")) {'',
       ''            button.disabled = true;'',
       ''          }'',
       ''        }, 0);'',
       ''      });'',
       ''    });'',
       ''  </script>'',
       ''  <script src=\"/theme.js\"></script>'',
       ''</head>'',
       ''<body>'',
       ''  <main>'',
       ''    <h1>Approve sign-in</h1>'',
       ''    <p>Confirm this IndieAuth client can complete sign-in for your profile URL.</p>'',
       ''    <dl>'',
       ''      <div><dt>Profile</dt><dd>'']),
     Html ''Me'',
     Chunk (lines [
       ''</dd></div>'',
       ''      <div><dt>Client</dt><dd>'']),
     Html ''ClientID'',
     Chunk (lines [
       ''</dd></div>'',
       ''      <div><dt>Redirect</dt><dd>'']),
     Html ''RedirectURI'',
     Chunk (lines [
       ''</dd></div>'',
       ''      <div><dt>Scope</dt><dd>'']),
     Html ''Scope'',
     Chunk (lines [
       ''</dd></div>'',
       ''    </dl>'',
       ''    <form method=\"post\" action=\"'']),
     Url ''FormAction'',
     Chunk (lines [
       ''\">'',
       ''      <input type=\"hidden\" name=\"id\" value=\"'']),
     Html ''ID'',
     Chunk (lines [
       ''\">'',
       ''      <input type=\"hidden\" name=\"csrf\" value=\"'']),
     Html ''CSRFToken'',
     Chunk (lines [
       ''\">'',
       ''      <button type=\"submit\" name=\"decision\" value=\"approve\">Approve</button>'',
       ''      <button class=\"secondary\" type=\"submit\" name=\"decision\" value=\"deny\">Deny</button>'',
       ''    </form>'',
       ''  </main>'',
       ''</body>'',
       ''</html>''])]"

section \<open>tools.go\<close>

definition setupCheckTemplate :: template where
  "setupCheckTemplate = [
     Chunk (lines [
       ''<!doctype html>'',
       ''<html lang=\"en\">'',
       ''<head>'',
       ''  <meta charset=\"utf-8\">'',
       ''  <meta name=\"viewport\" content=\"width=device-width, initial-scale=1\">'',
       ''  <title>IndieAuth Profile Check</title>'',
       ''  <style>'',
       ''    :root { color-scheme: light; --bg: #f7f8f5; --surface: #fff; --ink: #1b1f23; --muted: #5f6b76; --line: #d9dfdf; --ok: #047857; --error: #b42318; }'',
       ''    * { box-sizing: border-box; }'',
       ''    body { margin: 0; min-height: 100vh; display: grid; place-items: center; background: var(--bg); color: var(--ink); font-family: ui-sans-serif, system-ui, -apple-system, BlinkMacSystemFont, \"Segoe UI\", sans-serif; line-height: 1.5; }'',
       ''    main { width: min(720px, calc(100% - 28px)); padding: 32px 0; }'',
       ''    .card { padding: 22px; border: 1px solid var(--line); border-radius: 10px; background: var(--surface); }'',
       ''    h1 { margin-top: 0; }'',
       ''    .ok { color: var(--ok); } .error { color: var(--error); }'',
       ''    code { overflow-wrap: anywhere; }'',
       ''    a { color: inherit; font-weight: 700; }'',
       ''  </style>'',
       ''  <script src=\"/theme.js\"></script>'',
       ''</head>'',
       ''<body>'',
       ''  <main>'',
       ''    <div class=\"card\">'',
       ''      '']),
     Cond ''Valid'' [
       Chunk (lines [
         [],
         ''      <h1 class=\"ok\">Profile is ready</h1>'',
         ''      <p><code>'']),
       Html ''Me'',
       Chunk (lines [
         ''</code> delegates to this bridge and is linked to the Authentik account used during setup.</p>'',
         ''      ''])] [
       Chunk (lines [
         [],
         ''      <h1 class=\"error\">Profile is not ready</h1>'',
         ''      <p><code>'']),
       Html ''Me'',
       Chunk (lines [
         ''</code> could not be validated.</p>'',
         ''      <p>'']),
       Html ''Error'',
       Chunk (lines [
         ''</p>'',
         ''      ''])],
     Chunk (lines [
       [],
       ''      <p><a href=\"'']),
     Url ''SetupURL'',
     Chunk (''\">Return to setup</a> '' @ middle_dot @ '' <a href=\"''),
     Url ''TestURL'',
     Chunk (lines [
       ''\">Test an IndieAuth login</a></p>'',
       ''    </div>'',
       ''  </main>'',
       ''</body>'',
       ''</html>''])]"

definition testClientTemplate :: template where
  "testClientTemplate = [
     Chunk (lines [
       ''<!doctype html>'',
       ''<html lang=\"en\">'',
       ''<head>'',
       ''  <meta charset=\"utf-8\">'',
       ''  <meta name=\"viewport\" content=\"width=device-width, initial-scale=1\">'',
       ''  <link rel=\"redirect_uri\" href=\"'']),
     Url ''RedirectURI'',
     Chunk (lines [
       ''\">'',
       ''  <title>IndieAuth Login Tester</title>'',
       ''  <style>'',
       ''    :root { color-scheme: light; --bg: #f7f8f5; --surface: #fff; --ink: #1b1f23; --muted: #5f6b76; --line: #d9dfdf; --accent: #0f766e; }'',
       ''    * { box-sizing: border-box; }'',
       ''    body { margin: 0; min-height: 100vh; display: grid; place-items: center; background: var(--bg); color: var(--ink); font-family: ui-sans-serif, system-ui, -apple-system, BlinkMacSystemFont, \"Segoe UI\", sans-serif; line-height: 1.5; }'',
       ''    main { width: min(720px, calc(100% - 28px)); padding: 32px 0; }'',
       ''    .card { padding: 24px; border: 1px solid var(--line); border-radius: 10px; background: var(--surface); }'',
       ''    h1 { margin: 0 0 10px; } p { color: var(--muted); }'',
       ''    label { display: block; margin-bottom: 7px; font-weight: 700; }'',
       ''    .row { display: flex; gap: 10px; }'',
       ''    input { flex: 1; min-width: 0; padding: 11px 12px; border: 1px solid var(--line); border-radius: 7px; font: inherit; }'',
       ''    button { padding: 11px 16px; border: 1px solid var(--accent); border-radius: 7px; background: var(--accent); color: #fff; font: inherit; font-weight: 700; cursor: pointer; }'',
       ''    a { color: var(--accent); font-weight: 700; }'',
       ''    @media (max-width: 600px) { .row { flex-direction: column; } }'',
       ''  </style>'',
       ''  <script src=\"/theme.js\"></script>'',
       ''</head>'',
       ''<body>'',
       ''  <main>'',
       ''    <div class=\"card\">'',
       ''      <h1>Test an IndieAuth login</h1>'',
       ''      <p>This is a real, generic IndieAuth client. It discovers endpoints from the profile URL, uses authorization code flow with PKCE, and displays the returned data once. Tokens are not retained.</p>'',
       ''      <form method=\"post\" action=\"'']),
     Url ''StartURL'',
     Chunk (lines [
       ''\">'',
       ''        <label for=\"me\">Profile URL</label>'',
       ''        <div class=\"row\">'',
       ''          <input id=\"me\" name=\"me\" type=\"url\" inputmode=\"url\" placeholder=\"https://example.com/\" value=\"'']),
     Html ''Me'',
     Chunk (lines [
       ''\" required>'',
       ''          <button type=\"submit\">Start login</button>'',
       ''        </div>'',
       ''      </form>'',
       ''      <p><a href=\"'']),
     Url ''SetupURL'',
     Chunk (''\">Set up a profile</a> '' @ middle_dot @ '' <a href=\"''),
     Url ''HomeURL'',
     Chunk (lines [
       ''\">Bridge status</a></p>'',
       ''    </div>'',
       ''  </main>'',
       ''</body>'',
       ''</html>''])]"

definition testResultTemplate :: template where
  "testResultTemplate = [
     Chunk (lines [
       ''<!doctype html>'',
       ''<html lang=\"en\">'',
       ''<head>'',
       ''  <meta charset=\"utf-8\">'',
       ''  <meta name=\"viewport\" content=\"width=device-width, initial-scale=1\">'',
       ''  <title>IndieAuth Test Result</title>'',
       ''  <style>'',
       ''    :root { color-scheme: light; --bg: #f7f8f5; --surface: #fff; --ink: #1b1f23; --muted: #5f6b76; --line: #d9dfdf; --accent: #0f766e; --error: #b42318; }'',
       ''    * { box-sizing: border-box; }'',
       ''    body { margin: 0; background: var(--bg); color: var(--ink); font-family: ui-sans-serif, system-ui, -apple-system, BlinkMacSystemFont, \"Segoe UI\", sans-serif; line-height: 1.5; }'',
       ''    main { width: min(900px, calc(100% - 28px)); margin: 0 auto; padding: 32px 0; }'',
       ''    section { margin: 16px 0; padding: 20px; border: 1px solid var(--line); border-radius: 10px; background: var(--surface); }'',
       ''    h1, h2 { margin-top: 0; } p { color: var(--muted); }'',
       ''    pre { overflow: auto; padding: 14px; border-radius: 7px; background: #111827; color: #f9fafb; white-space: pre-wrap; word-break: break-word; }'',
       ''    .error { color: var(--error); } a { color: var(--accent); font-weight: 700; }'',
       ''  </style>'',
       ''  <script src=\"/theme.js\"></script>'',
       ''</head>'',
       ''<body>'',
       ''  <main>'',
       ''    '']),
     Cond ''Error'' [
       Chunk (lines [
         [],
         ''    <h1 class=\"error\">IndieAuth test failed</h1>'',
         ''    <section><p>'']),
       Html ''Error'',
       Chunk (lines [
         ''</p></section>'',
         ''    ''])] [
       Chunk (lines [
         [],
         ''    <h1>IndieAuth test completed</h1>'',
         ''    <p>The authorization and verification responses below came from the discovered IndieAuth server. This page is sent with <code>Cache-Control: no-store</code>.</p>'',
         ''    <section><h2>Profile</h2><pre>'']),
       Html ''Me'',
       Chunk (lines [
         ''</pre></section>'',
         ''    <section><h2>Discovered endpoints</h2><pre>'']),
       Html ''Endpoints'',
       Chunk (lines [
         ''</pre></section>'',
         ''    <section><h2>Authorization response</h2><pre>'']),
       Html ''AuthorizationResponse'',
       Chunk (lines [
         ''</pre></section>'',
         ''    <section><h2>'']),
       Html ''ExchangeLabel'',
       Chunk ''</h2><pre>'',
       Html ''TokenResponse'',
       Chunk (lines [
         ''</pre></section>'',
         ''    ''])],
     Chunk (lines [
       [],
       ''    <p><a href=\"'']),
     Url ''TestURL'',
     Chunk (''\">Run another test</a> '' @ middle_dot @ '' <a href=\"''),
     Url ''SetupURL'',
     Chunk (lines [
       ''\">Set up a profile</a></p>'',
       ''  </main>'',
       ''</body>'',
       ''</html>''])]"

section \<open>managed_profiles.go\<close>

definition managedProfileTemplate :: template where
  "managedProfileTemplate = [
     Chunk (lines [
       ''<!doctype html>'',
       ''<html lang=\"en\" data-accent=\"'']),
     Html ''Accent'',
     Chunk (lines [
       ''\">'',
       ''<head>'',
       ''  <meta charset=\"utf-8\">'',
       ''  <meta name=\"viewport\" content=\"width=device-width, initial-scale=1\">'',
       ''  <link rel=\"canonical\" href=\"'']),
     Url ''Me'',
     Chunk (lines [
       ''\">'',
       ''  <link rel=\"indieauth-metadata\" href=\"'']),
     Url ''MetadataURL'',
     Chunk (lines [
       ''\">'',
       ''  <link rel=\"authorization_endpoint\" href=\"'']),
     Url ''AuthorizationURL'',
     Chunk (lines [
       ''\">'',
       ''  <link rel=\"token_endpoint\" href=\"'']),
     Url ''TokenURL'',
     Chunk (lines [
       ''\">'',
       ''  <title>'']),
     Html ''Title'',
     Chunk (lines [
       '' '' @ middle_dot @ '' IndieAuth profile</title>'',
       ''  <style>'',
       ''    :root { color-scheme: light; --bg: #f4f7f6; --surface: #fff; --surface-raised: #fff; --ink: #17211f; --muted: #53635f; --line: #d4ddda; --profile-accent: #0f766e; --profile-soft: #ccfbf1; --profile-button-ink: #fff; }'',
       ''    html[data-accent=\"blue\"] { --profile-accent: #1d4ed8; --profile-soft: #dbeafe; }'',
       ''    html[data-accent=\"violet\"] { --profile-accent: #6d28d9; --profile-soft: #ede9fe; }'',
       ''    html[data-accent=\"rose\"] { --profile-accent: #be123c; --profile-soft: #ffe4e6; }'',
       ''    html[data-accent=\"amber\"] { --profile-accent: #a54808; --profile-soft: #fef3c7; }'',
       ''    html[data-theme=\"dark\"] { --profile-accent: #5eead4; --profile-soft: #143b3a; --profile-button-ink: #082f2c; }'',
       ''    html[data-theme=\"dark\"][data-accent=\"blue\"] { --profile-accent: #7dd3fc; --profile-soft: #172f4d; --profile-button-ink: #082f49; }'',
       ''    html[data-theme=\"dark\"][data-accent=\"violet\"] { --profile-accent: #c4b5fd; --profile-soft: #302653; --profile-button-ink: #2e1065; }'',
       ''    html[data-theme=\"dark\"][data-accent=\"rose\"] { --profile-accent: #fda4af; --profile-soft: #4a2030; --profile-button-ink: #4c0519; }'',
       ''    html[data-theme=\"dark\"][data-accent=\"amber\"] { --profile-accent: #fcd34d; --profile-soft: #463617; --profile-button-ink: #451a03; }'',
       ''    * { box-sizing: border-box; }'',
       ''    body { margin: 0; min-height: 100vh; display: grid; place-items: center; overflow-x: hidden; background: var(--bg); color: var(--ink); font-family: ui-sans-serif, system-ui, -apple-system, BlinkMacSystemFont, \"Segoe UI\", sans-serif; line-height: 1.55; }'',
       ''    body::before { position: fixed; z-index: -1; width: 620px; height: 620px; top: -260px; right: -180px; border-radius: 50%; background: color-mix(in srgb, var(--profile-accent) 17%, transparent); filter: blur(12px); content: \"\"; }'',
       ''    main { width: min(720px, calc(100% - 28px)); padding: 70px 0 48px; }'',
       ''    .card { position: relative; overflow: hidden; padding: clamp(26px, 7vw, 48px); border: 1px solid var(--line); border-radius: 24px; background: color-mix(in srgb, var(--surface-raised) 96%, transparent); box-shadow: 0 24px 70px rgb(15 23 42 / 12%); }'',
       ''    .identity { display: flex; align-items: center; gap: 20px; margin-bottom: 28px; }'',
       ''    .avatar { display: grid; flex: 0 0 auto; width: 76px; height: 76px; place-items: center; border-radius: 22px; background: var(--profile-soft); color: var(--profile-accent); font-size: 32px; font-weight: 850; }'',
       ''    .eyebrow { color: var(--profile-accent); font-size: 12px; font-weight: 850; letter-spacing: .09em; text-transform: uppercase; }'',
       ''    h1 { margin: 6px 0 2px; font-size: clamp(34px, 8vw, 56px); line-height: 1; letter-spacing: -.035em; }'',
       ''    .handle { margin: 0; color: var(--muted); font-size: 17px; }'',
       ''    .bio { max-width: 58ch; margin: 0 0 24px; color: var(--ink); font-size: 18px; white-space: pre-line; }'',
       ''    .intro { max-width: 58ch; margin: 0 0 24px; color: var(--muted); }'',
       ''    .links { display: flex; flex-wrap: wrap; gap: 10px 18px; margin: 0 0 26px; }'',
       ''    .links a { overflow-wrap: anywhere; color: var(--profile-accent); font-weight: 750; text-underline-offset: 3px; }'',
       ''    .actions { display: flex; flex-wrap: wrap; gap: 10px; padding-top: 24px; border-top: 1px solid var(--line); }'',
       ''    a.button { padding: 10px 15px; border: 1px solid var(--profile-accent); border-radius: 9px; background: var(--profile-accent); color: var(--profile-button-ink); text-decoration: none; font-weight: 800; }'',
       ''    a.button.secondary { background: transparent; color: var(--profile-accent); }'',
       ''    @media (max-width: 520px) {'',
       ''      main { padding-top: 64px; }'',
       ''      .card { border-radius: 18px; }'',
       ''      .identity { align-items: flex-start; gap: 15px; }'',
       ''      .avatar { width: 60px; height: 60px; border-radius: 17px; font-size: 26px; }'',
       ''    }'',
       ''  </style>'',
       ''  <script src=\"/theme.js\"></script>'',
       ''</head>'',
       ''<body>'',
       ''  <main class=\"h-card\">'',
       ''    <div class=\"card\">'',
       ''      <div class=\"identity\">'',
       ''        <div class=\"avatar\" aria-hidden=\"true\">'']),
     Html ''Initial'',
     Chunk (lines [
       ''</div>'',
       ''        <div>'',
       ''          <div class=\"eyebrow\">IndieAuth profile</div>'',
       ''          <h1 class=\"p-name\">'']),
     Html ''Title'',
     Chunk (lines [
       ''</h1>'',
       ''          <p class=\"handle\">@'']),
     Html ''Handle'',
     Chunk (lines [
       ''</p>'',
       ''        </div>'',
       ''      </div>'',
       ''      '']),
     Cond ''Bio'' [
       Chunk ''<p class=\"bio p-note\">'',
       Html ''Bio'',
       Chunk ''</p>''] [
       Chunk ''<p class=\"intro\">This is a ready-to-use identity for signing in to IndieAuth-compatible applications.</p>''],
     Chunk (lines [
       [],
       ''      <div class=\"links\">'',
       ''        <a class=\"u-url\" href=\"'']),
     Url ''Me'',
     Chunk (lines [
       ''\">Profile URL</a>'',
       ''        '']),
     Cond ''WebsiteURL'' [
       Chunk ''<a href=\"'',
       Url ''WebsiteURL'',
       Chunk ''\" rel=\"me\">Personal website</a>''] [],
     Chunk (lines [
       [],
       ''      </div>'',
       ''      <div class=\"actions\">'',
       ''        <a class=\"button\" href=\"'']),
     Url ''TestURL'',
     Chunk (lines [
       ''\">Test this login</a>'',
       ''        <a class=\"button secondary\" href=\"'']),
     Url ''SetupURL'',
     Chunk (lines [
       ''\">Edit profile</a>'',
       ''      </div>'',
       ''    </div>'',
       ''  </main>'',
       ''</body>'',
       ''</html>''])]"

section \<open>theme.go\<close>

definition themeScript :: string where
  "themeScript = lines [
     ''(() => {'',
     ''  const storageKey = \"indieauth-bridge-theme\";'',
     ''  const choices = [\"system\", \"light\", \"dark\"];'',
     ''  const media = window.matchMedia(\"(prefers-color-scheme: dark)\");'',
     ''  let preference = \"system\";'',
     [],
     ''  try {'',
     ''    const saved = window.localStorage.getItem(storageKey);'',
     ''    if (choices.includes(saved)) preference = saved;'',
     ''  } catch (_) {}'',
     [],
     ''  function applyTheme() {'',
     ''    const resolved = preference === \"system\"'',
     ''      ? (media.matches ? \"dark\" : \"light\")'',
     ''      : preference;'',
     ''    document.documentElement.dataset.theme = resolved;'',
     ''    document.documentElement.dataset.themePreference = preference;'',
     ''    document.querySelectorAll(\".iab-theme-choice\").forEach((button) => {'',
     ''      const selected = button.dataset.themeChoice === preference;'',
     ''      button.setAttribute(\"aria-pressed\", String(selected));'',
     ''    });'',
     ''  }'',
     [],
     ''  applyTheme();'',
     [],
     ''  const style = document.createElement(\"style\");'',
     ''  style.textContent = '' @ [back_quote],
     ''    html[data-theme=\"dark\"] {'',
     ''      color-scheme: dark;'',
     ''      --bg: #080c14;'',
     ''      --surface: #121925;'',
     ''      --surface-raised: #182131;'',
     ''      --ink: #f8fafc;'',
     ''      --muted: #bdc8d6;'',
     ''      --line: #3e4a5e;'',
     ''      --accent: #5eead4;'',
     ''      --accent-ink: #99f6e4;'',
     ''      --ok: #6ee7b7;'',
     ''      --error: #fda4af;'',
     ''      --warn: #fcd34d;'',
     ''    }'',
     ''    html[data-theme=\"dark\"] body {'',
     ''      background: var(--bg);'',
     ''      color: var(--ink);'',
     ''    }'',
     ''    html[data-theme=\"dark\"] input,'',
     ''    html[data-theme=\"dark\"] textarea,'',
     ''    html[data-theme=\"dark\"] select {'',
     ''      border-color: var(--line);'',
     ''      background: var(--surface-raised);'',
     ''      color: var(--ink);'',
     ''    }'',
     ''    html[data-theme=\"dark\"] button:not(.iab-theme-choice) { color: #042f2e; }'',
     ''    html[data-theme=\"dark\"] a.button:not(.secondary) { color: #042f2e; }'',
     ''    html[data-theme=\"dark\"] :focus-visible {'',
     ''      outline: 3px solid #67e8f9;'',
     ''      outline-offset: 3px;'',
     ''    }'',
     ''    .iab-theme-toggle {'',
     ''      position: fixed;'',
     ''      z-index: 1000;'',
     ''      top: 12px;'',
     ''      right: 12px;'',
     ''      display: inline-flex;'',
     ''      gap: 2px;'',
     ''      padding: 3px;'',
     ''      border: 1px solid var(--line, #d9dfdf);'',
     ''      border-radius: 11px;'',
     ''      background: color-mix(in srgb, var(--surface-raised, var(--surface, #fff)) 94%, transparent);'',
     ''      box-shadow: 0 8px 28px rgb(0 0 0 / 18%);'',
     ''      backdrop-filter: blur(12px);'',
     ''      font: 600 12px/1.2 ui-sans-serif, system-ui, sans-serif;'',
     ''    }'',
     ''    .iab-theme-choice {'',
     ''      min-height: 30px;'',
     ''      padding: 5px 9px;'',
     ''      border: 0;'',
     ''      border-radius: 8px;'',
     ''      color: var(--muted, #5f6b76);'',
     ''      background: transparent;'',
     ''      cursor: pointer;'',
     ''      font: inherit;'',
     ''    }'',
     ''    .iab-theme-choice:hover {'',
     ''      color: var(--ink, #1b1f23);'',
     ''      background: color-mix(in srgb, var(--ink, #1b1f23) 8%, transparent);'',
     ''    }'',
     ''    .iab-theme-choice[aria-pressed=\"true\"] {'',
     ''      color: var(--surface, #fff);'',
     ''      background: var(--ink, #1b1f23);'',
     ''    }'',
     ''    @media (max-width: 520px) {'',
     ''      .iab-theme-toggle { top: 8px; right: 8px; }'',
     ''      .iab-theme-choice { min-height: 28px; padding: 4px 7px; }'',
     ''    }'',
     ''  '' @ [back_quote] @ '';'',
     ''  document.head.append(style);'',
     [],
     ''  function mountToggle() {'',
     ''    const toggle = document.createElement(\"div\");'',
     ''    toggle.className = \"iab-theme-toggle\";'',
     ''    toggle.setAttribute(\"role\", \"group\");'',
     ''    toggle.setAttribute(\"aria-label\", \"Color theme\");'',
     ''    for (const choice of choices) {'',
     ''      const button = document.createElement(\"button\");'',
     ''      button.type = \"button\";'',
     ''      button.className = \"iab-theme-choice\";'',
     ''      button.dataset.themeChoice = choice;'',
     ''      button.textContent = choice[0].toUpperCase() + choice.slice(1);'',
     ''      button.addEventListener(\"click\", () => {'',
     ''        preference = choice;'',
     ''        try {'',
     ''          window.localStorage.setItem(storageKey, preference);'',
     ''        } catch (_) {}'',
     ''        applyTheme();'',
     ''      });'',
     ''      toggle.append(button);'',
     ''    }'',
     ''    document.body.append(toggle);'',
     ''    applyTheme();'',
     ''  }'',
     [],
     ''  if (document.readyState === \"loading\") {'',
     ''    document.addEventListener(\"DOMContentLoaded\", mountToggle, { once: true });'',
     ''  } else {'',
     ''    mountToggle();'',
     ''  }'',
     [],
     ''  const systemChanged = () => {'',
     ''    if (preference === \"system\") applyTheme();'',
     ''  };'',
     ''  if (media.addEventListener) media.addEventListener(\"change\", systemChanged);'',
     ''  else media.addListener(systemChanged);'',
     ''})();'']"

section \<open>All pages\<close>

definition page_templates :: "(string \<times> template) list" where
  "page_templates = [
     (''landing'', landingTemplate),
     (''health'', healthTemplate),
     (''setup'', setupTemplate),
     (''consent'', consentTemplate),
     (''setup-check'', setupCheckTemplate),
     (''test-client'', testClientTemplate),
     (''test-result'', testResultTemplate),
     (''managed-profile'', managedProfileTemplate),
     (''theme.js'', [Chunk themeScript])]"

text \<open>The text of a response's body, when it is a page.\<close>

definition page_text_of :: "unicode_tables \<Rightarrow> response_body \<Rightarrow> string option" where
  "page_text_of U b =
     (case b of
        PageBody name d \<Rightarrow> (case map_of page_templates name of Some t \<Rightarrow> Some (render U d t) | None \<Rightarrow> None)
      | _ \<Rightarrow> None)"

text \<open>
  A page can be rendered when it has a template and the data that the template reads; the page of an error whose
  message is empty is taken for one without an error.
\<close>

definition renderable :: "response_body \<Rightarrow> bool" where
  "renderable b =
     (case b of
        PageBody name d \<Rightarrow> (case map_of page_templates name of Some t \<Rightarrow> complete_data d t \<or> map_of d ''Error'' = Some (JStr []) | None \<Rightarrow> False)
      | _ \<Rightarrow> True)"

lemma renderable_other [simp]: "renderable NoBody" "renderable (TextBody t)" "renderable (JsonBody j)"
  by (simp_all add: renderable_def)

lemma complete_templates:
  "complete_data d landingTemplate \<longleftrightarrow> (truth d ''SetupURL'' \<longrightarrow> is_text d ''SetupURL'') \<and>
     list_all (is_text d) [''TestURL'', ''HealthPageURL'', ''Issuer'', ''AuthorizeURL'', ''TokenURL'', ''MetadataURL'']"
  "complete_data d healthTemplate \<longleftrightarrow> is_text d ''HomeURL''"
  "complete_data d consentTemplate \<longleftrightarrow> list_all (is_text d) [''ScriptNonce'', ''Me'', ''ClientID'', ''RedirectURI'', ''Scope'',
     ''FormAction'', ''ID'', ''CSRFToken'']"
  "complete_data d testClientTemplate \<longleftrightarrow> list_all (is_text d) [''RedirectURI'', ''StartURL'', ''Me'', ''SetupURL'', ''HomeURL'']"
  "complete_data d setupCheckTemplate \<longleftrightarrow> is_text d ''Me'' \<and> (\<not> truth d ''Valid'' \<longrightarrow> is_text d ''Error'') \<and>
     is_text d ''SetupURL'' \<and> is_text d ''TestURL''"
  "complete_data d testResultTemplate \<longleftrightarrow>
     (if truth d ''Error'' then is_text d ''Error'' else list_all (is_text d) [''Me'', ''Endpoints'', ''AuthorizationResponse'',
        ''ExchangeLabel'', ''TokenResponse'']) \<and> is_text d ''TestURL'' \<and> is_text d ''SetupURL''"
  "complete_data d managedProfileTemplate \<longleftrightarrow> list_all (is_text d) [''Accent'', ''Me'', ''MetadataURL'', ''AuthorizationURL'',
     ''TokenURL'', ''Title'', ''Initial'', ''Handle'', ''TestURL'', ''SetupURL''] \<and> (truth d ''Bio'' \<longrightarrow> is_text d ''Bio'') \<and>
     (truth d ''WebsiteURL'' \<longrightarrow> is_text d ''WebsiteURL'')"
  "complete_data d setupTemplate \<longleftrightarrow>
     (truth d ''ManagedProfileURL'' \<longrightarrow> list_all (is_text d) [''ManagedProfileURL'', ''TestURL'', ''ProfileUpdateAction'',
        ''IdentityToken'', ''ManagedDisplayName'', ''ManagedAccent'', ''ManagedBio'', ''ManagedWebsiteURL'']) \<and>
     (truth d ''ExternalProfiles'' \<longrightarrow> list_all (is_text d) [''DiscoveryFragment'', ''IdentityFragment'', ''CheckAction'',
        ''IdentityToken'', ''TestURL'']) \<and> is_text d ''HomeURL''"
  by (auto simp: landingTemplate_def healthTemplate_def consentTemplate_def testClientTemplate_def setupCheckTemplate_def
      testResultTemplate_def managedProfileTemplate_def setupTemplate_def)

lemma renderable_pages [simp]:
  "renderable (PageBody ''landing'' d) \<longleftrightarrow> complete_data d landingTemplate \<or> map_of d ''Error'' = Some (JStr [])"
  "renderable (PageBody ''health'' d) \<longleftrightarrow> complete_data d healthTemplate \<or> map_of d ''Error'' = Some (JStr [])"
  "renderable (PageBody ''setup'' d) \<longleftrightarrow> complete_data d setupTemplate \<or> map_of d ''Error'' = Some (JStr [])"
  "renderable (PageBody ''consent'' d) \<longleftrightarrow> complete_data d consentTemplate \<or> map_of d ''Error'' = Some (JStr [])"
  "renderable (PageBody ''setup-check'' d) \<longleftrightarrow> complete_data d setupCheckTemplate \<or> map_of d ''Error'' = Some (JStr [])"
  "renderable (PageBody ''test-client'' d) \<longleftrightarrow> complete_data d testClientTemplate \<or> map_of d ''Error'' = Some (JStr [])"
  "renderable (PageBody ''test-result'' d) \<longleftrightarrow> complete_data d testResultTemplate \<or> map_of d ''Error'' = Some (JStr [])"
  "renderable (PageBody ''managed-profile'' d) \<longleftrightarrow> complete_data d managedProfileTemplate \<or> map_of d ''Error'' = Some (JStr [])"
  "renderable (PageBody ''theme.js'' d)"
  by (auto simp: renderable_def page_templates_def)

end
