(* ===== verification/Headers.thy ===== *)
theory Headers
  imports Serving Templates
begin

text \<open>
  The headers and the body of every response: no handler sets a security header to anything but a value
  meant for it, so that those the wrapper sets first arrive, and a page has a template and the data it reads.
\<close>

section \<open>Acceptable responses\<close>

definition header_ok :: "string \<Rightarrow> string \<Rightarrow> bool" where
  "header_ok k v \<longleftrightarrow> k \<noteq> ''Referrer-Policy'' \<and> k \<noteq> ''Cross-Origin-Opener-Policy'' \<and>
     (k = ''X-Content-Type-Options'' \<longrightarrow> v = ''nosniff'') \<and>
     (k = ''Content-Security-Policy'' \<longrightarrow> v = test_csp \<or> v \<in> range consentContentSecurityPolicy)"

definition headers_ok :: "headers \<Rightarrow> bool" where
  "headers_ok hs \<longleftrightarrow> list_all (\<lambda>(k, v). header_ok k v) hs"

definition response_ok :: "http_response \<Rightarrow> bool" where
  "response_ok rsp \<longleftrightarrow> headers_ok (rsp_Header rsp) \<and> renderable (rsp_Body rsp)"

lemma headers_ok_simps [simp]:
  "headers_ok []" "headers_ok ((k, v) # hs) \<longleftrightarrow> header_ok k v \<and> headers_ok hs"
  by (simp_all add: headers_ok_def)

lemma headers_ok_set [simp]: "headers_ok hs \<Longrightarrow> header_ok k v \<Longrightarrow> headers_ok (set_header k v hs)"
  by (induction hs) auto

lemma header_ok_simps [simp]:
  "header_ok ''Content-Type'' v" "header_ok ''Cache-Control'' v" "header_ok ''Pragma'' v" "header_ok ''Location'' v"
  "header_ok ''Retry-After'' v" "header_ok ''Allow'' v" "header_ok ''X-Content-Type-Options'' ''nosniff''"
  "header_ok ''Content-Security-Policy'' test_csp" "header_ok ''Content-Security-Policy'' (consentContentSecurityPolicy n)"
  by (simp_all add: header_ok_def)

lemma response_ok_simps [simp]:
  "headers_ok no_store" "response_ok (reply hs st b) \<longleftrightarrow> headers_ok hs \<and> renderable b"
  "headers_ok hs \<Longrightarrow> response_ok (http_Error hs m st)" "headers_ok hs \<Longrightarrow> response_ok (NotFound hs)"
  "headers_ok hs \<Longrightarrow> response_ok (Redirect hs u st)" "headers_ok hs \<Longrightarrow> renderable (PageBody t d) \<Longrightarrow> response_ok (page hs st t d)"
  "headers_ok hs \<Longrightarrow> response_ok (writeJSON hs st j)" "headers_ok hs \<Longrightarrow> response_ok (writeOAuthError hs st c e)"
  "response_ok (with_cookie ck rsp) = response_ok rsp"
  by (simp_all add: response_ok_def reply_def response_defs with_cookie_def no_store_def)

section \<open>The handlers\<close>

text \<open>The value of a computation, whatever the world.\<close>

abbreviation yields :: "('w, 'a) state \<Rightarrow> ('a \<Rightarrow> bool) \<Rightarrow> bool" where
  "yields m Q \<equiv> keeps anything m Q"

lemma yields_bind: "(\<And>x. yields (f x) Q) \<Longrightarrow> yields (m \<bind> f) Q"
  by (auto simp: keeps_def case_prod_beta)

lemmas yields_steps = yields_bind keeps_if keeps_case_sum keeps_case_option keeps_case_prod

lemma redirectWithError_ok [simp]: "headers_ok hs \<Longrightarrow> response_ok (redirectWithError U hs u st e)"
  by (simp add: redirectWithError_def split: sum.splits)

lemma page_responses_ok [simp]:
  "response_ok (renderSetupCheck c no_store me e)" "response_ok (renderTestError c m)"
  "response_ok (renderTestResult c st q resp body)" "response_ok (profile_page_response s p)"
  "response_ok (setup_page c i subj t managed)" "response_ok (token_response rec t)" "response_ok (profile_response rec)"
  "response_ok inactive_response" "response_ok (active_response x)" "response_ok (handleIndex c)" "response_ok (handleHealth c)"
  "response_ok handleHealthz" "response_ok (handleMetadata c)" "response_ok handleThemeScript" "response_ok (handleTestClient c r)"
  by (simp_all add: renderSetupCheck_def renderTestError_def renderTestResult_def profile_page_response_def Let_def
      setup_page_def token_response_def profile_response_def inactive_response_def active_response_def handleIndex_def
      handleHealth_def handleHealthz_def handleMetadata_def handleThemeScript_def handleTestClient_def truth_def is_text_def complete_templates
      split: option.splits)

lemma yields_reject: "yields (reject ev me c code d) response_ok"
  unfolding reject_def by (intro yields_bind keeps_return) simp

lemma yields_issue_token: "yields (issue_token s rec) response_ok"
  unfolding issue_token_def by (intro yields_steps keeps_return) simp_all

lemma yields_handleToken: "yields (handleToken s r) response_ok"
  unfolding handleToken_def Let_def by (intro yields_steps keeps_return yields_reject yields_issue_token) simp_all

lemma yields_handleAuthorizationCodeProfile: "yields (handleAuthorizationCodeProfile r) response_ok"
  unfolding handleAuthorizationCodeProfile_def Let_def by (intro yields_steps keeps_return yields_reject) simp_all

lemma yields_handleIntrospect: "yields (handleIntrospect r) response_ok"
  unfolding handleIntrospect_def by (intro yields_steps keeps_return) (simp_all split: sum.splits)

lemma yields_handleRevoke: "yields (handleRevoke r) response_ok"
  unfolding handleRevoke_def by (intro yields_steps keeps_return) simp_all

lemma on_ok_map [simp]: "on_ok P (map_result f r) \<longleftrightarrow> on_ok (\<lambda>x. P (f x)) r"
  by (cases r) simp_all

lemma on_okI: "(\<And>x. r = Inr x \<Longrightarrow> P x) \<Longrightarrow> on_ok P r"
  by (cases r) simp_all

lemma yields_issueCodeAndRedirect: "headers_ok hs \<Longrightarrow> yields (issueCodeAndRedirect s hs req) (on_ok response_ok)"
  unfolding issueCodeAndRedirect_def Let_def by (intro yields_steps keeps_return) (simp_all add: on_okI)

text \<open>A response made of the result of an earlier computation.\<close>

lemma yields_after: "yields m P \<Longrightarrow> (\<And>x. P x \<Longrightarrow> Q (g x)) \<Longrightarrow> yields (m \<bind> (\<lambda>x. return (g x))) Q"
  by (auto simp: keeps_def case_prod_beta)

lemma yields_decide_consent: "yields (decide_consent s form cr) response_ok"
  unfolding decide_consent_def
  by (intro keeps_if yields_after [OF yields_issueCodeAndRedirect] yields_bind [OF keeps_return])
    (auto split: sum.splits simp: on_ok_def)

lemma yields_handleConsentPost: "yields (handleConsentPost s r) response_ok"
  unfolding handleConsentPost_def Let_def
  by (intro yields_bind keeps_if keeps_case_sum keeps_return keeps_bind [OF yields_decide_consent]) simp_all

lemma yields_handleConsentGet: "yields (handleConsentGet s r) response_ok"
  unfolding handleConsentGet_def by (intro yields_steps keeps_return) (simp_all add: is_text_def complete_templates split: sum.splits)

lemma yields_ask_consent: "yields (ask_consent s ar pj subj) response_ok"
  unfolding ask_consent_def by (intro yields_steps keeps_return) simp_all

lemma yields_renderSetupIdentity: "yields (renderSetupIdentity s i iss) response_ok"
  unfolding renderSetupIdentity_def by (intro yields_steps keeps_return) (simp_all split: sum.splits)

lemma yields_complete_login: "yields (complete_login s q ar b) response_ok"
  unfolding complete_login_def
  by (rule yields_bind) (intro keeps_case_sum keeps_case_option keeps_if yields_renderSetupIdentity yields_ask_consent
      yields_after [OF yields_issueCodeAndRedirect] yields_bind [OF keeps_return]; simp add: on_ok_def split: sum.splits)

lemma yields_handleCallback: "yields (handleCallback s b r) response_ok"
  unfolding handleCallback_def Let_def
  by (intro keeps_if keeps_return yields_bind; simp?)
    (intro keeps_case_sum keeps_case_prod keeps_return keeps_bind [OF yields_complete_login] yields_bind; simp)

lemma yields_begin_login: "yields (begin_login s q st p b) response_ok"
  unfolding begin_login_def by (intro yields_steps keeps_return) simp_all

lemma yields_handleAuthorize: "yields (handleAuthorize s r) response_ok"
  unfolding handleAuthorize_def Let_def by (intro yields_begin_login yields_steps keeps_return) simp_all

lemma yields_handleSetup: "yields (handleSetup s) response_ok"
  unfolding handleSetup_def Let_def by (intro yields_steps keeps_return) (simp_all split: sum.splits)

lemma yields_handleManagedProfileUpdate: "yields (handleManagedProfileUpdate s r) response_ok"
  unfolding handleManagedProfileUpdate_def Let_def by (intro yields_steps keeps_return) simp_all

lemma yields_handleManagedProfile: "yields (handleManagedProfile s r) response_ok"
  unfolding handleManagedProfile_def Let_def by (intro yields_steps keeps_return) (simp_all split: sum.splits)

lemma yields_handleSetupCheck: "yields (handleSetupCheck s r) response_ok"
  unfolding handleSetupCheck_def Let_def by (intro yields_steps keeps_return) simp_all

lemma yields_handleTestStart: "yields (handleTestStart s r) response_ok"
  unfolding handleTestStart_def Let_def by (intro yields_steps keeps_return) (simp_all split: sum.splits)

lemma yields_exchange_code: "yields (exchange_code s st q c) response_ok"
  unfolding exchange_code_def Let_def by (intro yields_steps keeps_return) simp_all

lemma yields_handleTestCallback: "yields (handleTestCallback s r) response_ok"
  unfolding handleTestCallback_def Let_def
  by (intro keeps_case_option keeps_return yields_bind; simp?)
    (intro keeps_case_sum keeps_return keeps_bind [OF yields_exchange_code]; simp)

lemmas yields_handlers = yields_handleAuthorize yields_handleCallback yields_handleConsentGet yields_handleConsentPost
  yields_handleToken yields_handleAuthorizationCodeProfile yields_handleIntrospect yields_handleRevoke yields_handleSetup
  yields_handleSetupCheck yields_handleManagedProfileUpdate yields_handleManagedProfile yields_handleTestStart
  yields_handleTestCallback

lemma yields_handle: "yields (handle s ev) response_ok"
  by (cases ev) (simp_all add: yields_handlers yields_bind keeps_return)

section \<open>What arrives\<close>

lemma mux_answer_ok: "mux_answer c escaped r = Inl rsp \<Longrightarrow> response_ok rsp"
proof -
  have "route_event c rt ms r = Inl rsp \<Longrightarrow> response_ok rsp" for rt ms by (cases rt) auto
  then show "mux_answer c escaped r = Inl rsp \<Longrightarrow> response_ok rsp"
    by (auto simp: mux_answer_def Let_def MethodNotAllowed_def split: if_splits option.splits)
qed

lemma yields_mux_serve: "yields (mux_serve s escaped r) response_ok"
  by (cases "mux_answer (cfg s) escaped r") (simp_all add: mux_serve_def keeps_return mux_answer_ok yields_handle)

lemma header_with_headers:
  "header (with_headers base rsp) k =
     (case map_of (rev (rsp_Header rsp)) k of None \<Rightarrow> map_of base k | Some v \<Rightarrow> Some v)"
proof -
  have "map_of (foldl (\<lambda>hs (k, v). set_header k v hs) base hs) k =
      (case map_of (rev hs) k of None \<Rightarrow> map_of base k | Some v \<Rightarrow> Some v)" for hs
    by (induction hs rule: rev_induct) (auto simp: case_prod_beta)
  then show ?thesis by (simp add: with_headers_def header_def)
qed

lemma response_ok_renderable: "response_ok rsp \<Longrightarrow> renderable (rsp_Body rsp)"
  by (simp add: response_ok_def)

lemma response_ok_header: "response_ok rsp \<Longrightarrow> map_of (rev (rsp_Header rsp)) k = Some v \<Longrightarrow> header_ok k v"
  by (auto simp: response_ok_def headers_ok_def list_all_iff dest!: map_of_SomeD)

definition secured :: "http_response \<Rightarrow> bool" where
  "secured rsp \<longleftrightarrow> header rsp ''X-Content-Type-Options'' = Some ''nosniff'' \<and>
     header rsp ''Referrer-Policy'' = Some ''no-referrer'' \<and>
     header rsp ''Cross-Origin-Opener-Policy'' = Some ''same-origin'' \<and>
     header rsp ''Content-Security-Policy'' \<in> Some ` ({default_csp, test_csp} \<union> range consentContentSecurityPolicy)"

lemma header_secured:
  assumes "response_ok rsp"
  shows "header (with_headers security_headers rsp) k \<in> Some ` ({v. header_ok k v} \<union> set_option (map_of security_headers k))
    \<or> header (with_headers security_headers rsp) k = map_of security_headers k"
  using response_ok_header [OF assms, of k] by (auto simp: header_with_headers split: option.splits)

lemma with_headers_body [simp]: "rsp_Body (with_headers base rsp) = rsp_Body rsp"
  by (simp add: with_headers_def)

lemma with_headers_secured: "response_ok rsp \<Longrightarrow> secured (with_headers security_headers rsp)"
  using header_secured [of rsp "''X-Content-Type-Options''"] header_secured [of rsp "''Referrer-Policy''"]
    header_secured [of rsp "''Cross-Origin-Opener-Policy''"] header_secured [of rsp "''Content-Security-Policy''"]
  unfolding secured_def by (simp add: header_ok_def security_headers_def image_iff) blast

lemma yields_rateLimit:
  assumes "yields h response_ok" shows "yields (rateLimit c r h l) (\<lambda>(rsp, l'). response_ok rsp)"
  unfolding rateLimit_def Let_def
  by (intro keeps_if yields_bind keeps_case_prod keeps_bind [OF assms] keeps_return; simp)

lemma yields_serve: "yields (serve s escaped r l) (\<lambda>(rsp, l'). secured rsp \<and> renderable (rsp_Body rsp))"
  unfolding serve_def securityHeaders_def
  by (intro keeps_bind [OF yields_rateLimit [OF yields_mux_serve]] keeps_case_prod keeps_return)
    (simp add: with_headers_secured response_ok_renderable)

end
