(* ===== verification/RateLimitProperties.thy ===== *)
theory RateLimitProperties
  imports RateLimit GoHtml
begin

text \<open>
  The properties of the rate limiter: how much a key is admitted, that waiting helps, the range of the
  buckets, and which address a request is counted under.
\<close>

lemma new_after:
  assumes "sorted (List.map snd calls @ [t])"
  shows "limiter_ok t (snd (allow_calls calls (newRateLimiter rpm burst ps)))"
proof -
  let ?t0 = "hd (List.map snd calls @ [t])"
  have "sorted (?t0 # List.map snd calls @ [t])" using assms by (cases calls) auto
  with new_limiter_ok show ?thesis by (rule allow_calls_ok)
qed

text \<open>Of the requests of one key that arrive at one instant at a new limiter, exactly the first
  \<open>burst\<close> are admitted, for every burst up to \<open>2\<^sup>5\<^sup>3\<close>, where the floating point count is exact.\<close>

theorem burst_then_refused:
  assumes "0 < burst" "burst \<le> 2 ^ 53"
  shows "fst (allow_calls (replicate k (key, t)) (newRateLimiter rpm burst ps)) = List.map (\<lambda>i. int i < burst) [0..<k]"
proof (cases k)
  case (Suc m)
  let ?new = "newRateLimiter rpm burst ps"
  let ?l = "trim t ?new"
  let ?l' = "?l\<lparr>l_clients := (l_clients ?l)(key \<mapsto> \<lparr>b_tokens = of_int (burst - 1), b_last = t\<rparr>)\<rparr>"
  have fl: "fl (of_int burst) = of_int burst" "fl (of_int (burst - 1)) = of_int (burst - 1)"
    using assms by (intro fl_of_int; simp)+
  have b: "l_burst ?l = of_int burst" "l_clients ?l key = None"
    using assms fl by (simp_all add: trim_def trim_clients_def newRateLimiter_def)
  then have "allow key t ?new = (True, ?l')" using fl by (simp add: allow_def Let_def)
  moreover have "fst (allow_calls (replicate m (key, t)) ?l') = List.map (\<lambda>i. int i < burst - 1) [0..<m]"
    using assms b trim_fresh [of t ?new] by (intro burst_rest [where B = burst]) auto
  ultimately show ?thesis using assms Suc by (auto simp: case_prod_beta map_upt_Suc simp del: upt_Suc)
qed simp

theorem burst_then_refused_witness:
  "fst (allow_calls (replicate 3 (''k'', 0)) (newRateLimiter 60 2 [])) = [True, True, False]"
  using burst_then_refused [of 2 3 "''k''" 0 60 "[]"] by (simp add: upt_conv_Cons)

text \<open>C37: whatever requests came before, a key is admitted again 60 seconds after the last of them,
  the time that the refusal announces in \<open>Retry-After\<close>; this holds for every rate, in the rounded
  arithmetic.\<close>

theorem waiting_client_is_admitted:
  assumes "sorted (List.map snd calls @ [t0])" "t0 + 60 * second \<le> t"
  shows "fst (allow key t (snd (allow_calls calls (newRateLimiter rpm burst ps))))"
  using new_after [OF assms(1)] assms(2) by (rule waiting_admitted)

theorem waiting_client_is_admitted_witness:
  "fst (allow ''k'' 60000000000 (snd (allow_calls [(''k'', 0), (''k'', 0)] (newRateLimiter 1 1 []))))"
  using waiting_client_is_admitted [of "[(''k'', 0), (''k'', 0)]" 0 60000000000 "''k''" 1 1 "[]"] by (simp add: second_def)

lemma sorted_snoc_last: "sorted xs \<Longrightarrow> sorted (xs @ [if xs = [] then 0 else last xs :: int])"
  by (induction xs rule: rev_induct) (auto simp: sorted_append)

text \<open>C38: while the clock does not run backwards, every bucket holds between zero and \<open>burst\<close> tokens,
  for every configuration.\<close>

theorem buckets_stay_in_range:
  assumes "sorted (List.map snd calls)" "l = snd (allow_calls calls (newRateLimiter rpm burst ps))"
    "l_clients l k = Some b"
  shows "0 \<le> b_tokens b \<and> b_tokens b \<le> l_burst l"
proof -
  from limiter_ok_bucket [OF new_after [OF sorted_snoc_last [OF assms(1)]]] assms(2,3) show ?thesis by blast
qed

theorem buckets_stay_in_range_witness:
  "\<exists>b. l_clients (snd (allow_calls [(''k'', 0)] (newRateLimiter 60 2 []))) ''k'' = Some b \<and> 0 \<le> b_tokens b \<and> b_tokens b \<le> 2"
proof -
  let ?l = "snd (allow_calls [(''k'', 0)] (newRateLimiter 60 2 []))"
  have "l_burst ?l = 2" "\<exists>b. l_clients ?l ''k'' = Some b"
    using fl_of_int [of 2] by (auto simp: allow_def Let_def trim_def trim_clients_def newRateLimiter_def)
  with buckets_stay_in_range [OF _ refl, of "[(''k'', 0)]" 60 2 "[]" "''k''"] show ?thesis by auto
qed

text \<open>C39: where the trusted proxies are addresses, a request whose connection comes from another
  address is counted under the address of the connection, whatever its \<open>X-Forwarded-For\<close> says.\<close>

theorem forwarded_header_needs_a_proxy:
  assumes "list_all (\<lambda>p. ParseIP (TrimSpace p) \<noteq> None) ps"
    "ParseIP (remote_host r) = Some ip" "Some ip \<notin> (\<lambda>p. ParseIP (TrimSpace p)) ` set ps"
  shows "clientKey (newRateLimiter rpm burst ps) r = IP_String ip"
  using assms literal_proxies [OF assms(1) ParseIP_length [OF assms(2)], of rpm burst] by (simp add: clientKey_def)

lemmas eval_address = ParseIP_def ParseAddr_def parseIPv4Fields_def octet_def is_digit_def digits_value_def

definition sample_request :: "string \<Rightarrow> string \<Rightarrow> http_request" where
  "sample_request remote forwarded = \<lparr>req_Method = ''GET'', req_Path = ''/token'', req_RawQuery = [], req_Body = OtherBody,
     req_RemoteAddr = remote, req_ForwardedFor = forwarded, req_Cookies = []\<rparr>"

lemma sample_remote:
  "ParseIP (remote_host (sample_request ''127.0.0.1:4000'' f)) = Some (v4InV6Prefix @ [127, 0, 0, 1])"
  by (simp add: remote_host_def sample_request_def SplitHost_def cut_last_def eval_address)

lemma sample_proxies:
  "ParseIP (TrimSpace ''127.0.0.1'') = Some (v4InV6Prefix @ [127, 0, 0, 1])"
  "ParseIP (TrimSpace ''10.0.0.1'') = Some (v4InV6Prefix @ [10, 0, 0, 1])"
  "ParseIP (TrimSpace ''198.51.100.1'') = Some (v4InV6Prefix @ [198, 51, 100, 1])"
  by (simp_all add: TrimSpace_def trim_chunks_def IsSpace_def ascii_char_def eval_address)

lemma v4InV6Prefix_nonempty: "v4InV6Prefix @ a \<noteq> []"
  by (simp add: v4InV6Prefix_def)

lemma sample_texts:
  "IP_String (v4InV6Prefix @ [127, 0, 0, 1]) = ''127.0.0.1''"
  "IP_String (v4InV6Prefix @ [198, 51, 100, 1]) = ''198.51.100.1''"
  by (simp_all add: IP_String_def dec_digits.simps char_of_eq_iff v4InV6Prefix_nonempty)

theorem forwarded_header_needs_a_proxy_witness:
  "clientKey (newRateLimiter 60 20 [''10.0.0.1'']) (sample_request ''127.0.0.1:4000'' ''198.51.100.1'') = ''127.0.0.1''"
  using forwarded_header_needs_a_proxy [OF _ sample_remote, where ps = "[''10.0.0.1'']" and rpm = 60 and burst = 20]
  by (simp add: sample_proxies sample_texts)

text \<open>C40: behind a trusted proxy the key is the leftmost entry of \<open>X-Forwarded-For\<close>, whatever follows
  it.  A proxy that appends the address of its client, as the nginx configuration of the README does,
  leaves that entry to the client, who so chooses the key its requests are counted under.\<close>

theorem leftmost_entry_is_the_key:
  assumes "ParseIP (remote_host r) = Some proxy" "proxyTrusted l proxy"
    "CHR '','' \<notin> set entry" "ParseIP (TrimSpace entry) = Some ip"
  shows "clientKey l (r\<lparr>req_ForwardedFor := entry @ CHR '','' # appended\<rparr>) = IP_String ip"
proof -
  have "split_on (CHR '','') (entry @ CHR '','' # appended) = entry # split_on (CHR '','') appended"
    using assms(3) by (induction entry) auto
  moreover have "remote_host (r\<lparr>req_ForwardedFor := f\<rparr>) = remote_host r" for f
    by (cases "SplitHost (req_RemoteAddr r)") (simp_all add: remote_host_def)
  ultimately show ?thesis using assms by (simp add: clientKey_def forwarded_client_def)
qed

theorem leftmost_entry_is_the_key_witness:
  "clientKey (newRateLimiter 60 20 [''127.0.0.1'']) (sample_request ''127.0.0.1:4000'' ''198.51.100.1, 203.0.113.9'') = ''198.51.100.1''"
proof -
  have t: "proxyTrusted (newRateLimiter 60 20 [''127.0.0.1'']) (v4InV6Prefix @ [127, 0, 0, 1])"
    using literal_proxies [of "[''127.0.0.1'']" "v4InV6Prefix @ [127, 0, 0, 1]" 60 20] by (simp add: sample_proxies) (simp add: v4InV6Prefix_def)
  from leftmost_entry_is_the_key [OF sample_remote t, of "''198.51.100.1''" _ "'' 203.0.113.9''"]
  show ?thesis by (simp add: sample_proxies sample_texts sample_request_def)
qed

end
