(* ===== verification/RouteProperties.thy ===== *)
theory RouteProperties
  imports Headers RateLimitProperties Examples
begin

text \<open>
  The properties of the server as it is assembled: serving is a run of the state machine, no handler of
  the login and token flow is reached around the rate limit, and a refused request changes nothing.
\<close>


text \<open>C26: whatever way its path is escaped, a request that reaches a handler of the state machine,
  other than the profile form and the profile pages, has a decoded path that the rate limit counts.\<close>

theorem flow_requests_are_limited:
  assumes "unescape encodePath escaped = Inr (req_Path r)" "mux_answer c escaped r = Inr ev"
    "ev \<noteq> ProfileUpdate r" "ev \<noteq> ProfilePage r"
  shows "limited (req_Path r)"
proof -
  have "routes_of ''CONNECT'' = []" by (simp add: routes_of_def Routes_def)
  then have connect: "match_route ''CONNECT'' p = None" for p
    using match_path_sound [of "[]" p "[]"] by (cases "match_path ([] :: (pattern_segment list \<times> route) list) p []")
      (auto simp: match_route_def)
  from assms(2) obtain rt ms where m: "match_route (req_Method r) escaped = Some (rt, ms)" "route_event c rt ms r = Inr ev"
      "req_Method r = ''CONNECT'' \<or> cleanPath escaped = escaped"
    by (auto simp: mux_answer_def Let_def split: option.splits if_splits)
  with connect have "hd escaped = CHR ''/''" using cleanPath_rooted [of escaped] by auto
  moreover have "rt \<notin> set unlimited_routes"
    using m(2) assms(3,4) by (cases rt) (auto simp: unlimited_routes_def)
  moreover obtain m' ss where "(m', ss, rt) \<in> set Routes" "segments_match ss escaped"
    using match_route_sound [OF m(1)] by blast
  ultimately show ?thesis using limited_route assms(1) by blast
qed

definition escaped_token :: http_request where
  "escaped_token = (post [])\<lparr>req_Path := ''/token''\<rparr>"

lemma escaped_token_answer: "mux_answer sample_config ''/%74oken'' escaped_token = Inr (Token escaped_token)"
proof -
  have "cleanPath ''/%74oken'' = ''/%74oken''" "match_route ''POST'' ''/%74oken'' = Some (TokenForm, [])"
    by code_simp+
  then show ?thesis by (simp add: mux_answer_def escaped_token_def post_def)
qed

theorem flow_requests_are_limited_witness: "limited ''/token''"
proof -
  have "unescape encodePath ''/%74oken'' = Inr ''/token''" by code_simp
  with flow_requests_are_limited [OF _ escaped_token_answer] show ?thesis by (simp add: escaped_token_def post_def)
qed

text \<open>C27: every response, refusals, redirects and errors included, carries \<open>nosniff\<close>, \<open>no-referrer\<close>,
  \<open>same-origin\<close> and one of the three content security policies of the server: no handler replaces a
  security header by anything else.\<close>

theorem responses_are_secured:
  "secured (fst (val_of (serve s escaped r l) w))"
  using keepsD [OF yields_serve [of s escaped r l], of w] by (simp add: case_prod_beta)

text \<open>A request that the limiter refuses is answered 429 with \<open>Retry-After: 60\<close>; nothing of the
  world changes but that the clock was read.\<close>

lemma refused_request_changes_nothing:
  assumes "rl_Enabled (RateLimit (cfg s))" "limited (req_Path r)" "\<not> fst (allow (limit_key l r) (clock w (ticks w)) l)"
  shows "world_of (serve s escaped r l) w = w\<lparr>ticks := Suc (ticks w)\<rparr> \<and>
    rsp_Status (fst (val_of (serve s escaped r l) w)) = 429 \<and>
    header (fst (val_of (serve s escaped r l) w)) ''Retry-After'' = Some ''60''"
  using assms
  by (simp add: serve_def securityHeaders_def rateLimit_def case_prod_beta Let_def with_headers_def http_Error_def reply_def
      header_def security_headers_def)

lemma refused_request_changes_nothing_witness:
  "rsp_Status (fst (val_of (serve sample_server ''/token'' escaped_token
     (snd (allow (''/token|'') 0 (newRateLimiter 60 1 [])))) sample_world)) = 429"
proof -
  let ?new = "newRateLimiter 60 1 []" and ?key = "''/token|''"
  let ?l = "snd (allow ?key 0 ?new)"
  have "\<not> fst (allow ?key 0 ?l)"
    using burst_then_refused [of 1 2 ?key 0 60 "[]"]
    by (simp add: upt_conv_Cons case_prod_beta numeral_2_eq_2)
  moreover have "limit_key ?l escaped_token = ?key"
    by (simp add: limit_key_def clientKey_def escaped_token_def post_def remote_host_def SplitHost_def cut_last_def ParseIP_def
        ParseAddr_def)
  ultimately show ?thesis
    using refused_request_changes_nothing [of sample_server escaped_token ?l sample_world "''/token''"] flow_requests_are_limited_witness
    by (simp add: escaped_token_def sample_config_def Default_def)
qed

end
