(* ===== verification/Migrations.thy ===== *)
theory Migrations
  imports Oidc StoreLaws
begin

text \<open>
  Opening the database: \<open>OpenSQLite\<close> and the migrations of \<open>sqlite.go\<close>.  The schema is what the statements
  make of it: the columns of each table in order, the indexes, and the rows of \<open>schema_migrations\<close> once that
  table exists.  Statements fail as those of \<^theory_text>\<open>Store\<close> do; a transaction restores the schema too.
\<close>

section \<open>Schemas and statements\<close>

record schema =
  s_tables :: "(string \<times> string list) list"
  s_indexes :: "string list"
  s_versions :: "(int \<times> string \<times> int) list option"

datatype ddl = CreateTable bool string "string list" | CreateIndex string string | AddColumn string string

definition exec_ddl :: "ddl \<Rightarrow> schema \<Rightarrow> schema result" where
  "exec_ddl stmt s =
     (case stmt of
        CreateTable if_not_exists t cols \<Rightarrow>
          (if map_of (s_tables s) t \<noteq> None
           then (if if_not_exists then Inr s else Inl (''SQL logic error: table '' @ t @ '' already exists (1)''))
           else Inr (s\<lparr>s_tables := s_tables s @ [(t, cols)]\<rparr>))
      | CreateIndex i t \<Rightarrow>
          (if map_of (s_tables s) t = None then Inl (''SQL logic error: no such table: main.'' @ t @ '' (1)'')
           else Inr (if i \<in> set (s_indexes s) then s else s\<lparr>s_indexes := s_indexes s @ [i]\<rparr>))
      | AddColumn t c \<Rightarrow>
          (case map_of (s_tables s) t of
             None \<Rightarrow> Inl (''SQL logic error: no such table: '' @ t @ '' (1)'')
           | Some cols \<Rightarrow>
               if c \<in> set cols then Inl (''SQL logic error: duplicate column name: '' @ c @ '' (1)'')
               else Inr (s\<lparr>s_tables := AList.update t (cols @ [c]) (s_tables s)\<rparr>)))"

definition isDuplicateColumnError :: "unicode_tables \<Rightarrow> string \<Rightarrow> bool" where
  "isDuplicateColumnError U e \<longleftrightarrow> Contains (ToLower U e) ''duplicate column''"

record schema_world = oidc_world +
  schema :: schema

text \<open>A statement on the schema, and any other step that may fail.\<close>

definition schema_sql :: "(schema \<Rightarrow> string + 'a \<times> schema) \<Rightarrow> ('w schema_world_scheme, 'a result) state" where
  "schema_sql f = State (\<lambda>w.
     case faults w (db_ops w) of
       Some e \<Rightarrow> (Inl e, w\<lparr>db_ops := Suc (db_ops w)\<rparr>)
     | None \<Rightarrow>
         (case f (schema w) of
            Inl e \<Rightarrow> (Inl e, w\<lparr>db_ops := Suc (db_ops w)\<rparr>)
          | Inr (x, s) \<Rightarrow> (Inr x, w\<lparr>db_ops := Suc (db_ops w), schema := s\<rparr>)))"

definition attempt :: "('w schema_world_scheme, unit result) state" where
  "attempt = schema_sql (\<lambda>s. Inr ((), s))"

definition schema_exec :: "ddl \<Rightarrow> ('w schema_world_scheme, unit result) state" where
  "schema_exec stmt = schema_sql (\<lambda>s. map_result (\<lambda>s'. ((), s')) (exec_ddl stmt s))"

section \<open>Migrations\<close>

text \<open>The statements of a migration, a duplicate column being no error.\<close>

fun exec_stmts :: "unicode_tables \<Rightarrow> ddl list \<Rightarrow> ('w schema_world_scheme, unit result) state" where
  "exec_stmts U [] = return (Inr ())"
| "exec_stmts U (stmt # stmts) = do {
     r \<leftarrow> schema_exec stmt;
     case r of
       Inl e \<Rightarrow> if \<not> isDuplicateColumnError U e then return (Inl e) else exec_stmts U stmts
     | Inr _ \<Rightarrow> exec_stmts U stmts
   }"

definition record_version :: "int \<Rightarrow> string \<Rightarrow> int \<Rightarrow> ('w schema_world_scheme, unit result) state" where
  "record_version version name u = schema_sql (\<lambda>s.
     case s_versions s of
       None \<Rightarrow> Inl ''SQL logic error: no such table: schema_migrations (1)''
     | Some rows \<Rightarrow>
         if version \<in> fst ` set rows then Inl ''constraint failed: UNIQUE constraint failed: schema_migrations.version''
         else Inr ((), s\<lparr>s_versions := Some (rows @ [(version, name, u)])\<rparr>))"

text \<open>The body of the transaction, which ends with the commit.\<close>

definition migration_body :: "unicode_tables \<Rightarrow> int \<Rightarrow> string \<Rightarrow> ddl list \<Rightarrow> ('w schema_world_scheme, unit result) state" where
  "migration_body U version name stmts = do {
     r \<leftarrow> exec_stmts U stmts;
     case r of
       Inl e \<Rightarrow> return (Inl e)
     | Inr _ \<Rightarrow> do {
         t \<leftarrow> now;
         i \<leftarrow> record_version version name (Unix t);
         case i of
           Inl e \<Rightarrow> return (Inl e)
         | Inr _ \<Rightarrow> attempt
       }
   }"

definition version_applied :: "int \<Rightarrow> ('w schema_world_scheme, bool result) state" where
  "version_applied version = schema_sql (\<lambda>s.
     case s_versions s of
       None \<Rightarrow> Inl ''SQL logic error: no such table: schema_migrations (1)''
     | Some rows \<Rightarrow> Inr (version \<in> fst ` set rows, s))"

definition applyMigration :: "unicode_tables \<Rightarrow> int \<Rightarrow> string \<Rightarrow> ddl list \<Rightarrow> ('w schema_world_scheme, unit result) state" where
  "applyMigration U version name stmts = do {
     q \<leftarrow> version_applied version;
     case q of
       Inl e \<Rightarrow> return (Inl e)
     | Inr found \<Rightarrow>
         if found then return (Inr ())
         else do {
           b \<leftarrow> attempt;
           case b of
             Inl e \<Rightarrow> return (Inl e)
           | Inr _ \<Rightarrow> do {
               snapshot \<leftarrow> gets schema;
               r \<leftarrow> migration_body U version name stmts;
               case r of
                 Inl e \<Rightarrow> do { modify (schema_update (\<lambda>_. snapshot)); return (Inl e) }
               | Inr _ \<Rightarrow> return (Inr ())
             }
         }
   }"

definition initial_schema :: "ddl list" where
  "initial_schema = [
     CreateTable True ''auth_requests'' [''id'', ''backend'', ''backend_state'', ''backend_state_value'', ''me'', ''client_id'',
       ''redirect_uri'', ''scope'', ''client_state'', ''code_challenge'', ''code_challenge_method'', ''profile_json'',
       ''expires_at'', ''created_at''],
     CreateIndex ''idx_auth_requests_backend_state'' ''auth_requests'',
     CreateTable True ''authorization_codes'' [''code_hash'', ''me'', ''client_id'', ''redirect_uri'', ''scope'', ''code_challenge'',
       ''code_challenge_method'', ''profile_json'', ''expires_at'', ''created_at'', ''used_at''],
     CreateTable True ''access_tokens'' [''token_hash'', ''me'', ''client_id'', ''scope'', ''profile_json'', ''expires_at'',
       ''created_at'', ''revoked_at''],
     CreateTable True ''consent_requests'' [''id'', ''csrf_token'', ''me'', ''client_id'', ''redirect_uri'', ''scope'',
       ''client_state'', ''code_challenge'', ''code_challenge_method'', ''profile_json'', ''subject'', ''expires_at'', ''created_at''],
     CreateTable True ''audit_events'' [''id'', ''event_type'', ''subject'', ''me'', ''client_id'', ''created_at'']]"

definition migrations :: "(int \<times> string \<times> ddl list) list" where
  "migrations = [
     (1, ''initial_schema'', initial_schema),
     (2, ''access_token_revocation'', [AddColumn ''access_tokens'' ''revoked_at'']),
     (3, ''managed_profiles'', [CreateTable False ''managed_profiles'' [''handle'', ''issuer'', ''subject'', ''display_name'',
        ''created_at'', ''updated_at'']]),
     (4, ''managed_profile_customization'', [AddColumn ''managed_profiles'' ''bio'', AddColumn ''managed_profiles'' ''website_url'',
        AddColumn ''managed_profiles'' ''accent'', AddColumn ''managed_profiles'' ''customized''])]"

fun apply_migrations :: "unicode_tables \<Rightarrow> (int \<times> string \<times> ddl list) list \<Rightarrow> ('w schema_world_scheme, unit result) state" where
  "apply_migrations U [] = return (Inr ())"
| "apply_migrations U ((version, name, stmts) # ms) = do {
     r \<leftarrow> applyMigration U version name stmts;
     case r of Inl e \<Rightarrow> return (Inl e) | Inr _ \<Rightarrow> apply_migrations U ms
   }"

text \<open>The two pragmas, the table of the versions, and the migrations.\<close>

definition create_versions :: "('w schema_world_scheme, unit result) state" where
  "create_versions = schema_sql (\<lambda>s. Inr ((), case s_versions s of None \<Rightarrow> s\<lparr>s_versions := Some []\<rparr> | Some _ \<Rightarrow> s))"

definition migrate :: "unicode_tables \<Rightarrow> ('w schema_world_scheme, unit result) state" where
  "migrate U = do {
     j \<leftarrow> attempt;
     if \<not> is_ok j then return j
     else do {
       f \<leftarrow> attempt;
       if \<not> is_ok f then return f
       else do {
         c \<leftarrow> create_versions;
         if \<not> is_ok c then return c else apply_migrations U migrations
       }
     }
   }"

text \<open>\<open>OpenSQLite\<close>: the directory is made and the file opened before the migrations.\<close>

definition OpenSQLite :: "unicode_tables \<Rightarrow> string \<Rightarrow> ('w schema_world_scheme, unit result) state" where
  "OpenSQLite U path = do {
     d \<leftarrow> (if path \<noteq> '':memory:'' then attempt else return (Inr ()));
     if \<not> is_ok d then return d
     else do {
       p \<leftarrow> attempt;
       if \<not> is_ok p then return p else migrate U
     }
   }"

text \<open>The rows are not touched by a statement on the schema; so opening the database leaves them.\<close>

lemma schema_sql_db [simp]: "db (world_of (schema_sql f) w) = db w"
  by (auto simp: schema_sql_def split: option.splits sum.splits)

lemma exec_stmts_db [simp]: "db (world_of (exec_stmts U stmts) w) = db w"
  by (induction stmts arbitrary: w) (auto simp: schema_exec_def case_prod_beta split: sum.splits)

lemma migration_body_db [simp]: "db (world_of (migration_body U version name stmts) w) = db w"
  by (auto simp: migration_body_def record_version_def attempt_def case_prod_beta split: sum.splits)

lemma applyMigration_db [simp]: "db (world_of (applyMigration U version name stmts) w) = db w"
  by (auto simp: applyMigration_def version_applied_def attempt_def case_prod_beta split: sum.splits)

lemma apply_migrations_db [simp]: "db (world_of (apply_migrations U ms) w) = db w"
  by (induction U ms arbitrary: w rule: apply_migrations.induct) (auto simp: case_prod_beta split: sum.splits)

lemma OpenSQLite_db: "db (world_of (OpenSQLite U path) w) = db w"
  by (auto simp: OpenSQLite_def migrate_def attempt_def create_versions_def case_prod_beta)

section \<open>The schemas of earlier releases\<close>

text \<open>The tables after the first \<open>k\<close> migrations; early releases created the tokens without \<open>revoked_at\<close>.\<close>

definition run_ddl :: "unicode_tables \<Rightarrow> ddl list \<Rightarrow> schema \<Rightarrow> schema option" where
  "run_ddl U stmts s = foldl (\<lambda>r stmt. case r of None \<Rightarrow> None | Some s \<Rightarrow>
     (case exec_ddl stmt s of Inr s' \<Rightarrow> Some s' | Inl e \<Rightarrow> if isDuplicateColumnError U e then Some s else None)) (Some s) stmts"

lemma run_ddl_simps [simp]:
  "run_ddl U [] s = Some s"
  "run_ddl U (stmt # stmts) s =
     (case exec_ddl stmt s of Inr s' \<Rightarrow> run_ddl U stmts s'
      | Inl e \<Rightarrow> if isDuplicateColumnError U e then run_ddl U stmts s else None)"
proof -
  have none: "foldl (\<lambda>r stmt. case r of None \<Rightarrow> None | Some s \<Rightarrow>
     (case exec_ddl stmt s of Inr s' \<Rightarrow> Some s' | Inl e \<Rightarrow> if isDuplicateColumnError U e then Some s else None)) None xs = None" for xs
    by (induction xs) auto
  show "run_ddl U [] s = Some s" by (simp add: run_ddl_def)
  show "run_ddl U (stmt # stmts) s =
     (case exec_ddl stmt s of Inr s' \<Rightarrow> run_ddl U stmts s'
      | Inl e \<Rightarrow> if isDuplicateColumnError U e then run_ddl U stmts s else None)"
    by (simp add: run_ddl_def none split: sum.splits)
qed


definition token_columns :: "string list" where
  "token_columns = [''token_hash'', ''me'', ''client_id'', ''scope'', ''profile_json'', ''expires_at'', ''created_at'']"

definition first_tables :: "bool \<Rightarrow> (string \<times> string list) list" where
  "first_tables old = concat (List.map (\<lambda>stmt. case stmt of
     CreateTable _ t cols \<Rightarrow> [(t, if t = ''access_tokens'' \<and> old then token_columns else cols)] | _ \<Rightarrow> []) initial_schema)"

definition profile_columns :: "string list" where
  "profile_columns = [''handle'', ''issuer'', ''subject'', ''display_name'', ''created_at'', ''updated_at'']"

definition tables_at :: "bool \<Rightarrow> nat \<Rightarrow> (string \<times> string list) list" where
  "tables_at old k =
     (if k = 0 then []
      else first_tables (old \<and> k = 1) @
        (if k < 3 then [] else [(''managed_profiles'', profile_columns @
          (if k = 3 then [] else [''bio'', ''website_url'', ''accent'', ''customized'']))]))"

definition at_version :: "nat \<Rightarrow> schema \<Rightarrow> bool" where
  "at_version k s \<longleftrightarrow> k \<le> 4 \<and> (\<exists>old. s_tables s = tables_at old k) \<and>
     s_indexes s = (if k = 0 then [] else [''idx_auth_requests_backend_state'']) \<and>
     (case s_versions s of None \<Rightarrow> k = 0 | Some rows \<Rightarrow> List.map fst rows = List.map int [1..<Suc k])"

lemma duplicate_revoked: "isDuplicateColumnError U ''SQL logic error: duplicate column name: revoked_at (1)''"
  by (simp add: isDuplicateColumnError_def ToLower_ascii ascii_char_def ascii_lower_rune_def HasPrefix_def char_of_eq_iff)

lemma run_migration:
  assumes "at_version k s" "k < 4" "migrations ! k = (v, name, stmts)"
  shows "\<exists>s'. run_ddl U stmts s = Some s' \<and> s_versions s' = s_versions s \<and> v = int (Suc k) \<and>
    (\<exists>old. s_tables s' = tables_at old (Suc k)) \<and> s_indexes s' = [''idx_auth_requests_backend_state'']"
proof -
  from assms(1) obtain old where t: "s_tables s = tables_at old k"
    "s_indexes s = (if k = 0 then [] else [''idx_auth_requests_backend_state''])"
    by (auto simp: at_version_def)
  note defs = migrations_def tables_at_def first_tables_def initial_schema_def exec_ddl_def token_columns_def profile_columns_def
  from assms(2) consider "k = 0" | "k = 1" | "k = 2" | "k = 3" by linarith
  then show ?thesis
  proof cases
    case 1
    with assms(3) t show ?thesis by (auto simp: defs intro: exI [of _ False])
  next
    case 2
    with assms(3) t duplicate_revoked [of U] show ?thesis by (cases old) (auto simp: defs intro: exI [of _ False])
  next
    case 3
    with assms(3) t show ?thesis by (auto simp: defs intro: exI [of _ False])
  next
    case 4
    with assms(3) t show ?thesis by (auto simp: defs intro: exI [of _ False])
  qed
qed


section \<open>Runs of the migrations\<close>

lemma run_schema_sql [simp]:
  "run (schema_sql f) w =
     (case faults w (db_ops w) of
        Some e \<Rightarrow> (Inl e, w\<lparr>db_ops := Suc (db_ops w)\<rparr>)
      | None \<Rightarrow>
          (case f (schema w) of
             Inl e \<Rightarrow> (Inl e, w\<lparr>db_ops := Suc (db_ops w)\<rparr>)
           | Inr (x, s) \<Rightarrow> (Inr x, w\<lparr>db_ops := Suc (db_ops w), schema := s\<rparr>)))"
  by (simp add: schema_sql_def)

text \<open>No failure from outside passes for a duplicate column.\<close>

definition quiet :: "unicode_tables \<Rightarrow> 'w schema_world_scheme \<Rightarrow> bool" where
  "quiet U w \<longleftrightarrow> (\<forall>n e. faults w n = Some e \<longrightarrow> \<not> isDuplicateColumnError U e)"

lemma healthy_quiet: "healthy w \<Longrightarrow> quiet U w"
  by (simp add: quiet_def)

lemma quiet_cong: "faults w' = faults w \<Longrightarrow> quiet U w' = quiet U w"
  by (simp add: quiet_def)

lemma schema_sql_faults [simp]: "faults (world_of (schema_sql f) w) = faults w"
  by (simp split: option.splits sum.splits)

lemma exec_stmts_faults [simp]: "faults (world_of (exec_stmts U stmts) w) = faults w"
proof (induction stmts arbitrary: w)
  case (Cons stmt stmts)
  show ?case
    by (cases "val_of (schema_exec stmt) w")
      (simp_all only: exec_stmts.simps world_of_bind sum.case Cons.IH if_distrib [of "\<lambda>m. faults (world_of m _)"]
        schema_exec_def schema_sql_faults run_state_return snd_conv if_cancel cong: if_cong)
qed simp

lemma exec_stmts_run:
  assumes "quiet U w" "val_of (exec_stmts U stmts) w = Inr ()"
  shows "run_ddl U stmts (schema w) = Some (schema (world_of (exec_stmts U stmts) w))"
  using assms
proof (induction stmts arbitrary: w)
  case (Cons stmt stmts)
  show ?case
  proof (cases "faults w (db_ops w)")
    case None
    let ?w = "w\<lparr>db_ops := Suc (db_ops w)\<rparr>"
    have "quiet U ?w" "quiet U (?w\<lparr>schema := s\<rparr>)" for s using Cons.prems(1) by (simp_all add: quiet_def)
    with None Cons.prems(2) Cons.IH [of ?w] Cons.IH [of "?w\<lparr>schema := s\<rparr>" for s] show ?thesis
      by (cases "exec_ddl stmt (schema w)") (auto simp: schema_exec_def split: if_splits)
  next
    case (Some e)
    with Cons.prems show ?thesis by (auto simp: schema_exec_def quiet_def)
  qed
qed simp

lemma exec_stmts_healthy:
  "healthy w \<Longrightarrow> run_ddl U stmts (schema w) = Some s \<Longrightarrow> val_of (exec_stmts U stmts) w = Inr ()"
proof (induction stmts arbitrary: w)
  case (Cons stmt stmts)
  let ?w = "w\<lparr>db_ops := Suc (db_ops w)\<rparr>"
  have "healthy ?w" "healthy (?w\<lparr>schema := s\<rparr>)" for s using Cons.prems(1) by (simp_all add: healthy_def)
  with Cons.prems Cons.IH [of ?w] Cons.IH [of "?w\<lparr>schema := s\<rparr>" for s] show ?case
    by (cases "exec_ddl stmt (schema w)") (auto simp: schema_exec_def split: if_splits)
qed simp


lemma migration_body_at:
  assumes at: "at_version k (schema w)" "k < 4" "migrations ! k = (v, name, stmts)" "s_versions (schema w) = Some rows"
    and "quiet U w"
  shows "val_of (migration_body U v name stmts) w = Inr () \<Longrightarrow> at_version (Suc k) (schema (world_of (migration_body U v name stmts) w)) \<and>
      s_versions (schema (world_of (migration_body U v name stmts) w)) \<noteq> None"
    and "healthy w \<Longrightarrow> val_of (migration_body U v name stmts) w = Inr ()"
proof -
  obtain s' where s': "run_ddl U stmts (schema w) = Some s'" "s_versions s' = Some rows" "v = int (Suc k)"
    "\<exists>old. s_tables s' = tables_at old (Suc k)" "s_indexes s' = [''idx_auth_requests_backend_state'']"
    using run_migration [OF at(1-3), of U] at(4) by auto
  have rows: "List.map fst rows = List.map int [1..<Suc k]" using at(1,4) by (simp add: at_version_def)
  then have "fst ` set rows = int ` {1..<Suc k}" by (metis list.set_map set_upt)
  then have new: "v \<notin> fst ` set rows" using s'(3) by auto
  let ?w = "world_of (exec_stmts U stmts) w"
  have good: "at_version (Suc k) (s'\<lparr>s_versions := Some (rows @ [(v, name, u)])\<rparr>)" for u
    using s' rows at(2) by (simp add: at_version_def)
  have w': "schema ?w = s'" if "val_of (exec_stmts U stmts) w = Inr ()"
    using exec_stmts_run [OF assms(5) that] s'(1) by simp
  show "at_version (Suc k) (schema (world_of (migration_body U v name stmts) w)) \<and>
      s_versions (schema (world_of (migration_body U v name stmts) w)) \<noteq> None"
    if "val_of (migration_body U v name stmts) w = Inr ()"
  proof (cases "val_of (exec_stmts U stmts) w")
    case (Inl e)
    with that show ?thesis by (simp add: migration_body_def case_prod_beta)
  next
    case (Inr x)
    with that w' s'(2) new good show ?thesis
      by (auto simp: migration_body_def record_version_def attempt_def case_prod_beta split: option.splits)
  qed
  show "val_of (migration_body U v name stmts) w = Inr ()" if "healthy w"
  proof -
    have x: "val_of (exec_stmts U stmts) w = Inr ()" using exec_stmts_healthy [OF that s'(1)] .
    moreover have "faults ?w = faults w" by simp
    ultimately show ?thesis using that w' s'(2) new
      by (simp add: migration_body_def record_version_def attempt_def case_prod_beta healthy_def)
  qed
qed


lemma migration_body_faults [simp]: "faults (world_of (migration_body U v name stmts) w) = faults w"
proof -
  have "faults (world_of (case r of Inl e \<Rightarrow> return (Inl e) | Inr _ \<Rightarrow> do {
         t \<leftarrow> now;
         i \<leftarrow> record_version v name (Unix t);
         case i of Inl e \<Rightarrow> return (Inl e) | Inr _ \<Rightarrow> attempt
       }) w') = faults w'" for r :: "unit result" and w' :: "'a schema_world_scheme"
    by (cases r) (auto simp: record_version_def attempt_def case_prod_beta split: option.splits sum.splits)
  then show ?thesis by (simp add: migration_body_def world_of_bind del: run_state_bind)
qed

lemma migration_number: "k < 4 \<Longrightarrow> migrations ! k = (v, name, stmts) \<Longrightarrow> v = int (Suc k)"
  by (auto simp: migrations_def less_Suc_eq numeral_eq_Suc)

text \<open>A migration takes a schema at its predecessor, or one that already has it, to one that has it.\<close>

lemma applyMigration_at:
  assumes at: "at_version k (schema w)" "m \<le> k" "m < 4" "migrations ! m = (v, name, stmts)" "s_versions (schema w) \<noteq> None"
    and q: "quiet U w"
  defines "w' \<equiv> world_of (applyMigration U v name stmts) w" and "r \<equiv> val_of (applyMigration U v name stmts) w"
  shows "faults w' = faults w \<and> (case r of Inl e \<Rightarrow> schema w' = schema w | Inr _ \<Rightarrow> at_version (max k (Suc m)) (schema w') \<and>
      s_versions (schema w') \<noteq> None) \<and> (healthy w \<longrightarrow> r = Inr ())"
proof -
  obtain rows where rows: "s_versions (schema w) = Some rows" using at(5) by auto
  have v: "v = int (Suc m)" using migration_number at(3,4) by blast
  have "List.map fst rows = List.map int [1..<Suc k]" using at(1) rows by (simp add: at_version_def)
  then have "fst ` set rows = int ` {1..<Suc k}" by (metis list.set_map set_upt)
  then have found: "v \<in> fst ` set rows \<longleftrightarrow> m < k" using v by (auto simp: image_iff intro: bexI [of _ "Suc m"])
  let ?w = "w\<lparr>db_ops := Suc (Suc (db_ops w))\<rparr>"
  show ?thesis
  proof (cases "faults w (db_ops w) = None \<and> \<not> m < k \<and> faults w (Suc (db_ops w)) = None")
    case False
    have "m < k \<Longrightarrow> max k (Suc m) = k" by simp
    with False show ?thesis
      using found rows at(1) by (auto simp: w'_def r_def applyMigration_def version_applied_def attempt_def
          healthy_def split: option.splits)
  next
    case True
    then have k: "k = m" using at(2) by simp
    have "quiet U ?w" using q by (simp add: quiet_def)
    note body = migration_body_at [of k ?w v name stmts rows U, OF _ _ _ _ this]
    have hw: "healthy w \<Longrightarrow> healthy ?w" by (simp add: healthy_def)
    have run: "run (applyMigration U v name stmts) w =
        (case run (migration_body U v name stmts) ?w of
           (Inl e, v') \<Rightarrow> (Inl e, v'\<lparr>schema := schema w\<rparr>) | (Inr x, v') \<Rightarrow> (Inr (), v'))"
      using True found rows by (simp add: applyMigration_def version_applied_def attempt_def case_prod_beta split: sum.splits)
    show ?thesis
    proof (cases "val_of (migration_body U v name stmts) ?w")
      case (Inl e)
      then have "\<not> healthy w" using body(2) hw at k rows by auto
      with Inl run show ?thesis by (auto simp: w'_def r_def case_prod_beta)
    next
      case (Inr x)
      then show ?thesis using run body(1) at k rows by (auto simp: w'_def r_def case_prod_beta)
    qed
  qed
qed


lemma apply_migrations_at:
  assumes "at_version k (schema w)" "m \<le> k" "m \<le> 4" "s_versions (schema w) \<noteq> None" "quiet U w"
  shows "\<exists>k' \<ge> k. at_version k' (schema (world_of (apply_migrations U (drop m migrations)) w)) \<and>
     (val_of (apply_migrations U (drop m migrations)) w = Inr () \<longrightarrow> k' = 4) \<and>
     (healthy w \<longrightarrow> val_of (apply_migrations U (drop m migrations)) w = Inr ())"
  using assms
proof (induction "4 - m" arbitrary: m k w)
  case 0
  then have "m = 4" "k = 4" by (auto simp: at_version_def)
  with 0 show ?case by (intro exI [of _ 4]) (simp add: migrations_def)
next
  case (Suc n)
  then have m: "m < 4" by simp
  obtain v name stmts where mig: "migrations ! m = (v, name, stmts)" by (metis prod_cases3)
  have drop: "drop m migrations = (v, name, stmts) # drop (Suc m) migrations"
    using m mig Cons_nth_drop_Suc [of m migrations] by (simp add: migrations_def)
  let ?w = "world_of (applyMigration U v name stmts) w"
  note step = applyMigration_at [OF Suc.prems(1,2) m mig Suc.prems(4,5)]
  show ?case
  proof (cases "val_of (applyMigration U v name stmts) w")
    case (Inl e)
    with step Suc.prems(1) show ?thesis by (intro exI [of _ k]) (simp add: drop case_prod_beta)
  next
    case (Inr x)
    let ?k = "max k (Suc m)"
    have at: "at_version ?k (schema ?w)" "s_versions (schema ?w) \<noteq> None" "quiet U ?w" "healthy w \<Longrightarrow> healthy ?w"
      using step Inr Suc.prems(5) by (auto simp: quiet_def healthy_def)
    have "n = 4 - Suc m" using Suc.hyps(2) by simp
    from Suc.hyps(1) [OF this at(1) _ _ at(2,3)] m obtain k' where "k' \<ge> ?k" "at_version k' (schema (world_of (apply_migrations U (drop (Suc m) migrations)) ?w))"
      "val_of (apply_migrations U (drop (Suc m) migrations)) ?w = Inr () \<longrightarrow> k' = 4"
      "healthy ?w \<longrightarrow> val_of (apply_migrations U (drop (Suc m) migrations)) ?w = Inr ()"
      by auto
    with Inr at(4) show ?thesis by (intro exI [of _ k']) (auto simp: drop case_prod_beta)
  qed
qed

lemma attempt_run: "schema (world_of attempt w) = schema w" "faults (world_of attempt w) = faults w"
  "healthy w \<Longrightarrow> val_of attempt w = Inr ()"
  by (simp_all add: attempt_def split: option.splits)

lemma create_versions_at:
  assumes "at_version k (schema w)"
  shows "at_version k (schema (world_of create_versions w))" "faults (world_of create_versions w) = faults w"
    "is_ok (val_of create_versions w) \<Longrightarrow> s_versions (schema (world_of create_versions w)) \<noteq> None"
    "healthy w \<Longrightarrow> val_of create_versions w = Inr ()"
  using assms by (auto simp: create_versions_def at_version_def split: option.splits)

definition reaches_version :: "('w schema_world_scheme, unit result) state \<Rightarrow> 'w schema_world_scheme \<Rightarrow> nat \<Rightarrow> bool" where
  "reaches_version m w k \<longleftrightarrow> (\<exists>k' \<ge> k. at_version k' (schema (world_of m w)) \<and> (val_of m w = Inr () \<longrightarrow> k' = 4)) \<and>
     (healthy w \<longrightarrow> val_of m w = Inr ())"

text \<open>A step that may fail without touching the schema, before the rest.\<close>

lemma reaches_after:
  assumes "at_version k (schema w)" "\<And>x. schema (world_of s w) = schema w" "healthy w \<Longrightarrow> is_ok (val_of s w)"
    "healthy w \<Longrightarrow> healthy (world_of s w)"
    "is_ok (val_of s w) \<Longrightarrow> reaches_version m (world_of s w) k"
  shows "reaches_version (s \<bind> (\<lambda>r. if \<not> is_ok r then return r else m)) w k"
  using assms by (cases "val_of s w") (auto simp: reaches_version_def case_prod_beta)

lemma migrate_reaches:
  assumes "at_version k (schema w)" "quiet U w"
  shows "reaches_version (migrate U) w k"
proof -
  have 3: "reaches_version (create_versions \<bind> (\<lambda>c. if \<not> is_ok c then return c else apply_migrations U migrations)) w k"
    if "at_version k (schema w)" "quiet U w" for w :: "'a schema_world_scheme"
  proof (cases "val_of create_versions w")
    case (Inl e)
    then show ?thesis using create_versions_at [OF that(1)] by (auto simp: reaches_version_def case_prod_beta)
  next
    case (Inr x)
    let ?w = "world_of create_versions w"
    have "at_version k (schema ?w)" "s_versions (schema ?w) \<noteq> None" "quiet U ?w" "healthy w \<Longrightarrow> healthy ?w"
      using create_versions_at [OF that(1)] Inr that(2) by (auto simp: quiet_def healthy_def)
    with apply_migrations_at [of k ?w 0 U] Inr show ?thesis
      by (auto simp: reaches_version_def case_prod_beta)
  qed
  have 2: "reaches_version (attempt \<bind> (\<lambda>f. if \<not> is_ok f then return f else
      create_versions \<bind> (\<lambda>c. if \<not> is_ok c then return c else apply_migrations U migrations))) w k"
    if "at_version k (schema w)" "quiet U w" for w :: "'a schema_world_scheme"
    using that attempt_run [of w] by (intro reaches_after 3) (auto simp: quiet_def healthy_def)
  show ?thesis
    unfolding migrate_def using assms attempt_run [of w] by (intro reaches_after 2) (auto simp: quiet_def healthy_def)
qed

lemma OpenSQLite_reaches:
  assumes "at_version k (schema w)" "quiet U w"
  shows "reaches_version (OpenSQLite U path) w k"
proof -
  have 2: "reaches_version (attempt \<bind> (\<lambda>p. if \<not> is_ok p then return p else migrate U)) w k"
    if "at_version k (schema w)" "quiet U w" for w :: "'a schema_world_scheme"
    using that attempt_run [of w] by (intro reaches_after migrate_reaches) (auto simp: quiet_def healthy_def)
  show ?thesis
    unfolding OpenSQLite_def using assms attempt_run [of w]
    by (intro reaches_after 2) (auto simp: quiet_def healthy_def)
qed

end
