(* ===== verification/Durations.thy ===== *)
theory Durations
  imports Config Float64 JsonRoundTrip
begin

text \<open>
  The durations of the configuration file: \<open>time.ParseDuration\<close>, which \<open>Duration.UnmarshalYAML\<close> applies to
  the text of the node, and \<open>Duration.String\<close>, which \<open>MarshalYAML\<close> writes.  An error carries what its message
  is formatted from.  The unsigned 64-bit sums are natural numbers with the wrap-around written out.
\<close>

section \<open>Parsing\<close>

datatype duration_error = InvalidDuration | MissingUnit | UnknownUnit string

text \<open>The leading digits, an error when their value exceeds \<open>1<<63\<close>.\<close>

fun leadingInt :: "nat \<Rightarrow> string \<Rightarrow> (nat \<times> string) option" where
  "leadingInt x [] = Some (x, [])"
| "leadingInt x (c # cs) =
     (if \<not> is_dec c then Some (x, c # cs)
      else if x > 2 ^ 63 div 10 then None
      else let y = x * 10 + (ord c - 48) in if y > 2 ^ 63 then None else leadingInt y cs)"

text \<open>The digits of a fraction, those that do not fit being skipped, with the scale as a float.\<close>

fun leadingFraction :: "nat \<Rightarrow> rat \<Rightarrow> bool \<Rightarrow> string \<Rightarrow> nat \<times> rat \<times> string" where
  "leadingFraction x scale overflow [] = (x, scale, [])"
| "leadingFraction x scale overflow (c # cs) =
     (if \<not> is_dec c then (x, scale, c # cs)
      else if overflow then leadingFraction x scale overflow cs
      else if x > (2 ^ 63 - 1) div 10 then leadingFraction x scale True cs
      else let y = x * 10 + (ord c - 48)
           in if y > 2 ^ 63 then leadingFraction x scale True cs else leadingFraction y (fl (scale * 10)) False cs)"

definition unitMap :: "(string \<times> nat) list" where
  "unitMap = [(''ns'', 1), (''us'', 10 ^ 3), ([chr 194, chr 181, CHR ''s''], 10 ^ 3), ([chr 206, chr 188, CHR ''s''], 10 ^ 3),
     (''ms'', 10 ^ 6), (''s'', 10 ^ 9), (''m'', 60 * 10 ^ 9), (''h'', 3600 * 10 ^ 9)]"

definition number_char :: "char \<Rightarrow> bool" where
  "number_char c \<longleftrightarrow> c = CHR ''.'' \<or> is_dec c"

definition fraction_of :: "string \<Rightarrow> nat \<times> rat \<times> string \<times> bool" where
  "fraction_of s =
     (case s of
        c # cs \<Rightarrow>
          (if c = CHR ''.''
           then (case leadingFraction 0 1 False cs of (f, scale, rest) \<Rightarrow> (f, scale, rest, length rest \<noteq> length cs))
           else (0, 1, s, False))
      | [] \<Rightarrow> (0, 1, [], False))"

definition scaled :: "nat \<Rightarrow> nat \<Rightarrow> nat \<Rightarrow> rat \<Rightarrow> nat" where
  "scaled v unit f scale =
     (if f > 0 then v * unit + nat \<lfloor>fl (fl (of_nat f) * fl (fl (of_nat unit) / scale))\<rfloor> else v * unit)"

text \<open>One number with its unit: its value in nanoseconds and what follows.\<close>

definition parse_item :: "string \<Rightarrow> duration_error + nat \<times> string" where
  "parse_item s =
     (if s = [] \<or> \<not> number_char (hd s) then Inl InvalidDuration
      else (case leadingInt 0 s of
          None \<Rightarrow> Inl InvalidDuration
        | Some (v, s1) \<Rightarrow>
            (case fraction_of s1 of
               (f, scale, s2, post) \<Rightarrow>
                 if length s1 = length s \<and> \<not> post then Inl InvalidDuration
                 else if takeWhile (\<lambda>c. \<not> number_char c) s2 = [] then Inl MissingUnit
                 else (case map_of unitMap (takeWhile (\<lambda>c. \<not> number_char c) s2) of
                     None \<Rightarrow> Inl (UnknownUnit (takeWhile (\<lambda>c. \<not> number_char c) s2))
                   | Some unit \<Rightarrow>
                       if v > 2 ^ 63 div unit then Inl InvalidDuration
                       else if f > 0 \<and> scaled v unit f scale > 2 ^ 63 then Inl InvalidDuration
                       else Inr (scaled v unit f scale, dropWhile (\<lambda>c. \<not> number_char c) s2)))))"

lemma leadingInt_length: "leadingInt x s = Some (v, r) \<Longrightarrow> length r \<le> length s"
  by (induction x s rule: leadingInt.induct) (auto simp: Let_def split: if_splits)

lemma leadingFraction_length: "leadingFraction x sc b s = (v, sc', r) \<Longrightarrow> length r \<le> length s"
proof (induction s arbitrary: x sc b)
  case (Cons c cs)
  then show ?case by (fastforce simp: Let_def split: if_splits intro: le_SucI)
qed simp

lemma fraction_of_length: "fraction_of s = (f, sc, r, b) \<Longrightarrow> length r \<le> length s"
  using leadingFraction_length by (fastforce simp: fraction_of_def split: list.splits if_splits prod.splits)

lemma parse_item_length:
  assumes "parse_item s = Inr (v, rest)" shows "length rest < length s"
proof -
  obtain n s1 f sc s2 post where *: "leadingInt 0 s = Some (n, s1)" "fraction_of s1 = (f, sc, s2, post)"
    "takeWhile (\<lambda>c. \<not> number_char c) s2 \<noteq> []" "rest = dropWhile (\<lambda>c. \<not> number_char c) s2"
    using assms by (auto simp: parse_item_def split: if_splits option.splits prod.splits)
  have "length (takeWhile (\<lambda>c. \<not> number_char c) s2) + length rest = length s2"
    using takeWhile_dropWhile_id [of "\<lambda>c. \<not> number_char c" s2] *(4) by (metis length_append)
  moreover have "0 < length (takeWhile (\<lambda>c. \<not> number_char c) s2)" using *(3) by simp
  ultimately show ?thesis using leadingInt_length [OF *(1)] fraction_of_length [OF *(2)] by linarith
qed

text \<open>The loop over the items; the sum wraps at 64 bits before it is compared.\<close>

function parse_sum :: "nat \<Rightarrow> string \<Rightarrow> duration_error + nat" where
  "parse_sum d s =
     (if s = [] then Inr d
      else (case parse_item s of
          Inl e \<Rightarrow> Inl e
        | Inr (v, rest) \<Rightarrow>
            if (d + v) mod 2 ^ 64 > 2 ^ 63 then Inl InvalidDuration else parse_sum ((d + v) mod 2 ^ 64) rest))"
  by pat_completeness auto
termination
  by (relation "measure (\<lambda>(d, s). length s)") (auto dest: parse_item_length)

declare parse_sum.simps [simp del]

definition ParseDuration :: "string \<Rightarrow> duration_error + duration" where
  "ParseDuration s =
     (let (neg, body) = (case s of
            c # cs \<Rightarrow> if c = CHR ''-'' \<or> c = CHR ''+'' then (c = CHR ''-'', cs) else (False, s)
          | [] \<Rightarrow> (False, []))
      in if body = ''0'' then Inr 0
         else if body = [] then Inl InvalidDuration
         else (case parse_sum 0 body of
             Inl e \<Rightarrow> Inl e
           | Inr d \<Rightarrow> if neg then Inr (- int d) else if d > 2 ^ 63 - 1 then Inl InvalidDuration else Inr (int d)))"

text \<open>\<open>decode\<close> is what the YAML library does to make a text of a node.\<close>

datatype unmarshal_error = NotText string | BadDuration duration_error

definition UnmarshalYAML :: "('node \<Rightarrow> string + string) \<Rightarrow> 'node \<Rightarrow> unmarshal_error + duration" where
  "UnmarshalYAML decode value =
     (case decode value of
        Inl e \<Rightarrow> Inl (NotText e)
      | Inr s \<Rightarrow> (case ParseDuration s of Inl e \<Rightarrow> Inl (BadDuration e) | Inr parsed \<Rightarrow> Inr parsed))"

section \<open>Printing\<close>

text \<open>The digits of a fraction, from the last one, without trailing zeros.\<close>

fun fmtFrac :: "nat \<Rightarrow> nat \<Rightarrow> bool \<Rightarrow> string \<Rightarrow> string \<times> nat" where
  "fmtFrac 0 v print acc = (if print then CHR ''.'' # acc else acc, v)"
| "fmtFrac (Suc i) v print acc =
     (let digit = v mod 10; print' = (print \<or> digit \<noteq> 0)
      in fmtFrac i (v div 10) print' (if print' then chr (48 + digit) # acc else acc))"

definition micro :: string where
  "micro = [chr 194, chr 181]"

definition with_fraction :: "nat \<Rightarrow> nat \<Rightarrow> string \<Rightarrow> string" where
  "with_fraction u prec unit = (case fmtFrac prec u False [] of (fr, v) \<Rightarrow> dec_digits v @ fr @ unit)"

definition hours_minutes :: "nat \<Rightarrow> string" where
  "hours_minutes secs =
     (let mins = secs div 60 in
      if mins = 0 then []
      else (if mins div 60 = 0 then [] else dec_digits (mins div 60) @ ''h'') @ dec_digits (mins mod 60) @ ''m'')"

definition format_duration :: "nat \<Rightarrow> string" where
  "format_duration u =
     (if u = 0 then ''0s''
      else if u < 10 ^ 3 then with_fraction u 0 ''ns''
      else if u < 10 ^ 6 then with_fraction u 3 (micro @ ''s'')
      else if u < 10 ^ 9 then with_fraction u 6 ''ms''
      else (case fmtFrac 9 u False [] of (fr, secs) \<Rightarrow> hours_minutes secs @ dec_digits (secs mod 60) @ fr @ ''s''))"

definition Duration_String :: "duration \<Rightarrow> string" where
  "Duration_String d = (if d < 0 then CHR ''-'' # format_duration (nat (- d)) else format_duration (nat d))"

definition MarshalYAML :: "duration \<Rightarrow> string" where
  "MarshalYAML d = Duration_String d"

section \<open>Reading back what was printed\<close>

lemma is_dec_digit [simp]: "n < 10 \<Longrightarrow> is_dec (chr (48 + n))" "n < 10 \<Longrightarrow> ord (chr (48 + n)) - 48 = n"
  by (simp_all add: is_dec_def)

lemma is_dec_bound: "is_dec c \<Longrightarrow> ord c - 48 \<le> 9"
  unfolding is_dec_def by arith

lemma dec_value_snoc_foldl: "foldl (\<lambda>n c. 10 * n + (ord c - 48)) x ds = x * 10 ^ length ds + dec_value ds"
proof (induction ds rule: rev_induct)
  case (snoc c ds)
  then show ?case by (simp add: dec_value_append algebra_simps)
qed (simp add: dec_value_def)

lemma dec_value_Cons: "dec_value (c # ds) = (ord c - 48) * 10 ^ length ds + dec_value ds"
  using dec_value_snoc_foldl [of "ord c - 48" ds] by (simp add: dec_value_def)

lemma dec_value_less: "list_all is_dec ds \<Longrightarrow> dec_value ds < 10 ^ length ds"
proof (induction ds)
  case (Cons c ds)
  then have "ord c - 48 \<le> 9" by (simp add: is_dec_bound)
  then have "(ord c - 48) * 10 ^ length ds \<le> 9 * 10 ^ length ds" by (rule mult_right_mono) simp
  moreover have "dec_value ds < 10 ^ length ds" using Cons by simp
  ultimately show ?case unfolding dec_value_Cons list.size(4) by (simp only: add_Suc_right add_0_right power_Suc)
qed (simp add: dec_value_def)

text \<open>The digits of a fraction.\<close>

lemma fmtFrac_digits:
  "\<exists>ds. length ds = i \<and> list_all is_dec ds \<and> dec_value ds = v mod 10 ^ i \<and> fmtFrac i v True acc = (CHR ''.'' # ds @ acc, v div 10 ^ i)"
proof (induction i arbitrary: v acc)
  case (Suc i)
  obtain ds where ds: "length ds = i" "list_all is_dec ds" "dec_value ds = (v div 10) mod 10 ^ i"
    "fmtFrac i (v div 10) True (chr (48 + v mod 10) # acc) = (CHR ''.'' # ds @ chr (48 + v mod 10) # acc, v div 10 div 10 ^ i)"
    using Suc by blast
  have "dec_value (ds @ [chr (48 + v mod 10)]) = v mod 10 ^ Suc i"
    using ds(3) by (simp add: dec_value_append mod_mult2_eq)
  with ds show ?case
    by (intro exI [of _ "ds @ [chr (48 + v mod 10)]"]) (simp add: Let_def div_mult2_eq)
qed (simp add: dec_value_def)

lemma fmtFrac_zero: "v mod 10 ^ i = 0 \<Longrightarrow> fmtFrac i v False [] = ([], v div 10 ^ i)"
proof (induction i arbitrary: v)
  case (Suc i)
  then have "v mod 10 = 0" "(v div 10) mod 10 ^ i = 0"
    by (auto simp: mod_mult2_eq)
  with Suc.IH show ?case by (simp add: Let_def div_mult2_eq)
qed simp

lemma fmtFrac_fraction:
  assumes "v mod 10 ^ i \<noteq> 0"
  shows "\<exists>ds. ds \<noteq> [] \<and> length ds \<le> i \<and> list_all is_dec ds \<and> dec_value ds * 10 ^ (i - length ds) = v mod 10 ^ i \<and>
    fmtFrac i v False [] = (CHR ''.'' # ds, v div 10 ^ i)"
  using assms
proof (induction i arbitrary: v)
  case (Suc i)
  show ?case
  proof (cases "v mod 10 = 0")
    case True
    then have m: "v mod 10 ^ Suc i = 10 * ((v div 10) mod 10 ^ i)" by (simp add: mod_mult2_eq)
    with Suc.prems have "(v div 10) mod 10 ^ i \<noteq> 0" by simp
    from Suc.IH [OF this] obtain ds where "ds \<noteq> []" "length ds \<le> i" "list_all is_dec ds"
      "dec_value ds * 10 ^ (i - length ds) = (v div 10) mod 10 ^ i"
      "fmtFrac i (v div 10) False [] = (CHR ''.'' # ds, v div 10 div 10 ^ i)" by blast
    with True m show ?thesis
      by (intro exI [of _ ds]) (simp add: Let_def div_mult2_eq Suc_diff_le)
  next
    case False
    obtain ds where ds: "length ds = i" "list_all is_dec ds" "dec_value ds = (v div 10) mod 10 ^ i"
      "fmtFrac i (v div 10) True [chr (48 + v mod 10)] = (CHR ''.'' # ds @ [chr (48 + v mod 10)], v div 10 div 10 ^ i)"
      using fmtFrac_digits [of i "v div 10" "[chr (48 + v mod 10)]"] by blast
    have "dec_value (ds @ [chr (48 + v mod 10)]) = v mod 10 ^ Suc i"
      using ds(3) by (simp add: dec_value_append mod_mult2_eq)
    with ds False show ?thesis
      by (intro exI [of _ "ds @ [chr (48 + v mod 10)]"]) (simp add: Let_def div_mult2_eq)
  qed
qed simp

text \<open>Scanning digits.\<close>

definition stops :: "string \<Rightarrow> bool" where
  "stops r \<longleftrightarrow> r = [] \<or> \<not> is_dec (hd r)"

lemma leadingInt_digits:
  assumes "list_all is_dec ds" "stops r" "x * 10 ^ length ds + dec_value ds \<le> 2 ^ 63"
  shows "leadingInt x (ds @ r) = Some (x * 10 ^ length ds + dec_value ds, r)"
  using assms
proof (induction ds arbitrary: x)
  case Nil
  then show ?case by (cases r) (auto simp: stops_def dec_value_def)
next
  case (Cons c ds)
  let ?y = "x * 10 + (ord c - 48)"
  have e: "x * 10 ^ length (c # ds) + dec_value (c # ds) = ?y * 10 ^ length ds + dec_value ds"
    by (simp add: dec_value_Cons algebra_simps)
  have "?y \<le> ?y * 10 ^ length ds + dec_value ds" by (rule trans_le_add1) simp
  then have "?y \<le> 2 ^ 63" using Cons.prems(3) unfolding e by (rule order_trans)
  moreover from this have "x \<le> 2 ^ 63 div 10" by simp
  ultimately show ?case using Cons.IH [of ?y] Cons.prems unfolding e by (simp add: Let_def)
qed

lemma fl_power: "n < 16 \<Longrightarrow> fl (10 ^ n) = 10 ^ n"
proof -
  assume "n < 16"
  then have "(10 :: int) ^ n \<le> 10 ^ 15" by (intro power_increasing) auto
  then have "\<bar>(10 :: int) ^ n\<bar> \<le> 2 ^ 53" by simp
  from fl_of_int [OF this] show ?thesis by simp
qed

lemma scale_step: "n < 15 \<Longrightarrow> fl (10 ^ n * 10) = 10 ^ Suc n"
  using fl_power [of "Suc n"] by (simp add: mult.commute)

lemma leadingFraction_digits:
  assumes "list_all is_dec ds" "stops r" "n + length ds \<le> 9" "x < 10 ^ n"
  shows "leadingFraction x (10 ^ n) False (ds @ r) = (x * 10 ^ length ds + dec_value ds, 10 ^ (n + length ds), r)"
  using assms
proof (induction ds arbitrary: x n)
  case Nil
  then show ?case by (cases r) (auto simp: stops_def dec_value_def)
next
  case (Cons c ds)
  let ?y = "x * 10 + (ord c - 48)"
  have "(10 :: nat) ^ n \<le> 10 ^ 9" using Cons.prems(3) by (intro power_increasing) auto
  then have "x < 10 ^ 9" using Cons.prems(4) by linarith
  moreover have "ord c - 48 \<le> 9" using Cons.prems(1) by (simp add: is_dec_bound)
  moreover have "?y < 10 ^ Suc n" using Cons.prems(4) calculation(2) by simp
  ultimately have y: "\<not> x > (2 ^ 63 - 1) div 10" "\<not> ?y > 2 ^ 63" "?y < 10 ^ Suc n" by simp_all
  have "leadingFraction x (10 ^ n) False ((c # ds) @ r) = leadingFraction ?y (10 ^ Suc n) False (ds @ r)"
    using y(1,2) Cons.prems(1,3) scale_step [of n] by (simp add: Let_def del: power_Suc)
  moreover have "x * 10 ^ length (c # ds) + dec_value (c # ds) = ?y * 10 ^ length ds + dec_value ds"
    by (simp add: dec_value_Cons algebra_simps)
  ultimately show ?case using Cons.IH [of "Suc n" ?y] Cons.prems y(3) by (simp del: power_Suc)
qed

text \<open>The fraction is computed exactly: the quotient of the unit and the scale is an integer.\<close>

lemma fl_of_nat: "n \<le> 2 ^ 53 \<Longrightarrow> fl (of_nat n) = of_nat n"
  using fl_of_int [of "int n"] by simp

lemma scaled_fraction:
  assumes "f < 10 ^ k" "k \<le> p" "p \<le> 9"
  shows "scaled n (10 ^ p) f (10 ^ k) = n * 10 ^ p + f * 10 ^ (p - k)"
proof -
  have "(10 :: nat) ^ p \<le> 10 ^ 9" using assms(3) by (intro power_increasing) auto
  then have p: "(10 :: nat) ^ p \<le> 2 ^ 53" by simp
  have split: "10 ^ k * 10 ^ (p - k) = (10 ^ p :: nat)" using assms(2) by (simp add: power_add [symmetric])
  have "f * 10 ^ (p - k) \<le> 10 ^ k * 10 ^ (p - k)" using assms(1) by (intro mult_right_mono) simp_all
  then have m: "f * 10 ^ (p - k) \<le> 2 ^ 53" using p split by linarith
  have "f \<le> f * 10 ^ (p - k)" by simp
  then have f: "f \<le> 2 ^ 53" using m by linarith
  have "(10 :: rat) ^ p / 10 ^ k = 10 ^ (p - k)" using assms(2) by (simp add: power_diff)
  moreover have "fl (10 ^ p) = 10 ^ p" "fl (10 ^ (p - k)) = 10 ^ (p - k)" using assms(3) by (simp_all add: fl_power)
  moreover have "fl (of_nat f * 10 ^ (p - k)) = of_nat (f * 10 ^ (p - k))" using fl_of_nat [OF m] by simp
  ultimately show ?thesis using fl_of_nat [OF f] by (simp add: scaled_def del: of_nat_mult)
qed

definition unit_text :: "string \<Rightarrow> bool" where
  "unit_text u \<longleftrightarrow> u \<noteq> [] \<and> list_all (\<lambda>c. \<not> number_char c) u"

definition next_item :: "string \<Rightarrow> bool" where
  "next_item r \<longleftrightarrow> r = [] \<or> number_char (hd r)"

lemma unit_split:
  assumes "unit_text u" "next_item r"
  shows "takeWhile (\<lambda>c. \<not> number_char c) (u @ r) = u" "dropWhile (\<lambda>c. \<not> number_char c) (u @ r) = r"
    "stops (u @ r)" "hd (u @ r) \<noteq> CHR ''.''" "u @ r \<noteq> []"
proof -
  have all: "\<forall>c \<in> set u. \<not> number_char c" using assms(1) by (simp add: unit_text_def list_all_iff)
  then show "takeWhile (\<lambda>c. \<not> number_char c) (u @ r) = u" "dropWhile (\<lambda>c. \<not> number_char c) (u @ r) = r"
    using assms(2) by (cases r; simp add: next_item_def)+
  obtain c cs where "u = c # cs" using assms(1) by (cases u) (auto simp: unit_text_def)
  with all show "stops (u @ r)" "hd (u @ r) \<noteq> CHR ''.''" "u @ r \<noteq> []" by (simp_all add: stops_def number_char_def)
qed

lemma digits_head: "list_all is_dec ds \<Longrightarrow> ds \<noteq> [] \<Longrightarrow> number_char (hd (ds @ r))"
  by (cases ds) (simp_all add: number_char_def)

lemma parse_item_whole:
  assumes "unit_text u" "next_item r" "map_of unitMap u = Some m" "n \<le> 2 ^ 63 div m"
  shows "parse_item (dec_digits n @ u @ r) = Inr (n * m, r)"
proof -
  have "n \<le> 2 ^ 63" using assms(4) div_le_dividend [of "2 ^ 63" m] by linarith
  then have "leadingInt 0 (dec_digits n @ u @ r) = Some (n, u @ r)"
    using leadingInt_digits [OF dec_digits_dec unit_split(3) [OF assms(1,2)], of 0 n] by (simp add: dec_value_digits)
  moreover have "fraction_of (u @ r) = (0, 1, u @ r, False)"
    using unit_split(4,5) [OF assms(1,2)] by (cases "u @ r") (simp_all add: fraction_of_def)
  moreover have "length (u @ r) \<noteq> length (dec_digits n @ u @ r)" by simp
  moreover have "u \<noteq> []" using assms(1) by (simp add: unit_text_def)
  ultimately show ?thesis
    using assms(3,4) unit_split(1,2) [OF assms(1,2)] digits_head [OF dec_digits_dec dec_digits_not_empty, of n "u @ r"]
    by (simp add: parse_item_def scaled_def)
qed

lemma parse_item_fraction:
  assumes "unit_text u" "next_item r" "map_of unitMap u = Some (10 ^ p)" "p \<le> 9"
    and ds: "ds \<noteq> []" "length ds \<le> p" "list_all is_dec ds" "0 < dec_value ds"
    and v: "n * 10 ^ p + dec_value ds * 10 ^ (p - length ds) \<le> 2 ^ 63"
  shows "parse_item (dec_digits n @ CHR ''.'' # ds @ u @ r) = Inr (n * 10 ^ p + dec_value ds * 10 ^ (p - length ds), r)"
proof -
  let ?rest = "CHR ''.'' # ds @ u @ r"
  have n: "n \<le> 2 ^ 63 div 10 ^ p" using v by (simp add: less_eq_div_iff_mult_less_eq)
  then have "n \<le> 2 ^ 63" using div_le_dividend [of "2 ^ 63" "10 ^ p :: nat"] by linarith
  moreover have "stops ?rest" by (simp add: stops_def is_dec_def)
  ultimately have 1: "leadingInt 0 (dec_digits n @ ?rest) = Some (n, ?rest)"
    using leadingInt_digits [OF dec_digits_dec, of ?rest 0 n] by (simp add: dec_value_digits)
  have "leadingFraction 0 1 False (ds @ u @ r) = (dec_value ds, 10 ^ length ds, u @ r)"
    using leadingFraction_digits [OF ds(3) unit_split(3) [OF assms(1,2)], of 0 0] ds(2) assms(4) by simp
  then have 2: "fraction_of ?rest = (dec_value ds, 10 ^ length ds, u @ r, True)"
    using ds(1) by (simp add: fraction_of_def)
  have 3: "scaled n (10 ^ p) (dec_value ds) (10 ^ length ds) = n * 10 ^ p + dec_value ds * 10 ^ (p - length ds)"
    using scaled_fraction dec_value_less ds(2,3) assms(4) by blast
  have "u \<noteq> []" using assms(1) by (simp add: unit_text_def)
  with 1 2 3 n show ?thesis
    using assms(3) v unit_split(1,2) [OF assms(1,2)] digits_head [OF dec_digits_dec dec_digits_not_empty, of n ?rest]
    by (simp add: parse_item_def not_less)
qed

lemma parse_sum_step:
  assumes "parse_item s = Inr (v, r)" "d + v \<le> 2 ^ 63"
  shows "parse_sum d s = parse_sum (d + v) r"
proof -
  have "s \<noteq> []" using assms(1) by (auto simp: parse_item_def)
  moreover have "(d + v) mod 2 ^ 64 = d + v" using assms(2) by simp
  ultimately show ?thesis using assms by (subst parse_sum.simps) simp
qed

lemma parse_sum_end [simp]: "parse_sum d [] = Inr d"
  by (subst parse_sum.simps) simp

lemma unit_texts [simp]: "unit_text ''h''" "unit_text ''m''" "unit_text ''s''" "unit_text ''ms''" "unit_text ''ns''" "unit_text (micro @ ''s'')"
  by (simp_all add: unit_text_def number_char_def is_dec_def micro_def char_of_eq_iff)

lemma unit_values [simp]:
  "map_of unitMap ''h'' = Some (3600 * 10 ^ 9)" "map_of unitMap ''m'' = Some (60 * 10 ^ 9)" "map_of unitMap ''s'' = Some (10 ^ 9)"
  "map_of unitMap ''ms'' = Some (10 ^ 6)" "map_of unitMap ''ns'' = Some (10 ^ 0)" "map_of unitMap (micro @ ''s'') = Some (10 ^ 3)"
  by (simp_all add: unitMap_def micro_def eq_char_of_iff)

text \<open>The last item, with the fraction of the whole.\<close>

lemma parse_last:
  assumes "fmtFrac p v False [] = (fr, q)" "p \<le> 9" "unit_text u" "map_of unitMap u = Some (10 ^ p)"
    "d + (n * 10 ^ p + v mod 10 ^ p) \<le> 2 ^ 63"
  shows "parse_sum d (dec_digits n @ fr @ u) = Inr (d + (n * 10 ^ p + v mod 10 ^ p))"
proof -
  have "parse_item (dec_digits n @ fr @ u) = Inr (n * 10 ^ p + v mod 10 ^ p, [])"
  proof (cases "v mod 10 ^ p = 0")
    case True
    then have "fr = []" using assms(1) fmtFrac_zero by simp
    moreover have "n \<le> 2 ^ 63 div 10 ^ p" using assms(5) by (simp add: less_eq_div_iff_mult_less_eq)
    ultimately show ?thesis using parse_item_whole [OF assms(3) _ assms(4), of "[]" n] True by (simp add: next_item_def)
  next
    case False
    then obtain ds where ds: "ds \<noteq> []" "length ds \<le> p" "list_all is_dec ds" "dec_value ds * 10 ^ (p - length ds) = v mod 10 ^ p"
      "fr = CHR ''.'' # ds" using fmtFrac_fraction [OF False] assms(1) by auto
    have "0 < dec_value ds" using ds(4) False by (cases "dec_value ds") auto
    then show ?thesis
      using parse_item_fraction [OF assms(3) _ assms(4,2) ds(1-3), of "[]" n] ds(4,5) assms(5) by (simp add: next_item_def)
  qed
  from parse_sum_step [OF this assms(5)] show ?thesis by simp
qed

lemma parse_fraction:
  assumes "p \<le> 9" "unit_text u" "map_of unitMap u = Some (10 ^ p)" "v \<le> 2 ^ 63"
  shows "parse_sum 0 (with_fraction v p u) = Inr v"
proof -
  obtain fr q where f: "fmtFrac p v False [] = (fr, q)" by fastforce
  then have q: "q = v div 10 ^ p" using fmtFrac_zero [of v p] fmtFrac_fraction [of v p] by (cases "v mod 10 ^ p = 0") auto
  have "q * 10 ^ p + v mod 10 ^ p = v" unfolding q by (rule div_mult_mod_eq)
  then show ?thesis using parse_last [OF f assms(1-3), of 0 q] assms(4) by (simp add: with_fraction_def f)
qed

lemma next_digits [simp]: "next_item (dec_digits n @ r)"
  using digits_head [OF dec_digits_dec dec_digits_not_empty] by (simp add: next_item_def)

lemma sixtieths: "a * 60 + b = (c :: nat) \<Longrightarrow> c * (60 * 10 ^ 9) = a * (3600 * 10 ^ 9) + b * (60 * 10 ^ 9)"
  by (auto simp: algebra_simps)

lemma whole_seconds: "s * 10 ^ 9 + f = (u :: nat) \<Longrightarrow> m * 60 + t = s \<Longrightarrow> m * (60 * 10 ^ 9) + (t * 10 ^ 9 + f) = u"
  by (auto simp: algebra_simps)

lemma dec_digits_0: "dec_digits 0 = ''0''"
  by (simp add: dec_digits.simps char_of_eq_iff)

lemma parse_hours_minutes:
  assumes "secs * 10 ^ 9 \<le> 2 ^ 63" "next_item r"
  shows "parse_sum 0 (hours_minutes secs @ r) = parse_sum (secs div 60 * (60 * 10 ^ 9)) r"
proof (cases "secs div 60 = 0")
  case True
  then show ?thesis by (simp add: hours_minutes_def)
next
  case False
  let ?m = "secs div 60 mod 60" and ?h = "secs div 60 div 60"
  have m: "secs div 60 * (60 * 10 ^ 9) = ?h * (3600 * 10 ^ 9) + ?m * (60 * 10 ^ 9)"
    by (rule sixtieths) (rule div_mult_mod_eq)
  have "secs div 60 * 60 \<le> secs" by simp
  then have "secs div 60 * (60 * 10 ^ 9) \<le> secs * 10 ^ 9" by simp
  then have le: "?h * (3600 * 10 ^ 9) + ?m * (60 * 10 ^ 9) \<le> 2 ^ 63" using assms(1) m by linarith
  then have "?m \<le> 2 ^ 63 div (60 * 10 ^ 9)" "?h \<le> 2 ^ 63 div (3600 * 10 ^ 9)" by (simp_all add: less_eq_div_iff_mult_less_eq)
  then have min: "parse_item (dec_digits ?m @ ''m'' @ r) = Inr (?m * (60 * 10 ^ 9), r)"
    and hour: "parse_item (dec_digits ?h @ ''h'' @ dec_digits ?m @ ''m'' @ r) = Inr (?h * (3600 * 10 ^ 9), dec_digits ?m @ ''m'' @ r)"
    using assms(2) by (intro parse_item_whole; simp)+
  show ?thesis
  proof (cases "?h = 0")
    case True
    then show ?thesis using False m le parse_sum_step [OF min, of 0] by (simp add: hours_minutes_def Let_def)
  next
    case h: False
    then show ?thesis
      using False m le parse_sum_step [OF hour, of 0] parse_sum_step [OF min, of "?h * (3600 * 10 ^ 9)"]
      by (simp add: hours_minutes_def Let_def)
  qed
qed

lemma parse_format: "u \<le> 2 ^ 63 \<Longrightarrow> parse_sum 0 (format_duration u) = Inr u"
proof -
  assume u: "u \<le> 2 ^ 63"
  show ?thesis
  proof (cases "u < 10 ^ 9")
    case True
    have "parse_sum 0 ''0s'' = Inr 0"
      using parse_fraction [of 9 "''s''" 0] fmtFrac_zero [of 0 9] by (simp add: with_fraction_def dec_digits_0)
    with u True show ?thesis by (simp add: format_duration_def parse_fraction)
  next
    case False
    obtain fr secs where f: "fmtFrac 9 u False [] = (fr, secs)" by fastforce
    then have secs: "secs = u div 10 ^ 9" using fmtFrac_zero [of u 9] fmtFrac_fraction [of u 9] by (cases "u mod 10 ^ 9 = 0") auto
    have "secs * 10 ^ 9 \<le> u" unfolding secs by (rule div_times_less_eq_dividend)
    have total: "secs div 60 * (60 * 10 ^ 9) + (secs mod 60 * 10 ^ 9 + u mod 10 ^ 9) = u"
      by (rule whole_seconds) (simp_all only: secs div_mult_mod_eq)
    have "format_duration u = hours_minutes secs @ dec_digits (secs mod 60) @ fr @ ''s''"
      using False f by (simp add: format_duration_def)
    with \<open>secs * 10 ^ 9 \<le> u\<close> u total show ?thesis
      using parse_hours_minutes [of secs "dec_digits (secs mod 60) @ fr @ ''s''"]
        parse_last [OF f, of "''s''" "secs div 60 * (60 * 10 ^ 9)" "secs mod 60"] by simp
  qed
qed

lemma hours_minutes_head: "hours_minutes secs = [] \<or> (\<exists>n r. hours_minutes secs = dec_digits n @ r)"
  by (auto simp: hours_minutes_def Let_def)

lemma format_head: "\<exists>n r. format_duration u = dec_digits n @ r"
proof -
  have "\<exists>n r. ''0s'' = dec_digits n @ r" by (intro exI [of _ 0] exI [of _ "''s''"]) (simp add: dec_digits_0)
  moreover have "\<exists>n r. with_fraction u p unit = dec_digits n @ r" for p unit
    by (auto simp: with_fraction_def split: prod.splits)
  moreover have "\<exists>n r. hours_minutes secs @ dec_digits m @ t = dec_digits n @ r" for secs m t
    using hours_minutes_head [of secs] by fastforce
  ultimately show ?thesis by (auto simp: format_duration_def split: prod.splits)
qed

lemma format_no_sign: "format_duration u = c # cs \<Longrightarrow> c \<noteq> CHR ''-'' \<and> c \<noteq> CHR ''+''"
proof -
  assume c: "format_duration u = c # cs"
  obtain n r where "format_duration u = dec_digits n @ r" using format_head by blast
  then have "number_char (hd (format_duration u))" using digits_head [OF dec_digits_dec dec_digits_not_empty, of n r] by simp
  then have "number_char c" using c by simp
  then show ?thesis by (auto simp: number_char_def is_dec_def)
qed

lemma format_not_bare:
  assumes "u \<le> 2 ^ 63" shows "format_duration u \<noteq> ''0''" "format_duration u \<noteq> []"
proof -
  have "parse_item ''0'' = Inl MissingUnit" by (simp add: parse_item_def number_char_def is_dec_def fraction_of_def)
  then have "parse_sum 0 ''0'' = Inl MissingUnit" by (subst parse_sum.simps) simp
  then show "format_duration u \<noteq> ''0''" using parse_format [OF assms] by auto
  show "format_duration u \<noteq> []" using format_head [of u] by auto
qed

lemma ParseDuration_String:
  assumes "- (2 ^ 63) \<le> d" "d < 2 ^ 63"
  shows "ParseDuration (Duration_String d) = Inr d"
proof (cases "d < 0")
  case True
  then have u: "nat (- d) \<le> 2 ^ 63" using assms(1) by (simp add: nat_le_iff)
  with True show ?thesis
    using parse_format [OF u] format_not_bare [OF u] by (simp add: ParseDuration_def Duration_String_def)
next
  case False
  then have u: "nat d \<le> 2 ^ 63" "\<not> nat d > 2 ^ 63 - 1" using assms(2) by (simp_all add: nat_le_iff)
  obtain c cs where c: "format_duration (nat d) = c # cs" using format_not_bare(2) [OF u(1)] by (cases "format_duration (nat d)") auto
  with False u show ?thesis
    using parse_format [OF u(1)] format_not_bare(1) [OF u(1)] format_no_sign [OF c]
    by (auto simp: ParseDuration_def Duration_String_def)
qed

text \<open>C36: a duration of any 64-bit value, written to the configuration file by \<open>MarshalYAML\<close>, is read back
  by \<open>UnmarshalYAML\<close>: the fraction is scaled in floating point without loss, and no sum overflows.\<close>

theorem duration_round_trip:
  assumes "- (2 ^ 63) \<le> d" "d < 2 ^ 63" "decode node = Inr (MarshalYAML d)"
  shows "UnmarshalYAML decode node = Inr d"
  using assms ParseDuration_String by (simp add: UnmarshalYAML_def MarshalYAML_def)

theorem duration_round_trip_witness: "UnmarshalYAML Inr (MarshalYAML (- (2 ^ 63))) = Inr (- (2 ^ 63))"
  by (rule duration_round_trip) simp_all

end
