(* ===== verification/Flags.thy ===== *)
theory Flags
  imports Durations
begin

text \<open>
  Command line flags as \<open>flag.FlagSet\<close> reads them: \<open>-name\<close>, \<open>--name\<close>, \<open>-name=value\<close>, and \<open>-name value\<close> for a
  flag that is not boolean; reading stops at the first argument that is not a flag, and after \<open>--\<close>.  The state
  \<open>'s\<close> holds the variables the flags are bound to.  What is printed on the error output is left out.
\<close>

section \<open>Values\<close>

text \<open>\<open>strconv.ParseBool\<close>.\<close>

definition ParseBool :: "string \<Rightarrow> bool option" where
  "ParseBool str =
     (if str \<in> {''1'', ''t'', ''T'', ''true'', ''TRUE'', ''True''} then Some True
      else if str \<in> {''0'', ''f'', ''F'', ''false'', ''FALSE'', ''False''} then Some False
      else None)"

datatype 's flag_kind = BoolFlag "bool \<Rightarrow> 's \<Rightarrow> 's" | StringFlag "string \<Rightarrow> 's \<Rightarrow> 's" | DurationFlag "duration \<Rightarrow> 's \<Rightarrow> 's"

datatype flag_error = ErrHelp | BadSyntax string | NotDefined string | NeedsArgument string | InvalidValue string string

type_synonym 's flag_set = "(string \<times> 's flag_kind) list"

definition set_flag :: "string \<Rightarrow> 's flag_kind \<Rightarrow> string \<Rightarrow> 's \<Rightarrow> flag_error + 's" where
  "set_flag name kind v st =
     (case kind of
        BoolFlag set_var \<Rightarrow> (case ParseBool v of None \<Rightarrow> Inl (InvalidValue v name) | Some b \<Rightarrow> Inr (set_var b st))
      | StringFlag set_var \<Rightarrow> Inr (set_var v st)
      | DurationFlag set_var \<Rightarrow> (case ParseDuration v of Inl e \<Rightarrow> Inl (InvalidValue v name) | Inr d \<Rightarrow> Inr (set_var d st)))"

section \<open>Reading\<close>

text \<open>The name of a flag and the value behind an equals sign.\<close>

definition flag_parts :: "string \<Rightarrow> string \<times> string option" where
  "flag_parts body = (takeWhile (\<lambda>c. c \<noteq> CHR ''='') body,
     case dropWhile (\<lambda>c. c \<noteq> CHR ''='') body of [] \<Rightarrow> None | _ # v \<Rightarrow> Some v)"

definition parse_flag :: "'s flag_set \<Rightarrow> string \<Rightarrow> string option \<Rightarrow> string list \<Rightarrow> 's \<Rightarrow> flag_error + string list \<times> 's" where
  "parse_flag formal name given args st =
     (case map_of formal name of
        None \<Rightarrow> Inl (if name = ''help'' \<or> name = ''h'' then ErrHelp else NotDefined name)
      | Some kind \<Rightarrow>
          let taken = (case given of
                Some v \<Rightarrow> Some (v, args)
              | None \<Rightarrow> (case kind of
                    BoolFlag set_var \<Rightarrow> Some (''true'', args)
                  | _ \<Rightarrow> (case args of [] \<Rightarrow> None | v # rest \<Rightarrow> Some (v, rest))))
          in (case taken of
                None \<Rightarrow> Inl (NeedsArgument name)
              | Some (v, rest) \<Rightarrow> map_result (\<lambda>st'. (rest, st')) (set_flag name kind v st)))"

text \<open>\<open>parseOne\<close>: whether a flag was seen, and the arguments that are left.\<close>

definition parseOne :: "'s flag_set \<Rightarrow> string list \<Rightarrow> 's \<Rightarrow> flag_error + bool \<times> string list \<times> 's" where
  "parseOne formal args st =
     (case args of
        [] \<Rightarrow> Inr (False, [], st)
      | s # rest \<Rightarrow>
          if length s < 2 \<or> hd s \<noteq> CHR ''-'' then Inr (False, s # rest, st)
          else if s = ''--'' then Inr (False, rest, st)
          else let body = (if s ! 1 = CHR ''-'' then drop 2 s else drop 1 s) in
            if body = [] \<or> hd body = CHR ''-'' \<or> hd body = CHR ''='' then Inl (BadSyntax s)
            else (case flag_parts body of (name, given) \<Rightarrow>
              map_result (\<lambda>(left, st'). (True, left, st')) (parse_flag formal name given rest st)))"

lemma parse_flag_shorter: "parse_flag formal name given args st = Inr (left, st') \<Longrightarrow> length left \<le> length args"
  by (auto simp: parse_flag_def Let_def map_result_ok split: option.splits flag_kind.splits list.splits)

lemma parseOne_shorter: "parseOne formal args st = Inr (True, left, st') \<Longrightarrow> length left < length args"
  by (auto simp: parseOne_def Let_def map_result_ok less_Suc_eq_le dest: parse_flag_shorter split: list.splits if_splits prod.splits)

function parse_flags :: "'s flag_set \<Rightarrow> string list \<Rightarrow> 's \<Rightarrow> flag_error + 's" where
  "parse_flags formal args st =
     (case parseOne formal args st of
        Inl e \<Rightarrow> Inl e
      | Inr (seen, left, st') \<Rightarrow> if seen then parse_flags formal left st' else Inr st')"
  by pat_completeness auto

termination
  by (relation "measure (\<lambda>(formal, args, st). length args)") (auto dest: parseOne_shorter)

declare parse_flags.simps [simp del]

section \<open>The ways to write a flag\<close>

lemma parse_flags_Nil [simp]: "parse_flags formal [] st = Inr st"
  by (simp add: parse_flags.simps parseOne_def)

lemma flag_parts_plain:
  assumes "CHR ''='' \<notin> set name" shows "flag_parts name = (name, None)"
proof -
  have all: "c \<noteq> CHR ''=''" if "c \<in> set name" for c using that assms by blast
  then have "takeWhile (\<lambda>c. c \<noteq> CHR ''='') name = name" by (subst takeWhile_eq_all_conv) blast
  moreover have "dropWhile (\<lambda>c. c \<noteq> CHR ''='') name = []" using all by (subst dropWhile_eq_Nil_conv) blast
  ultimately show ?thesis by (simp only: flag_parts_def list.case)
qed

lemma flag_parts_value:
  assumes "CHR ''='' \<notin> set name" shows "flag_parts (name @ ''='' @ v) = (name, Some v)"
proof -
  have "c \<noteq> CHR ''=''" if "c \<in> set name" for c using that assms by blast
  then have "takeWhile (\<lambda>c. c \<noteq> CHR ''='') (name @ ''='' @ v) = name" "dropWhile (\<lambda>c. c \<noteq> CHR ''='') (name @ ''='' @ v) = ''='' @ v"
    by (simp_all add: takeWhile_append2 dropWhile_append2)
  then show ?thesis by (simp add: flag_parts_def)
qed

definition flag_name :: "string \<Rightarrow> bool" where
  "flag_name name \<longleftrightarrow> name \<noteq> [] \<and> hd name \<noteq> CHR ''-'' \<and> CHR ''='' \<notin> set name"

lemma flag_name_char: "flag_name (c # cs) \<Longrightarrow> c \<noteq> CHR ''-'' \<and> c \<noteq> CHR ''=''"
  by (auto simp: flag_name_def)

text \<open>One hyphen or two, and the value in the same argument or in the next one.\<close>

lemma parseOne_written:
  assumes "flag_name name" "dashes \<in> {''-'', ''--''}"
  shows "parseOne formal ((dashes @ name) # args) st = map_result (\<lambda>(left, st'). (True, left, st')) (parse_flag formal name None args st)"
    and "parseOne formal ((dashes @ name @ ''='' @ v) # args) st =
      map_result (\<lambda>(left, st'). (True, left, st')) (parse_flag formal name (Some v) args st)"
proof -
  obtain c cs where name: "name = c # cs" using assms(1) by (cases name) (auto simp: flag_name_def)
  note parts = flag_parts_plain [of name] flag_parts_value [of name v]
  show "parseOne formal ((dashes @ name) # args) st = map_result (\<lambda>(left, st'). (True, left, st')) (parse_flag formal name None args st)"
    "parseOne formal ((dashes @ name @ ''='' @ v) # args) st =
      map_result (\<lambda>(left, st'). (True, left, st')) (parse_flag formal name (Some v) args st)"
    using assms parts flag_name_char [of c cs] by (auto simp: parseOne_def name flag_name_def)
qed

lemma parse_flag_next:
  assumes "map_of formal name = Some kind" "\<forall>set_var. kind \<noteq> BoolFlag set_var"
  shows "parse_flag formal name None (v # args) st = parse_flag formal name (Some v) args st"
  using assms by (cases kind) (auto simp: parse_flag_def)


text \<open>All four ways to give a flag its value are read alike.\<close>

lemma parse_flags_written:
  assumes "flag_name name" "dashes \<in> {''-'', ''--''}" "map_of formal name = Some kind" "\<forall>set_var. kind \<noteq> BoolFlag set_var"
  shows "parse_flags formal ((dashes @ name) # v # args) st = bind_result (set_flag name kind v st) (parse_flags formal args)"
    and "parse_flags formal ((dashes @ name @ ''='' @ v) # args) st = bind_result (set_flag name kind v st) (parse_flags formal args)"
proof -
  have "map_result (\<lambda>(left, st'). (True, left, st')) (parse_flag formal name (Some v) args st) =
      map_result (\<lambda>st'. (True, args, st')) (set_flag name kind v st)"
    using assms(3) by (cases "set_flag name kind v st") (simp_all add: parse_flag_def)
  then show "parse_flags formal ((dashes @ name) # v # args) st = bind_result (set_flag name kind v st) (parse_flags formal args)"
    "parse_flags formal ((dashes @ name @ ''='' @ v) # args) st = bind_result (set_flag name kind v st) (parse_flags formal args)"
    unfolding parse_flags.simps [of formal "(dashes @ name) # v # args"] parse_flags.simps [of formal "(dashes @ name @ ''='' @ v) # args"]
      parseOne_written [OF assms(1,2)] parse_flag_next [OF assms(3,4)]
    by (cases "set_flag name kind v st"; simp)+
qed

lemma parse_flags_switch:
  assumes "flag_name name" "dashes \<in> {''-'', ''--''}" "map_of formal name = Some (BoolFlag set_var)"
  shows "parse_flags formal ((dashes @ name) # args) st = parse_flags formal args (set_var True st)"
  unfolding parse_flags.simps [of formal "(dashes @ name) # args"] parseOne_written [OF assms(1,2)]
  using assms(3) by (simp add: parse_flag_def set_flag_def ParseBool_def)

end
