(* ===== verification/CommandLine.thy ===== *)
theory CommandLine
  imports Migrations Serving Flags
begin

text \<open>
  The program \<open>cmd/indieauth-bridge\<close>: its command line, its three commands, the start of the server, what
  happens until it is told to stop, and the exit status.  Requests that are served at the same time are the
  subject of \<^theory_text>\<open>Concurrent\<close>; here they come one after the other.  The log is left out.
\<close>

section \<open>The commands\<close>

text \<open>The flags of \<open>main\<close>, of \<open>runHealthcheck\<close> and of \<open>runCheckConfig\<close>, with their defaults.\<close>

record main_flags =
  configPath :: string
  checkConfig :: bool

definition main_flag_set :: "main_flags flag_set" where
  "main_flag_set = [(''config'', StringFlag (\<lambda>v f. f\<lparr>configPath := v\<rparr>)),
     (''check-config'', BoolFlag (\<lambda>v f. f\<lparr>checkConfig := v\<rparr>))]"

definition main_defaults :: main_flags where
  "main_defaults = \<lparr>configPath = [], checkConfig = False\<rparr>"

record healthcheck_flags =
  hf_url :: string
  hf_timeout :: duration

definition healthcheck_flag_set :: "healthcheck_flags flag_set" where
  "healthcheck_flag_set = [(''url'', StringFlag (\<lambda>v f. f\<lparr>hf_url := v\<rparr>)),
     (''timeout'', DurationFlag (\<lambda>v f. f\<lparr>hf_timeout := v\<rparr>))]"

definition healthcheck_defaults :: healthcheck_flags where
  "healthcheck_defaults = \<lparr>hf_url = ''http://127.0.0.1:8080/healthz'', hf_timeout = 5 * second\<rparr>"

definition check_flag_set :: "string flag_set" where
  "check_flag_set = [(''config'', StringFlag (\<lambda>v path. v))]"

text \<open>The default client: any address, at most ten requests.\<close>

definition default_client :: "('a network_scheme) http_client" where
  "default_client = \<lparr>dial_ok = (\<lambda>_. True), max_via = 10,
     check_redirect = (\<lambda>via u. return (if 10 \<le> via then Inl ''stopped after 10 redirects'' else Inr ()))\<rparr>"

text \<open>\<open>url.ParseRequestURI\<close> does not split off a fragment; a text without scheme is refused here anyway.\<close>

definition healthcheck_target :: "unicode_tables \<Rightarrow> string \<Rightarrow> URL option" where
  "healthcheck_target U target =
     (case parse_no_fragment U target of
        Inl e \<Rightarrow> None
      | Inr u \<Rightarrow> if (url_Scheme u \<noteq> ''http'' \<and> url_Scheme u \<noteq> ''https'') \<or> url_Host u = [] then None else Some u)"

text \<open>The timeout is one of the reasons for which the network may give no reply.\<close>

definition runHealthcheck :: "unicode_tables \<Rightarrow> string list \<Rightarrow> ('a network_scheme, nat) state" where
  "runHealthcheck U args =
     (case parse_flags healthcheck_flag_set args healthcheck_defaults of
        Inl e \<Rightarrow> return 2
      | Inr f \<Rightarrow>
          (case healthcheck_target U (hf_url f) of
             None \<Rightarrow> return 2
           | Some parsed \<Rightarrow>
               (case NewRequest U ''GET'' (URL_String parsed) of
                  Inl e \<Rightarrow> return 1
                | Inr req \<Rightarrow> do {
                    p \<leftarrow> client_Do U default_client 0 req;
                    return (case p of Inl e \<Rightarrow> 1 | Inr resp \<Rightarrow> if \<not> status_ok (wp_Status resp) then 1 else 0)
                  })))"

text \<open>The members of the summary in the order of the keys; the names of the backends are sorted.\<close>

definition config_summary :: "Config \<Rightarrow> (string \<times> json) list" where
  "config_summary c = map_of_entries [
     (''ok'', JBool True),
     (''listen'', JStr (Listen (Server c))),
     (''issuer'', JStr (Issuer (Server c))),
     (''public_url'', JStr (PublicURL (Server c))),
     (''profile_count'', JNum (int_literal (int (length (Profiles c))))),
     (''dynamic_profiles_enabled'', JBool (dp_Enabled (DynamicProfiles c))),
     (''dynamic_profiles_backend'', JStr (dp_Backend (DynamicProfiles c))),
     (''backends'', JArr (List.map (\<lambda>(name, b). JStr name) (map_of_entries (Config.Backends c)))),
     (''storage_type'', JStr (st_Type (Storage c))),
     (''require_https'', JBool (RequireHTTPS (Security c))),
     (''require_pkce'', JBool (RequirePKCE (Security c))),
     (''consent_required'', JBool (ConsentRequired (Security c))),
     (''client_metadata_discovery'', JBool (ClientMetadataDiscoveryEnabled (Security c))),
     (''rate_limit_enabled'', JBool (rl_Enabled (RateLimit c))),
     (''rate_limit_requests_per_minute'', JNum (int_literal (RequestsPerMinute (RateLimit c)))),
     (''rate_limit_burst'', JNum (int_literal (Burst (RateLimit c)))),
     (''warning_dev_mode'', JBool (DevMode (Security c))),
     (''warning_placeholder_cookie_secret'', JBool (CookieSecret (Security c) = ''change-me''))]"

definition writeConfigSummary :: "Config \<Rightarrow> string" where
  "writeConfigSummary c = json_indent 0 (JObj (config_summary c)) @ [chr 10]"

text \<open>The exit code and what is printed.\<close>

definition runCheckConfig ::
  "unicode_tables \<Rightarrow> (string \<Rightarrow> string) \<Rightarrow> (string \<Rightarrow> Config \<Rightarrow> string + Config) \<Rightarrow> string list \<Rightarrow> nat \<times> string" where
  "runCheckConfig U getenv read args =
     (case parse_flags check_flag_set args [] of
        Inl e \<Rightarrow> (2, [])
      | Inr path \<Rightarrow> (case Load U getenv read path of Inl e \<Rightarrow> (1, []) | Inr c \<Rightarrow> (0, writeConfigSummary c)))"

section \<open>The server\<close>

datatype 'w outcome = Exit nat string | Listening "'w Server" rateLimiter

text \<open>\<open>main\<close> up to the listener: a cleanup that fails at the start is only logged.\<close>

definition start_server ::
  "unicode_tables \<Rightarrow> (string \<Rightarrow> string) \<Rightarrow> (string \<Rightarrow> Config \<Rightarrow> string + Config) \<Rightarrow> ('a schema_world_scheme) oidc_library \<Rightarrow>
   string \<Rightarrow> bool \<Rightarrow> ('a schema_world_scheme, ('a schema_world_scheme) outcome) state" where
  "start_server U getenv read lib path check =
     (case Load U getenv read path of
        Inl e \<Rightarrow> return (Exit 1 [])
      | Inr c \<Rightarrow>
          if check then return (Exit 0 (writeConfigSummary c))
          else do {
            o1 \<leftarrow> OpenSQLite U (st_Path (Storage c));
            case o1 of
              Inl e \<Rightarrow> return (Exit 1 [])
            | Inr _ \<Rightarrow> do {
                t \<leftarrow> now;
                d \<leftarrow> Cleanup t;
                return (case buildBackends lib c of
                  Inl e \<Rightarrow> Exit 1 []
                | Inr bs \<Rightarrow> (case NewServer c bs U of (s, l) \<Rightarrow> Listening s l))
              }
          })"

text \<open>
  \<open>main\<close> on \<open>os.Args\<close>, up to the listener.  \<open>flag.Parse\<close> ends the program itself, with 0 when help is asked
  for and 2 on an error; without arguments, not even a program name, it panics.
\<close>

definition main ::
  "unicode_tables \<Rightarrow> (string \<Rightarrow> string) \<Rightarrow> (string \<Rightarrow> Config \<Rightarrow> string + Config) \<Rightarrow> ('a schema_world_scheme) oidc_library \<Rightarrow>
   string list \<Rightarrow> ('a schema_world_scheme, ('a schema_world_scheme) outcome) state" where
  "main U getenv read lib os_Args =
     (if length os_Args > 1 \<and> os_Args ! 1 = ''check-config''
      then return (case runCheckConfig U getenv read (drop 2 os_Args) of (n, out) \<Rightarrow> Exit n out)
      else if length os_Args > 1 \<and> os_Args ! 1 = ''healthcheck''
      then do { n \<leftarrow> runHealthcheck U (drop 2 os_Args); return (Exit n []) }
      else if os_Args = [] then return (Exit 2 [])
      else (case parse_flags main_flag_set (drop 1 os_Args) main_defaults of
          Inl e \<Rightarrow> return (Exit (if e = ErrHelp then 0 else 2) [])
        | Inr f \<Rightarrow> start_server U getenv read lib (configPath f) (checkConfig f)))"

section \<open>The listening server\<close>

text \<open>The loop of the cleanup over what the select receives, until the context is done.\<close>

datatype wakeup = Done | Ticked time

fun periodicCleanup :: "wakeup list \<Rightarrow> ('a store_world_scheme, unit) state" where
  "periodicCleanup [] = return ()"
| "periodicCleanup (Done # ws) = return ()"
| "periodicCleanup (Ticked t # ws) = do { e \<leftarrow> Cleanup t; periodicCleanup ws }"

lemma periodicCleanup_reachable: "reachable s w (world_of (periodicCleanup ws) w)"
proof (induction ws arbitrary: w rule: periodicCleanup.induct)
  case (3 t ws)
  let ?w = "world_of (Cleanup t) w"
  have "world_of (handle s (CleanupTick t)) w = ?w" by (simp add: case_prod_beta)
  then have "reachable s w ?w" using handle_reachable [of s w "CleanupTick t"] by simp
  with "3.IH" [of ?w] show ?case by (auto simp: case_prod_beta intro: reachable_trans)
qed (simp_all add: start)

text \<open>
  What can happen to a listening server: a request, a tick of the cleanup, a signal, a listener that returns
  with an error.  The last two end the context for which \<open>main\<close> waits; the result is whether it has ended.
\<close>

datatype occurrence = Requested string http_request | CleanupDue time | Signalled | ListenerFailed string

fun until_done :: "('a store_world_scheme) Server \<Rightarrow> rateLimiter \<Rightarrow> occurrence list \<Rightarrow> ('a store_world_scheme, bool) state" where
  "until_done s l [] = return False"
| "until_done s l (Requested escaped r # os) = do { (rsp, l') \<leftarrow> serve s escaped r l; until_done s l' os }"
| "until_done s l (CleanupDue t # os) = do { e \<leftarrow> Cleanup t; until_done s l os }"
| "until_done s l (Signalled # os) = return True"
| "until_done s l (ListenerFailed e # os) = return True"

text \<open>
  The whole program: its exit status, or \<^const>\<open>None\<close> while it runs.  \<open>shutdown\<close> is the error of
  \<open>server.Shutdown\<close>, which depends on how long the open requests take.
\<close>

definition run_program ::
  "unicode_tables \<Rightarrow> (string \<Rightarrow> string) \<Rightarrow> (string \<Rightarrow> Config \<Rightarrow> string + Config) \<Rightarrow> ('a schema_world_scheme) oidc_library \<Rightarrow>
   string list \<Rightarrow> occurrence list \<Rightarrow> string option \<Rightarrow> ('a schema_world_scheme, nat option) state" where
  "run_program U getenv read lib os_Args os shutdown = do {
     r \<leftarrow> main U getenv read lib os_Args;
     case r of
       Exit n out \<Rightarrow> return (Some n)
     | Listening s l \<Rightarrow> do {
         done \<leftarrow> until_done s l os;
         return (if done then Some (case shutdown of Some e \<Rightarrow> 1 | None \<Rightarrow> 0) else None)
       }
   }"

lemma until_done_reachable: "reachable s w (world_of (until_done s l os) w)"
proof (induction s l os arbitrary: w rule: until_done.induct)
  case (2 s l escaped r os)
  then show ?case using serve_reachable [of s w escaped r l] by (auto simp: case_prod_beta intro: reachable_trans)
next
  case (3 s l t os)
  have "world_of (handle s (CleanupTick t)) w = world_of (Cleanup t) w" by (simp add: case_prod_beta)
  then have "reachable s w (world_of (Cleanup t) w)" using handle_reachable [of s w "CleanupTick t"] by simp
  with 3 show ?case by (auto simp: case_prod_beta intro: reachable_trans)
qed (simp_all add: start)

text \<open>A listening server stops for a signal or for its listener, and for nothing else.\<close>

definition stopped :: "occurrence list \<Rightarrow> bool" where
  "stopped os \<longleftrightarrow> Signalled \<in> set os \<or> (\<exists>e. ListenerFailed e \<in> set os)"

lemma until_done_iff: "val_of (until_done s l os) w \<longleftrightarrow> stopped os"
  by (induction s l os arbitrary: w rule: until_done.induct) (auto simp: stopped_def case_prod_beta)

section \<open>What a validated configuration guarantees\<close>

definition canonical_base :: "unicode_tables \<Rightarrow> string \<Rightarrow> bool" where
  "canonical_base U x \<longleftrightarrow> (\<exists>raw u. CanonicalURL U raw = Inr u \<and> x = TrimRight u ''/'')"

lemma canonical_baseI [intro]: "CanonicalURL U raw = Inr u \<Longrightarrow> canonical_base U (TrimRight u ''/'')"
  by (auto simp: canonical_base_def)

definition valid_server :: "unicode_tables \<Rightarrow> ServerConfig \<Rightarrow> bool" where
  "valid_server U s \<longleftrightarrow> Listen s \<noteq> [] \<and> canonical_base U (PublicURL s) \<and> canonical_base U (Issuer s)"

definition valid_security :: "SecurityConfig \<Rightarrow> bool" where
  "valid_security s \<longleftrightarrow> (DevMode s \<or> (CookieSecret s \<noteq> [] \<and> CookieSecret s \<noteq> ''change-me'')) \<and>
     0 < CodeTTL s \<and> 0 < AuthRequestTTL s \<and> 0 < AccessTokenTTL s"

definition valid_profile :: "unicode_tables \<Rightarrow> ProfileConfig \<Rightarrow> bool" where
  "valid_profile U p \<longleftrightarrow> Me p \<in> {u. \<exists>raw. CanonicalURL U raw = Inr u} \<and> prof_Backend p \<noteq> [] \<and>
     \<not> (AllowedSubjects p = [] \<and> AllowedUsernames p = [] \<and> AllowedEmails p = [] \<and> AllowedGroups p = [])"

definition valid_backend :: "unicode_tables \<Rightarrow> bool \<Rightarrow> BackendConfig \<Rightarrow> bool" where
  "valid_backend U http b \<longleftrightarrow> Type b \<noteq> [] \<and> be_ClientID b \<noteq> [] \<and> be_ClientSecret b \<noteq> [] \<and> be_Scopes b \<noteq> [] \<and>
     is_ok (ValidateHTTPSURL U (be_Issuer b) http) \<and> is_ok (ValidateHTTPSURL U (be_RedirectURI b) http)"

definition valid_config :: "unicode_tables \<Rightarrow> Config \<Rightarrow> bool" where
  "valid_config U c \<longleftrightarrow> valid_server U (Server c) \<and> valid_security (Security c) \<and>
     0 < RequestsPerMinute (RateLimit c) \<and> 0 < Burst (RateLimit c) \<and>
     list_all (valid_profile U) (Profiles c) \<and> distinct (List.map Me (Profiles c)) \<and>
     Config.Backends c \<noteq> [] \<and> list_all (valid_backend U (allow_http c) \<circ> snd) (Config.Backends c) \<and>
     \<not> (Profiles c = [] \<and> \<not> dp_Enabled (DynamicProfiles c) \<and> \<not> mpc_Enabled (ManagedProfiles c)) \<and>
     \<not> (dp_Enabled (DynamicProfiles c) \<and> map_of (Config.Backends c) (dp_Backend (DynamicProfiles c)) = None) \<and>
     \<not> (mpc_Enabled (ManagedProfiles c) \<and> map_of (Config.Backends c) (mpc_Backend (ManagedProfiles c)) = None) \<and>
     \<not> (dp_Enabled (DynamicProfiles c) \<and> mpc_Enabled (ManagedProfiles c) \<and>
        mpc_Backend (ManagedProfiles c) \<noteq> dp_Backend (DynamicProfiles c)) \<and>
     st_Type (Storage c) = ''sqlite'' \<and> st_Path (Storage c) \<noteq> []"

lemma validate_profiles_valid:
  "validate_profiles U i seen ps = Inr qs \<Longrightarrow>
   list_all (valid_profile U) qs \<and> distinct (List.map Me qs) \<and> set seen \<inter> Me ` set qs = {} \<and> (qs = [] \<longleftrightarrow> ps = [])"
proof (induction U i seen ps arbitrary: qs rule: validate_profiles.induct)
  case (2 U i seen p ps)
  from "2.prems" obtain me rest where *: "CanonicalURL U (Me p) = Inr me" "me \<notin> set seen" "prof_Backend p \<noteq> []"
    "\<not> (AllowedSubjects p = [] \<and> AllowedUsernames p = [] \<and> AllowedEmails p = [] \<and> AllowedGroups p = [])"
    "validate_profiles U (Suc i) (me # seen) ps = Inr rest" "qs = p\<lparr>Me := me\<rparr> # rest"
    by (auto simp: map_result_ok split: sum.splits if_splits)
  with "2.IH" [OF *(1,2), of rest] show ?case by (auto simp: valid_profile_def)
qed simp

lemma validate_backends_valid:
  "validate_backends U http bs = Inr cs \<Longrightarrow> list_all (valid_backend U http \<circ> snd) cs \<and> (cs = [] \<longleftrightarrow> bs = [])"
proof (induction bs arbitrary: cs)
  case (Cons nb bs)
  then obtain b rest where *: "validate_backend U http nb = Inr b" "validate_backends U http bs = Inr rest" "cs = (fst nb, b) # rest"
    by (auto simp: bind_result_ok map_result_ok)
  from *(1) have "valid_backend U http b"
    by (auto simp: validate_backend_def valid_backend_def bind_result_ok split: prod.splits sum.splits if_splits)
  with * Cons.IH show ?case by auto
qed simp

lemma Validate_valid: "Validate U c = Inr c' \<Longrightarrow> valid_config U c'"
proof -
  assume "Validate U c = Inr c'"
  then obtain server profiles bes storage where v: "validate_server U (Server c) = Inr server"
    "validate_security (Security c) = Inr ()" "validate_profiles U 0 [] (Profiles c) = Inr profiles"
    "validate_backends U (allow_http c) (Config.Backends c) = Inr bes"
    "validate_dynamic bes (DynamicProfiles c) = Inr ()" "validate_managed bes (DynamicProfiles c) (ManagedProfiles c) = Inr ()"
    "validate_storage (Storage c) = Inr storage" "Config.Backends c \<noteq> []"
    "\<not> (Profiles c = [] \<and> \<not> dp_Enabled (DynamicProfiles c) \<and> \<not> mpc_Enabled (ManagedProfiles c))"
    "c' = c\<lparr>Server := server, RateLimit := default_rate_limit (RateLimit c), Profiles := profiles, Backends := bes,
       Storage := storage\<rparr>"
    by (auto simp: Validate_def bind_result_ok split: if_splits)
  have "valid_server U server"
    using v(1) by (auto simp: validate_server_def valid_server_def base_url_def bind_result_ok split: if_splits sum.splits)
  moreover have "valid_security (Security c)"
    using v(2) by (auto simp: validate_security_def valid_security_def split: if_splits)
  moreover have "st_Type storage = ''sqlite''" "st_Path storage \<noteq> []"
    using v(7) by (auto simp: validate_storage_def Let_def split: if_splits)
  moreover have "\<not> (dp_Enabled (DynamicProfiles c) \<and> map_of bes (dp_Backend (DynamicProfiles c)) = None)"
    using v(5) by (auto simp: validate_dynamic_def split: if_splits)
  moreover have "\<not> (mpc_Enabled (ManagedProfiles c) \<and> map_of bes (mpc_Backend (ManagedProfiles c)) = None)"
    "\<not> (dp_Enabled (DynamicProfiles c) \<and> mpc_Enabled (ManagedProfiles c) \<and>
        mpc_Backend (ManagedProfiles c) \<noteq> dp_Backend (DynamicProfiles c))"
    using v(6) by (auto simp: validate_managed_def split: if_splits)
  ultimately show ?thesis
    using validate_profiles_valid [OF v(3)] validate_backends_valid [OF v(4)] v(8-10)
    by (simp add: valid_config_def default_rate_limit_def allow_http_def)
qed

end
