(* ===== verification/StartupProperties.thy ===== *)
theory StartupProperties
  imports CommandLine Examples
begin

text \<open>
  The properties of the start: the migrations survive being interrupted, an accepted configuration is well
  formed, and what a started server rests on.
\<close>

section \<open>Interrupted migrations\<close>

text \<open>One start of the program on the database, with the failures it meets.\<close>

definition start_on :: "unicode_tables \<Rightarrow> string \<Rightarrow> 'w schema_world_scheme \<Rightarrow> (nat \<Rightarrow> string option) \<Rightarrow> unit result \<times> 'w schema_world_scheme" where
  "start_on U path w f = run (OpenSQLite U path) (w\<lparr>faults := f, db_ops := 0\<rparr>)"

definition restarts :: "unicode_tables \<Rightarrow> string \<Rightarrow> (nat \<Rightarrow> string option) list \<Rightarrow> 'w schema_world_scheme \<Rightarrow> 'w schema_world_scheme" where
  "restarts U path fs w = foldl (\<lambda>w f. snd (start_on U path w f)) w fs"

definition quiet_faults :: "unicode_tables \<Rightarrow> (nat \<Rightarrow> string option) \<Rightarrow> bool" where
  "quiet_faults U f \<longleftrightarrow> (\<forall>n e. f n = Some e \<longrightarrow> \<not> isDuplicateColumnError U e)"

lemma start_at:
  assumes "at_version k (schema w)" "quiet_faults U f"
  shows "\<exists>k' \<ge> k. at_version k' (schema (snd (start_on U path w f)))"
  using OpenSQLite_reaches [of k "w\<lparr>faults := f, db_ops := 0\<rparr>" U path] assms
  by (auto simp: reaches_version_def start_on_def quiet_def quiet_faults_def)

lemma restarts_at:
  assumes "at_version k (schema w)" "list_all (quiet_faults U) fs"
  shows "\<exists>k' \<ge> k. at_version k' (schema (restarts U path fs w))"
  using assms
proof (induction fs arbitrary: k w)
  case Nil
  then show ?case by (auto simp: restarts_def)
next
  case (Cons f fs)
  then obtain k' where "k' \<ge> k" "at_version k' (schema (snd (start_on U path w f)))" using start_at [of k w U f path] by auto
  with Cons.IH [of k' "snd (start_on U path w f)"] Cons.prems(2) show ?case
    by (auto simp: restarts_def intro: order_trans)
qed

text \<open>C28: from the schema of any release, or none, after any number of starts that each failed at whatever
  statement, a start that meets no failure opens the database and leaves the schema of version four:
  an interrupted migration never leaves a schema from which the next start cannot go on.\<close>

theorem interrupted_migrations_recover:
  assumes "at_version k (schema w)" "list_all (quiet_faults U) fs"
  shows "fst (start_on U path (restarts U path fs w) (\<lambda>_. None)) = Inr () \<and>
    at_version 4 (schema (snd (start_on U path (restarts U path fs w) (\<lambda>_. None))))"
proof -
  obtain k' where "at_version k' (schema (restarts U path fs w))" using restarts_at assms by blast
  then show ?thesis
    using OpenSQLite_reaches [of k' "(restarts U path fs w)\<lparr>faults := \<lambda>_. None, db_ops := 0\<rparr>" U path]
    by (auto simp: reaches_version_def start_on_def healthy_def quiet_def)
qed

definition no_schema :: schema where
  "no_schema = \<lparr>s_tables = [], s_indexes = [], s_versions = None\<rparr>"

definition schema_sample :: "unit schema_world_scheme" where
  "schema_sample = oidc_world.extend sample_world (schema_world.fields no_schema)"

definition failing_at :: "nat \<Rightarrow> nat \<Rightarrow> string option" where
  "failing_at m = (\<lambda>n. if n = m then Some ''disk I/O error'' else None)"

lemma failing_quiet: "quiet_faults ascii_tables (failing_at m)"
  by (simp add: quiet_faults_def failing_at_def isDuplicateColumnError_def ToLower_ascii ascii_char_def ascii_lower_rune_def
      HasPrefix_def char_of_eq_iff)

lemma no_schema_at: "at_version 0 (schema schema_sample)"
  by (simp add: schema_sample_def oidc_world.extend_def schema_world.fields_def at_version_def no_schema_def tables_at_def)

theorem interrupted_migrations_recover_witness:
  "at_version 4 (schema (snd (start_on ascii_tables ''/data/bridge.db''
     (restarts ascii_tables ''/data/bridge.db'' [failing_at 9, failing_at 0, failing_at 12] schema_sample) (\<lambda>_. None))))"
  using interrupted_migrations_recover [OF no_schema_at, of ascii_tables "[failing_at 9, failing_at 0, failing_at 12]"]
  by (simp add: failing_quiet)

section \<open>Accepted configurations\<close>

lemma Load_valid: "Load U getenv read path = Inr c \<Longrightarrow> valid_config U c"
  using Validate_valid by (auto simp: Load_def Let_def split: sum.splits if_splits)

text \<open>C31: a configuration that \<open>Load\<close> accepts, from a file and the environment, is well formed: the public
  URLs are canonical, the secret is set unless in development mode, the lifetimes and the limits are positive,
  the profiles have distinct canonical URLs and selectors, every backend is complete with URLs over https
  unless HTTP is allowed, and the backends of the hosted and the dynamic profiles exist and agree.\<close>

theorem accepted_configuration_is_valid:
  assumes "Load U getenv read path = Inr c"
  shows "valid_config U c"
  using assms by (rule Load_valid)

definition oidc_entry :: BackendConfig where
  "oidc_entry = \<lparr>Type = ''oidc'', be_Issuer = ''https://idp.example'', be_ClientID = ''c'', be_ClientSecret = ''s'',
     be_RedirectURI = ''https://id.example/callback/b'', be_Scopes = [], InsecureSkipVerify = False\<rparr>"

definition http_config :: Config where
  "http_config = sample_config\<lparr>Server := (Server sample_config)\<lparr>PublicURL := ''http://id.example'', Issuer := []\<rparr>,
     Security := (Security sample_config)\<lparr>CookieSecret := ''a long random secret''\<rparr>,
     ManagedProfiles := \<lparr>mpc_Enabled = True, mpc_Backend = ''b''\<rparr>, Backends := [(''b'', oidc_entry)]\<rparr>"

definition host_URL :: "string \<Rightarrow> string \<Rightarrow> string \<Rightarrow> URL" where
  "host_URL scheme host path = app_URL\<lparr>url_Scheme := scheme, url_Host := host, url_Path := path\<rparr>"

lemma Parse_hosts:
  "Parse ascii_tables ''http://id.example'' = Inr (host_URL ''http'' ''id.example'' [])"
  "Parse ascii_tables ''https://idp.example'' = Inr (host_URL ''https'' ''idp.example'' [])"
  "Parse ascii_tables ''https://id.example/callback/b'' = Inr (host_URL ''https'' ''id.example'' ''/callback/b'')"
  by (simp_all add: eval_parse app_URL_def host_URL_def)

lemma canonical_http: "CanonicalURL ascii_tables ''http://id.example'' = Inr ''http://id.example/''"
proof -
  have "URL_String (host_URL ''http'' ''id.example'' ''/'') = ''http://id.example/''"
    by (simp add: host_URL_def app_URL_def empty_URL_def URL_String_def EscapedPath_def eval_parse authority_String_def
        path_String_def query_String_def)
  then show ?thesis by (simp add: CanonicalURL_def Parse_hosts host_URL_def app_URL_def empty_URL_def ToLower_lower_case ascii_char_def)
qed

lemma http_config_accepted:
  "\<exists>c. Validate ascii_tables http_config = Inr c \<and> RequireHTTPS (Security c) \<and> \<not> DevMode (Security c) \<and>
     PublicURL (Server c) = ''http://id.example'' \<and> Issuer (Server c) = ''http://id.example'' \<and>
     list_all (\<lambda>(n, b). Type b \<in> {''authentik'', ''oidc''}) (Config.Backends c)"
proof -
  have server: "validate_server ascii_tables (Server http_config) =
      Inr ((Server http_config)\<lparr>PublicURL := ''http://id.example'', Issuer := ''http://id.example''\<rparr>)"
    by (simp add: validate_server_def base_url_def http_config_def sample_config_def Default_def canonical_http TrimRight_def)
  have security: "validate_security (Security http_config) = Inr ()"
    by (simp add: validate_security_def http_config_def sample_config_def Default_def minute_def hour_def second_def)
  have fields: "Profiles http_config = []" "Config.Backends http_config = [(''b'', oidc_entry)]" "\<not> allow_http http_config"
    "DynamicProfiles http_config = DynamicProfiles Default" "ManagedProfiles http_config = \<lparr>mpc_Enabled = True, mpc_Backend = ''b''\<rparr>"
    "Storage http_config = Storage Default" "RequireHTTPS (Security http_config)" "\<not> DevMode (Security http_config)"
    by (simp_all add: http_config_def sample_config_def Default_def allow_http_def)
  have "is_ok (validate_backend ascii_tables False (''b'', oidc_entry))"
    by (simp add: oidc_entry_def validate_backend_def ValidateHTTPSURL_def Parse_hosts host_URL_def app_URL_def eval_host)
  then obtain b where "validate_backend ascii_tables False (''b'', oidc_entry) = Inr b" "Type b = ''oidc''"
    by (cases "validate_backend ascii_tables False (''b'', oidc_entry)")
      (auto simp: validate_backend_def bind_result_ok oidc_entry_def split: if_splits sum.splits)
  with server security fields show ?thesis
    by (simp add: Validate_def validate_dynamic_def validate_managed_def validate_storage_def Default_def)
qed

lemma http_config_loaded: "Load ascii_tables (\<lambda>_. []) (\<lambda>_ _. Inr http_config) ''bridge.yaml'' = Validate ascii_tables http_config"
  by (simp add: Load_def applyEnv_def env_server_def env_security_def env_rate_limit_def env_authentik_def set_env_def
      set_env_bool_def set_env_int_def backend_config_def http_config_def no_backend_def
      sample_config_def Default_def)

theorem accepted_configuration_is_valid_witness:
  "\<exists>c. Load ascii_tables (\<lambda>_. []) (\<lambda>_ _. Inr http_config) ''bridge.yaml'' = Inr c \<and> valid_config ascii_tables c"
  using http_config_accepted http_config_loaded accepted_configuration_is_valid by metis

text \<open>A configuration that requires HTTPS, outside development mode, is accepted with a public URL and
  an issuer of scheme \<open>http\<close>: only the URLs of the backends are checked for it.\<close>

lemma http_public_url_accepted:
  "\<exists>c. Validate ascii_tables http_config = Inr c \<and> RequireHTTPS (Security c) \<and> \<not> DevMode (Security c) \<and>
     PublicURL (Server c) = ''http://id.example'' \<and> Issuer (Server c) = ''http://id.example''"
  using http_config_accepted by blast

section \<open>The start of the server\<close>

lemma exec_all_schema [simp]: "schema (world_of (exec_all fs) w) = schema (w :: 'w schema_world_scheme)"
proof (induction fs arbitrary: w)
  case (Cons f fs)
  let ?w = "world_of (sql_exec f) w"
  have "schema ?w = schema w" by (simp add: sql_exec_def sql_def split: option.splits)
  with Cons.IH [of ?w] show ?case by (cases "val_of (sql_exec f) w") (simp_all add: case_prod_beta)
qed simp

lemma now_schema [simp]: "schema (world_of now w) = schema (w :: 'w schema_world_scheme)"
  by (simp add: now_def)

lemma start_server_listening:
  assumes "val_of (start_server U getenv read lib path check) w = Listening s l"
  shows "\<exists>c bs. Load U getenv read path = Inr c \<and> buildBackends lib c = Inr bs \<and> (s, l) = NewServer c bs U \<and>
    val_of (OpenSQLite U (st_Path (Storage c))) w = Inr () \<and>
    schema (world_of (start_server U getenv read lib path check) w) = schema (world_of (OpenSQLite U (st_Path (Storage c))) w)"
  using assms
  by (auto simp: start_server_def Cleanup_def case_prod_beta split: sum.splits if_splits prod.splits)

lemma supported_backends_built:
  "list_all (\<lambda>(n, b). Type b \<in> {''authentik'', ''oidc''}) bs \<Longrightarrow> is_ok (build_all lib dev bs)"
proof (induction bs)
  case (Cons nb bs)
  then show ?case by (cases nb, cases "build_all lib dev bs") (auto simp: backend_of_config_def Let_def)
qed simp

lemma start_listens:
  assumes "Load U getenv read path = Inr c" "list_all (\<lambda>(n, b). Type b \<in> {''authentik'', ''oidc''}) (Config.Backends c)"
    "at_version k (schema w)" "healthy w"
  shows "\<exists>s l. val_of (start_server U getenv read lib path False) w = Listening s l \<and> cfg s = c"
proof -
  have "val_of (OpenSQLite U (st_Path (Storage c))) w = Inr ()"
    using OpenSQLite_reaches [OF assms(3) healthy_quiet [OF assms(4)]] assms(4) by (auto simp: reaches_version_def)
  moreover obtain bs where "buildBackends lib c = Inr bs"
    using supported_backends_built [OF assms(2), of lib "DevMode (Security c)"]
    by (cases "buildBackends lib c") (auto simp: buildBackends_def)
  ultimately show ?thesis using assms(1) by (simp add: start_server_def case_prod_beta NewServer_def)
qed

lemma main_listening:
  assumes "val_of (main U getenv read lib args) w = Listening s l"
  obtains path check where "val_of (start_server U getenv read lib path check) w = Listening s l"
    "main U getenv read lib args = start_server U getenv read lib path check"
  using assms by (auto simp: main_def case_prod_beta split: sum.splits if_splits)

text \<open>C29: whatever the command line, when the program comes to listen, its configuration is well formed, every
  migration has been applied to whatever schema it found, and its backends satisfy the contract on which the
  properties of the login flow rest.\<close>

theorem listening_server_is_sound:
  assumes "val_of (main U getenv read lib args) w = Listening s l" "at_version k (schema w)" "quiet U w" "library_blind lib"
  shows "valid_config U (cfg s) \<and> server_ok s \<and> at_version 4 (schema (world_of (main U getenv read lib args) w))"
proof -
  obtain path check where *: "val_of (start_server U getenv read lib path check) w = Listening s l"
    "main U getenv read lib args = start_server U getenv read lib path check"
    using main_listening [OF assms(1)] .
  then obtain c bs where c: "Load U getenv read path = Inr c" "buildBackends lib c = Inr bs" "(s, l) = NewServer c bs U"
    "val_of (OpenSQLite U (st_Path (Storage c))) w = Inr ()"
    "schema (world_of (main U getenv read lib args) w) = schema (world_of (OpenSQLite U (st_Path (Storage c))) w)"
    using start_server_listening by metis
  have "server_ok s"
    using c(2,3) built_login_backends [OF assms(4)] by (auto simp: NewServer_def server_ok_def buildBackends_def)
  moreover have "valid_config U (cfg s)" using Load_valid [OF c(1)] c(3) by (simp add: NewServer_def)
  ultimately show ?thesis
    using OpenSQLite_reaches [OF assms(2,3), of "st_Path (Storage c)"] c(4,5) by (auto simp: reaches_version_def)
qed

definition sample_library :: "(unit schema_world_scheme) oidc_library" where
  "sample_library = answering (Inl ''down'') (Inl ''down'') (Inl ''down'') (Inl ''down'')"

definition sample_start :: "(unit schema_world_scheme, (unit schema_world_scheme) outcome) state" where
  "sample_start = main ascii_tables (\<lambda>_. []) (\<lambda>_ _. Inr http_config) sample_library [''bridge'', ''-config'', ''bridge.yaml'']"

lemma main_config:
  "main U getenv read lib [prog, ''-config'', path] = start_server U getenv read lib path False"
  using parse_flags_written(1) [where name = "''config''" and dashes = "''-''" and formal = main_flag_set and args = "[]"]
  by (simp add: main_def main_flag_set_def flag_name_def set_flag_def main_defaults_def)

lemma schema_sample_healthy: "healthy schema_sample"
  by (simp add: healthy_def schema_sample_def oidc_world.extend_def sample_world_def)

lemma sample_listens: "\<exists>s l. val_of sample_start schema_sample = Listening s l"
proof -
  obtain c where "Load ascii_tables (\<lambda>_. []) (\<lambda>_ _. Inr http_config) ''bridge.yaml'' = Inr c"
    "list_all (\<lambda>(n, b). Type b \<in> {''authentik'', ''oidc''}) (Config.Backends c)"
    using http_config_accepted http_config_loaded by metis
  from start_listens [OF this no_schema_at schema_sample_healthy, of sample_library] show ?thesis
    by (auto simp: sample_start_def main_config)
qed

theorem listening_server_is_sound_witness:
  "at_version 4 (schema (world_of sample_start schema_sample))"
proof -
  obtain s l where "val_of sample_start schema_sample = Listening s l" using sample_listens by blast
  from listening_server_is_sound [OF this [unfolded sample_start_def] no_schema_at healthy_quiet [OF schema_sample_healthy]]
  show ?thesis by (simp add: sample_start_def sample_library_def answering_blind)
qed

text \<open>With an accepted configuration whose backends are of the two supported types, and a database that does not
  fail, the program comes to listen.\<close>

theorem healthy_start_listens:
  assumes "Load U getenv read path = Inr c" "list_all (\<lambda>(n, b). Type b \<in> {''authentik'', ''oidc''}) (Config.Backends c)"
    "at_version k (schema w)" "healthy w"
  shows "\<exists>s l. val_of (main U getenv read lib [prog, ''-config'', path]) w = Listening s l \<and> cfg s = c"
  using start_listens [OF assms] by (simp add: main_config)

theorem healthy_start_listens_witness:
  "\<exists>s l. val_of sample_start schema_sample = Listening s l \<and> RequireHTTPS (Security (cfg s))"
proof -
  obtain c where "Load ascii_tables (\<lambda>_. []) (\<lambda>_ _. Inr http_config) ''bridge.yaml'' = Inr c"
    "list_all (\<lambda>(n, b). Type b \<in> {''authentik'', ''oidc''}) (Config.Backends c)" "RequireHTTPS (Security c)"
    using http_config_accepted http_config_loaded by metis
  from healthy_start_listens [OF this(1,2) no_schema_at schema_sample_healthy, where lib = sample_library and prog = "''bridge''"] this(3) show ?thesis
    by (auto simp: sample_start_def)
qed

section \<open>Whole runs of the program\<close>

lemma start_server_reaches:
  assumes "val_of (start_server U getenv read lib path check) w = Listening s l"
  shows "\<exists>w0. db w0 = db w \<and> reachable s w0 (world_of (start_server U getenv read lib path check) w)"
proof -
  obtain c where c: "Load U getenv read path = Inr c" "val_of (OpenSQLite U (st_Path (Storage c))) w = Inr ()" "\<not> check"
    using assms start_server_listening [OF assms] by (cases check) (auto simp: start_server_def)
  let ?w = "world_of (OpenSQLite U (st_Path (Storage c))) w"
  have "reachable s (world_of now ?w) (world_of (Cleanup t) (world_of now ?w))" for t
    using handle_reachable [of s "world_of now ?w" "CleanupTick t"] by (simp add: case_prod_beta)
  then have "reachable s ?w (world_of (Cleanup t) (world_of now ?w))" for t using now_reachable by (rule reachable_trans)
  then have "reachable s ?w (world_of (start_server U getenv read lib path check) w)"
    using c by (simp add: start_server_def case_prod_beta)
  then show ?thesis using OpenSQLite_db by blast
qed

text \<open>C30: from the command line to any later moment: when the program has come to listen, whatever the command
  line and the environment, and its tables were empty when it was started, then after whatever requests,
  ticks of the cleanup, signals and failures of the listener, and whatever statements fail, every stored
  grant has been checked under the configuration that was loaded, and the keys are unique.\<close>

theorem program_keeps_grants_checked:
  assumes "val_of (main U getenv read lib os_Args) w = Listening s l" "library_blind lib" "db w = empty_database"
  shows "grants_checked s (db (world_of (run_program U getenv read lib os_Args os shutdown) w)) \<and>
    unique_keys (db (world_of (run_program U getenv read lib os_Args os shutdown) w))"
proof -
  obtain path check where st: "val_of (start_server U getenv read lib path check) w = Listening s l"
    "main U getenv read lib os_Args = start_server U getenv read lib path check"
    using main_listening [OF assms(1)] .
  then obtain w0 where w0: "db w0 = db w" "reachable s w0 (world_of (main U getenv read lib os_Args) w)"
    using start_server_reaches by metis
  have ok: "server_ok s"
    using start_server_listening [OF st(1)] built_login_backends [OF assms(2)]
    by (auto simp: NewServer_def server_ok_def buildBackends_def)
  have "reachable s w0 (world_of (run_program U getenv read lib os_Args os shutdown) w)"
    using reachable_trans [OF until_done_reachable w0(2), of l os] assms(1) by (simp add: run_program_def case_prod_beta)
  then show ?thesis
    using flow.reachable_inv [OF grants_flow [OF ok]] flow.reachable_inv [OF keys_flow [OF ok]] w0(1) assms(3)
    by (fastforce simp: inv_def)
qed

theorem program_keeps_grants_checked_witness:
  "\<exists>s l. val_of sample_start schema_sample = Listening s l \<and>
     grants_checked s (db (world_of (run_program ascii_tables (\<lambda>_. []) (\<lambda>_ _. Inr http_config) sample_library
       [''bridge'', ''-config'', ''bridge.yaml''] [Requested ''/token'' exchange_request, CleanupDue 1, Signalled] None) schema_sample))"
proof -
  obtain s l where "val_of sample_start schema_sample = Listening s l" using sample_listens by blast
  with program_keeps_grants_checked [OF this [unfolded sample_start_def], of
      "[Requested ''/token'' exchange_request, CleanupDue 1, Signalled]" None] show ?thesis
    by (simp add: sample_library_def answering_blind schema_sample_def oidc_world.extend_def)
qed

section \<open>The exit status\<close>

text \<open>Help is only asked for by the flags of the server; the other commands take it for an error.\<close>

definition wants_help :: "string list \<Rightarrow> bool" where
  "wants_help os_Args \<longleftrightarrow> \<not> (length os_Args > 1 \<and> os_Args ! 1 \<in> {''check-config'', ''healthcheck''}) \<and> os_Args \<noteq> [] \<and>
     parse_flags main_flag_set (drop 1 os_Args) main_defaults = Inl ErrHelp"

text \<open>The path of the configuration that is to be checked, by the command or by the flag.\<close>

definition checked_path :: "string list \<Rightarrow> string option" where
  "checked_path os_Args =
     (if length os_Args > 1 \<and> os_Args ! 1 = ''check-config''
      then (case parse_flags check_flag_set (drop 2 os_Args) [] of Inl e \<Rightarrow> None | Inr path \<Rightarrow> Some path)
      else if (length os_Args > 1 \<and> os_Args ! 1 = ''healthcheck'') \<or> os_Args = [] then None
      else (case parse_flags main_flag_set (drop 1 os_Args) main_defaults of
          Inl e \<Rightarrow> None
        | Inr f \<Rightarrow> if checkConfig f then Some (configPath f) else None))"

text \<open>A health check of an absolute URL that is answered with a status of success.\<close>

definition reported_healthy :: "unicode_tables \<Rightarrow> string list \<Rightarrow> 'a network_scheme \<Rightarrow> bool" where
  "reported_healthy U os_Args w \<longleftrightarrow> length os_Args > 1 \<and> os_Args ! 1 = ''healthcheck'' \<and>
     (\<exists>f parsed req resp. parse_flags healthcheck_flag_set (drop 2 os_Args) healthcheck_defaults = Inr f \<and>
        healthcheck_target U (hf_url f) = Some parsed \<and> NewRequest U ''GET'' (URL_String parsed) = Inr req \<and>
        val_of (client_Do U default_client 0 req) w = Inr resp \<and> status_ok (wp_Status resp))"

lemma runHealthcheck_zero:
  "length os_Args > 1 \<Longrightarrow> os_Args ! 1 = ''healthcheck'' \<Longrightarrow>
   val_of (runHealthcheck U (drop 2 os_Args)) w = 0 \<longleftrightarrow> reported_healthy U os_Args w"
  by (auto simp: runHealthcheck_def reported_healthy_def case_prod_beta split: sum.splits option.splits if_splits)

lemma start_server_check:
  "val_of (start_server U getenv read lib path True) w = Exit 0 out \<longleftrightarrow>
     (\<exists>c. Load U getenv read path = Inr c \<and> out = writeConfigSummary c)"
  by (auto simp: start_server_def split: sum.splits)

lemma start_server_no_zero: "val_of (start_server U getenv read lib path False) w \<noteq> Exit 0 out"
  by (auto simp: start_server_def case_prod_beta split: sum.splits prod.splits)

lemma main_zero:
  "(\<exists>out. val_of (main U getenv read lib os_Args) w = Exit 0 out) \<longleftrightarrow>
     wants_help os_Args \<or> (\<exists>path c. checked_path os_Args = Some path \<and> Load U getenv read path = Inr c) \<or>
     reported_healthy U os_Args w"
proof (cases "length os_Args > 1 \<and> os_Args ! 1 \<in> {''check-config'', ''healthcheck''}")
  case True
  then show ?thesis
    using runHealthcheck_zero [of os_Args U w]
    by (auto simp: main_def wants_help_def checked_path_def reported_healthy_def runCheckConfig_def case_prod_beta split: sum.splits)
next
  case False
  then have "\<not> reported_healthy U os_Args w" by (auto simp: reported_healthy_def)
  moreover have "main U getenv read lib os_Args = (if os_Args = [] then return (Exit 2 [])
      else (case parse_flags main_flag_set (drop 1 os_Args) main_defaults of
          Inl e \<Rightarrow> return (Exit (if e = ErrHelp then 0 else 2) [])
        | Inr f \<Rightarrow> start_server U getenv read lib (configPath f) (checkConfig f)))"
    using False by (auto simp: main_def)
  moreover have "(\<exists>out. val_of (start_server U getenv read lib path check) w = Exit 0 out) \<longleftrightarrow>
      check \<and> (\<exists>c. Load U getenv read path = Inr c)" for path check
    by (cases check) (simp_all add: start_server_check start_server_no_zero)
  ultimately show ?thesis
    using False by (auto simp: wants_help_def checked_path_def split: sum.splits if_splits)
qed

text \<open>C32: the program reports success in exactly these cases: help was asked for; a configuration was to be
  checked and is accepted; a health check was answered with a status of success; or the server came to
  listen, was stopped and shut down without error.  A listener that fails, at once because the address is
  taken or later, counts as such a stop, so that a server that never served ends with status 0.\<close>

theorem exit_status_zero:
  "val_of (run_program U getenv read lib os_Args os shutdown) w = Some 0 \<longleftrightarrow>
     wants_help os_Args \<or> (\<exists>path c. checked_path os_Args = Some path \<and> Load U getenv read path = Inr c) \<or>
     reported_healthy U os_Args w \<or>
     (\<exists>s l. val_of (main U getenv read lib os_Args) w = Listening s l) \<and> shutdown = None \<and>
       (Signalled \<in> set os \<or> (\<exists>e. ListenerFailed e \<in> set os))"
proof (cases "val_of (main U getenv read lib os_Args) w")
  case (Exit n out)
  then show ?thesis using main_zero [of U getenv read lib os_Args w] by (auto simp: run_program_def case_prod_beta)
next
  case (Listening s l)
  then show ?thesis
    using main_zero [of U getenv read lib os_Args w] by (auto simp: run_program_def case_prod_beta until_done_iff stopped_def split: option.splits)
qed

text \<open>A server whose address is taken ends like one that was asked to stop.\<close>

theorem exit_status_zero_witness:
  "val_of (run_program ascii_tables (\<lambda>_. []) (\<lambda>_ _. Inr http_config) sample_library [''bridge'', ''-config'', ''bridge.yaml'']
     [ListenerFailed ''listen tcp :8080: bind: address already in use''] None) schema_sample = Some 0"
  using sample_listens by (simp add: exit_status_zero sample_start_def)

end
