(* ===== verification/HostedPage.thy ===== *)
theory HostedPage
  imports Templates Managed Discovery
begin

text \<open>
  The page of a hosted profile, as rendered, read by the discovery of \<open>internal/indieauth\<close>: the scanners find
  the links of the page's head and read back the addresses that the template escaped.
\<close>

section \<open>Scanning a text piece by piece\<close>

locale scanner =
  fixes scan :: "string \<Rightarrow> ('m \<times> string) option"
  assumes shrinks: "scan s = Some (m, r) \<Longrightarrow> length r < length s"
begin

lemma find_all_fuel: "length s \<le> n \<Longrightarrow> find_all scan n s = find_all scan (length s) s"
proof (induction "length s" arbitrary: s n rule: less_induct)
  case less
  show ?case
  proof (cases s)
    case Nil
    then show ?thesis by (cases n) (auto split: option.splits dest: shrinks)
  next
    case (Cons c cs)
    then obtain m where m: "n = Suc m" "length cs \<le> m" using less.prems by (cases n) auto
    show ?thesis
    proof (cases "scan s")
      case None
      with Cons m less.hyps [of cs m] show ?thesis by simp
    next
      case (Some p)
      obtain x r where p: "p = (x, r)" by (cases p)
      with Some have "length r < length s" using shrinks by blast
      with Cons m Some p less.hyps [of r m] less.hyps [of r "length cs"] show ?thesis by simp
    qed
  qed
qed

lemma find_all_match: "scan s = Some (m, r) \<Longrightarrow> find_all scan (length s) s = m # find_all scan (length r) r"
  using find_all_fuel [of r "length s - 1"] shrinks [of s m r] by (cases "length s") auto

lemma find_all_no_match: "scan (c # s) = None \<Longrightarrow> find_all scan (length (c # s)) (c # s) = find_all scan (length s) s"
  by simp

end

lemma match_letter_length: "match_letter l s = Some t \<Longrightarrow> length t \<le> length s"
  by (auto simp: match_letter_def split: list.splits if_splits)

lemma match_word_length: "match_word w s = Some t \<Longrightarrow> length t \<le> length s"
  by (induction w s rule: match_word.induct) (fastforce split: option.splits dest: match_letter_length)+

lemma name_start_length: "name_start s = Some t \<Longrightarrow> length t < length s"
  by (auto simp: name_start_def split: list.splits if_splits)

lemma name_more_length: "name_more s = Some t \<Longrightarrow> length t < length s"
  by (auto simp: name_more_def dest: name_start_length split: option.splits list.splits if_splits)

lemma skip_name_length: "length (skip_name n s) \<le> length s"
proof (induction n s rule: skip_name.induct)
  case (2 n s)
  then show ?case using name_more_length [of s] by (cases "name_more s") (fastforce)+
qed simp

lemma match_equals_length: "match_equals s = Some t \<Longrightarrow> length t < length s"
proof -
  assume "match_equals s = Some t"
  then obtain cs where "dropWhile re_space s = CHR ''='' # cs" "t = dropWhile re_space cs"
    by (auto simp: match_equals_def split: list.splits if_splits)
  then show ?thesis
    using length_dropWhile_le [of re_space s] length_dropWhile_le [of re_space cs] by simp
qed

interpretation tag_scanner: scanner "match_tag name" for name
proof
  fix s m r assume "match_tag name s = Some (m, r)"
  then obtain c cs d ds where "s = c # cs" "match_word name cs = Some (d # ds)" "r = tl (dropWhile (\<lambda>x. x \<noteq> CHR ''>'') ds)"
    by (auto simp: match_tag_def Let_def split: list.splits if_splits option.splits)
  then show "length r < length s"
    using match_word_length [of name cs "d # ds"] length_dropWhile_le [of "\<lambda>x. x \<noteq> CHR ''>''" ds] by simp
qed

interpretation attr_scanner: scanner match_attr
proof
  fix s m r assume "match_attr s = Some (m, r)"
  then obtain n q v where "name_start s = Some n" "match_equals (skip_name (length n) n) = Some (q # v)"
    "r = tl (dropWhile (\<lambda>c. c \<noteq> q) v)"
    by (auto simp: match_attr_def Let_def split: list.splits if_splits option.splits)
  then show "length r < length s"
    using name_start_length [of s n] skip_name_length [of "length n" n] match_equals_length [of "skip_name (length n) n" "q # v"]
      length_dropWhile_le [of "\<lambda>c. c \<noteq> q" v] by simp
qed

subsection \<open>Tags\<close>

text \<open>A piece in which no link starts.\<close>

fun skippable :: "string \<Rightarrow> bool" where
  "skippable [] \<longleftrightarrow> True"
| "skippable [c] \<longleftrightarrow> c \<noteq> CHR ''<''"
| "skippable (c # d # s) \<longleftrightarrow> (c \<noteq> CHR ''<'' \<or> d \<notin> {CHR ''l'', CHR ''L''}) \<and> skippable (d # s)"

lemma char_L: "chr 76 = CHR ''L''"
  by (simp add: char_of_eq_iff)

lemma match_no_link:
  "c \<noteq> CHR ''<'' \<or> d \<notin> {CHR ''l'', CHR ''L''} \<Longrightarrow> match_tag ''link'' (c # d # s) = None"
  "c \<noteq> CHR ''<'' \<Longrightarrow> match_tag name (c # s) = None"
proof -
  have "match_letter (CHR ''l'') (d # s) = None" if "d \<notin> {CHR ''l'', CHR ''L''}"
  proof -
    have "ord d = 76 \<Longrightarrow> d = CHR ''L''" by (metis char_of_char char_L)
    with that show ?thesis by (auto simp: match_letter_def fold_letter_def)
  qed
  then show "c \<noteq> CHR ''<'' \<or> d \<notin> {CHR ''l'', CHR ''L''} \<Longrightarrow> match_tag ''link'' (c # d # s) = None"
    by (auto simp: match_tag_def)
  show "c \<noteq> CHR ''<'' \<Longrightarrow> match_tag name (c # s) = None" by (simp add: match_tag_def)
qed

lemma find_tags_skip: "skippable p \<Longrightarrow> find_tags ''link'' (p @ s) = find_tags ''link'' s"
proof (induction p rule: skippable.induct)
  case (2 c)
  then show ?case using match_no_link(2) [of c "''link''" s] by (simp add: find_tags_def)
next
  case (3 c d p)
  then have "match_tag ''link'' (c # d # p @ s) = None" by (intro match_no_link(1)) simp
  then have "find_tags ''link'' ((c # d # p) @ s) = find_tags ''link'' ((d # p) @ s)"
    by (simp add: find_tags_def)
  with 3 show ?case by simp
qed simp

lemma skippable_no_tag: "CHR ''<'' \<notin> set p \<Longrightarrow> skippable p"
  by (induction p rule: skippable.induct) auto

text \<open>A link.\<close>

definition link_text :: "string \<Rightarrow> string" where
  "link_text attrs = ''<link '' @ attrs @ ''>''"

lemma length_link_text: "length (link_text attrs) = 7 + length attrs"
  by (simp add: link_text_def)

lemma match_link:
  assumes "CHR ''>'' \<notin> set attrs"
  shows "match_tag ''link'' (link_text attrs @ s) = Some (link_text attrs, s)"
proof -
  have word: "match_word ''link'' (''link '' @ t) = Some (CHR '' '' # t)" for t
    by (simp add: match_letter_def fold_letter_def)
  have "dropWhile (\<lambda>x. x \<noteq> CHR ''>'') (attrs @ ''>'' @ s) = ''>'' @ s"
    using assms by (induction attrs) auto
  moreover have "take (7 + length attrs) (link_text attrs @ s) = link_text attrs"
    by (simp add: length_link_text)
  ultimately show ?thesis
    using word [of "attrs @ ''>'' @ s"] by (simp add: match_tag_def link_text_def re_space_def)
qed

lemma find_tags_link:
  "CHR ''>'' \<notin> set attrs \<Longrightarrow> find_tags ''link'' (link_text attrs @ s) = link_text attrs # find_tags ''link'' s"
  unfolding find_tags_def by (rule tag_scanner.find_all_match) (rule match_link)

subsection \<open>Attributes\<close>

definition lower :: "char \<Rightarrow> bool" where
  "lower c \<longleftrightarrow> 97 \<le> ord c \<and> ord c \<le> 122"

definition attributes_in :: "string \<Rightarrow> (string \<times> string) list" where
  "attributes_in s = find_all match_attr (length s) s"

lemma name_lower: "lower c \<Longrightarrow> name_start (c # s) = Some s" "lower c \<Longrightarrow> name_more (c # s) = Some s"
  by (simp_all add: name_more_def name_start_def lower_def)

lemma name_ends: "name_more (CHR ''='' # s) = None" "name_more (CHR '' '' # s) = None"
  "name_start (CHR ''<'' # s) = None" "name_start (CHR '' '' # s) = None" "name_start (CHR ''>'' # s) = None"
  by (simp_all add: name_more_def name_start_def eq_char_of_iff)

lemma skip_lower:
  assumes "list_all lower w" "length w < n" "name_more s = None"
  shows "skip_name n (w @ s) = s"
  using assms(1,2)
proof (induction w arbitrary: n)
  case Nil
  then obtain m where "n = Suc m" by (cases n) auto
  then show ?case using assms(3) by simp
next
  case (Cons c w)
  then obtain m where "n = Suc m" by (cases n) auto
  with Cons show ?case by (simp add: name_lower)
qed

lemma match_attr_quoted:
  assumes "list_all lower w" "w \<noteq> []" "double_quote \<notin> set v"
  shows "match_attr (w @ CHR ''='' # double_quote # v @ double_quote # r) = Some ((w, v), r)"
proof -
  let ?t = "CHR ''='' # double_quote # v @ double_quote # r"
  obtain c cs where w: "w = c # cs" using assms(2) by (cases w) auto
  have "skip_name (length (cs @ ?t)) (cs @ ?t) = ?t"
    using assms(1) w by (intro skip_lower) (simp_all add: name_ends)
  moreover have "match_equals ?t = Some (double_quote # v @ double_quote # r)"
    by (simp add: match_equals_def re_space_def double_quote_def)
  moreover have "dropWhile (\<lambda>c. c \<noteq> double_quote) (v @ double_quote # r) = double_quote # r"
    "takeWhile (\<lambda>c. c \<noteq> double_quote) (v @ double_quote # r) = v"
    using assms(3) by (induction v) auto
  ultimately show ?thesis
    using assms(1) w by (simp add: match_attr_def name_lower Let_def)
qed

lemma attributes_quoted:
  "list_all lower w \<Longrightarrow> w \<noteq> [] \<Longrightarrow> double_quote \<notin> set v \<Longrightarrow>
   attributes_in (w @ CHR ''='' # double_quote # v @ double_quote # r) = (w, v) # attributes_in r"
  unfolding attributes_in_def by (rule attr_scanner.find_all_match) (rule match_attr_quoted)

lemma attributes_skip:
  "attributes_in (CHR ''<'' # s) = attributes_in s" "attributes_in (CHR '' '' # s) = attributes_in s"
  "attributes_in (CHR ''>'' # s) = attributes_in s" "attributes_in [] = []"
  by (simp_all add: attributes_in_def match_attr_def name_ends)

text \<open>A word that no equals sign follows.\<close>

lemma attributes_word:
  assumes "list_all lower w" "lower d"
  shows "attributes_in (w @ CHR '' '' # d # s) = attributes_in (d # s)"
  using assms(1)
proof (induction w)
  case Nil
  then show ?case by (simp add: attributes_skip)
next
  case (Cons c w)
  let ?t = "CHR '' '' # d # s"
  have "skip_name (length (w @ ?t)) (w @ ?t) = ?t"
    using Cons.prems by (intro skip_lower) (simp_all add: name_ends)
  moreover have "match_equals ?t = None"
    using assms(2) by (auto simp: match_equals_def re_space_def lower_def)
  ultimately have "match_attr (c # w @ ?t) = None" using Cons.prems by (simp add: match_attr_def name_lower Let_def)
  then have "attributes_in ((c # w) @ ?t) = attributes_in (w @ ?t)" by (simp add: attributes_in_def)
  with Cons show ?case by simp
qed

lemma link_attributes:
  assumes "double_quote \<notin> set rel" "double_quote \<notin> set href"
  shows "attributes_in (link_text (''rel='' @ double_quote # rel @ double_quote # '' href='' @ double_quote # href @ [double_quote])) =
    [(''rel'', rel), (''href'', href)]"
proof -
  have low: "list_all lower ''link''" "list_all lower ''rel''" "list_all lower ''href''" "lower (CHR ''r'')"
    by (simp_all add: lower_def)
  note word = attributes_word [OF low(1,4)]
  show ?thesis
    using word attributes_quoted [OF low(2) _ assms(1)] attributes_quoted [OF low(3) _ assms(2)]
    by (simp add: link_text_def attributes_skip)
qed

section \<open>The page of a hosted profile\<close>

lemma quote_literal: "double_quote = CHR 0x22"
  by (simp add: double_quote_def char_of_eq_iff)

definition link_of :: "string \<Rightarrow> string \<Rightarrow> string" where
  "link_of rel href = link_text (''rel='' @ double_quote # rel @ double_quote # '' href='' @ double_quote # href @ [double_quote])"

lemma profile_template_head:
  "\<exists>rest. render U d managedProfileTemplate =
     lines [''<!doctype html>'', ''<html lang=\"en\" data-accent=\"''] @ htmlEscaper (field d ''Accent'') @
     lines [''\">'', ''<head>'', ''  <meta charset=\"utf-8\">'',
       ''  <meta name=\"viewport\" content=\"width=device-width, initial-scale=1\">'', ''  ''] @
     link_of ''canonical'' (url_attribute U (field d ''Me'')) @
     lines [[], ''  ''] @ link_of ''indieauth-metadata'' (url_attribute U (field d ''MetadataURL'')) @ rest"
  by (simp add: managedProfileTemplate_def lines_def link_of_def link_text_def quote_literal)

lemma find_tags_link_of:
  assumes "list_all (\<lambda>c. \<not> markup c) rel" "list_all (\<lambda>c. \<not> markup c) href"
  shows "find_tags ''link'' (link_of rel href @ s) = link_of rel href # find_tags ''link'' s"
  using assms unfolding link_of_def
  by (intro find_tags_link) (auto simp: list_all_iff markup_def quote_literal)

lemma plain_text_skip: "list_all (\<lambda>c. \<not> markup c) t \<Longrightarrow> skippable t"
  by (rule skippable_no_tag) (auto simp: list_all_iff markup_def)

lemma profile_page_tags:
  "link_of ''indieauth-metadata'' (url_attribute U (field d ''MetadataURL'')) \<in> set (find_tags ''link'' (render U d managedProfileTemplate))"
proof -
  have plain: "list_all (\<lambda>c. \<not> markup c) (url_attribute U u)" for u
    unfolding url_attribute_def by (rule htmlEscaper_plain)
  have names: "list_all (\<lambda>c. \<not> markup c) ''canonical''" "list_all (\<lambda>c. \<not> markup c) ''indieauth-metadata''"
    by (simp_all add: markup_def)
  have skip: "skippable (lines [''<!doctype html>'', ''<html lang=\"en\" data-accent=\"''])"
    "skippable (lines [''\">'', ''<head>'', ''  <meta charset=\"utf-8\">'',
       ''  <meta name=\"viewport\" content=\"width=device-width, initial-scale=1\">'', ''  ''])"
    "skippable (lines [[], ''  ''])"
    by (simp_all add: lines_def)
  obtain rest where r: "render U d managedProfileTemplate =
     lines [''<!doctype html>'', ''<html lang=\"en\" data-accent=\"''] @ htmlEscaper (field d ''Accent'') @
     lines [''\">'', ''<head>'', ''  <meta charset=\"utf-8\">'',
       ''  <meta name=\"viewport\" content=\"width=device-width, initial-scale=1\">'', ''  ''] @
     link_of ''canonical'' (url_attribute U (field d ''Me'')) @
     lines [[], ''  ''] @ link_of ''indieauth-metadata'' (url_attribute U (field d ''MetadataURL'')) @ rest"
    using profile_template_head by blast
  show ?thesis
    unfolding r find_tags_skip [OF skip(1)] find_tags_skip [OF plain_text_skip [OF htmlEscaper_plain]] find_tags_skip [OF skip(2)]
      find_tags_link_of [OF names(1) plain] find_tags_skip [OF skip(3)] find_tags_link_of [OF names(2) plain]
    by simp
qed

text \<open>An address that a template prints as it is, and that parsing and printing leave alone.\<close>

definition plain_url :: "unicode_tables \<Rightarrow> string \<Rightarrow> bool" where
  "plain_url U e \<longleftrightarrow> list_all (\<lambda>c. url_unreserved c \<or> url_reserved c) e \<and> isSafeURL U e \<and> e \<noteq> [] \<and> TrimSpace e = e \<and>
     (case Parse U e of Inl _ \<Rightarrow> False | Inr u \<Rightarrow> IsAbs u \<and> URL_String u = e)"

lemma processURL_plain: "list_all (\<lambda>c. url_unreserved c \<or> url_reserved c) e \<Longrightarrow> processURL True e = e"
  by (induction e) auto

lemma unescape_plain_url: "knows_entities U \<Longrightarrow> plain_url U e \<Longrightarrow> UnescapeString U (url_attribute U e) = e"
  by (simp add: unescape_attribute urlFilter_def plain_url_def processURL_plain)

lemma link_of_attributes:
  assumes "knows_entities U" "plain_url U e"
  shows "htmlAttributes U (link_of ''indieauth-metadata'' (url_attribute U e)) = [(''href'', e), (''rel'', ''indieauth-metadata'')]"
proof -
  have "list_all (\<lambda>c. \<not> markup c) (url_attribute U e)" unfolding url_attribute_def by (rule htmlEscaper_plain)
  moreover have "markup double_quote" by (simp add: markup_def quote_literal)
  ultimately have "double_quote \<notin> set (url_attribute U e)" unfolding list_all_iff by blast
  then have "attributes_in (link_of ''indieauth-metadata'' (url_attribute U e)) =
      [(''rel'', ''indieauth-metadata''), (''href'', url_attribute U e)]"
    unfolding link_of_def by (intro link_attributes) (simp_all add: quote_literal)
  then show ?thesis
    using unescape_plain_url [OF assms]
    by (simp add: htmlAttributes_def attributes_in_def UnescapeString_plain ToLower_lower_case ascii_char_def map_of_entries_def)
qed

lemma profile_page_link:
  assumes "knows_entities U" "plain_url U (field d ''MetadataURL'')"
  shows "(''indieauth-metadata'', field d ''MetadataURL'') \<in> set (page_links U (render U d managedProfileTemplate) base)"
proof -
  let ?e = "field d ''MetadataURL''"
  obtain u where u: "Parse U ?e = Inr u" "IsAbs u" "URL_String u = ?e" "TrimSpace ?e = ?e" "?e \<noteq> []"
    using assms(2) by (auto simp: plain_url_def split: sum.splits)
  show ?thesis
    unfolding page_links_def set_concat set_map image_image
    by (rule UN_I [OF profile_page_tags [of U d]]) (simp add: link_of_attributes [OF assms] attr_def Let_def u)
qed

end
