(* ===== verification/PageProperties.thy ===== *)
theory PageProperties
  imports Headers HostedPage Examples
begin

text \<open>
  The properties of the pages: each is rendered from a template with the data it reads, data never become
  markup, links lead to web addresses, and the page of a hosted profile is one the bridge itself recognizes.
\<close>

text \<open>C34: whatever the request, when the answer is a page then it has a template, and every value the template
  reads is given and is a text.\<close>

theorem served_pages_render:
  "renderable (rsp_Body (fst (val_of (serve s escaped r l) w)))"
  using keepsD [OF yields_serve [of s escaped r l], of w] by (simp add: case_prod_beta)


text \<open>A link, a form or a stylesheet of a page that a browser takes for an absolute address has the
  scheme http, https or mailto, whatever the data are: no \<open>javascript:\<close> address is ever rendered.\<close>

lemma page_links_are_web_addresses:
  assumes "map_of page_templates name = Some t" "v \<in> set (url_values U d t)" "knows_entities U"
    "HasPrefix (UnescapeString U v) (scheme @ '':'')" "list_all url_unreserved scheme"
  shows "EqualFold U scheme ''http'' \<or> EqualFold U scheme ''https'' \<or> EqualFold U scheme ''mailto''"
proof -
  obtain s where "v = url_attribute U s" using url_values_attributes [OF assms(2)] by blast
  then show ?thesis using attribute_scheme [OF assms(3,5)] assms(4) by simp
qed

definition entity_tables :: unicode_tables where
  "entity_tables = ascii_tables\<lparr>ut_entity := map_of [(''amp;'', ''&''), (''lt;'', ''<''), (''gt;'', ''>'')]\<rparr>"

lemma entity_tables_known: "knows_entities entity_tables"
  by (simp add: knows_entities_def entity_tables_def)

lemma home_safe: "isSafeURL entity_tables ''https://id.example/''"
  by (simp add: isSafeURL_def Cut_def)

lemma page_links_are_web_addresses_witness:
  "EqualFold entity_tables ''https'' ''http'' \<or> EqualFold entity_tables ''https'' ''https'' \<or> EqualFold entity_tables ''https'' ''mailto''"
proof (rule page_links_are_web_addresses)
  show "map_of page_templates ''health'' = Some healthTemplate" by (simp add: page_templates_def)
  show "url_attribute entity_tables ''https://id.example/'' \<in>
      set (url_values entity_tables [(''HomeURL'', JStr ''https://id.example/'')] healthTemplate)"
    by (simp add: healthTemplate_def field_def)
  have "list_all (\<lambda>c. url_unreserved c \<or> url_reserved c) ''https://id.example/''"
    by (simp add: url_unreserved_def url_reserved_def)
  then show "HasPrefix (UnescapeString entity_tables (url_attribute entity_tables ''https://id.example/'')) (''https'' @ '':'')"
    using home_safe by (simp add: unescape_attribute [OF entity_tables_known] urlFilter_def processURL_plain HasPrefix_def)
  show "list_all url_unreserved ''https''" by (simp add: url_unreserved_def)
qed (rule entity_tables_known)

text \<open>C35: the page of a hosted profile, as it is rendered whatever its owner wrote into it, delegates to the
  bridge in the eyes of the bridge's own discovery: the scanner finds the link to the metadata and reads
  back the address that the template escaped.\<close>

theorem hosted_profile_delegates:
  assumes "knows_entities (tables s)" "plain_url (tables s) (PublicURL (Server (cfg s)) @ ''/.well-known/oauth-authorization-server'')"
    "TrimRight (PublicURL (Server (cfg s))) ''/'' = PublicURL (Server (cfg s))"
  shows "\<exists>body. page_text_of (tables s) (rsp_Body (profile_page_response s p)) = Some body \<and>
    pageDelegatesToBridge (tables s) body base (PublicURL (Server (cfg s)))"
proof -
  obtain d where d: "rsp_Body (profile_page_response s p) = PageBody ''managed-profile'' d"
    "field d ''MetadataURL'' = PublicURL (Server (cfg s)) @ ''/.well-known/oauth-authorization-server''"
    by (simp add: profile_page_response_def page_def reply_def Let_def field_def)
  then have "page_text_of (tables s) (rsp_Body (profile_page_response s p)) = Some (render (tables s) d managedProfileTemplate)"
    by (simp add: page_text_of_def page_templates_def)
  moreover have "relContains (tables s) ''indieauth-metadata'' ''indieauth-metadata''"
    by (simp add: relContains_def eval_text)
  ultimately show ?thesis
    using profile_page_link [OF assms(1), of d base] assms(2,3) d(2)
    by (auto simp: pageDelegatesToBridge_def list_ex_iff Let_def)
qed

definition entity_server :: "(unit oidc_world_scheme) Server" where
  "entity_server = sample_server\<lparr>tables := entity_tables\<rparr>"

definition metadata_URL :: URL where
  "metadata_URL = app_URL\<lparr>url_Host := ''id.example'', url_Path := ''/.well-known/oauth-authorization-server''\<rparr>"

lemma Parse_metadata: "Parse U ''https://id.example/.well-known/oauth-authorization-server'' = Inr metadata_URL"
  by (simp add: eval_parse app_URL_def metadata_URL_def)

lemma metadata_String: "URL_String metadata_URL = ''https://id.example/.well-known/oauth-authorization-server''"
  by (simp add: URL_String_def metadata_URL_def app_URL_def empty_URL_def authority_String_def path_String_def query_String_def
      EscapedPath_def validEncoded_def escape_def escape_char_def shouldEscape_def unreserved_alnum_def host_delims_def)

lemma metadata_address: "plain_url U ''https://id.example/.well-known/oauth-authorization-server''"
proof -
  have "list_all (\<lambda>c. url_unreserved c \<or> url_reserved c) ''https://id.example/.well-known/oauth-authorization-server''"
    by (simp add: url_unreserved_def url_reserved_def)
  moreover have "isSafeURL U ''https://id.example/.well-known/oauth-authorization-server''"
    by (simp add: isSafeURL_def Cut_def)
  moreover have "TrimSpace ''https://id.example/.well-known/oauth-authorization-server'' = ''https://id.example/.well-known/oauth-authorization-server''"
    by (simp add: eval_text)
  moreover have "IsAbs metadata_URL" by (simp add: IsAbs_def metadata_URL_def app_URL_def)
  ultimately show ?thesis by (simp add: plain_url_def Parse_metadata metadata_String)
qed

definition hosted_profile :: ManagedProfile where
  "hosted_profile = \<lparr>mp_Handle = ''alice'', mp_Issuer = ''i'', mp_Subject = ''u'', mp_DisplayName = ''<b>Alice</b>'', mp_Bio = [],
     mp_WebsiteURL = [], mp_Accent = ''teal'', mp_Customized = False, mp_CreatedAt = 0, mp_UpdatedAt = 0\<rparr>"

theorem hosted_profile_delegates_witness:
  "\<exists>body. page_text_of entity_tables (rsp_Body (profile_page_response entity_server hosted_profile)) = Some body \<and>
    pageDelegatesToBridge entity_tables body app_URL ''https://id.example''"
proof -
  have "tables entity_server = entity_tables" "PublicURL (Server (cfg entity_server)) = ''https://id.example''"
    by (simp_all add: entity_server_def sample_config_def)
  moreover have "TrimRight ''https://id.example'' ''/'' = ''https://id.example''" by (simp add: TrimRight_def)
  ultimately show ?thesis
    using hosted_profile_delegates [of entity_server hosted_profile app_URL] entity_tables_known metadata_address [of entity_tables]
    by simp
qed

end
