(* ===== verification/Interleaving.thy ===== *)
theory Interleaving
  imports FlowInvariants Examples
begin

text \<open>
  Requests that are handled at the same time.  The database has one connection, so a method of the store, which
  is a statement or a transaction, runs alone; handlers and the cleanup touch the tables through these methods
  only.  Whatever the interleaving of handlers is, its effect on the tables is that of some sequence of calls,
  the statements of a cleanup being calls of their own; and what holds after any sequence of calls holds
  after any interleaving.  This is the store's side of it, for arbitrary callers; \<^theory_text>\<open>Concurrent\<close> has the handlers.
\<close>

section \<open>Calls of the store\<close>

datatype store_call =
    CallCreateAuthRequest AuthRequest | CallGetAuthRequest string string | CallDeleteAuthRequest string
  | CallCreateCode string AuthorizationCode | CallConsume string time
  | CallCreateToken string AccessToken | CallGetToken string time | CallRevoke string time
  | CallCreateConsent ConsentRequest | CallGetConsent string time | CallDeleteConsent string
  | CallAudit AuditEvent | CallCreateProfile ManagedProfile | CallProfileByHandle string
  | CallProfileByIdentity string string | CallUpdateProfile ManagedProfile | CallCleanupStatement nat time

text \<open>Whether a call succeeded.\<close>

fun perform :: "unicode_tables \<Rightarrow> store_call \<Rightarrow> ('w store_world_scheme, bool) state" where
  "perform U (CallCreateAuthRequest ar) = do { x \<leftarrow> CreateAuthRequest ar; return (is_ok x) }"
| "perform U (CallGetAuthRequest b st) = do { x \<leftarrow> GetAuthRequestByBackendState U b st; return (is_ok x) }"
| "perform U (CallDeleteAuthRequest i) = do { x \<leftarrow> DeleteAuthRequest i; return (is_ok x) }"
| "perform U (CallCreateCode code rec) = do { x \<leftarrow> CreateAuthorizationCode code rec; return (is_ok x) }"
| "perform U (CallConsume code t) = do { x \<leftarrow> ConsumeAuthorizationCode code t; return (is_ok x) }"
| "perform U (CallCreateToken token rec) = do { x \<leftarrow> CreateAccessToken token rec; return (is_ok x) }"
| "perform U (CallGetToken token t) = do { x \<leftarrow> GetAccessToken token t; return (is_ok x) }"
| "perform U (CallRevoke token t) = do { x \<leftarrow> RevokeAccessToken token t; return (is_ok x) }"
| "perform U (CallCreateConsent cr) = do { x \<leftarrow> CreateConsentRequest cr; return (is_ok x) }"
| "perform U (CallGetConsent i t) = do { x \<leftarrow> GetConsentRequest i t; return (is_ok x) }"
| "perform U (CallDeleteConsent i) = do { x \<leftarrow> DeleteConsentRequest i; return (is_ok x) }"
| "perform U (CallAudit ev) = do { x \<leftarrow> CreateAuditEvent ev; return (is_ok x) }"
| "perform U (CallCreateProfile mp) = do { x \<leftarrow> CreateManagedProfile U mp; return (is_ok x) }"
| "perform U (CallProfileByHandle h) = do { x \<leftarrow> GetManagedProfileByHandle h; return (is_ok x) }"
| "perform U (CallProfileByIdentity iss sub) = do { x \<leftarrow> GetManagedProfileByIdentity iss sub; return (is_ok x) }"
| "perform U (CallUpdateProfile mp) = do { x \<leftarrow> UpdateManagedProfile mp; return (is_ok x) }"
| "perform U (CallCleanupStatement n t) = do { x \<leftarrow> exec_all (take 1 (drop n (cleanup_statements (Unix t)))); return (is_ok x) }"

fun perform_all :: "unicode_tables \<Rightarrow> store_call list \<Rightarrow> ('w store_world_scheme, bool list) state" where
  "perform_all U [] = return []"
| "perform_all U (c # cs) = do { x \<leftarrow> perform U c; xs \<leftarrow> perform_all U cs; return (x # xs) }"

text \<open>What the records and tokens that are written must satisfy.\<close>

fun call_ok :: "(string \<Rightarrow> bool) \<Rightarrow> (AuthRequest \<Rightarrow> bool) \<Rightarrow> (ConsentRequest \<Rightarrow> bool) \<Rightarrow> (AuthorizationCode \<Rightarrow> bool) \<Rightarrow>
    (AccessToken \<Rightarrow> bool) \<Rightarrow> store_call \<Rightarrow> bool" where
  "call_ok tok okA okC okK okT (CallCreateAuthRequest ar) \<longleftrightarrow> okA ar"
| "call_ok tok okA okC okK okT (CallCreateCode code rec) \<longleftrightarrow> tok code \<and> okK rec"
| "call_ok tok okA okC okK okT (CallCreateToken token rec) \<longleftrightarrow> tok token \<and> okT rec"
| "call_ok tok okA okC okK okT (CallCreateConsent cr) \<longleftrightarrow> okC cr"
| "call_ok tok okA okC okK okT _ \<longleftrightarrow> True"

section \<open>Invariants under any interleaving\<close>

lemma keeps_then_return: "keeps I m Q \<Longrightarrow> keeps I (m \<bind> (\<lambda>x. return (f x))) anything"
  by (erule keeps_bind) (simp add: keeps_return)

context table_contract
begin

lemma keeps_cleanup_statement: "keeps (inv J E) (exec_all (take (Suc 0) (drop n (cleanup_statements u)))) anything"
  by (rule keeps_exec_all)
    (auto simp: cleanup_statements_def filter_auth filter_consent filter_code filter_token dest!: in_set_takeD in_set_dropD)

lemma keeps_perform: "call_ok tok okA okC okK okT c \<Longrightarrow> keeps (inv J E) (perform U c) anything"
  by (cases c)
    (auto intro!: keeps_then_return intro: keeps_store keeps_CreateAuthRequest keeps_CreateAuthorizationCode
      keeps_CreateAccessToken keeps_CreateConsentRequest keeps_cleanup_statement)

lemma keeps_perform_all:
  "list_all (call_ok tok okA okC okK okT) cs \<Longrightarrow> keeps (inv J E) (perform_all U cs) anything"
proof (induction cs)
  case Nil
  then show ?case by (simp add: keeps_return)
next
  case (Cons c cs)
  then show ?case
    unfolding perform_all.simps by (intro keeps_bind [OF keeps_perform] keeps_then_return; simp)
qed

lemma perform_all_inv:
  "list_all (call_ok tok okA okC okK okT) cs \<Longrightarrow> inv J E w \<Longrightarrow> inv J E (world_of (perform_all U cs) w)"
  using keepsD [OF keeps_perform_all, of cs w U] by (simp add: case_prod_beta)

end

section \<open>Codes\<close>

lemma spent_tables: "table_contract (spent h) (undrawn h) (\<lambda>t. HashToken t \<noteq> h) anything anything anything anything"
  by unfold_locales
    (auto simp: spent_def code_row_of_def mark_used_def insert_profile_def unused_def
      intro: undrawn_Suc dest: undrawn_token split: if_splits)

text \<open>The calls that create no code and no token with this hash.\<close>

abbreviation fresh_calls :: "string \<Rightarrow> store_call list \<Rightarrow> bool" where
  "fresh_calls h cs \<equiv> list_all (call_ok (\<lambda>t. HashToken t \<noteq> h) anything anything anything anything) cs"

text \<open>Of exchanges that are handled at the same time at most one succeeds.  When one of them has
  consumed the code, then whatever calls of the store the other requests and the cleanup make, in whatever
  order, as long as none stores the same code again, no later consumption of it succeeds.\<close>

theorem code_consumed_once_interleaved:
  assumes "val_of (ConsumeAuthorizationCode code t) w = Inr rec"
    "undrawn (HashToken code) (entropy w) (draws w)" "fresh_calls (HashToken code) cs"
  shows "\<exists>e. val_of (ConsumeAuthorizationCode code t')
    (world_of (perform_all U cs) (world_of (ConsumeAuthorizationCode code t) w)) = Inl e"
proof -
  let ?w = "world_of (perform_all U cs) (world_of (ConsumeAuthorizationCode code t) w)"
  have "inv (spent (HashToken code)) (undrawn (HashToken code)) ?w"
    using table_contract.perform_all_inv [OF spent_tables assms(3) consume_spends [OF assms(1,2)]] .
  then have "val_of (ConsumeAuthorizationCode code t') ?w \<noteq> Inr rec'" for rec'
    by (intro spent_not_consumed) (simp add: inv_def)
  then show ?thesis by (cases "val_of (ConsumeAuthorizationCode code t') ?w") auto
qed

theorem code_consumed_once_interleaved_witness:
  "\<exists>e. val_of (ConsumeAuthorizationCode ''abc'' 0)
    (world_of (perform_all ascii_tables [CallCleanupStatement 0 1, CallDeleteConsent ''i'', CallConsume ''abc'' 0])
      (world_of (ConsumeAuthorizationCode ''abc'' 0) quiet_world)) = Inl e"
proof (rule code_consumed_once_interleaved)
  show "val_of (ConsumeAuthorizationCode ''abc'' 0) quiet_world = Inr (scanAuthorizationCode sample_code)"
    by (simp add: ConsumeAuthorizationCode_healthy sample_code_def unused_def time_Unix_def second_def)
  show "undrawn (HashToken ''abc'') (entropy quiet_world) (draws quiet_world)"
    by (simp add: undrawn_def)
  show "fresh_calls (HashToken ''abc'') [CallCleanupStatement 0 1, CallDeleteConsent ''i'', CallConsume ''abc'' 0]" by simp
qed

end
