(* ===== verification/Spec2Isabelle.thy ===== *)
theory Spec2Isabelle
  imports ConcurrentProperties FlowProperties StoreProperties DiscoveryProperties RouteProperties StartupProperties
    PageProperties Durations Interleaving
begin

text \<open>
  A model of \<open>indieauth-bridge\<close>: an IndieAuth authorization server in Go that lets the owner of a profile URL
  sign in to IndieAuth clients with an account of an OpenID Connect provider.

  \<^bold>\<open>The program and how its parts interact.\<close>  \<open>cmd/indieauth-bridge\<close> loads the configuration, opens the SQLite
  store, builds the login backends and serves HTTP.  A client sends its user to \<open>/authorize\<close>; the server checks
  the client, the redirect URI, the scope and the PKCE challenge, finds out which account the profile URL is
  bound to (by configuration, by a hosted profile, or by fetching the page), stores the request and sends the
  user to a backend.  The callback compares the identity that the backend reports with the binding and stores a
  consent request or a code; consent turns into a code; the token endpoint exchanges a code, once, against
  the PKCE verifier for a token, which can be introspected and revoked.  Beside this flow the server has
  setup pages, hosted profiles, and a test client that is an IndieAuth client of its own.

  \<^bold>\<open>Style.\<close>  A handler is a computation of the state monad on a \<open>world\<close>, a record that grows with the
  components: random source and clock (\<^theory_text>\<open>Environment\<close>), network (\<^theory_text>\<open>Network\<close>), database (\<^theory_text>\<open>Store\<close>), cached
  providers (\<^theory_text>\<open>Oidc\<close>), schema (\<^theory_text>\<open>Migrations\<close>).  What is outside is an arbitrary function in it: which draws of
  random bytes fail, what the clock says at each reading, what resolvers and servers answer at each call,
  which SQL statements fail.  Errors are values of a sum type, early returns are branches.  A string is a list
  of bytes.  An interface on which a client rests is a locale (\<open>login_backend\<close>, \<open>flow\<close>, \<open>scanner\<close>,
  \<open>concurrent_contract\<close> and those of \<^theory_text>\<open>StoreLaws\<close>), interpreted on the model's own definitions.

  \<^bold>\<open>Requests at the same time.\<close>  Go serves every request in a goroutine of its own.  Beside the computation, a handler
  is therefore given as a process (\<^theory_text>\<open>Processes\<close>): a tree of atomic steps, between which the steps of other
  handlers and of the cleanup come in any order.  An atomic step is one call of the store (the database has one
  connection, so a statement or a transaction runs alone), one draw of random bytes, one reading of the
  clock, one audit event, or one conversation with a login backend or another server, which does not touch the
  tables.  A process that is not interrupted is the handler.  What all runs keep is shown with tickets: a
  process may hold the right to store a code or the knowledge that a token is revoked, and every
  step is accounted for, whatever tickets the other processes hold.

  \<^bold>\<open>Go's library\<close>, as documented, executable:
  \<^item> \<^theory_text>\<open>Prelude\<close>: results, the monad, relations that a computation respects.  \<^theory_text>\<open>GoStrings\<close>: \<open>strings\<close>, \<open>unicode\<close>
    and UTF-8, with the Unicode tables as a record of functions.  \<^theory_text>\<open>GoURL\<close>: \<open>net/url\<close>.  \<^theory_text>\<open>GoCrypto\<close>: SHA-256,
    base64, AES-GCM.  \<^theory_text>\<open>GoJson\<close>, \<^theory_text>\<open>JsonRoundTrip\<close>: \<open>encoding/json\<close>.  \<^theory_text>\<open>GoHtml\<close>: the regular expressions of
    \<open>internal/indieauth\<close> as scanners, and \<open>html.UnescapeString\<close>.  \<^theory_text>\<open>GoNet\<close>: addresses and networks.  \<^theory_text>\<open>Float64\<close>:
    double precision.  \<^theory_text>\<open>Http\<close>: requests, forms, responses.  \<^theory_text>\<open>Rendering\<close>: \<open>html/template\<close>.
  \<^bold>\<open>The program:\<close>
  \<^item> \<^theory_text>\<open>Security\<close>: \<open>internal/security\<close>.  \<^theory_text>\<open>Config\<close>, \<^theory_text>\<open>Durations\<close>: \<open>internal/config\<close>.
  \<^item> \<^theory_text>\<open>Store\<close>: \<open>internal/storage\<close>, one definition per method, a table being its list of rows; \<^theory_text>\<open>Migrations\<close>:
    \<open>OpenSQLite\<close> and the migrations on the schema.  \<^theory_text>\<open>StoreLaws\<close> and \<^theory_text>\<open>StoreSpec\<close>: what the store promises.
  \<^item> \<^theory_text>\<open>Backends\<close>, \<^theory_text>\<open>Oidc\<close>: \<open>internal/backends\<close>, and \<open>buildBackends\<close> of \<open>main.go\<close>.
  \<^item> \<^theory_text>\<open>IndieAuth\<close>: \<open>internal/indieauth\<close>, the three discoveries included.
  \<^item> \<^theory_text>\<open>Server\<close>, \<^theory_text>\<open>Managed\<close>, \<^theory_text>\<open>Tools\<close>: the handlers of \<open>internal/http\<close> under their names; \<^theory_text>\<open>Templates\<close>: its pages
    and \<open>theme.go\<close>; \<^theory_text>\<open>RateLimit\<close>: \<open>ratelimit.go\<close>; \<^theory_text>\<open>Serving\<close>: \<open>NewServer\<close>, \<open>Routes\<close> and the wrappers.
    \<^theory_text>\<open>Concurrent\<close>: the handlers again, as processes, under their names with \<open>_process\<close>.
  \<^item> \<^theory_text>\<open>CommandLine\<close>: \<open>cmd/indieauth-bridge\<close> from \<open>os.Args\<close> to the exit status, with \<^theory_text>\<open>Flags\<close> for the package \<open>flag\<close>.

  \<^bold>\<open>What the lemmas show.\<close>
  \<^item> \<^theory_text>\<open>Flow\<close>: the server as a state machine, a step being one request handled or one cleanup; \<^theory_text>\<open>ServerLaws\<close> proves,
    once for all invariants, that the handlers keep what the store keeps; \<^theory_text>\<open>FlowInvariants\<close> has the invariants.
    \<^theory_text>\<open>Exchange\<close>, \<^theory_text>\<open>TokenStatus\<close> and \<^theory_text>\<open>Grants\<close> say what single steps do; \<^theory_text>\<open>FlowProperties\<close> has the properties:
    a code is exchanged at most once, a grant needs the identity, consent needs its token, revocation is final.
  \<^item> \<^theory_text>\<open>ConcurrentLaws\<close> proves, once for all invariants with tickets, that every process respects what the store's
    calls respect; \<^theory_text>\<open>CodeTickets\<close> and \<^theory_text>\<open>ConcurrentRevocation\<close> are its instances: the invariants of the flow, the
    account of a code, the account of a revoked token.  \<^theory_text>\<open>ConcurrentProperties\<close> has the properties of all runs:
    grants are checked, keys are unique, a code is redeemed once, a revocation holds; and two decisions
    on one consent request that are both carried out.  \<^theory_text>\<open>Interleaving\<close> says what any sequence of calls of the
    store, by whatever callers, keeps of the tables.
  \<^item> \<^theory_text>\<open>SecurityProperties\<close>, \<^theory_text>\<open>StoreProperties\<close>, \<^theory_text>\<open>RateLimitProperties\<close>: PKCE, sealed values and redirect URIs; the
    refinement of codes to an abstract map and the cleanup; buckets and client keys.
  \<^item> \<^theory_text>\<open>Discovery\<close>, \<^theory_text>\<open>DiscoveryProperties\<close>: which addresses are dialled, how many requests are made, what a page
    must contain.
  \<^item> \<^theory_text>\<open>Headers\<close>, \<^theory_text>\<open>RouteProperties\<close>, \<^theory_text>\<open>HostedPage\<close>, \<^theory_text>\<open>PageProperties\<close>: serving is a run of the state machine behind the
    rate limit; every response carries the security headers and can be rendered; data add no markup; the
    page of a hosted profile is recognized by the bridge's own scanners.
  \<^item> \<^theory_text>\<open>StartupProperties\<close>: interrupted migrations recover; a server that listens has a well-formed
    configuration, a current schema and backends that satisfy the contract of the flow; the invariants of
    the grants hold from the command line to any later moment; when the exit status is zero.
  \<^item> \<^theory_text>\<open>Examples\<close>: concrete worlds on which the hypotheses of the properties hold.

  \<^bold>\<open>Bounds.\<close>  \<open>client_Do\<close> is bounded by the redirects the client allows (ten, or what \<open>CheckRedirect\<close> allows); the
  scanners \<open>find_all\<close>, \<open>skip_name\<close> and \<open>unescape_html\<close> take the length of the text, of which every round uses up
  at least one byte.  All other recursion is structural or has a measure.  Floats are rationals rounded to 53
  bits; the values of the rate limiter stay far from the ends of the range.  Durations and times are integers,
  with the 64-bit range written out where the code can leave it.  A fused multiplication and addition,
  which Go allows itself on some architectures, is not modelled.

  \<^bold>\<open>Not modelled.\<close>  The YAML decoder (a parameter); the OpenID Connect and OAuth libraries
  (a record of functions, assumed in some properties to leave the store alone); TLS; the timeouts of the
  listener, and the result of the graceful shutdown (a parameter); log lines; what a browser does.  SQLite is
  read as the functions that the statements denote.  The whole program (\<open>run_program\<close>) serves requests one
  after the other, behind the routes and the limiter; the runs of \<^theory_text>\<open>Concurrent\<close> are those of the handlers.  Go's
  limit on the nesting of JSON.

  \<^bold>\<open>What modelling showed.\<close>  A failed revocation is answered like a successful one (\<open>handleRevoke\<close> drops the
  error); the discovery of redirect URIs checks a lookup of its own and not the address that is dialled, which
  \<open>README.md\<close> promises for all discoveries; the rate limit behind a proxy that appends to \<open>X-Forwarded-For\<close>
  counts under what the client wrote; two decisions on a consent request at the same time both count
  (\<open>handleConsentPost\<close> deletes it last, and a callback its request likewise); a login that refreshes the display
  name of a hosted profile can undo a customization saved meanwhile; a server whose listener fails ends
  with status 0; a public URL over http is accepted outside development mode, although
  \<open>README.md\<close> says that HTTPS is required there.
\<close>

end
